(* ===== verification/Prelude.thy ===== *)
theory Prelude
  imports Main "HOL-Library.Word"
begin

text \<open>
  Vocabulary shared by all components: Go's byte slices, strings and unsigned
  integers, the sequencing of fallible computations, and generic facts on lists,
  words and strings.  Nothing here models a particular function of the code base.
\<close>

unbundle bit_operations_syntax

subsection \<open>Types\<close>

text \<open>
  A Go \<open>[]byte\<close> is a list of bytes.  Where the code distinguishes a nil slice from
  an empty one (\<open>store.Get\<close> returns nil for a missing key, \<open>store.Set\<close> panics on a
  nil value) the type is \<open>slice\<close>, with \<open>None\<close> for nil.  A Go \<open>string\<close> is an
  immutable byte sequence; \<open>char\<close> is a byte in HOL, so \<open>string\<close> serves.
\<close>

type_synonym byte = "8 word"
type_synonym u64 = "64 word"
type_synonym bytes = "byte list"
type_synonym slice = "bytes option"

named_theorems wire_simps \<open>writing and reading single fields\<close>
named_theorems size_simps \<open>lengths of encoded fields\<close>
named_theorems decode_intros \<open>segments of bytes a decoder step consumes\<close>
named_theorems monad_simps \<open>unfolding of sequenced computations\<close>

subsection \<open>Fallible pure computations\<close>

text \<open>
  \<open>Inl\<close> carries the error (or panic), \<open>Inr\<close> the result; \<open>bindE\<close> is the
  \<open>if err != nil { return err }\<close> that follows a call.
\<close>

fun bindE :: "'e + 'a \<Rightarrow> ('a \<Rightarrow> 'e + 'b) \<Rightarrow> 'e + 'b" where
  "bindE (Inl e) f = Inl e"
| "bindE (Inr x) f = f x"

lemma bindE_cong [fundef_cong]:
  "m = m' \<Longrightarrow> (\<And>x. m' = Inr x \<Longrightarrow> f x = f' x) \<Longrightarrow> bindE m f = bindE m' f'"
  by (cases m') auto

lemma bindE_Inr_iff: "bindE m f = Inr y \<longleftrightarrow> (\<exists>x. m = Inr x \<and> f x = Inr y)"
  by (cases m) auto

lemma bindE_Inl_iff: "bindE m f = Inl e \<longleftrightarrow> m = Inl e \<or> (\<exists>x. m = Inr x \<and> f x = Inl e)"
  by (cases m) auto

lemma bindE_assoc: "bindE (bindE m f) g = bindE m (\<lambda>x. bindE (f x) g)"
  by (cases m) auto

lemma if_Inr_iff:
  "(if b then Inl e else x) = Inr y \<longleftrightarrow> \<not> b \<and> x = Inr y"
  by auto

subsection \<open>Strings as bytes\<close>

definition string_bytes :: "string \<Rightarrow> bytes" where
  "string_bytes s = map (\<lambda>c. of_nat (of_char c)) s"

definition bytes_string :: "bytes \<Rightarrow> string" where
  "bytes_string bs = map (\<lambda>b. char_of (unat b)) bs"

lemma length_string_bytes [simp]: "length (string_bytes s) = length s"
  by (simp add: string_bytes_def)

lemma unat_of_char: "unat (of_nat (of_char c) :: byte) = of_char c"
proof -
  have "(of_char c :: nat) < 256" by (rule nat_of_char_less_256)
  then show ?thesis by (simp only: unat_of_nat) simp
qed

lemma bytes_string_bytes [simp]: "bytes_string (string_bytes s) = s"
  by (simp add: bytes_string_def string_bytes_def unat_of_char comp_def)

lemma string_bytes_eq_Nil [simp]: "string_bytes s = [] \<longleftrightarrow> s = []"
  by (simp add: string_bytes_def)

lemma string_bytes_inject [simp]: "string_bytes s = string_bytes t \<longleftrightarrow> s = t"
  by (metis bytes_string_bytes)

lemma string_bytes_bytes [simp]: "string_bytes (bytes_string b) = b"
proof -
  have "of_nat (of_char (char_of (unat x) :: char)) = x" for x :: byte
  proof -
    have "unat x < 256" using unsigned_less [of x, where ?'a = nat] by simp
    then show ?thesis by simp
  qed
  then show ?thesis by (simp add: string_bytes_def bytes_string_def comp_def)
qed

subsection \<open>Nil and empty slices\<close>

fun slice_bytes :: "slice \<Rightarrow> bytes" where
  "slice_bytes None = []"
| "slice_bytes (Some b) = b"

text \<open>A slice field that is empty is not written, so a decoder leaves it nil.\<close>

fun norm_slice :: "slice \<Rightarrow> slice" where
  "norm_slice None = None"
| "norm_slice (Some b) = (if b = [] then None else Some b)"

lemma slice_bytes_norm [simp]: "slice_bytes (norm_slice s) = slice_bytes s"
  by (cases s) simp_all

lemma slice_bytes_eq: "slice_bytes s \<noteq> [] \<Longrightarrow> Some (slice_bytes s) = s"
  by (cases s) simp_all

lemma norm_slice_def2: "norm_slice s = (if slice_bytes s = [] then None else s)"
  by (cases s) simp_all

lemma norm_slice_iff: "(if slice_bytes s = [] then None else Some (slice_bytes s)) = norm_slice s"
  by (cases s) simp_all

subsection \<open>Decimal numbers\<close>

text \<open>The verb \<open>%d\<close> of \<open>fmt.Sprintf\<close> on a non-negative number, and its inverse.\<close>

function decimal :: "nat \<Rightarrow> string" where
  "decimal n =
     (if n < 10 then [char_of (48 + n)] else decimal (n div 10) @ [char_of (48 + n mod 10)])"
  by pat_completeness auto
termination by (relation "measure id") auto

declare decimal.simps [simp del]

definition undecimal :: "string \<Rightarrow> nat" where
  "undecimal s = foldl (\<lambda>a c. 10 * a + (of_char c - 48)) 0 s"

lemma undecimal_decimal: "undecimal (decimal n) = n"
proof (induction n rule: decimal.induct)
  case (1 n)
  then show ?case
    by (subst decimal.simps) (auto simp: undecimal_def)
qed

lemma decimal_inject: "decimal m = decimal n \<longleftrightarrow> m = n"
  by (metis undecimal_decimal)

subsection \<open>Lists\<close>

lemma drop_length_append [simp]: "drop (length xs) (xs @ ys) = ys"
  by simp

lemma take_append_le: "n \<le> length xs \<Longrightarrow> take n (xs @ ys) = take n xs"
  by simp

lemma list_update_at_length: "(p @ x # s)[length p := y] = p @ y # s"
  by simp

lemma take_Suc_snoc: "n < length xs \<Longrightarrow> take (Suc n) xs = take n xs @ [xs ! n]"
  by (rule take_Suc_conv_app_nth)

subsection \<open>Words\<close>

lemma unat_drop_bit_7: "unat (drop_bit 7 (v :: u64)) = unat v div 128"
  by (simp add: drop_bit_eq_div unat_div_distrib)

lemma unat_u64_less: "unat (v :: u64) < 2 ^ 64"
  using unsigned_less [of v, where ?'a = nat] by simp

lemma word_ge_128_iff: "(128 :: u64) \<le> v \<longleftrightarrow> 128 \<le> unat v"
  by (simp add: word_le_nat_alt)

lemma word_ge_128_byte_iff: "(128 :: byte) \<le> v \<longleftrightarrow> 128 \<le> unat v"
  by (simp add: word_le_nat_alt)

lemma word_less_128_byte_iff: "v < (128 :: byte) \<longleftrightarrow> unat v < 128"
  by (simp add: word_less_nat_alt)

text \<open>The low seven bits, and the low seven bits with the continuation bit set.\<close>

lemma and_127_eq: "(v :: u64) AND 127 = of_nat (unat v mod 128)"
proof -
  have "v AND 127 = v AND mask 7" by (simp add: mask_eq_exp_minus_1)
  also have "\<dots> = v mod 128" by (simp flip: take_bit_eq_mask add: take_bit_eq_mod)
  finally show ?thesis by (simp add: word_arith_nat_mod)
qed

lemma ucast_eq_of_nat_unat: "(ucast (v :: u64) :: byte) = of_nat (unat v)"
  by simp

lemma ucast_cont_byte:
  "(ucast (v AND 127 OR 128 :: u64) :: byte) = of_nat (unat v mod 128 + 128)"
proof -
  have "(v AND 127) AND 128 = 0" by (simp add: and.assoc)
  then have "v AND 127 OR 128 = (v AND 127) + 128"
    by (simp add: disjunctive_add_eq_or)
  also have "\<dots> = of_nat (unat v mod 128 + 128)"
    by (simp add: and_127_eq)
  finally have "ucast (v AND 127 OR 128) = (ucast (of_nat (unat v mod 128 + 128) :: u64) :: byte)"
    by (simp only:)
  moreover have "unat (of_nat (unat v mod 128 + 128) :: u64) = unat v mod 128 + 128"
    by (simp only: unat_of_nat) simp
  ultimately show ?thesis by (metis ucast_eq_of_nat_unat)
qed

lemma ucast_low_bits:
  assumes "b < 256"
  shows "(ucast ((of_nat b :: byte) AND 127) :: u64) = of_nat (b mod 128)"
proof -
  have "(of_nat b :: byte) AND 127 = of_nat b AND mask 7" by (simp add: mask_eq_exp_minus_1)
  also have "\<dots> = of_nat (b mod 128)"
    by (simp flip: take_bit_eq_mask
        add: take_bit_eq_mod word_arith_nat_mod unat_of_nat assms)
  finally show ?thesis by (simp add: unsigned_of_nat take_bit_nat_eq_self)
qed

lemma of_nat_byte_less_128_iff: "b < 256 \<Longrightarrow> (of_nat b :: byte) < 128 \<longleftrightarrow> b < 128"
  by (simp add: word_less_nat_alt unat_of_nat)

text \<open>Accumulating seven-bit groups from the low end, as the decoder does.\<close>

lemma accumulate_low_group:
  "((v :: u64) OR push_bit shift (of_nat (n mod 128))) OR push_bit (shift + 7) (of_nat (n div 128))
    = v OR push_bit shift (of_nat n)"
proof -
  have "take_bit 7 n = n mod 128" and "drop_bit 7 n = n div 128"
    by (simp_all add: take_bit_eq_mod drop_bit_eq_div)
  moreover have "push_bit 7 (drop_bit 7 n) OR take_bit 7 n = n"
    by (rule bit_eqI) (auto simp: bit_simps)
  ultimately have "push_bit 7 (n div 128) OR n mod 128 = n"
    by (simp only:)
  then have "n = n mod 128 OR push_bit 7 (n div 128)"
    by (simp only: or.commute)
  then have "(of_nat n :: u64) = of_nat (n mod 128) OR push_bit 7 (of_nat (n div 128))"
    by (metis of_nat_or_eq of_nat_push_bit)
  then show ?thesis by (simp add: or.assoc)
qed

end
