(* ===== verification/Varint.thy ===== *)
theory Varint
  imports Prelude
begin

text \<open>
  Base-128 varints as the generated protobuf code of
  \<open>x/abstractaccount/types/*.pb.go\<close> reads and writes them.  Every generated file
  carries its own textually identical copy of these helpers (\<open>sovParams\<close>,
  \<open>sovAccount\<close>, \<dots>); they are modelled once here, from \<open>params.pb.go\<close>.

  Writing goes backwards through a preallocated buffer, so a buffer under
  construction is a pair of the bytes and the Go index \<open>i\<close> of the first byte already
  written; the index is an \<open>int\<close>, and an access outside the buffer is the Go runtime
  panic.  The reference encoding is \<open>varint\<close>, on naturals.
\<close>

subsection \<open>Errors and panics of the generated code\<close>

datatype go_panic = IndexOutOfRange | SliceBoundsOutOfRange

datatype proto_error =
    ErrIntOverflow
  | ErrUnexpectedEOF
  | ErrInvalidLength
  | ErrUnexpectedEndOfGroup
  | EndGroupForNonGroup string
  | IllegalTag string int u64
  | WrongWireType nat string
  | IllegalWireType nat

subsection \<open>Sizes\<close>

text \<open>\<open>math/bits.Len64\<close>: the number of bits of the argument, 0 for 0.\<close>

function len64 :: "nat \<Rightarrow> nat" where
  "len64 n = (if n = 0 then 0 else Suc (len64 (n div 2)))"
  by pat_completeness auto
termination by (relation "measure id") auto

declare len64.simps [simp del]

definition sov :: "u64 \<Rightarrow> nat" where
  "sov x = (len64 (unat (x OR 1)) + 6) div 7"

definition soz :: "u64 \<Rightarrow> nat" where
  "soz x = sov (push_bit 1 x XOR signed_drop_bit 63 x)"

subsection \<open>The reference encoding\<close>

function varint :: "nat \<Rightarrow> bytes" where
  "varint n = (if n < 128 then [of_nat n] else of_nat (n mod 128 + 128) # varint (n div 128))"
  by pat_completeness auto
termination by (relation "measure id") auto

declare varint.simps [simp del]

subsection \<open>Writing into a buffer\<close>

type_synonym buf = "bytes \<times> int"

text \<open>\<open>dAtA[i] = b\<close> and \<open>copy(dAtA[i:], src)\<close>.\<close>

definition store_byte :: "bytes \<Rightarrow> int \<Rightarrow> byte \<Rightarrow> go_panic + bytes" where
  "store_byte d i b =
     (if 0 \<le> i \<and> i < int (length d) then Inr (d[nat i := b]) else Inl IndexOutOfRange)"

definition copy_at :: "bytes \<Rightarrow> int \<Rightarrow> bytes \<Rightarrow> go_panic + bytes" where
  "copy_at d i src =
     (if 0 \<le> i \<and> i \<le> int (length d)
      then let k = min (length d - nat i) (length src)
           in Inr (take (nat i) d @ take k src @ drop (nat i + k) d)
      else Inl SliceBoundsOutOfRange)"

function encodeVarint_loop :: "bytes \<Rightarrow> int \<Rightarrow> u64 \<Rightarrow> go_panic + bytes" where
  "encodeVarint_loop d offset v =
     (if 2 ^ 7 \<le> v
      then bindE (store_byte d offset (ucast (v AND 0x7F OR 0x80)))
             (\<lambda>d'. encodeVarint_loop d' (offset + 1) (drop_bit 7 v))
      else store_byte d offset (ucast v))"
  by pat_completeness auto
termination
proof (relation "measure (\<lambda>(d, offset, v). unat v)")
  show "wf (measure (\<lambda>(d :: bytes, offset :: int, v :: u64). unat v))" by simp
  fix d :: bytes and offset :: int and v :: u64 and d' :: bytes
  assume "2 ^ 7 \<le> v"
  then have "128 \<le> unat v" by (simp add: word_ge_128_iff)
  then show "((d', offset + 1, drop_bit 7 v), d, offset, v)
      \<in> measure (\<lambda>(d, offset, v). unat v)"
    by (simp add: unat_drop_bit_7)
qed

declare encodeVarint_loop.simps [simp del]

fun encodeVarint :: "buf \<Rightarrow> u64 \<Rightarrow> go_panic + buf" where
  "encodeVarint (d, offset) v =
     (let base = offset - int (sov v)
      in bindE (encodeVarint_loop d base v) (\<lambda>d'. Inr (d', base)))"

text \<open>\<open>i--; dAtA[i] = b\<close> and \<open>i -= len(src); copy(dAtA[i:], src)\<close>.\<close>

fun prepend_byte :: "byte \<Rightarrow> buf \<Rightarrow> go_panic + buf" where
  "prepend_byte b (d, i) = bindE (store_byte d (i - 1) b) (\<lambda>d'. Inr (d', i - 1))"

fun prepend_bytes :: "bytes \<Rightarrow> buf \<Rightarrow> go_panic + buf" where
  "prepend_bytes src (d, i) =
     (let i' = i - int (length src) in bindE (copy_at d i' src) (\<lambda>d'. Inr (d', i')))"

subsection \<open>Reading\<close>

text \<open>
  The loop \<open>for shift := uint(0); ; shift += 7\<close> that every field decoder starts with.
  The Go variable it accumulates into has 64 bits, as \<open>uint64\<close> or as \<open>int\<close>: the bits
  are the same.
\<close>

function decodeVarint :: "bytes \<Rightarrow> nat \<Rightarrow> nat \<Rightarrow> u64 \<Rightarrow> proto_error + u64 \<times> nat" where
  "decodeVarint d i shift v =
     (if 64 \<le> shift then Inl ErrIntOverflow
      else if length d \<le> i then Inl ErrUnexpectedEOF
      else let b = d ! i; v' = v OR push_bit shift (ucast (b AND 0x7F))
           in if b < 0x80 then Inr (v', Suc i)
              else decodeVarint d (Suc i) (shift + 7) v')"
  by pat_completeness auto
termination by (relation "measure (\<lambda>(d, i, shift, v). 64 - shift)") auto

declare decodeVarint.simps [simp del]

subsection \<open>Size of an encoding\<close>

lemma len64_0 [simp]: "len64 0 = 0"
  by (simp add: len64.simps)

lemma len64_pos: "0 < n \<Longrightarrow> len64 n = Suc (len64 (n div 2))"
  by (simp add: len64.simps [of n])

lemma len64_div_128: "128 \<le> n \<Longrightarrow> len64 n = len64 (n div 128) + 7"
proof -
  assume "128 \<le> n"
  have e: "len64 m = Suc (len64 (m div 2))" if "1 \<le> m" for m
    using that by (intro len64_pos) simp
  have "len64 n = len64 (n div 2 div 2 div 2 div 2 div 2 div 2 div 2) + 7"
    using \<open>128 \<le> n\<close>
    by (simp add: e [of n] e [of "n div 2"] e [of "n div 4"] e [of "n div 8"]
        e [of "n div 16"] e [of "n div 32"] e [of "n div 64"] flip: div_mult2_eq)
  then show ?thesis by (simp flip: div_mult2_eq)
qed

lemma len64_mono: "m \<le> n \<Longrightarrow> len64 m \<le> len64 n"
proof (induction n arbitrary: m rule: len64.induct)
  case (1 n)
  then show ?case
    by (cases "m = 0") (auto simp: len64_pos intro: div_le_mono)
qed

lemma len64_small: "n < 2 ^ k \<Longrightarrow> len64 n \<le> k"
proof (induction k arbitrary: n)
  case 0
  then show ?case by simp
next
  case (Suc k)
  then show ?case by (cases "n = 0") (auto simp: len64_pos)
qed

lemma len64_or_1: "len64 (n OR 1) = (if n = 0 then 1 else len64 n)"
proof (cases "n = 0")
  case False
  moreover have "(n OR 1) div 2 = n div 2"
    unfolding or_one_eq by (cases "even n") auto
  moreover have "0 < n OR 1" using False unfolding or_one_eq by simp
  ultimately show ?thesis
    using len64_pos [of "n OR 1"] len64_pos [of n] by presburger
qed (simp add: len64.simps)

lemma length_varint_div:
  "length (varint n) = (if n = 0 then 1 else (len64 n + 6) div 7)"
proof (induction n rule: varint.induct)
  case (1 n)
  show ?case
  proof (cases "n < 128")
    case True
    then have "len64 n \<le> 7" by (intro len64_small) simp
    moreover have "0 < n \<Longrightarrow> 1 \<le> len64 n" by (simp add: len64_pos)
    ultimately show ?thesis using True by (auto simp: varint.simps [of n])
  next
    case False
    have "0 < n div 128" using False by (simp add: div_greater_zero_iff)
    with False 1 show ?thesis
      by (simp add: varint.simps [of n] len64_div_128)
  qed
qed

text \<open>\<open>sov\<close> is the length of the encoding, and no encoding is longer than ten bytes.\<close>

lemma length_varint [size_simps]: "length (varint (unat v)) = sov v"
proof -
  have "unat (v OR 1) = unat v OR 1" by (simp add: unsigned_or_eq)
  then show ?thesis
    by (simp only: sov_def len64_or_1 length_varint_div) simp
qed

lemma varint_nonempty [simp]: "varint n \<noteq> []"
  by (simp add: varint.simps [of n])

lemma length_varint_pos [simp]: "0 < length (varint n)"
  by simp

lemma sov_pos [simp]: "0 < sov v"
  using length_varint_pos [of "unat v"] by (simp only: length_varint)

lemma length_varint_le_10: "n < 2 ^ 64 \<Longrightarrow> length (varint n) \<le> 10"
proof -
  assume "n < 2 ^ 64"
  then have "len64 n \<le> 64" by (rule len64_small)
  then show ?thesis by (auto simp: length_varint_div)
qed

lemma sov_le_10: "sov v \<le> 10"
  using length_varint_le_10 [OF unat_u64_less, of v] by (simp only: length_varint)

subsection \<open>Writing laws\<close>

text \<open>
  \<open>window p xs\<close>: a buffer that held \<open>p\<close>, whose last \<open>length xs\<close> bytes have been
  replaced by \<open>xs\<close>, with the index at the start of \<open>xs\<close>.  Every writing operation
  moves from \<open>window p xs\<close> to \<open>window p (new @ xs)\<close> and does not panic as long as
  the new bytes fit.
\<close>

definition window :: "bytes \<Rightarrow> bytes \<Rightarrow> buf" where
  "window p xs = (take (length p - length xs) p @ xs, int (length p - length xs))"

lemma window_start: "(d, int (length d)) = window d []"
  by (simp add: window_def)

lemma window_full: "length p = length xs \<Longrightarrow> window p xs = (xs, 0)"
  by (simp add: window_def)

lemma store_byte_mid: "store_byte (p @ x # q) (int (length p)) b = Inr (p @ b # q)"
  by (simp add: store_byte_def)

lemma encodeVarint_loop_mid:
  "length blank = length (varint (unat v)) \<Longrightarrow>
   encodeVarint_loop (p @ blank @ q) (int (length p)) v = Inr (p @ varint (unat v) @ q)"
proof (induction "unat v" arbitrary: v p blank rule: varint.induct)
  case 1
  show ?case
  proof (cases "unat v < 128")
    case True
    with 1(2) obtain x where "blank = [x]"
      by (auto simp: varint.simps [of "unat v"] length_Suc_conv)
    moreover have "\<not> 2 ^ 7 \<le> v" using True by (simp add: word_ge_128_iff)
    ultimately show ?thesis
      using True
      by (subst encodeVarint_loop.simps)
         (simp add: varint.simps [of "unat v"] store_byte_mid)
  next
    case False
    then have ge: "2 ^ 7 \<le> v" by (simp add: word_ge_128_iff)
    let ?b = "ucast (v AND 0x7F OR 0x80) :: byte"
    from 1(2) False obtain x rest where blank: "blank = x # rest"
      and rest: "length rest = length (varint (unat v div 128))"
      by (auto simp: varint.simps [of "unat v"] length_Suc_conv)
    have "encodeVarint_loop ((p @ [?b]) @ rest @ q) (int (length (p @ [?b]))) (drop_bit 7 v)
      = Inr ((p @ [?b]) @ varint (unat v div 128) @ q)"
      using 1(1) [OF False, of "drop_bit 7 v" rest "p @ [?b]"] rest
      by (simp add: unat_drop_bit_7)
    moreover have "?b = of_nat (unat v mod 128 + 128)"
      using ucast_cont_byte by simp
    ultimately show ?thesis
      using ge False blank
      by (subst encodeVarint_loop.simps)
         (simp add: varint.simps [of "unat v"] store_byte_mid add.commute)
  qed
qed

lemma encodeVarint_window:
  assumes "length (varint (unat v) @ xs) \<le> length p"
  shows "encodeVarint (window p xs) v = Inr (window p (varint (unat v) @ xs))"
proof -
  let ?n = "length p - length xs" and ?k = "length (varint (unat v))"
  have k: "?k \<le> ?n" using assms by simp
  have split: "take ?n p = take (?n - ?k) p @ take ?k (drop (?n - ?k) p)"
    using k by (metis le_add_diff_inverse2 take_add)
  have blank: "length (take ?k (drop (?n - ?k) p)) = ?k" using k by simp
  have "encodeVarint_loop (take ?n p @ xs) (int (?n - ?k)) v
      = Inr (take (?n - ?k) p @ varint (unat v) @ xs)"
    using encodeVarint_loop_mid [OF blank, of "take (?n - ?k) p" xs] k
    by (simp add: split)
  moreover have "int ?n - int (sov v) = int (?n - ?k)"
    using k by (simp add: length_varint)
  moreover have "length p - length (varint (unat v) @ xs) = ?n - ?k" by simp
  ultimately show ?thesis by (simp add: window_def Let_def)
qed

lemma prepend_byte_window:
  assumes "length xs < length p"
  shows "prepend_byte b (window p xs) = Inr (window p (b # xs))"
proof -
  let ?n = "length p - length xs"
  obtain m where m: "?n = Suc m" using assms by (cases "?n") auto
  then have "take ?n p = take m p @ [p ! m]" by (simp add: take_Suc_snoc)
  moreover have "length (take m p) = m" and "length p - Suc (length xs) = m"
    using m by simp_all
  ultimately show ?thesis
    using m store_byte_mid [of "take m p" "p ! m" xs b]
    by (simp add: window_def)
qed

lemma prepend_bytes_window:
  assumes "length (src @ xs) \<le> length p"
  shows "prepend_bytes src (window p xs) = Inr (window p (src @ xs))"
proof -
  let ?n = "length p - length xs"
  have n: "length src \<le> ?n" using assms by simp
  then have i: "int ?n - int (length src) = int (?n - length src)" by simp
  have "min (length (take ?n p @ xs) - (?n - length src)) (length src) = length src"
    using n by simp
  then show ?thesis
    using n by (simp add: window_def Let_def i copy_at_def min_absorb1 add.commute)
qed

lemmas write_window [wire_simps] =
  encodeVarint_window prepend_byte_window prepend_bytes_window

subsection \<open>Reading back\<close>

lemma decodeVarint_progress:
  "decodeVarint d i shift v = Inr (w, j) \<Longrightarrow> i < j \<and> j \<le> length d"
proof (induction d i shift v rule: decodeVarint.induct)
  case (1 d i shift v)
  from "1.prems" show ?case
    by (subst (asm) decodeVarint.simps)
       (auto simp: Let_def dest: "1.IH" [rotated 4] split: if_splits)
qed

lemma decodeVarint_varint:
  assumes "n < 2 ^ (64 - shift)" and "shift < 64"
  shows "decodeVarint (p @ varint n @ s) (length p) shift v
    = Inr (v OR push_bit shift (of_nat n), length p + length (varint n))"
  using assms
proof (induction n arbitrary: p shift v rule: varint.induct)
  case (1 n)
  show ?case
  proof (cases "n < 128")
    case True
    then show ?thesis
      using 1(3)
      by (subst decodeVarint.simps)
         (simp add: varint.simps [of n] ucast_low_bits of_nat_byte_less_128_iff)
  next
    case False
    then have "2 ^ 7 < (2 :: nat) ^ (64 - shift)" using 1(2) by simp
    then have "7 < 64 - shift" by (rule power_less_imp_less_exp [rotated]) simp
    then have sh: "shift + 7 < 64" by simp
    then have "(2 :: nat) ^ (64 - shift) = 2 ^ (64 - (shift + 7)) * 128"
    proof -
      have "64 - shift = (64 - (shift + 7)) + 7" using sh by simp
      then show ?thesis by (simp only: power_add) simp
    qed
    then have small: "n div 128 < 2 ^ (64 - (shift + 7))"
      using 1(2) by (simp add: less_mult_imp_div_less)
    let ?b = "of_nat (n mod 128 + 128) :: byte"
    have b: "ucast (?b AND 127) = (of_nat (n mod 128) :: u64)" "\<not> ?b < 128"
      using ucast_low_bits [of "n mod 128 + 128"] of_nat_byte_less_128_iff [of "n mod 128 + 128"]
      by auto
    have "decodeVarint ((p @ [?b]) @ varint (n div 128) @ s) (length (p @ [?b])) (shift + 7)
        (v OR push_bit shift (of_nat (n mod 128)))
      = Inr (v OR push_bit shift (of_nat n), length (p @ [?b]) + length (varint (n div 128)))"
      using 1(1) [OF False small sh, of "p @ [?b]"]
      by (simp only: accumulate_low_group)
    then show ?thesis
      using False sh b
      by (subst decodeVarint.simps) (simp add: varint.simps [of n] nth_append)
  qed
qed

lemma decodeVarint_word:
  "decodeVarint (p @ varint (unat v) @ s) (length p) 0 0
    = Inr (v, length p + length (varint (unat v)))"
  using decodeVarint_varint [of "unat v" 0 p s 0] unat_u64_less [of v] by simp

end
