(* ===== verification/Wire.thy ===== *)
theory Wire
  imports Varint
begin

text \<open>
  What every generated \<open>Unmarshal\<close>, \<open>Marshal\<close> and \<open>skip\<dots>\<close> function shares: reading a
  field tag, reading a length prefix with Go's \<open>int\<close> overflow checks, skipping an
  unknown field (groups included), the \<open>Marshal\<close> wrapper around
  \<open>MarshalToSizedBuffer\<close>; and the two interfaces, \<open>message_writer\<close> and
  \<open>message_codec\<close>, that the codec of each message implements.
\<close>

subsection \<open>Reading tags and lengths\<close>

text \<open>
  Positions are naturals.  A Go \<open>int\<close> that is the sum of two non-negative values is
  below \<open>2 ^ 64\<close>, and it is negative exactly when it reached \<open>2 ^ 63\<close>; likewise a
  length read as an unsigned 64-bit value is negative as an \<open>int\<close> from \<open>2 ^ 63\<close> on.
\<close>

definition neg64 :: "nat \<Rightarrow> bool" where
  "neg64 n \<longleftrightarrow> 2 ^ 63 \<le> n"

definition decodeTag :: "string \<Rightarrow> bytes \<Rightarrow> nat \<Rightarrow> proto_error + int \<times> nat \<times> nat" where
  "decodeTag msg d i =
     bindE (decodeVarint d i 0 0) (\<lambda>(wire, i').
       let fieldNum = sint (ucast (drop_bit 3 wire) :: 32 word);
           wireType = unat (wire AND 7)
       in if wireType = 4 then Inl (EndGroupForNonGroup msg)
          else if fieldNum \<le> 0 then Inl (IllegalTag msg fieldNum wire)
          else Inr (fieldNum, wireType, i'))"

definition decodeLen :: "bytes \<Rightarrow> nat \<Rightarrow> proto_error + nat \<times> nat" where
  "decodeLen d i =
     bindE (decodeVarint d i 0 0) (\<lambda>(len, i').
       if neg64 (unat len) then Inl ErrInvalidLength
       else let postIndex = i' + unat len
            in if neg64 postIndex then Inl ErrInvalidLength
               else if length d < postIndex then Inl ErrUnexpectedEOF
               else Inr (i', postIndex))"

definition slice :: "bytes \<Rightarrow> nat \<Rightarrow> nat \<Rightarrow> bytes" where
  "slice d i j = take (j - i) (drop i d)"

text \<open>
  The two commonest field cases of a generated \<open>Unmarshal\<close>: a \<open>uint64\<close> and a
  length-delimited string or byte field.  \<open>upd\<close> stores the value in the message.
\<close>

definition read_varint ::
  "string \<Rightarrow> nat \<Rightarrow> bytes \<Rightarrow> nat \<Rightarrow> (u64 \<Rightarrow> 'm) \<Rightarrow> proto_error + 'm \<times> nat" where
  "read_varint field wireType d i upd =
     (if wireType \<noteq> 0 then Inl (WrongWireType wireType field)
      else bindE (decodeVarint d i 0 0) (\<lambda>(v, i'). Inr (upd v, i')))"

definition read_bytes ::
  "string \<Rightarrow> nat \<Rightarrow> bytes \<Rightarrow> nat \<Rightarrow> (bytes \<Rightarrow> 'm) \<Rightarrow> proto_error + 'm \<times> nat" where
  "read_bytes field wireType d i upd =
     (if wireType \<noteq> 2 then Inl (WrongWireType wireType field)
      else bindE (decodeLen d i) (\<lambda>(i', postIndex). Inr (upd (slice d i' postIndex), postIndex)))"

text \<open>An embedded message: its own \<open>Unmarshal\<close> runs on the delimited part.\<close>

definition read_message ::
  "string \<Rightarrow> nat \<Rightarrow> bytes \<Rightarrow> nat \<Rightarrow> (bytes \<Rightarrow> proto_error + 'a) \<Rightarrow> ('a \<Rightarrow> 'm)
     \<Rightarrow> proto_error + 'm \<times> nat" where
  "read_message field wireType d i unmarshal upd =
     (if wireType \<noteq> 2 then Inl (WrongWireType wireType field)
      else bindE (decodeLen d i) (\<lambda>(i', postIndex).
             bindE (unmarshal (slice d i' postIndex)) (\<lambda>x. Inr (upd x, postIndex))))"

subsection \<open>Skipping an unknown field\<close>

function skipVarint :: "bytes \<Rightarrow> nat \<Rightarrow> nat \<Rightarrow> proto_error + nat" where
  "skipVarint d i shift =
     (if 64 \<le> shift then Inl ErrIntOverflow
      else if length d \<le> i then Inl ErrUnexpectedEOF
      else if d ! i < 0x80 then Inr (Suc i)
      else skipVarint d (Suc i) (shift + 7))"
  by pat_completeness auto
termination by (relation "measure (\<lambda>(d, i, shift). 64 - shift)") auto

declare skipVarint.simps [simp del]

definition skip_switch :: "bytes \<Rightarrow> nat \<Rightarrow> nat \<Rightarrow> nat \<Rightarrow> proto_error + nat \<times> nat" where
  "skip_switch d wireType i depth =
     (if wireType = 0 then bindE (skipVarint d i 0) (\<lambda>i'. Inr (i', depth))
      else if wireType = 1 then Inr (i + 8, depth)
      else if wireType = 2 then
        bindE (decodeVarint d i 0 0) (\<lambda>(len, i').
          if neg64 (unat len) then Inl ErrInvalidLength else Inr (i' + unat len, depth))
      else if wireType = 3 then Inr (i, Suc depth)
      else if wireType = 4 then
        (if depth = 0 then Inl ErrUnexpectedEndOfGroup else Inr (i, depth - 1))
      else if wireType = 5 then Inr (i + 4, depth)
      else Inl (IllegalWireType wireType))"

lemma skipVarint_progress: "skipVarint d i shift = Inr j \<Longrightarrow> i < j \<and> j \<le> length d"
proof (induction d i shift rule: skipVarint.induct)
  case (1 d i shift)
  from "1.prems" show ?case
    by (subst (asm) skipVarint.simps) (auto dest: "1.IH" [rotated 3] split: if_splits)
qed

lemma skip_switch_progress: "skip_switch d wireType i depth = Inr (j, depth') \<Longrightarrow> i \<le> j"
  by (auto simp: skip_switch_def bindE_Inr_iff split: if_splits prod.splits
      dest!: skipVarint_progress decodeVarint_progress)

function skip_loop :: "bytes \<Rightarrow> nat \<Rightarrow> nat \<Rightarrow> proto_error + nat" where
  "skip_loop d i depth =
     (if i < length d
      then bindE (decodeVarint d i 0 0) (\<lambda>(wire, i').
             bindE (skip_switch d (unat (wire AND 7)) i' depth) (\<lambda>(j, depth').
               if neg64 j then Inl ErrInvalidLength
               else if depth' = 0 then Inr j
               else skip_loop d j depth'))
      else Inl ErrUnexpectedEOF)"
  by pat_completeness auto
termination
proof (relation "measure (\<lambda>(d, i, depth). length d - i)")
  show "wf (measure (\<lambda>(d :: bytes, i :: nat, depth :: nat). length d - i))" by simp
  fix d :: bytes and i depth :: nat and x y :: "u64 \<times> nat" and wire i' y' j depth'
  assume "i < length d" and "decodeVarint d i 0 0 = Inr x" and "(wire, i') = x"
    and "skip_switch d (unat (wire AND 7)) i' depth = Inr y'" and "(j, depth') = y'"
  then have "i < j"
    by (auto dest!: decodeVarint_progress skip_switch_progress)
  with \<open>i < length d\<close> show "((d, j, depth'), d, i, depth) \<in> measure (\<lambda>(d, i, depth). length d - i)"
    by simp
qed

declare skip_loop.simps [simp del]

definition skipField :: "bytes \<Rightarrow> proto_error + nat" where
  "skipField d = skip_loop d 0 0"

text \<open>The \<open>default\<close> branch of every field switch: back to the tag and skip.\<close>

definition skipUnknown :: "bytes \<Rightarrow> nat \<Rightarrow> proto_error + nat" where
  "skipUnknown d preIndex =
     bindE (skipField (drop preIndex d)) (\<lambda>skippy.
       if neg64 skippy \<or> neg64 (preIndex + skippy) then Inl ErrInvalidLength
       else if length d < preIndex + skippy then Inl ErrUnexpectedEOF
       else Inr (preIndex + skippy))"

text \<open>Every reader moves forward: this is what ends the field loops.\<close>

lemma skip_loop_progress: "skip_loop d i depth = Inr j \<Longrightarrow> i < j"
proof (induction d i depth rule: skip_loop.induct)
  case (1 d i depth)
  from "1.prems" have lt: "i < length d"
    by (subst (asm) skip_loop.simps) (simp split: if_splits)
  with "1.prems" obtain wire i' k depth' where dv: "decodeVarint d i 0 0 = Inr (wire, i')"
    and sw: "skip_switch d (unat (wire AND 7)) i' depth = Inr (k, depth')"
    and rest: "(if neg64 k then Inl ErrInvalidLength else if depth' = 0 then Inr k
      else skip_loop d k depth') = Inr j"
    by (subst (asm) skip_loop.simps) (auto simp: bindE_Inr_iff split: prod.splits)
  from dv sw have "i < k" by (auto dest!: decodeVarint_progress skip_switch_progress)
  with rest "1.IH" [OF lt dv refl sw refl] show ?case by (auto split: if_splits)
qed

lemma skipUnknown_progress: "skipUnknown d i = Inr j \<Longrightarrow> i < j \<and> j \<le> length d"
  by (auto simp: skipUnknown_def skipField_def bindE_Inr_iff dest!: skip_loop_progress
      split: if_splits)

lemma decodeTag_progress: "decodeTag msg d i = Inr (num, wt, j) \<Longrightarrow> i < j \<and> j \<le> length d"
  by (auto simp: decodeTag_def bindE_Inr_iff Let_def dest!: decodeVarint_progress
      split: if_splits prod.splits)

lemma decodeLen_progress: "decodeLen d i = Inr (j, post) \<Longrightarrow> i < j \<and> j \<le> post \<and> post \<le> length d"
  by (auto simp: decodeLen_def bindE_Inr_iff Let_def dest!: decodeVarint_progress
      split: if_splits prod.splits)

lemma read_varint_progress: "read_varint f wt d i upd = Inr (m, j) \<Longrightarrow> i < j \<and> j \<le> length d"
  by (auto simp: read_varint_def bindE_Inr_iff dest!: decodeVarint_progress split: if_splits)

lemma read_bytes_progress: "read_bytes f wt d i upd = Inr (m, j) \<Longrightarrow> i < j \<and> j \<le> length d"
  by (auto simp: read_bytes_def bindE_Inr_iff dest!: decodeLen_progress split: if_splits)

lemma read_message_progress:
  "read_message f wt d i unm upd = Inr (m, j) \<Longrightarrow> i < j \<and> j \<le> length d"
  by (auto simp: read_message_def bindE_Inr_iff dest!: decodeLen_progress split: if_splits)

lemmas read_progress =
  decodeTag_progress read_varint_progress read_message_progress read_bytes_progress decodeLen_progress skipUnknown_progress

subsection \<open>Marshal around MarshalToSizedBuffer\<close>

text \<open>\<open>dAtA[:n]\<close>.\<close>

definition slice_to :: "bytes \<Rightarrow> int \<Rightarrow> go_panic + bytes" where
  "slice_to d n =
     (if 0 \<le> n \<and> n \<le> int (length d) then Inr (take (nat n) d) else Inl SliceBoundsOutOfRange)"

definition marshalWith ::
  "('m \<Rightarrow> nat) \<Rightarrow> ('m \<Rightarrow> bytes \<Rightarrow> go_panic + bytes \<times> int) \<Rightarrow> 'm \<Rightarrow> go_panic + bytes" where
  "marshalWith Size MarshalToSizedBuffer m =
     (let size = Size m; dAtA = replicate size 0
      in bindE (MarshalToSizedBuffer m dAtA) (\<lambda>(dAtA', n). slice_to dAtA' n))"

text \<open>
  The buffer a caller hands in is a Go slice: the bytes within its length, and the bytes
  between its length and its capacity.  \<open>dAtA[:n]\<close> of a slice may reach up to the capacity.
\<close>

record go_slice =
  buf_elems :: bytes
  buf_spare :: bytes

definition reslice_to :: "go_slice \<Rightarrow> int \<Rightarrow> go_panic + go_slice" where
  "reslice_to sl n =
     (let array = buf_elems sl @ buf_spare sl
      in if 0 \<le> n \<and> n \<le> int (length array) then Inr \<lparr>buf_elems = take (nat n) array, buf_spare = drop (nat n) array\<rparr>
         else Inl SliceBoundsOutOfRange)"

text \<open>The caller's slice over an array whose front was written through another slice.\<close>

definition reslice_back :: "go_slice \<Rightarrow> bytes \<Rightarrow> go_slice" where
  "reslice_back sl array = \<lparr>buf_elems = take (length (buf_elems sl)) array, buf_spare = drop (length (buf_elems sl)) array\<rparr>"

lemma reslice_back_array:
  "buf_elems (reslice_back sl array) @ buf_spare (reslice_back sl array) = array"
  "length (buf_elems sl) \<le> length array \<Longrightarrow> length (buf_elems (reslice_back sl array)) = length (buf_elems sl)"
  "length array = length (buf_elems sl) + length (buf_spare sl) \<Longrightarrow> length (buf_spare (reslice_back sl array)) = length (buf_spare sl)"
  by (simp_all add: reslice_back_def)

definition marshalToWith ::
  "('m \<Rightarrow> nat) \<Rightarrow> ('m \<Rightarrow> bytes \<Rightarrow> go_panic + bytes \<times> int) \<Rightarrow> 'm \<Rightarrow> go_slice
     \<Rightarrow> go_panic + go_slice \<times> int" where
  "marshalToWith Size MarshalToSizedBuffer m dAtA =
     bindE (reslice_to dAtA (int (Size m))) (\<lambda>window.
       bindE (MarshalToSizedBuffer m (buf_elems window)) (\<lambda>(written, n).
         Inr (reslice_back dAtA (written @ buf_spare window), n)))"

subsection \<open>Decoding what was encoded\<close>

lemma tag_wire_type: "unat ((of_nat t :: u64) AND 7) = t mod 8"
proof -
  have "(of_nat t :: u64) AND 7 = take_bit 3 (of_nat t)"
    by (simp add: take_bit_eq_mask mask_eq_exp_minus_1)
  also have "\<dots> = of_nat (take_bit 3 t)" by (simp add: of_nat_take_bit)
  also have "take_bit 3 t = t mod 8" by (simp add: take_bit_eq_mod)
  finally have "unat ((of_nat t :: u64) AND 7) = unat (of_nat (t mod 8) :: u64)" by (simp only:)
  also have "\<dots> = t mod 8" by (simp only: unat_of_nat) simp
  finally show ?thesis .
qed

lemma tag_field_num:
  assumes "t < 2 ^ 34"
  shows "sint (ucast (drop_bit 3 (of_nat t :: u64)) :: 32 word) = int (t div 8)"
proof -
  have small: "t div 8 < 2 ^ 31" using assms by (simp add: less_mult_imp_div_less)
  have "drop_bit 3 (of_nat t :: u64) = of_nat (t div 8)"
  proof -
    have "drop_bit 3 (of_nat t :: u64) = of_nat (unat (of_nat t :: u64) div 8)"
      by (simp add: drop_bit_eq_div word_arith_nat_div)
    also have "unat (of_nat t :: u64) = t"
      using assms by (simp only: unat_of_nat) simp
    finally show ?thesis .
  qed
  then have "ucast (drop_bit 3 (of_nat t :: u64)) = (of_nat (t div 8) :: 32 word)"
    using small by (simp add: unsigned_of_nat take_bit_nat_eq_self)
  then show ?thesis
    using small by (simp add: signed_of_nat signed_take_bit_int_eq_self)
qed

lemma decodeTag_varint:
  assumes "t < 2 ^ 34" and "8 \<le> t" and "t mod 8 \<noteq> 4"
  shows "decodeTag msg (p @ varint t @ s) (length p)
    = Inr (int (t div 8), t mod 8, length p + length (varint t))"
proof -
  have "decodeVarint (p @ varint t @ s) (length p) 0 0 = Inr (of_nat t, length p + length (varint t))"
    using decodeVarint_varint [of t 0 p s 0] assms(1) by simp
  moreover have "0 < t div 8" using assms(2) by (simp add: div_greater_zero_iff)
  ultimately show ?thesis
    using assms tag_field_num [OF assms(1)] by (simp add: decodeTag_def tag_wire_type)
qed

lemma varint_small: "t < 128 \<Longrightarrow> varint t = [of_nat t]"
  by (simp add: varint.simps [of t])

lemma sov_small: "v < 128 \<Longrightarrow> sov v = 1"
  by (simp add: varint_small word_less_nat_alt flip: length_varint)

lemma decodeTag_byte:
  assumes "t < 128" and "8 \<le> t" and "t mod 8 \<noteq> 4"
  shows "decodeTag msg (p @ of_nat t # s) (length p) = Inr (int (t div 8), t mod 8, Suc (length p))"
  using decodeTag_varint [of t msg p s] assms by (simp add: varint_small)

text \<open>The one-byte tags the messages of this module use.\<close>

lemma decodeTag_bytes [wire_simps]:
  "decodeTag msg (p @ 0x08 # s) (length p) = Inr (1, 0, Suc (length p))"
  "decodeTag msg (p @ 0x0a # s) (length p) = Inr (1, 2, Suc (length p))"
  "decodeTag msg (p @ 0x10 # s) (length p) = Inr (2, 0, Suc (length p))"
  "decodeTag msg (p @ 0x12 # s) (length p) = Inr (2, 2, Suc (length p))"
  "decodeTag msg (p @ 0x18 # s) (length p) = Inr (3, 0, Suc (length p))"
  "decodeTag msg (p @ 0x1a # s) (length p) = Inr (3, 2, Suc (length p))"
  "decodeTag msg (p @ 0x20 # s) (length p) = Inr (4, 0, Suc (length p))"
  "decodeTag msg (p @ 0x22 # s) (length p) = Inr (4, 2, Suc (length p))"
  "decodeTag msg (p @ 0x2a # s) (length p) = Inr (5, 2, Suc (length p))"
  using decodeTag_byte [of 8 msg p s] decodeTag_byte [of 10 msg p s]
    decodeTag_byte [of 16 msg p s] decodeTag_byte [of 18 msg p s]
    decodeTag_byte [of 24 msg p s] decodeTag_byte [of 26 msg p s]
    decodeTag_byte [of 32 msg p s] decodeTag_byte [of 34 msg p s]
    decodeTag_byte [of 42 msg p s]
  by simp_all

lemma decodeLen_varint:
  assumes "length (p @ varint (length b) @ b @ s) < 2 ^ 63"
  shows "decodeLen (p @ varint (length b) @ b @ s) (length p)
    = Inr (length p + length (varint (length b)), length p + length (varint (length b)) + length b)"
proof -
  have b: "length b < 2 ^ 63" using assms by simp
  then have "decodeVarint (p @ varint (length b) @ b @ s) (length p) 0 0
      = Inr (of_nat (length b), length p + length (varint (length b)))"
    using decodeVarint_varint [of "length b" 0 p "b @ s" 0] by simp
  moreover have "unat (of_nat (length b) :: u64) = length b"
    using b by (simp only: unat_of_nat) simp
  ultimately show ?thesis using assms by (simp add: decodeLen_def neg64_def)
qed

lemma slice_mid: "slice (p @ b @ s) (length p) (length p + length b) = b"
  by (simp add: slice_def)

text \<open>The same, after the tag byte of a field.\<close>

lemma decodeVarint_after_tag [wire_simps]:
  "decodeVarint (p @ tag # varint (unat v) @ s) (Suc (length p)) 0 0
    = Inr (v, Suc (length p + length (varint (unat v))))"
  using decodeVarint_word [of "p @ [tag]" v s] by simp

lemma decodeLen_after_tag [wire_simps]:
  "length p + length (varint (length b)) + length b + length s < 2 ^ 63 - 1 \<Longrightarrow>
   decodeLen (p @ tag # varint (length b) @ b @ s) (Suc (length p))
    = Inr (Suc (length p + length (varint (length b))),
           Suc (length p + length (varint (length b)) + length b))"
  using decodeLen_varint [of "p @ [tag]" b s] by simp

lemma slice_after_tag [wire_simps]:
  "slice (p @ tag # q @ b @ s) (Suc (length p + length q)) (Suc (length p + length q + length b)) = b"
  using slice_mid [of "p @ tag # q" b s] by simp

lemma read_varint_after_tag [wire_simps]:
  "read_varint f 0 (p @ tag # varint (unat v) @ s) (Suc (length p)) upd
    = Inr (upd v, Suc (length p + length (varint (unat v))))"
  by (simp add: read_varint_def decodeVarint_after_tag)

lemma read_bytes_after_tag [wire_simps]:
  "length p + length (varint (length b)) + length b + length s < 2 ^ 63 - 1 \<Longrightarrow>
   read_bytes f 2 (p @ tag # varint (length b) @ b @ s) (Suc (length p)) upd
    = Inr (upd b, Suc (length p + length (varint (length b)) + length b))"
  by (simp add: read_bytes_def decodeLen_after_tag slice_after_tag)

lemma read_message_after_tag [wire_simps]:
  "length p + length (varint (length b)) + length b + length s < 2 ^ 63 - 1 \<Longrightarrow>
   unmarshal b = Inr x \<Longrightarrow>
   read_message f 2 (p @ tag # varint (length b) @ b @ s) (Suc (length p)) unmarshal upd
    = Inr (upd x, Suc (length p + length (varint (length b)) + length b))"
  by (simp add: read_message_def decodeLen_after_tag slice_after_tag)

lemma skipVarint_varint:
  assumes "n < 2 ^ (64 - shift)" and "shift < 64"
  shows "skipVarint (p @ varint n @ s) (length p) shift = Inr (length p + length (varint n))"
  using assms
proof (induction n arbitrary: p shift rule: varint.induct)
  case (1 n)
  show ?case
  proof (cases "n < 128")
    case True
    then show ?thesis
      using 1(3) by (subst skipVarint.simps)
        (simp add: varint.simps [of n] of_nat_byte_less_128_iff)
  next
    case False
    then have "2 ^ 7 < (2 :: nat) ^ (64 - shift)" using 1(2) by simp
    then have "7 < 64 - shift" by (rule power_less_imp_less_exp [rotated]) simp
    then have sh: "shift + 7 < 64" by simp
    have "(2 :: nat) ^ (64 - shift) = 2 ^ (64 - (shift + 7)) * 128"
    proof -
      have "64 - shift = (64 - (shift + 7)) + 7" using sh by simp
      then show ?thesis by (simp only: power_add) simp
    qed
    then have small: "n div 128 < 2 ^ (64 - (shift + 7))"
      using 1(2) by (simp add: less_mult_imp_div_less)
    let ?b = "of_nat (n mod 128 + 128) :: byte"
    have b: "\<not> ?b < 128"
      using of_nat_byte_less_128_iff [of "n mod 128 + 128"] by auto
    have "skipVarint ((p @ [?b]) @ varint (n div 128) @ s) (length (p @ [?b])) (shift + 7)
      = Inr (length (p @ [?b]) + length (varint (n div 128)))"
      by (rule 1(1) [OF False small sh])
    then show ?thesis
      using False sh b
      by (subst skipVarint.simps) (simp add: varint.simps [of n] nth_append)
  qed
qed

subsection \<open>Unknown fields\<close>

text \<open>
  The fields a newer version of a message may carry: the five wire formats, groups
  nested to any depth.
\<close>

datatype wire_field =
    WVarint nat u64
  | WFixed64 nat bytes
  | WBytes nat bytes
  | WGroup nat "wire_field list"
  | WFixed32 nat bytes

fun field_num :: "wire_field \<Rightarrow> nat" where
  "field_num (WVarint n v) = n"
| "field_num (WFixed64 n b) = n"
| "field_num (WBytes n b) = n"
| "field_num (WGroup n fs) = n"
| "field_num (WFixed32 n b) = n"

fun encode_field :: "wire_field \<Rightarrow> bytes" where
  "encode_field (WVarint n v) = varint (8 * n) @ varint (unat v)"
| "encode_field (WFixed64 n b) = varint (8 * n + 1) @ b"
| "encode_field (WBytes n b) = varint (8 * n + 2) @ varint (length b) @ b"
| "encode_field (WGroup n fs) =
     varint (8 * n + 3) @ concat (map encode_field fs) @ varint (8 * n + 4)"
| "encode_field (WFixed32 n b) = varint (8 * n + 5) @ b"

fun wf_field :: "wire_field \<Rightarrow> bool" where
  "wf_field (WVarint n v) \<longleftrightarrow> 0 < n \<and> n < 2 ^ 29"
| "wf_field (WFixed64 n b) \<longleftrightarrow> 0 < n \<and> n < 2 ^ 29 \<and> length b = 8"
| "wf_field (WBytes n b) \<longleftrightarrow> 0 < n \<and> n < 2 ^ 29"
| "wf_field (WGroup n fs) \<longleftrightarrow> 0 < n \<and> n < 2 ^ 29 \<and> list_all wf_field fs"
| "wf_field (WFixed32 n b) \<longleftrightarrow> 0 < n \<and> n < 2 ^ 29 \<and> length b = 4"

lemma encode_field_nonempty [simp]: "encode_field f \<noteq> []"
  by (cases f) simp_all

lemma skip_loop_tag:
  assumes "t < 2 ^ 34"
  shows "skip_loop (p @ varint t @ s) (length p) depth
    = bindE (skip_switch (p @ varint t @ s) (t mod 8) (length (p @ varint t)) depth)
        (\<lambda>(j, depth'). if neg64 j then Inl ErrInvalidLength
          else if depth' = 0 then Inr j else skip_loop (p @ varint t @ s) j depth')"
proof -
  have "decodeVarint (p @ varint t @ s) (length p) 0 0 = Inr (of_nat t, length p + length (varint t))"
    using decodeVarint_varint [of t 0 p s 0] assms by simp
  then show ?thesis by (subst skip_loop.simps) (simp add: tag_wire_type)
qed

lemma skip_loop_tag_to:
  assumes "t < 2 ^ 34" and "length d < 2 ^ 63" and "d = p @ varint t @ s"
    and "skip_switch d (t mod 8) (length (p @ varint t)) depth = Inr (j, depth')"
    and "j \<le> length d"
  shows "skip_loop d (length p) depth = (if depth' = 0 then Inr j else skip_loop d j depth')"
  using assms skip_loop_tag [OF assms(1), of p s depth] by (simp add: neg64_def)

lemma skip_switch_varint:
  "skip_switch (p @ varint (unat (v :: u64)) @ s) 0 (length p) depth
    = Inr (length p + length (varint (unat v)), depth)"
  using skipVarint_varint [of "unat v" 0 p s] unat_u64_less [of v] by (simp add: skip_switch_def)

lemma skip_switch_bytes:
  assumes "length b < 2 ^ 63"
  shows "skip_switch (p @ varint (length b) @ b @ s) 2 (length p) depth
    = Inr (length p + length (varint (length b)) + length b, depth)"
proof -
  have "decodeVarint (p @ varint (length b) @ b @ s) (length p) 0 0
      = Inr (of_nat (length b), length p + length (varint (length b)))"
    using assms decodeVarint_varint [of "length b" 0 p "b @ s" 0] by simp
  moreover have "unat (of_nat (length b) :: u64) = length b"
    using assms by (simp only: unat_of_nat) simp
  ultimately show ?thesis using assms by (simp add: skip_switch_def neg64_def)
qed

lemma skip_loop_field:
  assumes "wf_field f" and "length (p @ encode_field f @ s) < 2 ^ 63"
  shows "skip_loop (p @ encode_field f @ s) (length p) depth
    = (if depth = 0 then Inr (length (p @ encode_field f))
       else skip_loop (p @ encode_field f @ s) (length (p @ encode_field f)) depth)"
  using assms
proof (induction f arbitrary: p s depth)
  case (WVarint n v)
  then show ?case
    using skip_switch_varint [of "p @ varint (8 * n)" v s depth]
    by (subst skip_loop_tag_to [where t = "8 * n" and s = "varint (unat v) @ s"]) auto
next
  case (WFixed64 n b)
  then show ?case
    by (subst skip_loop_tag_to [where t = "8 * n + 1" and s = "b @ s"])
       (auto simp: skip_switch_def mod_simps)
next
  case (WBytes n b)
  have "Suc (Suc (8 * n)) mod 8 = 2" by presburger
  with WBytes show ?case
    using skip_switch_bytes [of b "p @ varint (8 * n + 2)" s depth]
    by (subst skip_loop_tag_to [where t = "8 * n + 2" and s = "varint (length b) @ b @ s"])
       (auto simp: add.assoc)
next
  case (WFixed32 n b)
  then show ?case
    by (subst skip_loop_tag_to [where t = "8 * n + 5" and s = "b @ s"])
       (auto simp: skip_switch_def)
next
  case (WGroup n fs)
  let ?d = "p @ encode_field (WGroup n fs) @ s"
  let ?open = "varint (8 * n + 3)" and ?close = "varint (8 * n + 4)"
  have n: "0 < n" "n < 2 ^ 29" and len: "length ?d < 2 ^ 63" using WGroup.prems by auto
  have inner: "skip_loop (q @ concat (map encode_field gs) @ r) (length q) (Suc depth)
      = skip_loop (q @ concat (map encode_field gs) @ r)
          (length (q @ concat (map encode_field gs))) (Suc depth)"
    if "set gs \<subseteq> set fs" and "length (q @ concat (map encode_field gs) @ r) < 2 ^ 63" for gs q r
    using that
  proof (induction gs arbitrary: q)
    case Nil
    then show ?case by simp
  next
    case (Cons g gs)
    then have "g \<in> set fs" and "wf_field g"
      using WGroup.prems(1) by (auto simp: list_all_iff)
    then have "skip_loop (q @ encode_field g @ concat (map encode_field gs) @ r) (length q) (Suc depth)
        = skip_loop (q @ encode_field g @ concat (map encode_field gs) @ r)
            (length (q @ encode_field g)) (Suc depth)"
      using WGroup.IH [of g q "concat (map encode_field gs) @ r" "Suc depth"] Cons.prems(2) by simp
    with Cons.IH [of "q @ encode_field g"] Cons.prems show ?case by simp
  qed
  have "skip_loop ?d (length p) depth = skip_loop ?d (length (p @ ?open)) (Suc depth)"
    using n len
    by (subst skip_loop_tag_to [where t = "8 * n + 3"
          and s = "concat (map encode_field fs) @ ?close @ s"])
       (auto simp: skip_switch_def)
  also have "\<dots> = skip_loop ?d (length (p @ ?open @ concat (map encode_field fs))) (Suc depth)"
    using inner [of fs "p @ ?open" "?close @ s"] len by simp
  also have "\<dots> = (if depth = 0 then Inr (length (p @ encode_field (WGroup n fs)))
      else skip_loop ?d (length (p @ encode_field (WGroup n fs))) depth)"
    using n len
    by (subst skip_loop_tag_to [where t = "8 * n + 4"
          and p = "p @ ?open @ concat (map encode_field fs)" and s = s])
       (auto simp: skip_switch_def)
  finally show ?case .
qed

lemma skipField_encode_field:
  assumes "wf_field f" and "length (encode_field f @ s) < 2 ^ 63"
  shows "skipField (encode_field f @ s) = Inr (length (encode_field f))"
  using skip_loop_field [of f "[]" s 0] assms by (simp add: skipField_def)

lemma skipUnknown_encode_field:
  assumes "wf_field f" and "length (p @ encode_field f @ s) < 2 ^ 63"
  shows "skipUnknown (p @ encode_field f @ s) (length p) = Inr (length p + length (encode_field f))"
  using assms skipField_encode_field [of f s] by (simp add: skipUnknown_def neg64_def)

lemma decodeTag_encode_field:
  assumes "wf_field f"
  shows "\<exists>wt j. decodeTag msg (p @ encode_field f @ s) (length p) = Inr (int (field_num f), wt, j)"
proof -
  have *: "\<exists>wt j. decodeTag msg (p @ (varint (8 * n + w) @ r) @ s) (length p) = Inr (int n, wt, j)"
    if "0 < n" and "n < 2 ^ 29" and "w < 8" and "w \<noteq> 4" for n w r
    using that decodeTag_varint [of "8 * n + w" msg p "r @ s"] by simp
  show ?thesis
  proof (cases f)
    case (WVarint n v)
    then show ?thesis using assms * [of n 0 "varint (unat v)"] by simp
  next
    case (WFixed64 n b)
    then show ?thesis using assms * [of n 1 b] by simp
  next
    case (WBytes n b)
    then show ?thesis using assms * [of n 2 "varint (length b) @ b"] by (simp add: numeral_2_eq_2)
  next
    case (WGroup n fs)
    then show ?thesis
      using assms * [of n 3 "concat (map encode_field fs) @ varint (8 * n + 4)"] by simp
  next
    case (WFixed32 n b)
    then show ?thesis using assms * [of n 5 b] by simp
  qed
qed

subsection \<open>Writing one field\<close>

text \<open>
  The statements the generator emits for a field: a \<open>uint64\<close>, omitted when zero; a
  string or \<open>bytes\<close>, omitted when empty; an embedded message,
  \<open>size, err := m.F.MarshalToSizedBuffer(dAtA[:i]); i -= size;
  i = encodeVarint(dAtA, i, uint64(size))\<close>.  Each ends with the tag byte.
\<close>

definition put_varint :: "byte \<Rightarrow> u64 \<Rightarrow> buf \<Rightarrow> go_panic + buf" where
  "put_varint tag v b =
     (if v \<noteq> 0 then bindE (encodeVarint b v) (prepend_byte tag) else Inr b)"

definition put_bytes :: "byte \<Rightarrow> bytes \<Rightarrow> buf \<Rightarrow> go_panic + buf" where
  "put_bytes tag src b =
     (if 0 < length src
      then bindE (prepend_bytes src b) (\<lambda>b1.
             bindE (encodeVarint b1 (of_nat (length src))) (prepend_byte tag))
      else Inr b)"

fun put_message :: "byte \<Rightarrow> (bytes \<Rightarrow> go_panic + bytes \<times> int) \<Rightarrow> buf \<Rightarrow> go_panic + buf" where
  "put_message tag fill (d, i) =
     bindE (slice_to d i) (\<lambda>front.
       bindE (fill front) (\<lambda>(front', size).
         bindE (encodeVarint (front' @ drop (nat i) d, i - size) (of_int size)) (prepend_byte tag)))"

text \<open>
  A pointer to a message is written when it is not nil; a repeated message field is
  written from its last element to its first.
\<close>

definition put_message_opt ::
  "byte \<Rightarrow> ('m \<Rightarrow> bytes \<Rightarrow> go_panic + bytes \<times> int) \<Rightarrow> 'm option \<Rightarrow> buf \<Rightarrow> go_panic + buf" where
  "put_message_opt tag fill mo b =
     (case mo of None \<Rightarrow> Inr b | Some m \<Rightarrow> put_message tag (fill m) b)"

fun put_messages ::
  "byte \<Rightarrow> ('m \<Rightarrow> bytes \<Rightarrow> go_panic + bytes \<times> int) \<Rightarrow> 'm list \<Rightarrow> buf \<Rightarrow> go_panic + buf" where
  "put_messages tag fill [] b = Inr b"
| "put_messages tag fill (m # ms) b =
     bindE (put_messages tag fill ms b) (put_message tag (fill m))"

definition size_message :: "nat \<Rightarrow> nat" where
  "size_message l = 1 + l + sov (of_nat l)"

text \<open>Their reference encodings.\<close>

definition enc_varint :: "byte \<Rightarrow> u64 \<Rightarrow> bytes" where
  "enc_varint tag v = (if v \<noteq> 0 then tag # varint (unat v) else [])"

definition enc_bytes :: "byte \<Rightarrow> bytes \<Rightarrow> bytes" where
  "enc_bytes tag src = (if 0 < length src then tag # varint (length src) @ src else [])"

definition enc_message :: "byte \<Rightarrow> bytes \<Rightarrow> bytes" where
  "enc_message tag src = tag # varint (length src) @ src"

definition enc_message_opt :: "byte \<Rightarrow> ('m \<Rightarrow> bytes) \<Rightarrow> 'm option \<Rightarrow> bytes" where
  "enc_message_opt tag enc mo = (case mo of None \<Rightarrow> [] | Some m \<Rightarrow> enc_message tag (enc m))"

definition enc_messages :: "byte \<Rightarrow> ('m \<Rightarrow> bytes) \<Rightarrow> 'm list \<Rightarrow> bytes" where
  "enc_messages tag enc ms = concat (map (\<lambda>m. enc_message tag (enc m)) ms)"

lemma put_varint_window [wire_simps]:
  "length (enc_varint tag v @ xs) \<le> length p \<Longrightarrow>
   put_varint tag v (window p xs) = Inr (window p (enc_varint tag v @ xs))"
  by (cases "v = 0") (simp_all add: put_varint_def enc_varint_def write_window)

lemma encodeVarint_length:
  assumes "length (varint n @ xs) \<le> length p" and "n < 2 ^ 63"
  shows "encodeVarint (window p xs) (of_nat n) = Inr (window p (varint n @ xs))"
proof -
  have "unat (of_nat n :: u64) = n" using assms(2) by (simp only: unat_of_nat) simp
  with encodeVarint_window [of "of_nat n" xs p] assms(1) show ?thesis by simp
qed

lemma put_bytes_window [wire_simps]:
  "length (enc_bytes tag src @ xs) \<le> length p \<Longrightarrow> length src < 2 ^ 63 \<Longrightarrow>
   put_bytes tag src (window p xs) = Inr (window p (enc_bytes tag src @ xs))"
  by (cases "src = []") (simp_all add: put_bytes_def enc_bytes_def write_window encodeVarint_length)

text \<open>Their sizes, as \<open>Size\<close> computes them.\<close>

lemma length_enc_varint [size_simps]:
  "length (enc_varint tag v) = (if v \<noteq> 0 then 1 + sov v else 0)"
  by (simp add: enc_varint_def length_varint)

lemma sov_of_nat: "n < 2 ^ 63 \<Longrightarrow> sov (of_nat n) = length (varint n)"
  using length_varint [of "of_nat n"] by (simp add: unat_of_nat)

lemma length_enc_bytes [size_simps]:
  "length src < 2 ^ 63 \<Longrightarrow>
   length (enc_bytes tag src) = (if 0 < length src then 1 + length src + sov (of_nat (length src)) else 0)"
  by (simp add: enc_bytes_def sov_of_nat)

lemma length_enc_message [size_simps]:
  "length src < 2 ^ 63 \<Longrightarrow> length (enc_message tag src) = 1 + length src + sov (of_nat (length src))"
  by (simp add: enc_message_def sov_of_nat)

lemma length_enc_bytes_ge: "length src \<le> length (enc_bytes tag src)"
  by (simp add: enc_bytes_def)

lemma length_enc_message_ge: "length src \<le> length (enc_message tag src)"
  by (simp add: enc_message_def)

subsection \<open>Interface of a writer\<close>

text \<open>
  \<open>Size\<close> and \<open>MarshalToSizedBuffer\<close> against a reference encoding: the size is exact, and
  the writer fills exactly the end of the buffer, without a panic, whenever the
  encoding fits.
\<close>

locale message_writer =
  fixes size_of :: "'m \<Rightarrow> nat"
    and fill :: "'m \<Rightarrow> bytes \<Rightarrow> go_panic + bytes \<times> int"
    and enc :: "'m \<Rightarrow> bytes"
  assumes size_enc: "length (enc m) < 2 ^ 63 \<Longrightarrow> size_of m = length (enc m)"
    and fill_enc: "length (enc m) < 2 ^ 63 \<Longrightarrow> length (enc m) \<le> length d \<Longrightarrow>
      fill m d = Inr (take (length d - length (enc m)) d @ enc m, int (length (enc m)))"
begin

lemma marshal: "length (enc m) < 2 ^ 63 \<Longrightarrow> marshalWith size_of fill m = Inr (enc m)"
  by (simp add: marshalWith_def size_enc fill_enc slice_to_def)

lemma marshalTo:
  assumes "length (enc m) < 2 ^ 63"
  shows "marshalToWith size_of fill m sl =
    (let array = buf_elems sl @ buf_spare sl; n = length (enc m)
     in if n \<le> length array then Inr (reslice_back sl (enc m @ drop n array), int n)
        else Inl SliceBoundsOutOfRange)"
  using assms by (simp add: marshalToWith_def reslice_to_def Let_def size_enc fill_enc)

lemma put_message_window:
  assumes "length (enc_message tag (enc m) @ xs) \<le> length p" and "length (enc m) < 2 ^ 63"
  shows "put_message tag (fill m) (window p xs)
    = Inr (window p (enc_message tag (enc m) @ xs))"
proof -
  let ?n = "length p - length xs" and ?e = "length (enc m)"
  have n: "?e \<le> ?n" using assms(1) by (simp add: enc_message_def)
  have w: "fill m (take ?n p) = Inr (take (?n - ?e) p @ enc m, int ?e)"
    using fill_enc [of m "take ?n p"] n assms(2) by (simp add: min_absorb1)
  have "int ?n - int ?e = int (?n - ?e)" using n by simp
  moreover have "length p - length (enc m @ xs) = ?n - ?e" by simp
  ultimately have "put_message tag (fill m) (window p xs)
      = bindE (encodeVarint (window p (enc m @ xs)) (of_nat ?e)) (prepend_byte tag)"
    using n by (simp add: window_def slice_to_def w)
  also have "\<dots> = Inr (window p (enc_message tag (enc m) @ xs))"
    using assms by (simp add: encodeVarint_length write_window enc_message_def)
  finally show ?thesis .
qed

lemma put_message_opt_window:
  "length (enc_message_opt tag enc mo @ xs) \<le> length p \<Longrightarrow> length (enc_message_opt tag enc mo) < 2 ^ 63 \<Longrightarrow>
   put_message_opt tag fill mo (window p xs) = Inr (window p (enc_message_opt tag enc mo @ xs))"
  using length_enc_message_ge [of "enc (the mo)" tag]
  by (cases mo) (auto simp: put_message_opt_def enc_message_opt_def put_message_window)

lemma put_messages_window:
  "length (enc_messages tag enc ms @ xs) \<le> length p \<Longrightarrow> length (enc_messages tag enc ms) < 2 ^ 63 \<Longrightarrow>
   put_messages tag fill ms (window p xs) = Inr (window p (enc_messages tag enc ms @ xs))"
proof (induction ms)
  case Nil
  then show ?case by (simp add: enc_messages_def)
next
  case (Cons m ms)
  have e: "enc_messages tag enc (m # ms) = enc_message tag (enc m) @ enc_messages tag enc ms"
    by (simp add: enc_messages_def)
  have "length (enc m) < 2 ^ 63"
    using Cons.prems(2) length_enc_message_ge [of "enc m" tag] unfolding e by simp
  with Cons e show ?case by (simp add: put_message_window)
qed

lemma length_enc_message_opt:
  "length (enc_message_opt tag enc mo) < 2 ^ 63 \<Longrightarrow>
   length (enc_message_opt tag enc mo) = (case mo of None \<Rightarrow> 0 | Some m \<Rightarrow> size_message (size_of m))"
  using length_enc_message_ge [of "enc (the mo)" tag]
  by (cases mo)
     (auto simp: enc_message_opt_def length_enc_message size_enc size_message_def)

lemma length_enc_messages:
  "length (enc_messages tag enc ms) < 2 ^ 63 \<Longrightarrow>
   length (enc_messages tag enc ms) = sum_list (map (\<lambda>m. size_message (size_of m)) ms)"
proof (induction ms)
  case Nil
  then show ?case by (simp add: enc_messages_def)
next
  case (Cons m ms)
  then have "length (enc m) < 2 ^ 63"
    using length_enc_message_ge [of "enc m" tag] by (simp add: enc_messages_def)
  with Cons show ?case
    by (simp add: enc_messages_def length_enc_message size_enc size_message_def)
qed

end

subsection \<open>Interface of a decoder\<close>

text \<open>
  \<open>decodes_as step xs f\<close>: wherever the bytes \<open>xs\<close> stand in a buffer of a length Go
  allows, one turn of the field loop consumes exactly them and applies \<open>f\<close> to the
  message.
\<close>

definition decodes_as ::
  "(bytes \<Rightarrow> nat \<Rightarrow> 'm \<Rightarrow> proto_error + 'm \<times> nat) \<Rightarrow> bytes \<Rightarrow> ('m \<Rightarrow> 'm) \<Rightarrow> bool" where
  "decodes_as step xs f \<longleftrightarrow> xs \<noteq> [] \<and>
     (\<forall>p s m. length (p @ xs @ s) < 2 ^ 63 \<longrightarrow>
        step (p @ xs @ s) (length p) m = Inr (f m, length p + length xs))"

definition seg :: "bytes \<Rightarrow> ('m \<Rightarrow> 'm) \<Rightarrow> (bytes \<times> ('m \<Rightarrow> 'm)) list" where
  "seg xs f = (if xs = [] then [] else [(xs, f)])"

lemma concat_seg [wire_simps]: "concat (map fst (seg xs f)) = xs"
  by (simp add: seg_def)

lemma in_seg [wire_simps]: "(ys, g) \<in> set (seg xs f) \<longleftrightarrow> xs \<noteq> [] \<and> ys = xs \<and> g = f"
  by (auto simp: seg_def)

lemma fold_seg [wire_simps]: "fold snd (seg xs f) m = (if xs = [] then m else f m)"
  by (simp add: seg_def)

lemma enc_varint_Nil [simp]: "enc_varint tag v = [] \<longleftrightarrow> v = 0"
  by (simp add: enc_varint_def)

lemma enc_varint_0 [simp]: "enc_varint tag 0 = []"
  by (simp add: enc_varint_def)

lemma enc_bytes_empty [simp]: "enc_bytes tag [] = []"
  by (simp add: enc_bytes_def)

lemma enc_bytes_Nil [simp]: "enc_bytes tag src = [] \<longleftrightarrow> src = []"
  by (simp add: enc_bytes_def)

lemma enc_message_not_Nil [simp]: "enc_message tag src \<noteq> []"
  by (simp add: enc_message_def)

lemma decodes_asI:
  assumes "xs \<noteq> []"
    and "\<And>p s m. length p + length xs + length s < 2 ^ 63 \<Longrightarrow>
      step (p @ xs @ s) (length p) m = Inr (f m, length p + length xs)"
  shows "decodes_as step xs f"
  using assms by (simp add: decodes_as_def)

text \<open>
  A field case that reads a value and stores it with \<open>g\<close> decodes the field's encoding.
\<close>

lemma decodes_varint_field:
  assumes "v \<noteq> 0"
    and "\<And>p s m. step (p @ tag # s) (length p) m
      = read_varint f 0 (p @ tag # s) (Suc (length p)) (\<lambda>v. g v m)"
  shows "decodes_as step (enc_varint tag v) (g v)"
  by (rule decodes_asI) (use assms in \<open>simp_all add: enc_varint_def wire_simps\<close>)

lemma decodes_bytes_field:
  assumes "b \<noteq> []"
    and "\<And>p s m. step (p @ tag # s) (length p) m
      = read_bytes f 2 (p @ tag # s) (Suc (length p)) (\<lambda>b. g b m)"
  shows "decodes_as step (enc_bytes tag b) (g b)"
  by (rule decodes_asI) (use assms in \<open>simp_all add: enc_bytes_def wire_simps\<close>)

lemma decodes_string_field:
  assumes "str \<noteq> []"
    and "\<And>p s m. step (p @ tag # s) (length p) m
      = read_bytes f 2 (p @ tag # s) (Suc (length p)) (\<lambda>b. g (bytes_string b) m)"
  shows "decodes_as step (enc_bytes tag (string_bytes str)) (g str)"
  using decodes_bytes_field [of "string_bytes str" step tag f "\<lambda>b. g (bytes_string b)"] assms by simp

lemma decodes_message_field:
  assumes "\<And>m. unmarshal m b = Inr (h m)"
    and "\<And>p s m. step (p @ tag # s) (length p) m
      = read_message f 2 (p @ tag # s) (Suc (length p)) (unmarshal m) (\<lambda>x. g x m)"
  shows "decodes_as step (enc_message tag b) (\<lambda>m. g (h m) m)"
  by (rule decodes_asI) (use assms in \<open>simp_all add: enc_message_def wire_simps\<close>)

lemma enc_message_opt_simps [simp]:
  "enc_message_opt tag enc None = []"
  "enc_message_opt tag enc (Some m) = enc_message tag (enc m)"
  by (simp_all add: enc_message_opt_def)

text \<open>
  The field loop with a bound on its iterations: \<open>None\<close> when the bound is used up before
  the loop has ended.
\<close>

fun iterate :: "(bytes \<Rightarrow> nat \<Rightarrow> 'm \<Rightarrow> proto_error + 'm \<times> nat) \<Rightarrow> nat \<Rightarrow> bytes \<Rightarrow> nat \<Rightarrow> 'm
    \<Rightarrow> (proto_error + 'm) option" where
  "iterate step 0 d i m = None"
| "iterate step (Suc n) d i m =
     (if i < length d then
        (case step d i m of Inl e \<Rightarrow> Some (Inl e) | Inr (m', j) \<Rightarrow> iterate step n d j m')
      else Some (if length d < i then Inl ErrUnexpectedEOF else Inr m))"

locale message_decoder =
  fixes step :: "bytes \<Rightarrow> nat \<Rightarrow> 'm \<Rightarrow> proto_error + 'm \<times> nat"
    and loop :: "bytes \<Rightarrow> nat \<Rightarrow> 'm \<Rightarrow> proto_error + 'm"
    and msg_name :: string
    and known :: "int \<Rightarrow> bool"
  assumes loop_unfold: "loop d i m =
      (if i < length d then bindE (step d i m) (\<lambda>(m', j). loop d j m')
       else if length d < i then Inl ErrUnexpectedEOF else Inr m)"
    and unknown_step: "decodeTag msg_name d i = Inr (num, wt, j) \<Longrightarrow> \<not> known num \<Longrightarrow>
      step d i m = bindE (skipUnknown d i) (\<lambda>k. Inr (m, k))"
begin

lemma loop_bounded:
  assumes "\<And>d i m m' j. step d i m = Inr (m', j) \<Longrightarrow> i < j" and "length d - i < n"
  shows "iterate step n d i m = Some (loop d i m)"
  using assms(2)
proof (induction n arbitrary: i m)
  case 0
  then show ?case by simp
next
  case (Suc n)
  show ?case
  proof (cases "i < length d \<and> (\<exists>r. step d i m = Inr r)")
    case True
    then obtain m' j where st: "i < length d" "step d i m = Inr (m', j)" by auto
    then have "length d - j < n" using assms(1) [OF st(2)] Suc.prems by auto
    then show ?thesis using Suc.IH [of j m'] st by (simp add: loop_unfold [of d i m])
  next
    case False
    then show ?thesis by (cases "step d i m") (auto simp: loop_unfold [of d i m])
  qed
qed

lemma loop_segments:
  assumes "\<And>xs f. (xs, f) \<in> set segs \<Longrightarrow> decodes_as step xs f"
    and "length (p @ concat (map fst segs)) < 2 ^ 63"
  shows "loop (p @ concat (map fst segs)) (length p) m = Inr (fold snd segs m)"
  using assms
proof (induction segs arbitrary: p m)
  case Nil
  then show ?case by (subst loop_unfold) simp
next
  case (Cons seg segs)
  obtain xs f where seg: "seg = (xs, f)" by (cases seg)
  with Cons.prems(1) have d: "decodes_as step xs f" by simp
  let ?d = "p @ xs @ concat (map fst segs)"
  have "step ?d (length p) m = Inr (f m, length (p @ xs))"
    using d Cons.prems(2) seg by (simp add: decodes_as_def)
  moreover have "length p < length ?d" using d by (simp add: decodes_as_def)
  ultimately have "loop ?d (length p) m = loop ?d (length (p @ xs)) (f m)"
    by (subst loop_unfold) simp
  also have "\<dots> = Inr (fold snd segs (f m))"
    using Cons.IH [of "p @ xs" "f m"] Cons.prems seg by simp
  finally show ?case using seg by simp
qed

lemma decode_segments:
  assumes "\<And>xs f. (xs, f) \<in> set segs \<Longrightarrow> decodes_as step xs f"
    and "length (concat (map fst segs)) < 2 ^ 63"
  shows "loop (concat (map fst segs)) 0 m = Inr (fold snd segs m)"
  using loop_segments [of segs "[]" m] assms by simp

lemma unknown_field:
  assumes "wf_field f" and "\<not> known (int (field_num f))"
  shows "decodes_as step (encode_field f) id"
  unfolding decodes_as_def
proof (intro conjI allI impI)
  fix p s :: bytes and m :: 'm
  assume len: "length (p @ encode_field f @ s) < 2 ^ 63"
  obtain wt j where "decodeTag msg_name (p @ encode_field f @ s) (length p)
      = Inr (int (field_num f), wt, j)"
    using decodeTag_encode_field [OF assms(1)] by blast
  with assms skipUnknown_encode_field [OF assms(1) len]
  show "step (p @ encode_field f @ s) (length p) m = Inr (id m, length p + length (encode_field f))"
    by (simp add: unknown_step)
qed simp

end

subsection \<open>Interface of a codec\<close>

text \<open>
  A writer and a decoder that agree: the encoding is a sequence of segments, each
  of which the decoder consumes in one turn, and applying them to the empty message
  rebuilds the message up to \<open>norm\<close> (an empty byte slice is not on the wire, so it
  comes back as nil).
\<close>

locale message_codec =
  message_writer size_of fill enc + message_decoder step loop msg_name known
  for size_of :: "'m \<Rightarrow> nat" and fill and enc
    and step :: "bytes \<Rightarrow> nat \<Rightarrow> 'm \<Rightarrow> proto_error + 'm \<times> nat" and loop and msg_name and known +
  fixes segs :: "'m \<Rightarrow> (bytes \<times> ('m \<Rightarrow> 'm)) list"
    and blank :: 'm
    and merge :: "'m \<Rightarrow> 'm \<Rightarrow> 'm"
    and wf :: "'m \<Rightarrow> bool"
    and norm :: "'m \<Rightarrow> 'm"
  assumes enc_segs: "enc m = concat (map fst (segs m))"
    and segs_decode: "wf m \<Longrightarrow> (xs, f) \<in> set (segs m) \<Longrightarrow> length (enc m) < 2 ^ 63 \<Longrightarrow>
      decodes_as step xs f"
    and segs_merge: "fold snd (segs m) m0 = merge m0 m"
    and merge_blank: "merge blank m = norm m"
begin

lemma unmarshal_merges:
  assumes "wf m" and "length (enc m) < 2 ^ 63"
  shows "loop (enc m) 0 m0 = Inr (merge m0 m)"
proof -
  have "loop (concat (map fst (segs m))) 0 m0 = Inr (fold snd (segs m) m0)"
    by (rule decode_segments) (use assms segs_decode enc_segs in auto)
  then show ?thesis by (simp add: enc_segs segs_merge)
qed

lemma roundtrip:
  assumes "wf m" and "length (enc m) < 2 ^ 63"
  shows "loop (enc m) 0 blank = Inr (norm m)"
  using unmarshal_merges [OF assms] by (simp add: merge_blank)

lemma unmarshal_concat:
  assumes "wf m" and "wf n" and "length (enc m @ enc n) < 2 ^ 63"
  shows "loop (enc m @ enc n) 0 blank = Inr (merge (norm m) n)"
proof -
  have "loop (concat (map fst (segs m @ segs n))) 0 blank = Inr (fold snd (segs m @ segs n) blank)"
    by (rule decode_segments) (use assms segs_decode enc_segs in \<open>auto simp: enc_segs\<close>)
  then show ?thesis by (simp add: enc_segs segs_merge merge_blank)
qed

lemma unmarshal_unknown:
  assumes "wf m" and "list_all (\<lambda>f. wf_field f \<and> \<not> known (int (field_num f))) us"
    and "length (enc m @ concat (map encode_field us)) < 2 ^ 63"
  shows "loop (enc m @ concat (map encode_field us)) 0 blank = Inr (norm m)"
proof -
  let ?us = "map (\<lambda>f. (encode_field f, id)) us"
  have "loop (concat (map fst (segs m @ ?us))) 0 blank = Inr (fold snd (segs m @ ?us) blank)"
    by (rule decode_segments)
       (use assms segs_decode in \<open>auto simp: enc_segs list_all_iff comp_def intro: unknown_field\<close>)
  moreover have "fold snd ?us x = x" for x by (induction us) simp_all
  moreover have "map fst ?us = map encode_field us" by (induction us) simp_all
  ultimately show ?thesis by (simp add: enc_segs segs_merge merge_blank comp_def)
qed

end

end
