(* ===== verification/AccountPB.thy ===== *)
theory AccountPB
  imports Wire
begin

text \<open>
  The messages \<open>AbstractAccount\<close> and \<open>NilPubKey\<close> and their generated codecs,
  \<open>x/abstractaccount/types/account.pb.go\<close>.
\<close>

subsection \<open>AbstractAccount\<close>

record AbstractAccount =
  Address :: string
  AccountNumber :: u64
  Sequence :: u64

definition empty_AbstractAccount :: AbstractAccount where
  "empty_AbstractAccount = \<lparr>Address = [], AccountNumber = 0, Sequence = 0\<rparr>"

definition AbstractAccount_Size :: "AbstractAccount \<Rightarrow> nat" where
  "AbstractAccount_Size m =
     (let l = length (Address m) in if 0 < l then 1 + l + sov (of_nat l) else 0)
   + (if AccountNumber m \<noteq> 0 then 1 + sov (AccountNumber m) else 0)
   + (if Sequence m \<noteq> 0 then 1 + sov (Sequence m) else 0)"

definition AbstractAccount_MarshalToSizedBuffer ::
  "AbstractAccount \<Rightarrow> bytes \<Rightarrow> go_panic + bytes \<times> int" where
  "AbstractAccount_MarshalToSizedBuffer m dAtA =
     bindE (put_varint 0x18 (Sequence m) (dAtA, int (length dAtA))) (\<lambda>b1.
     bindE (put_varint 0x10 (AccountNumber m) b1) (\<lambda>b2.
     bindE (put_bytes 0x0a (string_bytes (Address m)) b2) (\<lambda>(d, i).
     Inr (d, int (length dAtA) - i))))"

definition AbstractAccount_Marshal :: "AbstractAccount \<Rightarrow> go_panic + bytes" where
  "AbstractAccount_Marshal m = marshalWith AbstractAccount_Size AbstractAccount_MarshalToSizedBuffer m"

definition AbstractAccount_MarshalTo :: "AbstractAccount \<Rightarrow> go_slice \<Rightarrow> go_panic + go_slice \<times> int" where
  "AbstractAccount_MarshalTo m dAtA =
     marshalToWith AbstractAccount_Size AbstractAccount_MarshalToSizedBuffer m dAtA"

definition AbstractAccount_step ::
  "bytes \<Rightarrow> nat \<Rightarrow> AbstractAccount \<Rightarrow> proto_error + AbstractAccount \<times> nat" where
  "AbstractAccount_step d preIndex m =
     bindE (decodeTag ''AbstractAccount'' d preIndex) (\<lambda>(fieldNum, wireType, i).
       if fieldNum = 1 then
         read_bytes ''Address'' wireType d i (\<lambda>b. m\<lparr>Address := bytes_string b\<rparr>)
       else if fieldNum = 2 then
         read_varint ''AccountNumber'' wireType d i (\<lambda>v. m\<lparr>AccountNumber := v\<rparr>)
       else if fieldNum = 3 then
         read_varint ''Sequence'' wireType d i (\<lambda>v. m\<lparr>Sequence := v\<rparr>)
       else bindE (skipUnknown d preIndex) (\<lambda>i'. Inr (m, i')))"

lemma AbstractAccount_step_progress: "AbstractAccount_step d i m = Inr (m', j) \<Longrightarrow> i < j"
  by (auto simp: AbstractAccount_step_def bindE_Inr_iff split: if_splits dest!: read_progress)

function AbstractAccount_unmarshal_loop ::
  "bytes \<Rightarrow> nat \<Rightarrow> AbstractAccount \<Rightarrow> proto_error + AbstractAccount" where
  "AbstractAccount_unmarshal_loop d i m =
     (if i < length d
      then bindE (AbstractAccount_step d i m) (\<lambda>(m', j). AbstractAccount_unmarshal_loop d j m')
      else if length d < i then Inl ErrUnexpectedEOF
      else Inr m)"
  by pat_completeness auto
termination
  by (relation "measure (\<lambda>(d, i, m). length d - i)") (auto dest!: AbstractAccount_step_progress)

declare AbstractAccount_unmarshal_loop.simps [simp del]

definition AbstractAccount_Unmarshal :: "AbstractAccount \<Rightarrow> bytes \<Rightarrow> proto_error + AbstractAccount" where
  "AbstractAccount_Unmarshal m dAtA = AbstractAccount_unmarshal_loop dAtA 0 m"

text \<open>The reference encoding of \<open>AbstractAccount\<close>, its segments, and the merge of two messages.\<close>

definition AbstractAccount_enc :: "AbstractAccount \<Rightarrow> bytes" where
  "AbstractAccount_enc m =
     enc_bytes 0x0a (string_bytes (Address m))
   @ enc_varint 0x10 (AccountNumber m)
   @ enc_varint 0x18 (Sequence m)"

definition AbstractAccount_segs :: "AbstractAccount \<Rightarrow> (bytes \<times> (AbstractAccount \<Rightarrow> AbstractAccount)) list" where
  "AbstractAccount_segs m =
     seg (enc_bytes 0x0a (string_bytes (Address m)))
       (\<lambda>x. x\<lparr>Address := Address m\<rparr>)
   @ seg (enc_varint 0x10 (AccountNumber m))
       (\<lambda>x. x\<lparr>AccountNumber := AccountNumber m\<rparr>)
   @ seg (enc_varint 0x18 (Sequence m))
       (\<lambda>x. x\<lparr>Sequence := Sequence m\<rparr>)"

definition AbstractAccount_merge :: "AbstractAccount \<Rightarrow> AbstractAccount \<Rightarrow> AbstractAccount" where
  "AbstractAccount_merge m0 m =
     \<lparr>Address = (if Address m = [] then Address m0 else Address m),
      AccountNumber = (if AccountNumber m = 0 then AccountNumber m0 else AccountNumber m),
      Sequence = (if Sequence m = 0 then Sequence m0 else Sequence m)\<rparr>"

definition AbstractAccount_known :: "int \<Rightarrow> bool" where
  "AbstractAccount_known n \<longleftrightarrow> 1 \<le> n \<and> n \<le> 3"

lemma AbstractAccount_steps [decode_intros]:
  "s \<noteq> [] \<Longrightarrow> decodes_as AbstractAccount_step (enc_bytes 0x0a (string_bytes s)) (\<lambda>x. x\<lparr>Address := s\<rparr>)"
  "v \<noteq> 0 \<Longrightarrow> decodes_as AbstractAccount_step (enc_varint 0x10 v) (\<lambda>x. x\<lparr>AccountNumber := v\<rparr>)"
  "v \<noteq> 0 \<Longrightarrow> decodes_as AbstractAccount_step (enc_varint 0x18 v) (\<lambda>x. x\<lparr>Sequence := v\<rparr>)"
  by ((rule decodes_varint_field decodes_string_field, assumption);
      simp add: AbstractAccount_step_def wire_simps)+

lemma AbstractAccount_parts_small:
  "length (AbstractAccount_enc m) < 2 ^ 63 \<Longrightarrow>
   length (string_bytes (Address m)) < 2 ^ 63"
  using length_enc_bytes_ge [of "string_bytes (Address m)" "0x0a"]
  by (simp add: AbstractAccount_enc_def)

lemma AbstractAccount_size_enc:
  "length (AbstractAccount_enc m) < 2 ^ 63 \<Longrightarrow> AbstractAccount_Size m = length (AbstractAccount_enc m)"
  using AbstractAccount_parts_small [of m]
  by (simp add: AbstractAccount_Size_def AbstractAccount_enc_def size_simps Let_def)

lemma AbstractAccount_fill_enc:
  assumes "length (AbstractAccount_enc m) < 2 ^ 63" and "length (AbstractAccount_enc m) \<le> length d"
  shows "AbstractAccount_MarshalToSizedBuffer m d
    = Inr (take (length d - length (AbstractAccount_enc m)) d @ AbstractAccount_enc m, int (length (AbstractAccount_enc m)))"
proof -
  have "AbstractAccount_MarshalToSizedBuffer m d
    = bindE (Inr (window d (AbstractAccount_enc m))) (\<lambda>(w, i). Inr (w, int (length d) - i))"
    using assms(2) AbstractAccount_parts_small [OF assms(1)]
    by (simp add: AbstractAccount_MarshalToSizedBuffer_def AbstractAccount_enc_def window_start wire_simps)
  then show ?thesis using assms(2) by (simp add: window_def)
qed

interpretation account: message_codec AbstractAccount_Size AbstractAccount_MarshalToSizedBuffer
  AbstractAccount_enc AbstractAccount_step AbstractAccount_unmarshal_loop "''AbstractAccount''"
  AbstractAccount_known AbstractAccount_segs empty_AbstractAccount AbstractAccount_merge
  "\<lambda>_. True" "\<lambda>m. m"
proof (unfold_locales, goal_cases)
  case (3 d i m)
  show ?case by (rule AbstractAccount_unmarshal_loop.simps)
next
  case (4 d i num wt j m)
  then have "num \<noteq> 1" "num \<noteq> 2" "num \<noteq> 3" by (auto simp: AbstractAccount_known_def)
  with 4(1) show ?case by (simp add: AbstractAccount_step_def)
next
  case (6 m xs f)
  then show ?case
    using AbstractAccount_parts_small [of m]
    by (auto simp: AbstractAccount_segs_def wire_simps intro: decode_intros)
next
  case (7 m m0)
  show ?case
    by (cases m0) (auto simp: AbstractAccount_segs_def AbstractAccount_merge_def wire_simps)
next
  case (8 m)
  show ?case
    by (cases m) (simp add: AbstractAccount_merge_def empty_AbstractAccount_def)
qed (simp_all add: AbstractAccount_size_enc AbstractAccount_fill_enc AbstractAccount_enc_def AbstractAccount_segs_def wire_simps)

subsection \<open>NilPubKey\<close>

record NilPubKey =
  AddressBytes :: slice

definition empty_NilPubKey :: NilPubKey where
  "empty_NilPubKey = \<lparr>AddressBytes = None\<rparr>"

definition NilPubKey_Size :: "NilPubKey \<Rightarrow> nat" where
  "NilPubKey_Size m =
     (let l = length (slice_bytes (AddressBytes m)) in if 0 < l then 1 + l + sov (of_nat l) else 0)"

definition NilPubKey_MarshalToSizedBuffer ::
  "NilPubKey \<Rightarrow> bytes \<Rightarrow> go_panic + bytes \<times> int" where
  "NilPubKey_MarshalToSizedBuffer m dAtA =
     bindE (put_bytes 0x0a (slice_bytes (AddressBytes m)) (dAtA, int (length dAtA))) (\<lambda>(d, i).
     Inr (d, int (length dAtA) - i))"

definition NilPubKey_Marshal :: "NilPubKey \<Rightarrow> go_panic + bytes" where
  "NilPubKey_Marshal m = marshalWith NilPubKey_Size NilPubKey_MarshalToSizedBuffer m"

definition NilPubKey_MarshalTo :: "NilPubKey \<Rightarrow> go_slice \<Rightarrow> go_panic + go_slice \<times> int" where
  "NilPubKey_MarshalTo m dAtA =
     marshalToWith NilPubKey_Size NilPubKey_MarshalToSizedBuffer m dAtA"

definition NilPubKey_step ::
  "bytes \<Rightarrow> nat \<Rightarrow> NilPubKey \<Rightarrow> proto_error + NilPubKey \<times> nat" where
  "NilPubKey_step d preIndex m =
     bindE (decodeTag ''NilPubKey'' d preIndex) (\<lambda>(fieldNum, wireType, i).
       if fieldNum = 1 then
         read_bytes ''AddressBytes'' wireType d i (\<lambda>b. m\<lparr>AddressBytes := Some b\<rparr>)
       else bindE (skipUnknown d preIndex) (\<lambda>i'. Inr (m, i')))"

lemma NilPubKey_step_progress: "NilPubKey_step d i m = Inr (m', j) \<Longrightarrow> i < j"
  by (auto simp: NilPubKey_step_def bindE_Inr_iff split: if_splits dest!: read_progress)

function NilPubKey_unmarshal_loop ::
  "bytes \<Rightarrow> nat \<Rightarrow> NilPubKey \<Rightarrow> proto_error + NilPubKey" where
  "NilPubKey_unmarshal_loop d i m =
     (if i < length d
      then bindE (NilPubKey_step d i m) (\<lambda>(m', j). NilPubKey_unmarshal_loop d j m')
      else if length d < i then Inl ErrUnexpectedEOF
      else Inr m)"
  by pat_completeness auto
termination
  by (relation "measure (\<lambda>(d, i, m). length d - i)") (auto dest!: NilPubKey_step_progress)

declare NilPubKey_unmarshal_loop.simps [simp del]

definition NilPubKey_Unmarshal :: "NilPubKey \<Rightarrow> bytes \<Rightarrow> proto_error + NilPubKey" where
  "NilPubKey_Unmarshal m dAtA = NilPubKey_unmarshal_loop dAtA 0 m"

text \<open>The reference encoding of \<open>NilPubKey\<close>, its segments, and the merge of two messages.\<close>

definition NilPubKey_enc :: "NilPubKey \<Rightarrow> bytes" where
  "NilPubKey_enc m =
     enc_bytes 0x0a (slice_bytes (AddressBytes m))"

definition NilPubKey_segs :: "NilPubKey \<Rightarrow> (bytes \<times> (NilPubKey \<Rightarrow> NilPubKey)) list" where
  "NilPubKey_segs m =
     seg (enc_bytes 0x0a (slice_bytes (AddressBytes m)))
       (\<lambda>x. x\<lparr>AddressBytes := Some (slice_bytes (AddressBytes m))\<rparr>)"

definition NilPubKey_merge :: "NilPubKey \<Rightarrow> NilPubKey \<Rightarrow> NilPubKey" where
  "NilPubKey_merge m0 m =
     \<lparr>AddressBytes = (if slice_bytes (AddressBytes m) = [] then AddressBytes m0 else AddressBytes m)\<rparr>"

definition NilPubKey_norm :: "NilPubKey \<Rightarrow> NilPubKey" where
  "NilPubKey_norm m = m\<lparr>AddressBytes := norm_slice (AddressBytes m)\<rparr>"

definition NilPubKey_known :: "int \<Rightarrow> bool" where
  "NilPubKey_known n \<longleftrightarrow> 1 \<le> n \<and> n \<le> 1"

lemma NilPubKey_steps [decode_intros]:
  "b \<noteq> [] \<Longrightarrow> decodes_as NilPubKey_step (enc_bytes 0x0a b) (\<lambda>x. x\<lparr>AddressBytes := Some b\<rparr>)"
  by ((rule decodes_bytes_field, assumption);
      simp add: NilPubKey_step_def wire_simps)+

lemma NilPubKey_parts_small:
  "length (NilPubKey_enc m) < 2 ^ 63 \<Longrightarrow>
   length (slice_bytes (AddressBytes m)) < 2 ^ 63"
  using length_enc_bytes_ge [of "slice_bytes (AddressBytes m)" "0x0a"]
  by (simp add: NilPubKey_enc_def)

lemma NilPubKey_size_enc:
  "length (NilPubKey_enc m) < 2 ^ 63 \<Longrightarrow> NilPubKey_Size m = length (NilPubKey_enc m)"
  using NilPubKey_parts_small [of m]
  by (simp add: NilPubKey_Size_def NilPubKey_enc_def size_simps Let_def)

lemma NilPubKey_fill_enc:
  assumes "length (NilPubKey_enc m) < 2 ^ 63" and "length (NilPubKey_enc m) \<le> length d"
  shows "NilPubKey_MarshalToSizedBuffer m d
    = Inr (take (length d - length (NilPubKey_enc m)) d @ NilPubKey_enc m, int (length (NilPubKey_enc m)))"
proof -
  have "NilPubKey_MarshalToSizedBuffer m d
    = bindE (Inr (window d (NilPubKey_enc m))) (\<lambda>(w, i). Inr (w, int (length d) - i))"
    using assms(2) NilPubKey_parts_small [OF assms(1)]
    by (simp add: NilPubKey_MarshalToSizedBuffer_def NilPubKey_enc_def window_start wire_simps)
  then show ?thesis using assms(2) by (simp add: window_def)
qed

interpretation nilpubkey: message_codec NilPubKey_Size NilPubKey_MarshalToSizedBuffer
  NilPubKey_enc NilPubKey_step NilPubKey_unmarshal_loop "''NilPubKey''"
  NilPubKey_known NilPubKey_segs empty_NilPubKey NilPubKey_merge
  "\<lambda>_. True" "NilPubKey_norm"
proof (unfold_locales, goal_cases)
  case (3 d i m)
  show ?case by (rule NilPubKey_unmarshal_loop.simps)
next
  case (4 d i num wt j m)
  then have "num \<noteq> 1" by (auto simp: NilPubKey_known_def)
  with 4(1) show ?case by (simp add: NilPubKey_step_def)
next
  case (6 m xs f)
  then show ?case
    using NilPubKey_parts_small [of m]
    by (auto simp: NilPubKey_segs_def wire_simps intro: decode_intros)
next
  case (7 m m0)
  show ?case
    by (cases m0) (auto simp: NilPubKey_segs_def NilPubKey_merge_def wire_simps slice_bytes_eq)
next
  case (8 m)
  show ?case
    by (cases m) (simp add: NilPubKey_merge_def empty_NilPubKey_def NilPubKey_norm_def norm_slice_def2)
qed (simp_all add: NilPubKey_size_enc NilPubKey_fill_enc NilPubKey_enc_def NilPubKey_segs_def wire_simps)

text \<open>The getter, on a possibly nil \<open>*NilPubKey\<close>.\<close>

definition GetAddressBytes :: "NilPubKey option \<Rightarrow> slice" where
  "GetAddressBytes m = (case m of Some k \<Rightarrow> AddressBytes k | None \<Rightarrow> None)"

end
