(* ===== verification/ParamsPB.thy ===== *)
theory ParamsPB
  imports Wire
begin

text \<open>
  The message \<open>Params\<close> and its generated codec,
  \<open>x/abstractaccount/types/params.pb.go\<close>: \<open>Size\<close>, \<open>MarshalToSizedBuffer\<close> (with the
  packed encoding of the allow list), \<open>Marshal\<close>, \<open>MarshalTo\<close> and \<open>Unmarshal\<close>; the
  reference encoding; and the proof that they form a codec.
\<close>

record Params =
  AllowAllCodeIDs :: bool
  AllowedCodeIDs :: "u64 list"
  MaxGasBefore :: u64
  MaxGasAfter :: u64

definition empty_Params :: Params where
  "empty_Params = \<lparr>AllowAllCodeIDs = False, AllowedCodeIDs = [], MaxGasBefore = 0, MaxGasAfter = 0\<rparr>"

text \<open>The getters of the generated code, on a possibly nil \<open>*Params\<close>.\<close>

definition GetAllowAllCodeIDs :: "Params option \<Rightarrow> bool" where
  "GetAllowAllCodeIDs m = (case m of Some p \<Rightarrow> AllowAllCodeIDs p | None \<Rightarrow> False)"

definition GetAllowedCodeIDs :: "Params option \<Rightarrow> u64 list" where
  "GetAllowedCodeIDs m = (case m of Some p \<Rightarrow> AllowedCodeIDs p | None \<Rightarrow> [])"

definition GetMaxGasBefore :: "Params option \<Rightarrow> u64" where
  "GetMaxGasBefore m = (case m of Some p \<Rightarrow> MaxGasBefore p | None \<Rightarrow> 0)"

definition GetMaxGasAfter :: "Params option \<Rightarrow> u64" where
  "GetMaxGasAfter m = (case m of Some p \<Rightarrow> MaxGasAfter p | None \<Rightarrow> 0)"

subsection \<open>Size\<close>

definition Params_Size :: "Params \<Rightarrow> nat" where
  "Params_Size m =
     (if AllowAllCodeIDs m then 2 else 0)
   + (if 0 < length (AllowedCodeIDs m)
      then let l = sum_list (map sov (AllowedCodeIDs m)) in 1 + sov (of_nat l) + l else 0)
   + (if MaxGasBefore m \<noteq> 0 then 1 + sov (MaxGasBefore m) else 0)
   + (if MaxGasAfter m \<noteq> 0 then 1 + sov (MaxGasAfter m) else 0)"

subsection \<open>Marshal\<close>

text \<open>
  The packed list is first written forwards into a scratch buffer \<open>dAtA2\<close> of ten bytes
  per element, at index \<open>j1\<close>.
\<close>

function pack_varint :: "bytes \<Rightarrow> int \<Rightarrow> u64 \<Rightarrow> go_panic + bytes \<times> int" where
  "pack_varint d j num =
     (if 2 ^ 7 \<le> num
      then bindE (store_byte d j (ucast (num AND 0x7F OR 0x80)))
             (\<lambda>d'. pack_varint d' (j + 1) (drop_bit 7 num))
      else bindE (store_byte d j (ucast num)) (\<lambda>d'. Inr (d', j + 1)))"
  by pat_completeness auto
termination
proof (relation "measure (\<lambda>(d, j, num). unat num)")
  show "wf (measure (\<lambda>(d :: bytes, j :: int, num :: u64). unat num))" by simp
  fix d :: bytes and j :: int and num :: u64 and d' :: bytes
  assume "2 ^ 7 \<le> num"
  then have "128 \<le> unat num" by (simp add: word_ge_128_iff)
  then show "((d', j + 1, drop_bit 7 num), d, j, num) \<in> measure (\<lambda>(d, j, num). unat num)"
    by (simp add: unat_drop_bit_7)
qed

declare pack_varint.simps [simp del]

fun pack_all :: "bytes \<Rightarrow> int \<Rightarrow> u64 list \<Rightarrow> go_panic + bytes \<times> int" where
  "pack_all d j [] = Inr (d, j)"
| "pack_all d j (num # nums) = bindE (pack_varint d j num) (\<lambda>(d', j'). pack_all d' j' nums)"

definition write_packed :: "u64 list \<Rightarrow> buf \<Rightarrow> go_panic + buf" where
  "write_packed nums b =
     bindE (pack_all (replicate (length nums * 10) 0) 0 nums) (\<lambda>(dAtA2, j1).
       bindE (slice_to dAtA2 j1) (\<lambda>packed.
         bindE (prepend_bytes packed b) (\<lambda>b1. encodeVarint b1 (of_int j1))))"

definition put_packed :: "byte \<Rightarrow> u64 list \<Rightarrow> buf \<Rightarrow> go_panic + buf" where
  "put_packed tag ids b =
     (if 0 < length ids then bindE (write_packed ids b) (prepend_byte tag) else Inr b)"

definition put_bool :: "byte \<Rightarrow> bool \<Rightarrow> buf \<Rightarrow> go_panic + buf" where
  "put_bool tag v b =
     (if v then bindE (prepend_byte (if v then 1 else 0) b) (prepend_byte tag) else Inr b)"

definition Params_MarshalToSizedBuffer :: "Params \<Rightarrow> bytes \<Rightarrow> go_panic + bytes \<times> int" where
  "Params_MarshalToSizedBuffer m dAtA =
     bindE (put_varint 0x20 (MaxGasAfter m) (dAtA, int (length dAtA))) (\<lambda>b1.
     bindE (put_varint 0x18 (MaxGasBefore m) b1) (\<lambda>b2.
     bindE (put_packed 0x12 (AllowedCodeIDs m) b2) (\<lambda>b3.
     bindE (put_bool 0x08 (AllowAllCodeIDs m) b3) (\<lambda>(d, i).
     Inr (d, int (length dAtA) - i)))))"

definition Params_Marshal :: "Params \<Rightarrow> go_panic + bytes" where
  "Params_Marshal m = marshalWith Params_Size Params_MarshalToSizedBuffer m"

definition Params_MarshalTo :: "Params \<Rightarrow> go_slice \<Rightarrow> go_panic + go_slice \<times> int" where
  "Params_MarshalTo m dAtA = marshalToWith Params_Size Params_MarshalToSizedBuffer m dAtA"

subsection \<open>Unmarshal\<close>

text \<open>
  The elements of a packed list are read until the index reaches \<open>postIndex\<close>.  Each
  element is checked against the end of the buffer, not against \<open>postIndex\<close>.
\<close>

function decodePacked :: "bytes \<Rightarrow> nat \<Rightarrow> nat \<Rightarrow> u64 list \<Rightarrow> proto_error + u64 list \<times> nat" where
  "decodePacked d i postIndex acc =
     (if i < postIndex
      then bindE (decodeVarint d i 0 0) (\<lambda>(v, i'). decodePacked d i' postIndex (acc @ [v]))
      else Inr (acc, i))"
  by pat_completeness auto
termination
  by (relation "measure (\<lambda>(d, i, postIndex, acc). postIndex - i)")
     (auto dest!: decodeVarint_progress)

declare decodePacked.simps [simp del]

definition Params_step :: "bytes \<Rightarrow> nat \<Rightarrow> Params \<Rightarrow> proto_error + Params \<times> nat" where
  "Params_step d preIndex m =
     bindE (decodeTag ''Params'' d preIndex) (\<lambda>(fieldNum, wireType, i).
       if fieldNum = 1 then
         if wireType \<noteq> 0 then Inl (WrongWireType wireType ''AllowAllCodeIDs'')
         else bindE (decodeVarint d i 0 0) (\<lambda>(v, i'). Inr (m\<lparr>AllowAllCodeIDs := v \<noteq> 0\<rparr>, i'))
       else if fieldNum = 2 then
         if wireType = 0 then
           bindE (decodeVarint d i 0 0) (\<lambda>(v, i').
             Inr (m\<lparr>AllowedCodeIDs := AllowedCodeIDs m @ [v]\<rparr>, i'))
         else if wireType = 2 then
           bindE (decodeLen d i) (\<lambda>(i', postIndex).
             bindE (decodePacked d i' postIndex (AllowedCodeIDs m)) (\<lambda>(ids, i'').
               Inr (m\<lparr>AllowedCodeIDs := ids\<rparr>, i'')))
         else Inl (WrongWireType wireType ''AllowedCodeIDs'')
       else if fieldNum = 3 then
         if wireType \<noteq> 0 then Inl (WrongWireType wireType ''MaxGasBefore'')
         else bindE (decodeVarint d i 0 0) (\<lambda>(v, i'). Inr (m\<lparr>MaxGasBefore := v\<rparr>, i'))
       else if fieldNum = 4 then
         if wireType \<noteq> 0 then Inl (WrongWireType wireType ''MaxGasAfter'')
         else bindE (decodeVarint d i 0 0) (\<lambda>(v, i'). Inr (m\<lparr>MaxGasAfter := v\<rparr>, i'))
       else bindE (skipUnknown d preIndex) (\<lambda>i'. Inr (m, i')))"

lemma decodePacked_progress: "decodePacked d i post acc = Inr (ids, j) \<Longrightarrow> i \<le> j"
proof (induction d i post acc rule: decodePacked.induct)
  case (1 d i post acc)
  show ?case
  proof (cases "i < post")
    case True
    with "1.prems" obtain v k where dv: "decodeVarint d i 0 0 = Inr (v, k)"
      and rest: "decodePacked d k post (acc @ [v]) = Inr (ids, j)"
      by (subst (asm) decodePacked.simps) (auto simp: bindE_Inr_iff)
    from "1.IH" [OF True dv refl rest] dv show ?thesis
      by (auto dest: decodeVarint_progress)
  next
    case False
    with "1.prems" show ?thesis by (subst (asm) decodePacked.simps) simp
  qed
qed

lemma Params_step_progress: "Params_step d i m = Inr (m', j) \<Longrightarrow> i < j"
  by (auto simp: Params_step_def bindE_Inr_iff split: if_splits prod.splits
      dest!: decodeTag_progress decodeVarint_progress decodeLen_progress decodePacked_progress
        skipUnknown_progress)

function Params_unmarshal_loop :: "bytes \<Rightarrow> nat \<Rightarrow> Params \<Rightarrow> proto_error + Params" where
  "Params_unmarshal_loop d i m =
     (if i < length d
      then bindE (Params_step d i m) (\<lambda>(m', j). Params_unmarshal_loop d j m')
      else if length d < i then Inl ErrUnexpectedEOF
      else Inr m)"
  by pat_completeness auto
termination
  by (relation "measure (\<lambda>(d, i, m). length d - i)") (auto dest!: Params_step_progress)

declare Params_unmarshal_loop.simps [simp del]

definition Params_Unmarshal :: "Params \<Rightarrow> bytes \<Rightarrow> proto_error + Params" where
  "Params_Unmarshal m dAtA = Params_unmarshal_loop dAtA 0 m"

subsection \<open>The reference encoding\<close>

definition packed :: "u64 list \<Rightarrow> bytes" where
  "packed ids = concat (map (\<lambda>v. varint (unat v)) ids)"

definition enc_packed :: "byte \<Rightarrow> u64 list \<Rightarrow> bytes" where
  "enc_packed tag ids =
     (if 0 < length ids then tag # varint (length (packed ids)) @ packed ids else [])"

definition enc_bool :: "byte \<Rightarrow> bool \<Rightarrow> bytes" where
  "enc_bool tag b = (if b then [tag, 1] else [])"

definition Params_enc :: "Params \<Rightarrow> bytes" where
  "Params_enc m = enc_bool 0x08 (AllowAllCodeIDs m) @ enc_packed 0x12 (AllowedCodeIDs m)
     @ enc_varint 0x18 (MaxGasBefore m) @ enc_varint 0x20 (MaxGasAfter m)"

definition Params_segs :: "Params \<Rightarrow> (bytes \<times> (Params \<Rightarrow> Params)) list" where
  "Params_segs m =
     seg (enc_bool 0x08 (AllowAllCodeIDs m)) (\<lambda>x. x\<lparr>AllowAllCodeIDs := True\<rparr>)
   @ seg (enc_packed 0x12 (AllowedCodeIDs m))
       (\<lambda>x. x\<lparr>AllowedCodeIDs := AllowedCodeIDs x @ AllowedCodeIDs m\<rparr>)
   @ seg (enc_varint 0x18 (MaxGasBefore m)) (\<lambda>x. x\<lparr>MaxGasBefore := MaxGasBefore m\<rparr>)
   @ seg (enc_varint 0x20 (MaxGasAfter m)) (\<lambda>x. x\<lparr>MaxGasAfter := MaxGasAfter m\<rparr>)"

text \<open>
  What decoding a second encoding into an existing message does: scalars present in
  the second replace, the repeated field is appended.
\<close>

definition Params_merge :: "Params \<Rightarrow> Params \<Rightarrow> Params" where
  "Params_merge m0 m =
     \<lparr>AllowAllCodeIDs = AllowAllCodeIDs m0 \<or> AllowAllCodeIDs m,
      AllowedCodeIDs = AllowedCodeIDs m0 @ AllowedCodeIDs m,
      MaxGasBefore = (if MaxGasBefore m = 0 then MaxGasBefore m0 else MaxGasBefore m),
      MaxGasAfter = (if MaxGasAfter m = 0 then MaxGasAfter m0 else MaxGasAfter m)\<rparr>"

subsection \<open>The writer fills exactly the encoding\<close>

lemma length_packed: "length (packed ids) = sum_list (map sov ids)"
  by (induction ids) (simp_all add: packed_def length_varint)

lemma length_packed_le: "length (packed ids) \<le> length ids * 10"
  unfolding length_packed by (induction ids) (use sov_le_10 in \<open>auto intro: add_mono\<close>)

lemma pack_varint_eq:
  "pack_varint d j v = bindE (encodeVarint_loop d j v) (\<lambda>d'. Inr (d', j + int (sov v)))"
proof (induction d j v rule: pack_varint.induct)
  case (1 d j v)
  have "sov v = Suc (sov (drop_bit 7 v))" if "2 ^ 7 \<le> v"
    using that length_varint [of v] length_varint [of "drop_bit 7 v"]
    by (simp add: varint.simps [of "unat v"] word_ge_128_iff unat_drop_bit_7)
  moreover have "sov v = 1" if "\<not> 2 ^ 7 \<le> v"
    using that length_varint [of v] by (simp add: varint.simps [of "unat v"] word_ge_128_iff)
  ultimately show ?case
    using 1
    by (subst pack_varint.simps, subst encodeVarint_loop.simps)
       (auto simp: bindE_assoc intro!: bindE_cong split: if_splits)
qed

lemma pack_all_packed:
  "length (packed nums) \<le> length q \<Longrightarrow>
   pack_all (p @ q) (int (length p)) nums
     = Inr (p @ packed nums @ drop (length (packed nums)) q, int (length (p @ packed nums)))"
proof (induction nums arbitrary: p q)
  case Nil
  then show ?case by (simp add: packed_def)
next
  case (Cons v nums)
  let ?v = "varint (unat v)"
  have c: "packed (v # nums) = ?v @ packed nums" by (simp add: packed_def)
  let ?q = "drop (length ?v) q"
  have "q = take (length ?v) q @ ?q" by simp
  moreover have "length (take (length ?v) q) = length ?v" using Cons.prems c by simp
  ultimately have "encodeVarint_loop (p @ q) (int (length p)) v = Inr ((p @ ?v) @ ?q)"
    by (metis append.assoc encodeVarint_loop_mid)
  then have "pack_varint (p @ q) (int (length p)) v = Inr ((p @ ?v) @ ?q, int (length (p @ ?v)))"
    by (simp add: pack_varint_eq length_varint)
  then show ?case
    using Cons.IH [of ?q "p @ ?v"] Cons.prems c by (simp add: add.commute)
qed

lemma write_packed_window:
  assumes "length (varint (length (packed ids)) @ packed ids @ xs) \<le> length p"
    and "length (packed ids) < 2 ^ 63"
  shows "write_packed ids (window p xs)
    = Inr (window p (varint (length (packed ids)) @ packed ids @ xs))"
proof -
  let ?k = "length (packed ids)"
  have "unat (of_int (int ?k) :: u64) = ?k"
    using assms(2) by (simp only: of_int_of_nat_eq unat_of_nat) simp
  then have "encodeVarint (window p (packed ids @ xs)) (of_int (int ?k))
      = Inr (window p (varint ?k @ packed ids @ xs))"
    using encodeVarint_window [of "of_int (int ?k)" "packed ids @ xs" p] assms(1) by simp
  moreover have "pack_all (replicate (length ids * 10) 0) 0 ids
      = Inr (packed ids @ drop ?k (replicate (length ids * 10) 0), int ?k)"
    using pack_all_packed [of ids "replicate (length ids * 10) 0" "[]"] length_packed_le [of ids]
    by simp
  ultimately show ?thesis
    using assms(1) length_packed_le [of ids]
    by (simp add: write_packed_def slice_to_def prepend_bytes_window)
qed

lemma length_enc_packed:
  "length (packed ids) < 2 ^ 63 \<Longrightarrow>
   length (enc_packed tag ids) = (if 0 < length ids
     then 1 + sov (of_nat (length (packed ids))) + length (packed ids) else 0)"
  by (simp add: enc_packed_def sov_of_nat)

lemma packed_Nil [simp]: "packed [] = []"
  by (simp add: packed_def)

lemma enc_packed_Nil [simp]: "enc_packed tag ids = [] \<longleftrightarrow> ids = []"
  by (simp add: enc_packed_def)

lemma enc_packed_empty [simp]: "enc_packed tag [] = []"
  by (simp add: enc_packed_def)

lemma enc_bool_Nil [simp]: "enc_bool tag b = [] \<longleftrightarrow> \<not> b"
  by (simp add: enc_bool_def)

lemma put_packed_window [wire_simps]:
  "length (enc_packed tag ids @ xs) \<le> length p \<Longrightarrow> length (packed ids) < 2 ^ 63 \<Longrightarrow>
   put_packed tag ids (window p xs) = Inr (window p (enc_packed tag ids @ xs))"
  by (cases "ids = []") (simp_all add: put_packed_def enc_packed_def write_packed_window write_window)

lemma put_bool_window [wire_simps]:
  "length (enc_bool tag v @ xs) \<le> length p \<Longrightarrow>
   put_bool tag v (window p xs) = Inr (window p (enc_bool tag v @ xs))"
  by (cases v) (simp_all add: put_bool_def enc_bool_def write_window)

lemma length_packed_enc: "length (packed (AllowedCodeIDs m)) \<le> length (Params_enc m)"
  by (cases "AllowedCodeIDs m = []") (simp_all add: Params_enc_def enc_packed_def)

lemma Params_size_enc:
  assumes "length (Params_enc m) < 2 ^ 63"
  shows "Params_Size m = length (Params_enc m)"
proof -
  have "length (packed (AllowedCodeIDs m)) < 2 ^ 63" using assms length_packed_enc [of m] by simp
  then have "length (enc_packed 0x12 (AllowedCodeIDs m)) = (if 0 < length (AllowedCodeIDs m)
      then let l = sum_list (map sov (AllowedCodeIDs m)) in 1 + sov (of_nat l) + l else 0)"
    by (simp add: length_enc_packed length_packed Let_def)
  moreover have "length (enc_bool 0x08 (AllowAllCodeIDs m)) = (if AllowAllCodeIDs m then 2 else 0)"
    by (simp add: enc_bool_def)
  ultimately show ?thesis
    by (simp only: Params_Size_def Params_enc_def length_append length_enc_varint add.assoc)
qed

lemma Params_fill_enc:
  assumes "length (Params_enc m) < 2 ^ 63" and "length (Params_enc m) \<le> length d"
  shows "Params_MarshalToSizedBuffer m d
    = Inr (take (length d - length (Params_enc m)) d @ Params_enc m, int (length (Params_enc m)))"
proof -
  have pk: "length (packed (AllowedCodeIDs m)) < 2 ^ 63"
    using assms(1) length_packed_enc [of m] by simp
  have "Params_MarshalToSizedBuffer m d
    = bindE (Inr (window d (Params_enc m))) (\<lambda>(w, i). Inr (w, int (length d) - i))"
    using assms(2) pk
    by (simp add: Params_MarshalToSizedBuffer_def Params_enc_def window_start wire_simps)
  then show ?thesis using assms(2) by (simp add: window_def)
qed

subsection \<open>The decoder reads the encoding back\<close>

lemma decodePacked_packed:
  "decodePacked (p @ packed ids @ s) (length p) (length p + length (packed ids)) acc
    = Inr (acc @ ids, length p + length (packed ids))"
proof (induction ids arbitrary: p acc)
  case Nil
  then show ?case by (subst decodePacked.simps) simp
next
  case (Cons v ids)
  have c: "packed (v # ids) = varint (unat v) @ packed ids" by (simp add: packed_def)
  then show ?case
    using decodeVarint_word [of p v "packed ids @ s"] Cons.IH [of "p @ varint (unat v)" "acc @ [v]"]
    by (subst decodePacked.simps) (simp add: add.assoc)
qed

lemma decodePacked_after_tag:
  "decodePacked (p @ tag # q @ packed ids @ s) (Suc (length p + length q))
     (Suc (length p + length q + length (packed ids))) acc
    = Inr (acc @ ids, Suc (length p + length q + length (packed ids)))"
  using decodePacked_packed [of "p @ tag # q" ids s acc] by simp

lemma Params_step_all:
  "v \<Longrightarrow> decodes_as Params_step (enc_bool 0x08 v) (\<lambda>x. x\<lparr>AllowAllCodeIDs := True\<rparr>)"
proof (rule decodes_asI)
  fix p s :: bytes and m :: Params
  have "decodeVarint (p @ 0x08 # 1 # s) (Suc (length p)) 0 0 = Inr (1, Suc (Suc (length p)))"
    using decodeVarint_after_tag [of p "0x08" 1 s] by (simp add: varint_small)
  moreover assume v
  ultimately show "Params_step (p @ enc_bool 0x08 v @ s) (length p) m
      = Inr (m\<lparr>AllowAllCodeIDs := True\<rparr>, length p + length (enc_bool 0x08 v))"
    by (simp add: Params_step_def enc_bool_def wire_simps)
qed simp

lemma Params_step_ids:
  assumes "ids \<noteq> []"
  shows "decodes_as Params_step (enc_packed 0x12 ids)
    (\<lambda>x. x\<lparr>AllowedCodeIDs := AllowedCodeIDs x @ ids\<rparr>)"
proof (rule decodes_asI)
  fix p s :: bytes and m :: Params
  assume "length p + length (enc_packed 0x12 ids) + length s < 2 ^ 63"
  then show "Params_step (p @ enc_packed 0x12 ids @ s) (length p) m
      = Inr (m\<lparr>AllowedCodeIDs := AllowedCodeIDs m @ ids\<rparr>, length p + length (enc_packed 0x12 ids))"
    using assms
    by (simp add: Params_step_def enc_packed_def wire_simps decodePacked_after_tag)
qed (use assms in \<open>simp add: enc_packed_def\<close>)

lemma Params_step_before:
  "v \<noteq> 0 \<Longrightarrow> decodes_as Params_step (enc_varint 0x18 v) (\<lambda>x. x\<lparr>MaxGasBefore := v\<rparr>)"
  by (rule decodes_asI) (simp_all add: Params_step_def enc_varint_def wire_simps)

lemma Params_step_after:
  "v \<noteq> 0 \<Longrightarrow> decodes_as Params_step (enc_varint 0x20 v) (\<lambda>x. x\<lparr>MaxGasAfter := v\<rparr>)"
  by (rule decodes_asI) (simp_all add: Params_step_def enc_varint_def wire_simps)

lemmas Params_steps [decode_intros] =
  Params_step_all Params_step_ids Params_step_before Params_step_after

definition Params_known :: "int \<Rightarrow> bool" where
  "Params_known n \<longleftrightarrow> 1 \<le> n \<and> n \<le> 4"

interpretation params: message_codec Params_Size Params_MarshalToSizedBuffer Params_enc
  Params_step Params_unmarshal_loop "''Params''" Params_known
  Params_segs empty_Params Params_merge "\<lambda>_. True" "\<lambda>m. m"
proof unfold_locales
  fix m :: Params and d :: bytes
  show "length (Params_enc m) < 2 ^ 63 \<Longrightarrow> Params_Size m = length (Params_enc m)"
    by (rule Params_size_enc)
  show "length (Params_enc m) < 2 ^ 63 \<Longrightarrow> length (Params_enc m) \<le> length d \<Longrightarrow>
    Params_MarshalToSizedBuffer m d
      = Inr (take (length d - length (Params_enc m)) d @ Params_enc m, int (length (Params_enc m)))"
    by (rule Params_fill_enc)
next
  fix d :: bytes and i :: nat and m :: Params
  show "Params_unmarshal_loop d i m =
    (if i < length d then bindE (Params_step d i m) (\<lambda>(m', j). Params_unmarshal_loop d j m')
     else if length d < i then Inl ErrUnexpectedEOF else Inr m)"
    by (rule Params_unmarshal_loop.simps)
next
  fix d :: bytes and i num wt j and m :: Params
  assume "decodeTag ''Params'' d i = Inr (num, wt, j)" and "\<not> Params_known num"
  moreover from this have "num \<noteq> 1" "num \<noteq> 2" "num \<noteq> 3" "num \<noteq> 4"
    by (auto simp: Params_known_def)
  ultimately show "Params_step d i m = bindE (skipUnknown d i) (\<lambda>k. Inr (m, k))"
    by (simp add: Params_step_def)
next
  fix m m0 :: Params and xs f
  show "Params_enc m = concat (map fst (Params_segs m))"
    by (simp add: Params_enc_def Params_segs_def wire_simps)
  show "decodes_as Params_step xs f" if "(xs, f) \<in> set (Params_segs m)"
    using that by (auto simp: Params_segs_def wire_simps intro: decode_intros)
  show "fold snd (Params_segs m) m0 = Params_merge m0 m"
    by (cases m0) (auto simp: Params_segs_def Params_merge_def wire_simps)
  show "Params_merge empty_Params m = m"
    by (cases m) (simp add: Params_merge_def empty_Params_def)
qed

subsection \<open>Params inside other messages\<close>

text \<open>
  A field \<open>Params *Params\<close>: decoding it again merges into the message already there.
\<close>

definition merge_Params_opt :: "Params option \<Rightarrow> Params option \<Rightarrow> Params option" where
  "merge_Params_opt m0 m =
     (case m of None \<Rightarrow> m0
      | Some p \<Rightarrow> Some (Params_merge (case m0 of None \<Rightarrow> empty_Params | Some q \<Rightarrow> q) p))"

lemma Params_merge_empty [simp]: "Params_merge empty_Params p = p"
  by (rule params.merge_blank)

lemma merge_Params_opt_simps:
  "merge_Params_opt m0 None = m0"
  "merge_Params_opt None m = m"
  by (simp_all add: merge_Params_opt_def split: option.split)

lemmas put_Params_window [wire_simps] = params.put_message_opt_window

subsection \<open>Properties\<close>

lemma length_Params_enc_bound:
  "length (AllowedCodeIDs p) < 2 ^ 59 \<Longrightarrow> length (Params_enc p) < 35 + 10 * 2 ^ 59"
proof -
  assume a: "length (AllowedCodeIDs p) < 2 ^ 59"
  have "length (packed (AllowedCodeIDs p)) \<le> length (AllowedCodeIDs p) * 10"
    by (rule length_packed_le)
  with a have b: "length (packed (AllowedCodeIDs p)) < 10 * 2 ^ 59" by simp
  then have "length (varint (length (packed (AllowedCodeIDs p)))) \<le> 10"
    by (intro length_varint_le_10) simp
  with b have "length (enc_packed 0x12 (AllowedCodeIDs p)) < 11 + 10 * 2 ^ 59"
    by (simp add: enc_packed_def)
  moreover have "length (enc_bool 0x08 (AllowAllCodeIDs p)) \<le> 2" by (simp add: enc_bool_def)
  moreover have "length (enc_varint t v) \<le> 11" for t v
    using sov_le_10 [of v] by (simp add: length_enc_varint)
  ultimately show ?thesis
    using add_mono [of "length (enc_varint 0x18 (MaxGasBefore p))" 11
        "length (enc_varint 0x20 (MaxGasAfter p))" 11]
    by (simp add: Params_enc_def)
qed

lemma length_Params_enc: "length (AllowedCodeIDs p) < 2 ^ 59 \<Longrightarrow> length (Params_enc p) < 2 ^ 63"
  using length_Params_enc_bound [of p] by simp

text \<open>C33: Encoding and decoding the parameters are inverse: for every parameter value whose
  allow list fits in memory, \<open>Marshal\<close> succeeds without a panic, writes exactly \<open>Size\<close>
  bytes, and \<open>Unmarshal\<close> of those bytes into an empty message gives the value back.\<close>

theorem params_codec_roundtrip:
  assumes "length (AllowedCodeIDs p) < 2 ^ 59"
  shows "\<exists>bz. Params_Marshal p = Inr bz \<and> length bz = Params_Size p
    \<and> Params_Unmarshal empty_Params bz = Inr p"
  using params.marshal params.size_enc params.roundtrip [of p] length_Params_enc [OF assms]
  by (auto simp: Params_Marshal_def Params_Unmarshal_def)

theorem params_codec_roundtrip_witness:
  "\<exists>bz. Params_Marshal \<lparr>AllowAllCodeIDs = False, AllowedCodeIDs = [1, 300, 70000],
       MaxGasBefore = 2000000, MaxGasAfter = 1\<rparr> = Inr bz
    \<and> length bz = Params_Size \<lparr>AllowAllCodeIDs = False, AllowedCodeIDs = [1, 300, 70000],
       MaxGasBefore = 2000000, MaxGasAfter = 1\<rparr>
    \<and> Params_Unmarshal empty_Params bz
       = Inr \<lparr>AllowAllCodeIDs = False, AllowedCodeIDs = [1, 300, 70000],
           MaxGasBefore = 2000000, MaxGasAfter = 1\<rparr>"
  by (rule params_codec_roundtrip) simp

text \<open>C39: \<open>MarshalTo\<close> writes the encoding at the front of the array under the caller's
  buffer, leaves the rest of that array alone and returns the encoded length, whether the
  encoding fits the length of the buffer or only its capacity, in which case bytes beyond
  its length are written; a capacity that is too small is the runtime's slice panic, never a
  partial write.  The caller's buffer has the length and the capacity it had.\<close>

theorem params_marshal_to:
  assumes "length (AllowedCodeIDs p) < 2 ^ 59"
  shows "if Params_Size p \<le> length (buf_elems sl) + length (buf_spare sl)
    then \<exists>sl'. Params_MarshalTo p sl = Inr (sl', int (Params_Size p))
      \<and> length (buf_elems sl') = length (buf_elems sl) \<and> length (buf_spare sl') = length (buf_spare sl)
      \<and> buf_elems sl' @ buf_spare sl' = Params_enc p @ drop (Params_Size p) (buf_elems sl @ buf_spare sl)
    else Params_MarshalTo p sl = Inl SliceBoundsOutOfRange"
  using length_Params_enc [OF assms] params.marshalTo [of p sl]
  by (auto simp del: append_assoc simp: Params_MarshalTo_def params.size_enc Let_def reslice_back_array)

theorem params_marshal_to_witness:
  "(\<exists>sl. Params_MarshalTo \<lparr>AllowAllCodeIDs = True, AllowedCodeIDs = [], MaxGasBefore = 5, MaxGasAfter = 7\<rparr>
      \<lparr>buf_elems = [9, 9], buf_spare = [9, 9, 9, 9, 9]\<rparr> = Inr (sl, 6) \<and> buf_elems sl @ buf_spare sl = [8, 1, 24, 5, 32, 7, 9])
   \<and> Params_MarshalTo \<lparr>AllowAllCodeIDs = True, AllowedCodeIDs = [], MaxGasBefore = 5, MaxGasAfter = 7\<rparr>
      \<lparr>buf_elems = [9, 9], buf_spare = [9]\<rparr> = Inl SliceBoundsOutOfRange"
proof -
  let ?p = "\<lparr>AllowAllCodeIDs = True, AllowedCodeIDs = [], MaxGasBefore = 5, MaxGasAfter = 7\<rparr>"
  have size: "Params_Size ?p = 6" by (simp add: Params_Size_def sov_small)
  have enc: "Params_enc ?p = [8, 1, 24, 5, 32, 7]"
    by (simp add: Params_enc_def enc_bool_def enc_varint_def varint_small)
  have "\<exists>sl. Params_MarshalTo ?p \<lparr>buf_elems = [9, 9], buf_spare = [9, 9, 9, 9, 9]\<rparr> = Inr (sl, 6)
      \<and> buf_elems sl @ buf_spare sl = [8, 1, 24, 5, 32, 7, 9]"
    using params_marshal_to [of ?p "\<lparr>buf_elems = [9, 9], buf_spare = [9, 9, 9, 9, 9]\<rparr>"] unfolding size enc by auto
  moreover have "Params_MarshalTo ?p \<lparr>buf_elems = [9, 9], buf_spare = [9]\<rparr> = Inl SliceBoundsOutOfRange"
    using params_marshal_to [of ?p "\<lparr>buf_elems = [9, 9], buf_spare = [9]\<rparr>"] unfolding size by simp
  ultimately show ?thesis by blast
qed

text \<open>A decoder ignores what it does not know: any sequence of well-formed fields
  with other field numbers (varints, fixed-width values, byte strings, nested groups)
  after the encoding changes nothing in what \<open>Unmarshal\<close> returns.\<close>

theorem params_unknown_fields:
  assumes "list_all (\<lambda>f. wf_field f \<and> 4 < field_num f) us"
    and "length (Params_enc p @ concat (map encode_field us)) < 2 ^ 63"
  shows "Params_Unmarshal empty_Params (Params_enc p @ concat (map encode_field us)) = Inr p"
proof -
  have "list_all (\<lambda>f. wf_field f \<and> \<not> Params_known (int (field_num f))) us"
    using assms(1) by (auto simp: list_all_iff Params_known_def)
  then show ?thesis using assms(2) by (simp add: Params_Unmarshal_def params.unmarshal_unknown)
qed

theorem params_unknown_fields_witness:
  "Params_Unmarshal empty_Params
     (Params_enc empty_Params @ concat (map encode_field [WGroup 5 [WVarint 1 7], WBytes 6 [1, 2]]))
   = Inr empty_Params"
  by (rule params_unknown_fields)
     (simp_all add: Params_enc_def empty_Params_def enc_bool_def varint_small)

text \<open>Two encodings one after the other decode to their merge, as protobuf promises: the
  scalars of the second that are present win, the allow lists are concatenated.\<close>

theorem params_concatenation_merges:
  assumes "length (Params_enc p @ Params_enc q) < 2 ^ 63"
  shows "Params_Unmarshal empty_Params (Params_enc p @ Params_enc q) = Inr (Params_merge p q)"
  using params.unmarshal_concat [of p q] assms by (simp add: Params_Unmarshal_def)

theorem params_concatenation_merges_witness:
  "Params_Unmarshal empty_Params
     (Params_enc \<lparr>AllowAllCodeIDs = True, AllowedCodeIDs = [], MaxGasBefore = 5, MaxGasAfter = 0\<rparr>
      @ Params_enc \<lparr>AllowAllCodeIDs = False, AllowedCodeIDs = [], MaxGasBefore = 0, MaxGasAfter = 7\<rparr>)
   = Inr \<lparr>AllowAllCodeIDs = True, AllowedCodeIDs = [], MaxGasBefore = 5, MaxGasAfter = 7\<rparr>"
  using params_concatenation_merges
    [of "\<lparr>AllowAllCodeIDs = True, AllowedCodeIDs = [], MaxGasBefore = 5, MaxGasAfter = 0\<rparr>"
        "\<lparr>AllowAllCodeIDs = False, AllowedCodeIDs = [], MaxGasBefore = 0, MaxGasAfter = 7\<rparr>"]
  by (simp add: Params_merge_def Params_enc_def enc_bool_def enc_varint_def varint_small)

end
