(* ===== verification/GenesisPB.thy ===== *)
theory GenesisPB
  imports ParamsPB
begin

text \<open>
  The message \<open>GenesisState\<close> and its generated codec,
  \<open>x/abstractaccount/types/genesis.pb.go\<close>.
\<close>

subsection \<open>GenesisState\<close>

record GenesisState =
  gs_Params :: "Params option"
  NextAccountId :: u64

definition empty_GenesisState :: GenesisState where
  "empty_GenesisState = \<lparr>gs_Params = None, NextAccountId = 0\<rparr>"

definition GenesisState_Size :: "GenesisState \<Rightarrow> nat" where
  "GenesisState_Size m =
     (case gs_Params m of None \<Rightarrow> 0 | Some p \<Rightarrow> size_message (Params_Size p))
   + (if NextAccountId m \<noteq> 0 then 1 + sov (NextAccountId m) else 0)"

definition GenesisState_MarshalToSizedBuffer ::
  "GenesisState \<Rightarrow> bytes \<Rightarrow> go_panic + bytes \<times> int" where
  "GenesisState_MarshalToSizedBuffer m dAtA =
     bindE (put_varint 0x10 (NextAccountId m) (dAtA, int (length dAtA))) (\<lambda>b1.
     bindE (put_message_opt 0x0a Params_MarshalToSizedBuffer (gs_Params m) b1) (\<lambda>(d, i).
     Inr (d, int (length dAtA) - i)))"

definition GenesisState_Marshal :: "GenesisState \<Rightarrow> go_panic + bytes" where
  "GenesisState_Marshal m = marshalWith GenesisState_Size GenesisState_MarshalToSizedBuffer m"

definition GenesisState_MarshalTo :: "GenesisState \<Rightarrow> go_slice \<Rightarrow> go_panic + go_slice \<times> int" where
  "GenesisState_MarshalTo m dAtA =
     marshalToWith GenesisState_Size GenesisState_MarshalToSizedBuffer m dAtA"

definition GenesisState_step ::
  "bytes \<Rightarrow> nat \<Rightarrow> GenesisState \<Rightarrow> proto_error + GenesisState \<times> nat" where
  "GenesisState_step d preIndex m =
     bindE (decodeTag ''GenesisState'' d preIndex) (\<lambda>(fieldNum, wireType, i).
       if fieldNum = 1 then
         read_message ''Params'' wireType d i
           (Params_Unmarshal (case gs_Params m of None \<Rightarrow> empty_Params | Some q \<Rightarrow> q))
           (\<lambda>p. m\<lparr>gs_Params := Some p\<rparr>)
       else if fieldNum = 2 then
         read_varint ''NextAccountId'' wireType d i (\<lambda>v. m\<lparr>NextAccountId := v\<rparr>)
       else bindE (skipUnknown d preIndex) (\<lambda>i'. Inr (m, i')))"

lemma GenesisState_step_progress: "GenesisState_step d i m = Inr (m', j) \<Longrightarrow> i < j"
  by (auto simp: GenesisState_step_def bindE_Inr_iff split: if_splits dest!: read_progress)

function GenesisState_unmarshal_loop ::
  "bytes \<Rightarrow> nat \<Rightarrow> GenesisState \<Rightarrow> proto_error + GenesisState" where
  "GenesisState_unmarshal_loop d i m =
     (if i < length d
      then bindE (GenesisState_step d i m) (\<lambda>(m', j). GenesisState_unmarshal_loop d j m')
      else if length d < i then Inl ErrUnexpectedEOF
      else Inr m)"
  by pat_completeness auto
termination
  by (relation "measure (\<lambda>(d, i, m). length d - i)") (auto dest!: GenesisState_step_progress)

declare GenesisState_unmarshal_loop.simps [simp del]

definition GenesisState_Unmarshal :: "GenesisState \<Rightarrow> bytes \<Rightarrow> proto_error + GenesisState" where
  "GenesisState_Unmarshal m dAtA = GenesisState_unmarshal_loop dAtA 0 m"

text \<open>The reference encoding of \<open>GenesisState\<close>, its segments, and the merge of two messages.\<close>

definition GenesisState_enc :: "GenesisState \<Rightarrow> bytes" where
  "GenesisState_enc m =
     enc_message_opt 0x0a Params_enc (gs_Params m)
   @ enc_varint 0x10 (NextAccountId m)"

definition GenesisState_segs :: "GenesisState \<Rightarrow> (bytes \<times> (GenesisState \<Rightarrow> GenesisState)) list" where
  "GenesisState_segs m =
     seg (enc_message_opt 0x0a Params_enc (gs_Params m))
       (\<lambda>x. x\<lparr>gs_Params := merge_Params_opt (gs_Params x) (gs_Params m)\<rparr>)
   @ seg (enc_varint 0x10 (NextAccountId m))
       (\<lambda>x. x\<lparr>NextAccountId := NextAccountId m\<rparr>)"

definition GenesisState_merge :: "GenesisState \<Rightarrow> GenesisState \<Rightarrow> GenesisState" where
  "GenesisState_merge m0 m =
     \<lparr>gs_Params = merge_Params_opt (gs_Params m0) (gs_Params m),
      NextAccountId = (if NextAccountId m = 0 then NextAccountId m0 else NextAccountId m)\<rparr>"

definition GenesisState_known :: "int \<Rightarrow> bool" where
  "GenesisState_known n \<longleftrightarrow> 1 \<le> n \<and> n \<le> 2"

lemma GenesisState_steps [decode_intros]:
  "v \<noteq> 0 \<Longrightarrow> decodes_as GenesisState_step (enc_varint 0x10 v) (\<lambda>x. x\<lparr>NextAccountId := v\<rparr>)"
  by ((rule decodes_varint_field, assumption);
      simp add: GenesisState_step_def wire_simps)+

lemma GenesisState_step_params [decode_intros]:
  assumes "length (Params_enc p) < 2 ^ 63"
  shows "decodes_as GenesisState_step (enc_message 0x0a (Params_enc p))
    (\<lambda>x. x\<lparr>gs_Params := merge_Params_opt (gs_Params x) (Some p)\<rparr>)"
proof (rule decodes_asI)
  fix q s :: bytes and m :: GenesisState
  let ?m = "case gs_Params m of None \<Rightarrow> empty_Params | Some q \<Rightarrow> q"
  assume "length q + length (enc_message 0x0a (Params_enc p)) + length s < 2 ^ 63"
  moreover have "Params_Unmarshal ?m (Params_enc p) = Inr (Params_merge ?m p)"
    using params.unmarshal_merges [of p ?m] assms by (simp add: Params_Unmarshal_def)
  ultimately show "GenesisState_step (q @ enc_message 0x0a (Params_enc p) @ s) (length q) m
    = Inr (m\<lparr>gs_Params := merge_Params_opt (gs_Params m) (Some p)\<rparr>,
           length q + length (enc_message 0x0a (Params_enc p)))"
    by (simp add: GenesisState_step_def enc_message_def wire_simps merge_Params_opt_def)
qed simp

lemma GenesisState_parts_small:
  "length (GenesisState_enc m) < 2 ^ 63 \<Longrightarrow>
   length (enc_message_opt 0x0a Params_enc (gs_Params m)) < 2 ^ 63"
  by (simp add: GenesisState_enc_def)

lemma GenesisState_size_enc:
  "length (GenesisState_enc m) < 2 ^ 63 \<Longrightarrow> GenesisState_Size m = length (GenesisState_enc m)"
  using GenesisState_parts_small [of m] params.length_enc_message_opt [of "0x0a" "gs_Params m"]
  by (simp add: GenesisState_Size_def GenesisState_enc_def size_simps Let_def)

lemma GenesisState_fill_enc:
  assumes "length (GenesisState_enc m) < 2 ^ 63" and "length (GenesisState_enc m) \<le> length d"
  shows "GenesisState_MarshalToSizedBuffer m d
    = Inr (take (length d - length (GenesisState_enc m)) d @ GenesisState_enc m, int (length (GenesisState_enc m)))"
proof -
  have "GenesisState_MarshalToSizedBuffer m d
    = bindE (Inr (window d (GenesisState_enc m))) (\<lambda>(w, i). Inr (w, int (length d) - i))"
    using assms(2) GenesisState_parts_small [OF assms(1)]
    by (simp add: GenesisState_MarshalToSizedBuffer_def GenesisState_enc_def window_start wire_simps)
  then show ?thesis using assms(2) by (simp add: window_def)
qed

interpretation genesis: message_codec GenesisState_Size GenesisState_MarshalToSizedBuffer
  GenesisState_enc GenesisState_step GenesisState_unmarshal_loop "''GenesisState''"
  GenesisState_known GenesisState_segs empty_GenesisState GenesisState_merge
  "\<lambda>_. True" "\<lambda>m. m"
proof (unfold_locales, goal_cases)
  case (3 d i m)
  show ?case by (rule GenesisState_unmarshal_loop.simps)
next
  case (4 d i num wt j m)
  then have "num \<noteq> 1" "num \<noteq> 2" by (auto simp: GenesisState_known_def)
  with 4(1) show ?case by (simp add: GenesisState_step_def)
next
  case (6 m xs f)
  then show ?case
    using GenesisState_parts_small [of m]
      length_enc_message_ge [of "Params_enc (the (gs_Params m))" "0x0a"]
    by (auto simp: GenesisState_segs_def wire_simps enc_message_opt_def split: option.splits intro: decode_intros)
next
  case (7 m m0)
  show ?case
    by (cases m0) (auto simp: GenesisState_segs_def GenesisState_merge_def wire_simps merge_Params_opt_simps enc_message_opt_def split: option.splits)
next
  case (8 m)
  show ?case
    by (cases m) (simp add: GenesisState_merge_def empty_GenesisState_def merge_Params_opt_simps)
qed (simp_all add: GenesisState_size_enc GenesisState_fill_enc GenesisState_enc_def GenesisState_segs_def wire_simps)

text \<open>The getters of the generated code, on a possibly nil message.\<close>

definition GetParams_GenesisState :: "GenesisState option \<Rightarrow> Params option" where
  "GetParams_GenesisState m = (case m of Some x \<Rightarrow> gs_Params x | None \<Rightarrow> None)"

definition GetNextAccountId :: "GenesisState option \<Rightarrow> u64" where
  "GetNextAccountId m = (case m of Some x \<Rightarrow> NextAccountId x | None \<Rightarrow> 0)"

end
