(* ===== verification/EventsPB.thy ===== *)
theory EventsPB
  imports Wire
begin

text \<open>
  The event \<open>EventAccountRegistered\<close> and its generated codec,
  \<open>x/abstractaccount/types/events.pb.go\<close>.
\<close>

subsection \<open>EventAccountRegistered\<close>

text \<open>The names of \<open>types/events.go\<close>, which the module does not use: its events are typed.\<close>

definition EventTypeAccountRegistered :: string where
  "EventTypeAccountRegistered = ''account_registered''"

definition AttributeKeyCreator :: string where
  "AttributeKeyCreator = ''creator''"

definition AttributeKeyCodeID :: string where
  "AttributeKeyCodeID = ''code_id''"

definition AttributeKeyContractAddr :: string where
  "AttributeKeyContractAddr = ''contract_addr''"

record EventAccountRegistered =
  Creator :: string
  ev_CodeID :: u64
  ContractAddr :: string

definition empty_EventAccountRegistered :: EventAccountRegistered where
  "empty_EventAccountRegistered = \<lparr>Creator = [], ev_CodeID = 0, ContractAddr = []\<rparr>"

definition EventAccountRegistered_Size :: "EventAccountRegistered \<Rightarrow> nat" where
  "EventAccountRegistered_Size m =
     (let l = length (Creator m) in if 0 < l then 1 + l + sov (of_nat l) else 0)
   + (if ev_CodeID m \<noteq> 0 then 1 + sov (ev_CodeID m) else 0)
   + (let l = length (ContractAddr m) in if 0 < l then 1 + l + sov (of_nat l) else 0)"

definition EventAccountRegistered_MarshalToSizedBuffer ::
  "EventAccountRegistered \<Rightarrow> bytes \<Rightarrow> go_panic + bytes \<times> int" where
  "EventAccountRegistered_MarshalToSizedBuffer m dAtA =
     bindE (put_bytes 0x1a (string_bytes (ContractAddr m)) (dAtA, int (length dAtA))) (\<lambda>b1.
     bindE (put_varint 0x10 (ev_CodeID m) b1) (\<lambda>b2.
     bindE (put_bytes 0x0a (string_bytes (Creator m)) b2) (\<lambda>(d, i).
     Inr (d, int (length dAtA) - i))))"

definition EventAccountRegistered_Marshal :: "EventAccountRegistered \<Rightarrow> go_panic + bytes" where
  "EventAccountRegistered_Marshal m = marshalWith EventAccountRegistered_Size EventAccountRegistered_MarshalToSizedBuffer m"

definition EventAccountRegistered_MarshalTo :: "EventAccountRegistered \<Rightarrow> go_slice \<Rightarrow> go_panic + go_slice \<times> int" where
  "EventAccountRegistered_MarshalTo m dAtA =
     marshalToWith EventAccountRegistered_Size EventAccountRegistered_MarshalToSizedBuffer m dAtA"

definition EventAccountRegistered_step ::
  "bytes \<Rightarrow> nat \<Rightarrow> EventAccountRegistered \<Rightarrow> proto_error + EventAccountRegistered \<times> nat" where
  "EventAccountRegistered_step d preIndex m =
     bindE (decodeTag ''EventAccountRegistered'' d preIndex) (\<lambda>(fieldNum, wireType, i).
       if fieldNum = 1 then
         read_bytes ''Creator'' wireType d i (\<lambda>b. m\<lparr>Creator := bytes_string b\<rparr>)
       else if fieldNum = 2 then
         read_varint ''CodeID'' wireType d i (\<lambda>v. m\<lparr>ev_CodeID := v\<rparr>)
       else if fieldNum = 3 then
         read_bytes ''ContractAddr'' wireType d i (\<lambda>b. m\<lparr>ContractAddr := bytes_string b\<rparr>)
       else bindE (skipUnknown d preIndex) (\<lambda>i'. Inr (m, i')))"

lemma EventAccountRegistered_step_progress: "EventAccountRegistered_step d i m = Inr (m', j) \<Longrightarrow> i < j"
  by (auto simp: EventAccountRegistered_step_def bindE_Inr_iff split: if_splits dest!: read_progress)

function EventAccountRegistered_unmarshal_loop ::
  "bytes \<Rightarrow> nat \<Rightarrow> EventAccountRegistered \<Rightarrow> proto_error + EventAccountRegistered" where
  "EventAccountRegistered_unmarshal_loop d i m =
     (if i < length d
      then bindE (EventAccountRegistered_step d i m) (\<lambda>(m', j). EventAccountRegistered_unmarshal_loop d j m')
      else if length d < i then Inl ErrUnexpectedEOF
      else Inr m)"
  by pat_completeness auto
termination
  by (relation "measure (\<lambda>(d, i, m). length d - i)") (auto dest!: EventAccountRegistered_step_progress)

declare EventAccountRegistered_unmarshal_loop.simps [simp del]

definition EventAccountRegistered_Unmarshal :: "EventAccountRegistered \<Rightarrow> bytes \<Rightarrow> proto_error + EventAccountRegistered" where
  "EventAccountRegistered_Unmarshal m dAtA = EventAccountRegistered_unmarshal_loop dAtA 0 m"

text \<open>The reference encoding of \<open>EventAccountRegistered\<close>, its segments, and the merge of two messages.\<close>

definition EventAccountRegistered_enc :: "EventAccountRegistered \<Rightarrow> bytes" where
  "EventAccountRegistered_enc m =
     enc_bytes 0x0a (string_bytes (Creator m))
   @ enc_varint 0x10 (ev_CodeID m)
   @ enc_bytes 0x1a (string_bytes (ContractAddr m))"

definition EventAccountRegistered_segs :: "EventAccountRegistered \<Rightarrow> (bytes \<times> (EventAccountRegistered \<Rightarrow> EventAccountRegistered)) list" where
  "EventAccountRegistered_segs m =
     seg (enc_bytes 0x0a (string_bytes (Creator m)))
       (\<lambda>x. x\<lparr>Creator := Creator m\<rparr>)
   @ seg (enc_varint 0x10 (ev_CodeID m))
       (\<lambda>x. x\<lparr>ev_CodeID := ev_CodeID m\<rparr>)
   @ seg (enc_bytes 0x1a (string_bytes (ContractAddr m)))
       (\<lambda>x. x\<lparr>ContractAddr := ContractAddr m\<rparr>)"

definition EventAccountRegistered_merge :: "EventAccountRegistered \<Rightarrow> EventAccountRegistered \<Rightarrow> EventAccountRegistered" where
  "EventAccountRegistered_merge m0 m =
     \<lparr>Creator = (if Creator m = [] then Creator m0 else Creator m),
      ev_CodeID = (if ev_CodeID m = 0 then ev_CodeID m0 else ev_CodeID m),
      ContractAddr = (if ContractAddr m = [] then ContractAddr m0 else ContractAddr m)\<rparr>"

definition EventAccountRegistered_known :: "int \<Rightarrow> bool" where
  "EventAccountRegistered_known n \<longleftrightarrow> 1 \<le> n \<and> n \<le> 3"

lemma EventAccountRegistered_steps [decode_intros]:
  "s \<noteq> [] \<Longrightarrow> decodes_as EventAccountRegistered_step (enc_bytes 0x0a (string_bytes s)) (\<lambda>x. x\<lparr>Creator := s\<rparr>)"
  "v \<noteq> 0 \<Longrightarrow> decodes_as EventAccountRegistered_step (enc_varint 0x10 v) (\<lambda>x. x\<lparr>ev_CodeID := v\<rparr>)"
  "s \<noteq> [] \<Longrightarrow> decodes_as EventAccountRegistered_step (enc_bytes 0x1a (string_bytes s)) (\<lambda>x. x\<lparr>ContractAddr := s\<rparr>)"
  by ((rule decodes_varint_field decodes_string_field, assumption);
      simp add: EventAccountRegistered_step_def wire_simps)+

lemma EventAccountRegistered_parts_small:
  "length (EventAccountRegistered_enc m) < 2 ^ 63 \<Longrightarrow>
   length (string_bytes (Creator m)) < 2 ^ 63 \<and>
   length (string_bytes (ContractAddr m)) < 2 ^ 63"
  using length_enc_bytes_ge [of "string_bytes (Creator m)" "0x0a"]
    length_enc_bytes_ge [of "string_bytes (ContractAddr m)" "0x1a"]
  by (simp add: EventAccountRegistered_enc_def)

lemma EventAccountRegistered_size_enc:
  "length (EventAccountRegistered_enc m) < 2 ^ 63 \<Longrightarrow> EventAccountRegistered_Size m = length (EventAccountRegistered_enc m)"
  using EventAccountRegistered_parts_small [of m]
  by (simp add: EventAccountRegistered_Size_def EventAccountRegistered_enc_def size_simps Let_def)

lemma EventAccountRegistered_fill_enc:
  assumes "length (EventAccountRegistered_enc m) < 2 ^ 63" and "length (EventAccountRegistered_enc m) \<le> length d"
  shows "EventAccountRegistered_MarshalToSizedBuffer m d
    = Inr (take (length d - length (EventAccountRegistered_enc m)) d @ EventAccountRegistered_enc m, int (length (EventAccountRegistered_enc m)))"
proof -
  have "EventAccountRegistered_MarshalToSizedBuffer m d
    = bindE (Inr (window d (EventAccountRegistered_enc m))) (\<lambda>(w, i). Inr (w, int (length d) - i))"
    using assms(2) EventAccountRegistered_parts_small [OF assms(1)]
    by (simp add: EventAccountRegistered_MarshalToSizedBuffer_def EventAccountRegistered_enc_def window_start wire_simps)
  then show ?thesis using assms(2) by (simp add: window_def)
qed

interpretation event: message_codec EventAccountRegistered_Size EventAccountRegistered_MarshalToSizedBuffer
  EventAccountRegistered_enc EventAccountRegistered_step EventAccountRegistered_unmarshal_loop "''EventAccountRegistered''"
  EventAccountRegistered_known EventAccountRegistered_segs empty_EventAccountRegistered EventAccountRegistered_merge
  "\<lambda>_. True" "\<lambda>m. m"
proof (unfold_locales, goal_cases)
  case (3 d i m)
  show ?case by (rule EventAccountRegistered_unmarshal_loop.simps)
next
  case (4 d i num wt j m)
  then have "num \<noteq> 1" "num \<noteq> 2" "num \<noteq> 3" by (auto simp: EventAccountRegistered_known_def)
  with 4(1) show ?case by (simp add: EventAccountRegistered_step_def)
next
  case (6 m xs f)
  then show ?case
    using EventAccountRegistered_parts_small [of m]
    by (auto simp: EventAccountRegistered_segs_def wire_simps intro: decode_intros)
next
  case (7 m m0)
  show ?case
    by (cases m0) (auto simp: EventAccountRegistered_segs_def EventAccountRegistered_merge_def wire_simps)
next
  case (8 m)
  show ?case
    by (cases m) (simp add: EventAccountRegistered_merge_def empty_EventAccountRegistered_def)
qed (simp_all add: EventAccountRegistered_size_enc EventAccountRegistered_fill_enc EventAccountRegistered_enc_def EventAccountRegistered_segs_def wire_simps)

text \<open>The getters of the generated code, on a possibly nil message.\<close>

definition GetCreator :: "EventAccountRegistered option \<Rightarrow> string" where
  "GetCreator m = (case m of Some x \<Rightarrow> Creator x | None \<Rightarrow> [])"

definition GetCodeID_Event :: "EventAccountRegistered option \<Rightarrow> u64" where
  "GetCodeID_Event m = (case m of Some x \<Rightarrow> ev_CodeID x | None \<Rightarrow> 0)"

definition GetContractAddr :: "EventAccountRegistered option \<Rightarrow> string" where
  "GetContractAddr m = (case m of Some x \<Rightarrow> ContractAddr x | None \<Rightarrow> [])"

end
