(* ===== verification/TxPB.thy ===== *)
theory TxPB
  imports ParamsPB
begin

text \<open>
  The messages of the Msg service and their generated codecs,
  \<open>x/abstractaccount/types/tx.pb.go\<close>.
\<close>

subsection \<open>MsgUpdateParams\<close>

record MsgUpdateParams =
  up_Sender :: string
  up_Params :: "Params option"

definition empty_MsgUpdateParams :: MsgUpdateParams where
  "empty_MsgUpdateParams = \<lparr>up_Sender = [], up_Params = None\<rparr>"

definition MsgUpdateParams_Size :: "MsgUpdateParams \<Rightarrow> nat" where
  "MsgUpdateParams_Size m =
     (let l = length (up_Sender m) in if 0 < l then 1 + l + sov (of_nat l) else 0)
   + (case up_Params m of None \<Rightarrow> 0 | Some p \<Rightarrow> size_message (Params_Size p))"

definition MsgUpdateParams_MarshalToSizedBuffer ::
  "MsgUpdateParams \<Rightarrow> bytes \<Rightarrow> go_panic + bytes \<times> int" where
  "MsgUpdateParams_MarshalToSizedBuffer m dAtA =
     bindE (put_message_opt 0x12 Params_MarshalToSizedBuffer (up_Params m) (dAtA, int (length dAtA))) (\<lambda>b1.
     bindE (put_bytes 0x0a (string_bytes (up_Sender m)) b1) (\<lambda>(d, i).
     Inr (d, int (length dAtA) - i)))"

definition MsgUpdateParams_Marshal :: "MsgUpdateParams \<Rightarrow> go_panic + bytes" where
  "MsgUpdateParams_Marshal m = marshalWith MsgUpdateParams_Size MsgUpdateParams_MarshalToSizedBuffer m"

definition MsgUpdateParams_MarshalTo :: "MsgUpdateParams \<Rightarrow> go_slice \<Rightarrow> go_panic + go_slice \<times> int" where
  "MsgUpdateParams_MarshalTo m dAtA =
     marshalToWith MsgUpdateParams_Size MsgUpdateParams_MarshalToSizedBuffer m dAtA"

definition MsgUpdateParams_step ::
  "bytes \<Rightarrow> nat \<Rightarrow> MsgUpdateParams \<Rightarrow> proto_error + MsgUpdateParams \<times> nat" where
  "MsgUpdateParams_step d preIndex m =
     bindE (decodeTag ''MsgUpdateParams'' d preIndex) (\<lambda>(fieldNum, wireType, i).
       if fieldNum = 1 then
         read_bytes ''Sender'' wireType d i (\<lambda>b. m\<lparr>up_Sender := bytes_string b\<rparr>)
       else if fieldNum = 2 then
         read_message ''Params'' wireType d i
           (Params_Unmarshal (case up_Params m of None \<Rightarrow> empty_Params | Some q \<Rightarrow> q))
           (\<lambda>p. m\<lparr>up_Params := Some p\<rparr>)
       else bindE (skipUnknown d preIndex) (\<lambda>i'. Inr (m, i')))"

lemma MsgUpdateParams_step_progress: "MsgUpdateParams_step d i m = Inr (m', j) \<Longrightarrow> i < j"
  by (auto simp: MsgUpdateParams_step_def bindE_Inr_iff split: if_splits dest!: read_progress)

function MsgUpdateParams_unmarshal_loop ::
  "bytes \<Rightarrow> nat \<Rightarrow> MsgUpdateParams \<Rightarrow> proto_error + MsgUpdateParams" where
  "MsgUpdateParams_unmarshal_loop d i m =
     (if i < length d
      then bindE (MsgUpdateParams_step d i m) (\<lambda>(m', j). MsgUpdateParams_unmarshal_loop d j m')
      else if length d < i then Inl ErrUnexpectedEOF
      else Inr m)"
  by pat_completeness auto
termination
  by (relation "measure (\<lambda>(d, i, m). length d - i)") (auto dest!: MsgUpdateParams_step_progress)

declare MsgUpdateParams_unmarshal_loop.simps [simp del]

definition MsgUpdateParams_Unmarshal :: "MsgUpdateParams \<Rightarrow> bytes \<Rightarrow> proto_error + MsgUpdateParams" where
  "MsgUpdateParams_Unmarshal m dAtA = MsgUpdateParams_unmarshal_loop dAtA 0 m"

text \<open>The reference encoding of \<open>MsgUpdateParams\<close>, its segments, and the merge of two messages.\<close>

definition MsgUpdateParams_enc :: "MsgUpdateParams \<Rightarrow> bytes" where
  "MsgUpdateParams_enc m =
     enc_bytes 0x0a (string_bytes (up_Sender m))
   @ enc_message_opt 0x12 Params_enc (up_Params m)"

definition MsgUpdateParams_segs :: "MsgUpdateParams \<Rightarrow> (bytes \<times> (MsgUpdateParams \<Rightarrow> MsgUpdateParams)) list" where
  "MsgUpdateParams_segs m =
     seg (enc_bytes 0x0a (string_bytes (up_Sender m)))
       (\<lambda>x. x\<lparr>up_Sender := up_Sender m\<rparr>)
   @ seg (enc_message_opt 0x12 Params_enc (up_Params m))
       (\<lambda>x. x\<lparr>up_Params := merge_Params_opt (up_Params x) (up_Params m)\<rparr>)"

definition MsgUpdateParams_merge :: "MsgUpdateParams \<Rightarrow> MsgUpdateParams \<Rightarrow> MsgUpdateParams" where
  "MsgUpdateParams_merge m0 m =
     \<lparr>up_Sender = (if up_Sender m = [] then up_Sender m0 else up_Sender m),
      up_Params = merge_Params_opt (up_Params m0) (up_Params m)\<rparr>"

definition MsgUpdateParams_known :: "int \<Rightarrow> bool" where
  "MsgUpdateParams_known n \<longleftrightarrow> 1 \<le> n \<and> n \<le> 2"

lemma MsgUpdateParams_steps [decode_intros]:
  "s \<noteq> [] \<Longrightarrow> decodes_as MsgUpdateParams_step (enc_bytes 0x0a (string_bytes s)) (\<lambda>x. x\<lparr>up_Sender := s\<rparr>)"
  by ((rule decodes_string_field, assumption);
      simp add: MsgUpdateParams_step_def wire_simps)+

lemma MsgUpdateParams_step_params [decode_intros]:
  assumes "length (Params_enc p) < 2 ^ 63"
  shows "decodes_as MsgUpdateParams_step (enc_message 0x12 (Params_enc p))
    (\<lambda>x. x\<lparr>up_Params := merge_Params_opt (up_Params x) (Some p)\<rparr>)"
proof (rule decodes_asI)
  fix q s :: bytes and m :: MsgUpdateParams
  let ?m = "case up_Params m of None \<Rightarrow> empty_Params | Some q \<Rightarrow> q"
  assume "length q + length (enc_message 0x12 (Params_enc p)) + length s < 2 ^ 63"
  moreover have "Params_Unmarshal ?m (Params_enc p) = Inr (Params_merge ?m p)"
    using params.unmarshal_merges [of p ?m] assms by (simp add: Params_Unmarshal_def)
  ultimately show "MsgUpdateParams_step (q @ enc_message 0x12 (Params_enc p) @ s) (length q) m
    = Inr (m\<lparr>up_Params := merge_Params_opt (up_Params m) (Some p)\<rparr>,
           length q + length (enc_message 0x12 (Params_enc p)))"
    by (simp add: MsgUpdateParams_step_def enc_message_def wire_simps merge_Params_opt_def)
qed simp

lemma MsgUpdateParams_parts_small:
  "length (MsgUpdateParams_enc m) < 2 ^ 63 \<Longrightarrow>
   length (string_bytes (up_Sender m)) < 2 ^ 63 \<and>
   length (enc_message_opt 0x12 Params_enc (up_Params m)) < 2 ^ 63"
  using length_enc_bytes_ge [of "string_bytes (up_Sender m)" "0x0a"]
  by (simp add: MsgUpdateParams_enc_def)

lemma MsgUpdateParams_size_enc:
  "length (MsgUpdateParams_enc m) < 2 ^ 63 \<Longrightarrow> MsgUpdateParams_Size m = length (MsgUpdateParams_enc m)"
  using MsgUpdateParams_parts_small [of m] params.length_enc_message_opt [of "0x12" "up_Params m"]
  by (simp add: MsgUpdateParams_Size_def MsgUpdateParams_enc_def size_simps Let_def)

lemma MsgUpdateParams_fill_enc:
  assumes "length (MsgUpdateParams_enc m) < 2 ^ 63" and "length (MsgUpdateParams_enc m) \<le> length d"
  shows "MsgUpdateParams_MarshalToSizedBuffer m d
    = Inr (take (length d - length (MsgUpdateParams_enc m)) d @ MsgUpdateParams_enc m, int (length (MsgUpdateParams_enc m)))"
proof -
  have "MsgUpdateParams_MarshalToSizedBuffer m d
    = bindE (Inr (window d (MsgUpdateParams_enc m))) (\<lambda>(w, i). Inr (w, int (length d) - i))"
    using assms(2) MsgUpdateParams_parts_small [OF assms(1)]
    by (simp add: MsgUpdateParams_MarshalToSizedBuffer_def MsgUpdateParams_enc_def window_start wire_simps)
  then show ?thesis using assms(2) by (simp add: window_def)
qed

interpretation update_params: message_codec MsgUpdateParams_Size MsgUpdateParams_MarshalToSizedBuffer
  MsgUpdateParams_enc MsgUpdateParams_step MsgUpdateParams_unmarshal_loop "''MsgUpdateParams''"
  MsgUpdateParams_known MsgUpdateParams_segs empty_MsgUpdateParams MsgUpdateParams_merge
  "\<lambda>_. True" "\<lambda>m. m"
proof (unfold_locales, goal_cases)
  case (3 d i m)
  show ?case by (rule MsgUpdateParams_unmarshal_loop.simps)
next
  case (4 d i num wt j m)
  then have "num \<noteq> 1" "num \<noteq> 2" by (auto simp: MsgUpdateParams_known_def)
  with 4(1) show ?case by (simp add: MsgUpdateParams_step_def)
next
  case (6 m xs f)
  then show ?case
    using MsgUpdateParams_parts_small [of m]
      length_enc_message_ge [of "Params_enc (the (up_Params m))" "0x12"]
    by (auto simp: MsgUpdateParams_segs_def wire_simps enc_message_opt_def split: option.splits intro: decode_intros)
next
  case (7 m m0)
  show ?case
    by (cases m0) (auto simp: MsgUpdateParams_segs_def MsgUpdateParams_merge_def wire_simps merge_Params_opt_simps enc_message_opt_def split: option.splits)
next
  case (8 m)
  show ?case
    by (cases m) (simp add: MsgUpdateParams_merge_def empty_MsgUpdateParams_def merge_Params_opt_simps)
qed (simp_all add: MsgUpdateParams_size_enc MsgUpdateParams_fill_enc MsgUpdateParams_enc_def MsgUpdateParams_segs_def wire_simps)

subsection \<open>MsgUpdateParamsResponse\<close>

datatype MsgUpdateParamsResponse = MsgUpdateParamsResponse

definition MsgUpdateParamsResponse_Size :: "MsgUpdateParamsResponse \<Rightarrow> nat" where
  "MsgUpdateParamsResponse_Size m =
     0"

definition MsgUpdateParamsResponse_MarshalToSizedBuffer ::
  "MsgUpdateParamsResponse \<Rightarrow> bytes \<Rightarrow> go_panic + bytes \<times> int" where
  "MsgUpdateParamsResponse_MarshalToSizedBuffer m dAtA =
     Inr (dAtA, int (length dAtA) - int (length dAtA))"

definition MsgUpdateParamsResponse_Marshal :: "MsgUpdateParamsResponse \<Rightarrow> go_panic + bytes" where
  "MsgUpdateParamsResponse_Marshal m = marshalWith MsgUpdateParamsResponse_Size MsgUpdateParamsResponse_MarshalToSizedBuffer m"

definition MsgUpdateParamsResponse_MarshalTo :: "MsgUpdateParamsResponse \<Rightarrow> go_slice \<Rightarrow> go_panic + go_slice \<times> int" where
  "MsgUpdateParamsResponse_MarshalTo m dAtA =
     marshalToWith MsgUpdateParamsResponse_Size MsgUpdateParamsResponse_MarshalToSizedBuffer m dAtA"

definition MsgUpdateParamsResponse_step ::
  "bytes \<Rightarrow> nat \<Rightarrow> MsgUpdateParamsResponse \<Rightarrow> proto_error + MsgUpdateParamsResponse \<times> nat" where
  "MsgUpdateParamsResponse_step d preIndex m =
     bindE (decodeTag ''MsgUpdateParamsResponse'' d preIndex) (\<lambda>(fieldNum, wireType, i).
       bindE (skipUnknown d preIndex) (\<lambda>i'. Inr (m, i')))"

lemma MsgUpdateParamsResponse_step_progress: "MsgUpdateParamsResponse_step d i m = Inr (m', j) \<Longrightarrow> i < j"
  by (auto simp: MsgUpdateParamsResponse_step_def bindE_Inr_iff split: if_splits dest!: read_progress)

function MsgUpdateParamsResponse_unmarshal_loop ::
  "bytes \<Rightarrow> nat \<Rightarrow> MsgUpdateParamsResponse \<Rightarrow> proto_error + MsgUpdateParamsResponse" where
  "MsgUpdateParamsResponse_unmarshal_loop d i m =
     (if i < length d
      then bindE (MsgUpdateParamsResponse_step d i m) (\<lambda>(m', j). MsgUpdateParamsResponse_unmarshal_loop d j m')
      else if length d < i then Inl ErrUnexpectedEOF
      else Inr m)"
  by pat_completeness auto
termination
  by (relation "measure (\<lambda>(d, i, m). length d - i)") (auto dest!: MsgUpdateParamsResponse_step_progress)

declare MsgUpdateParamsResponse_unmarshal_loop.simps [simp del]

definition MsgUpdateParamsResponse_Unmarshal :: "MsgUpdateParamsResponse \<Rightarrow> bytes \<Rightarrow> proto_error + MsgUpdateParamsResponse" where
  "MsgUpdateParamsResponse_Unmarshal m dAtA = MsgUpdateParamsResponse_unmarshal_loop dAtA 0 m"

text \<open>The reference encoding of \<open>MsgUpdateParamsResponse\<close>, its segments, and the merge of two messages.\<close>

definition MsgUpdateParamsResponse_enc :: "MsgUpdateParamsResponse \<Rightarrow> bytes" where
  "MsgUpdateParamsResponse_enc m =
     []"

definition MsgUpdateParamsResponse_segs :: "MsgUpdateParamsResponse \<Rightarrow> (bytes \<times> (MsgUpdateParamsResponse \<Rightarrow> MsgUpdateParamsResponse)) list" where
  "MsgUpdateParamsResponse_segs m =
     []"

definition MsgUpdateParamsResponse_known :: "int \<Rightarrow> bool" where
  "MsgUpdateParamsResponse_known n \<longleftrightarrow> False"

interpretation update_params_response: message_codec MsgUpdateParamsResponse_Size MsgUpdateParamsResponse_MarshalToSizedBuffer
  MsgUpdateParamsResponse_enc MsgUpdateParamsResponse_step MsgUpdateParamsResponse_unmarshal_loop "''MsgUpdateParamsResponse''"
  MsgUpdateParamsResponse_known MsgUpdateParamsResponse_segs MsgUpdateParamsResponse "(\<lambda>m0 m. m)"
  "\<lambda>_. True" "\<lambda>m. m"
proof (unfold_locales, goal_cases)
  case (3 d i m)
  show ?case by (rule MsgUpdateParamsResponse_unmarshal_loop.simps)
next
  case (8 m)
  show ?case by (rule refl)
next
  case (7 m m0)
  show ?case by (cases m; cases m0) (simp add: MsgUpdateParamsResponse_segs_def)
qed (simp_all add: MsgUpdateParamsResponse_Size_def MsgUpdateParamsResponse_MarshalToSizedBuffer_def MsgUpdateParamsResponse_enc_def MsgUpdateParamsResponse_step_def MsgUpdateParamsResponse_known_def
    MsgUpdateParamsResponse_segs_def)

subsection \<open>MsgRegisterAccountResponse\<close>

record MsgRegisterAccountResponse =
  resp_Address :: string
  resp_Data :: slice

definition empty_MsgRegisterAccountResponse :: MsgRegisterAccountResponse where
  "empty_MsgRegisterAccountResponse = \<lparr>resp_Address = [], resp_Data = None\<rparr>"

definition MsgRegisterAccountResponse_Size :: "MsgRegisterAccountResponse \<Rightarrow> nat" where
  "MsgRegisterAccountResponse_Size m =
     (let l = length (resp_Address m) in if 0 < l then 1 + l + sov (of_nat l) else 0)
   + (let l = length (slice_bytes (resp_Data m)) in if 0 < l then 1 + l + sov (of_nat l) else 0)"

definition MsgRegisterAccountResponse_MarshalToSizedBuffer ::
  "MsgRegisterAccountResponse \<Rightarrow> bytes \<Rightarrow> go_panic + bytes \<times> int" where
  "MsgRegisterAccountResponse_MarshalToSizedBuffer m dAtA =
     bindE (put_bytes 0x12 (slice_bytes (resp_Data m)) (dAtA, int (length dAtA))) (\<lambda>b1.
     bindE (put_bytes 0x0a (string_bytes (resp_Address m)) b1) (\<lambda>(d, i).
     Inr (d, int (length dAtA) - i)))"

definition MsgRegisterAccountResponse_Marshal :: "MsgRegisterAccountResponse \<Rightarrow> go_panic + bytes" where
  "MsgRegisterAccountResponse_Marshal m = marshalWith MsgRegisterAccountResponse_Size MsgRegisterAccountResponse_MarshalToSizedBuffer m"

definition MsgRegisterAccountResponse_MarshalTo :: "MsgRegisterAccountResponse \<Rightarrow> go_slice \<Rightarrow> go_panic + go_slice \<times> int" where
  "MsgRegisterAccountResponse_MarshalTo m dAtA =
     marshalToWith MsgRegisterAccountResponse_Size MsgRegisterAccountResponse_MarshalToSizedBuffer m dAtA"

definition MsgRegisterAccountResponse_step ::
  "bytes \<Rightarrow> nat \<Rightarrow> MsgRegisterAccountResponse \<Rightarrow> proto_error + MsgRegisterAccountResponse \<times> nat" where
  "MsgRegisterAccountResponse_step d preIndex m =
     bindE (decodeTag ''MsgRegisterAccountResponse'' d preIndex) (\<lambda>(fieldNum, wireType, i).
       if fieldNum = 1 then
         read_bytes ''Address'' wireType d i (\<lambda>b. m\<lparr>resp_Address := bytes_string b\<rparr>)
       else if fieldNum = 2 then
         read_bytes ''Data'' wireType d i (\<lambda>b. m\<lparr>resp_Data := Some b\<rparr>)
       else bindE (skipUnknown d preIndex) (\<lambda>i'. Inr (m, i')))"

lemma MsgRegisterAccountResponse_step_progress: "MsgRegisterAccountResponse_step d i m = Inr (m', j) \<Longrightarrow> i < j"
  by (auto simp: MsgRegisterAccountResponse_step_def bindE_Inr_iff split: if_splits dest!: read_progress)

function MsgRegisterAccountResponse_unmarshal_loop ::
  "bytes \<Rightarrow> nat \<Rightarrow> MsgRegisterAccountResponse \<Rightarrow> proto_error + MsgRegisterAccountResponse" where
  "MsgRegisterAccountResponse_unmarshal_loop d i m =
     (if i < length d
      then bindE (MsgRegisterAccountResponse_step d i m) (\<lambda>(m', j). MsgRegisterAccountResponse_unmarshal_loop d j m')
      else if length d < i then Inl ErrUnexpectedEOF
      else Inr m)"
  by pat_completeness auto
termination
  by (relation "measure (\<lambda>(d, i, m). length d - i)") (auto dest!: MsgRegisterAccountResponse_step_progress)

declare MsgRegisterAccountResponse_unmarshal_loop.simps [simp del]

definition MsgRegisterAccountResponse_Unmarshal :: "MsgRegisterAccountResponse \<Rightarrow> bytes \<Rightarrow> proto_error + MsgRegisterAccountResponse" where
  "MsgRegisterAccountResponse_Unmarshal m dAtA = MsgRegisterAccountResponse_unmarshal_loop dAtA 0 m"

text \<open>The reference encoding of \<open>MsgRegisterAccountResponse\<close>, its segments, and the merge of two messages.\<close>

definition MsgRegisterAccountResponse_enc :: "MsgRegisterAccountResponse \<Rightarrow> bytes" where
  "MsgRegisterAccountResponse_enc m =
     enc_bytes 0x0a (string_bytes (resp_Address m))
   @ enc_bytes 0x12 (slice_bytes (resp_Data m))"

definition MsgRegisterAccountResponse_segs :: "MsgRegisterAccountResponse \<Rightarrow> (bytes \<times> (MsgRegisterAccountResponse \<Rightarrow> MsgRegisterAccountResponse)) list" where
  "MsgRegisterAccountResponse_segs m =
     seg (enc_bytes 0x0a (string_bytes (resp_Address m)))
       (\<lambda>x. x\<lparr>resp_Address := resp_Address m\<rparr>)
   @ seg (enc_bytes 0x12 (slice_bytes (resp_Data m)))
       (\<lambda>x. x\<lparr>resp_Data := Some (slice_bytes (resp_Data m))\<rparr>)"

definition MsgRegisterAccountResponse_merge :: "MsgRegisterAccountResponse \<Rightarrow> MsgRegisterAccountResponse \<Rightarrow> MsgRegisterAccountResponse" where
  "MsgRegisterAccountResponse_merge m0 m =
     \<lparr>resp_Address = (if resp_Address m = [] then resp_Address m0 else resp_Address m),
      resp_Data = (if slice_bytes (resp_Data m) = [] then resp_Data m0 else resp_Data m)\<rparr>"

definition MsgRegisterAccountResponse_norm :: "MsgRegisterAccountResponse \<Rightarrow> MsgRegisterAccountResponse" where
  "MsgRegisterAccountResponse_norm m = m\<lparr>resp_Data := norm_slice (resp_Data m)\<rparr>"

definition MsgRegisterAccountResponse_known :: "int \<Rightarrow> bool" where
  "MsgRegisterAccountResponse_known n \<longleftrightarrow> 1 \<le> n \<and> n \<le> 2"

lemma MsgRegisterAccountResponse_steps [decode_intros]:
  "s \<noteq> [] \<Longrightarrow> decodes_as MsgRegisterAccountResponse_step (enc_bytes 0x0a (string_bytes s)) (\<lambda>x. x\<lparr>resp_Address := s\<rparr>)"
  "b \<noteq> [] \<Longrightarrow> decodes_as MsgRegisterAccountResponse_step (enc_bytes 0x12 b) (\<lambda>x. x\<lparr>resp_Data := Some b\<rparr>)"
  by ((rule decodes_string_field decodes_bytes_field, assumption);
      simp add: MsgRegisterAccountResponse_step_def wire_simps)+

lemma MsgRegisterAccountResponse_parts_small:
  "length (MsgRegisterAccountResponse_enc m) < 2 ^ 63 \<Longrightarrow>
   length (string_bytes (resp_Address m)) < 2 ^ 63 \<and>
   length (slice_bytes (resp_Data m)) < 2 ^ 63"
  using length_enc_bytes_ge [of "string_bytes (resp_Address m)" "0x0a"]
    length_enc_bytes_ge [of "slice_bytes (resp_Data m)" "0x12"]
  by (simp add: MsgRegisterAccountResponse_enc_def)

lemma MsgRegisterAccountResponse_size_enc:
  "length (MsgRegisterAccountResponse_enc m) < 2 ^ 63 \<Longrightarrow> MsgRegisterAccountResponse_Size m = length (MsgRegisterAccountResponse_enc m)"
  using MsgRegisterAccountResponse_parts_small [of m]
  by (simp add: MsgRegisterAccountResponse_Size_def MsgRegisterAccountResponse_enc_def size_simps Let_def)

lemma MsgRegisterAccountResponse_fill_enc:
  assumes "length (MsgRegisterAccountResponse_enc m) < 2 ^ 63" and "length (MsgRegisterAccountResponse_enc m) \<le> length d"
  shows "MsgRegisterAccountResponse_MarshalToSizedBuffer m d
    = Inr (take (length d - length (MsgRegisterAccountResponse_enc m)) d @ MsgRegisterAccountResponse_enc m, int (length (MsgRegisterAccountResponse_enc m)))"
proof -
  have "MsgRegisterAccountResponse_MarshalToSizedBuffer m d
    = bindE (Inr (window d (MsgRegisterAccountResponse_enc m))) (\<lambda>(w, i). Inr (w, int (length d) - i))"
    using assms(2) MsgRegisterAccountResponse_parts_small [OF assms(1)]
    by (simp add: MsgRegisterAccountResponse_MarshalToSizedBuffer_def MsgRegisterAccountResponse_enc_def window_start wire_simps)
  then show ?thesis using assms(2) by (simp add: window_def)
qed

interpretation register_response: message_codec MsgRegisterAccountResponse_Size MsgRegisterAccountResponse_MarshalToSizedBuffer
  MsgRegisterAccountResponse_enc MsgRegisterAccountResponse_step MsgRegisterAccountResponse_unmarshal_loop "''MsgRegisterAccountResponse''"
  MsgRegisterAccountResponse_known MsgRegisterAccountResponse_segs empty_MsgRegisterAccountResponse MsgRegisterAccountResponse_merge
  "\<lambda>_. True" "MsgRegisterAccountResponse_norm"
proof (unfold_locales, goal_cases)
  case (3 d i m)
  show ?case by (rule MsgRegisterAccountResponse_unmarshal_loop.simps)
next
  case (4 d i num wt j m)
  then have "num \<noteq> 1" "num \<noteq> 2" by (auto simp: MsgRegisterAccountResponse_known_def)
  with 4(1) show ?case by (simp add: MsgRegisterAccountResponse_step_def)
next
  case (6 m xs f)
  then show ?case
    using MsgRegisterAccountResponse_parts_small [of m]
    by (auto simp: MsgRegisterAccountResponse_segs_def wire_simps intro: decode_intros)
next
  case (7 m m0)
  show ?case
    by (cases m0) (auto simp: MsgRegisterAccountResponse_segs_def MsgRegisterAccountResponse_merge_def wire_simps slice_bytes_eq)
next
  case (8 m)
  show ?case
    by (cases m) (simp add: MsgRegisterAccountResponse_merge_def empty_MsgRegisterAccountResponse_def MsgRegisterAccountResponse_norm_def norm_slice_def2)
qed (simp_all add: MsgRegisterAccountResponse_size_enc MsgRegisterAccountResponse_fill_enc MsgRegisterAccountResponse_enc_def MsgRegisterAccountResponse_segs_def wire_simps)

text \<open>The getters of the generated code, on a possibly nil message.\<close>

definition GetSender_MsgUpdateParams :: "MsgUpdateParams option \<Rightarrow> string" where
  "GetSender_MsgUpdateParams m = (case m of Some x \<Rightarrow> up_Sender x | None \<Rightarrow> [])"

definition GetParams_MsgUpdateParams :: "MsgUpdateParams option \<Rightarrow> Params option" where
  "GetParams_MsgUpdateParams m = (case m of Some x \<Rightarrow> up_Params x | None \<Rightarrow> None)"

definition GetAddress_Response :: "MsgRegisterAccountResponse option \<Rightarrow> string" where
  "GetAddress_Response m = (case m of Some x \<Rightarrow> resp_Address x | None \<Rightarrow> [])"

definition GetData_Response :: "MsgRegisterAccountResponse option \<Rightarrow> slice" where
  "GetData_Response m = (case m of Some x \<Rightarrow> resp_Data x | None \<Rightarrow> None)"

end
