(* ===== verification/RegisterPB.thy ===== *)
theory RegisterPB
  imports TxPB
begin

text \<open>
  The message \<open>MsgRegisterAccount\<close> and its generated codec, \<open>x/abstractaccount/types/tx.pb.go\<close>.
  Its field \<open>Funds\<close> is a list of the SDK's \<open>Coin\<close>, whose codec is not in this repository:
  the type of coins is a type variable and the codec of one coin is a parameter,
  \<open>coin_codec\<close>; \<open>coin_codec_ok\<close> is what the generated code relies on.
\<close>

subsection \<open>The codec of a coin\<close>

record 'c coin_codec =
  coin_Size :: "'c \<Rightarrow> nat"
  coin_MarshalToSizedBuffer :: "'c \<Rightarrow> bytes \<Rightarrow> go_panic + bytes \<times> int"
  coin_Unmarshal :: "bytes \<Rightarrow> proto_error + 'c"

text \<open>
  \<open>enc\<close> is the coin's encoding: \<open>Size\<close> is its length, the writer fills it in from the
  end of the buffer, and \<open>Unmarshal\<close> into an empty coin reads it back.
\<close>

definition coin_codec_ok :: "'c coin_codec \<Rightarrow> ('c \<Rightarrow> bytes) \<Rightarrow> bool" where
  "coin_codec_ok cc enc \<longleftrightarrow> message_writer (coin_Size cc) (coin_MarshalToSizedBuffer cc) enc
     \<and> (\<forall>c. length (enc c) < 2 ^ 63 \<longrightarrow> coin_Unmarshal cc (enc c) = Inr c)"

subsection \<open>MsgRegisterAccount\<close>

record 'c MsgRegisterAccount =
  Sender :: string
  CodeID :: u64
  Msg :: slice
  Funds :: "'c list"
  Salt :: slice

definition empty_MsgRegisterAccount :: "'c MsgRegisterAccount" where
  "empty_MsgRegisterAccount = \<lparr>Sender = [], CodeID = 0, Msg = None, Funds = [], Salt = None\<rparr>"

definition MsgRegisterAccount_Size :: "'c coin_codec \<Rightarrow> 'c MsgRegisterAccount \<Rightarrow> nat" where
  "MsgRegisterAccount_Size cc m =
     (let l = length (Sender m) in if 0 < l then 1 + l + sov (of_nat l) else 0)
   + (if CodeID m \<noteq> 0 then 1 + sov (CodeID m) else 0)
   + (let l = length (slice_bytes (Msg m)) in if 0 < l then 1 + l + sov (of_nat l) else 0)
   + (if 0 < length (Funds m)
      then sum_list (map (\<lambda>e. size_message (coin_Size cc e)) (Funds m)) else 0)
   + (let l = length (slice_bytes (Salt m)) in if 0 < l then 1 + l + sov (of_nat l) else 0)"

definition MsgRegisterAccount_MarshalToSizedBuffer ::
  "'c coin_codec \<Rightarrow> 'c MsgRegisterAccount \<Rightarrow> bytes \<Rightarrow> go_panic + bytes \<times> int" where
  "MsgRegisterAccount_MarshalToSizedBuffer cc m dAtA =
     bindE (put_bytes 0x2a (slice_bytes (Salt m)) (dAtA, int (length dAtA))) (\<lambda>b1.
     bindE (if 0 < length (Funds m)
            then put_messages 0x22 (coin_MarshalToSizedBuffer cc) (Funds m) b1 else Inr b1) (\<lambda>b2.
     bindE (put_bytes 0x1a (slice_bytes (Msg m)) b2) (\<lambda>b3.
     bindE (put_varint 0x10 (CodeID m) b3) (\<lambda>b4.
     bindE (put_bytes 0x0a (string_bytes (Sender m)) b4) (\<lambda>(d, i).
     Inr (d, int (length dAtA) - i))))))"

definition MsgRegisterAccount_Marshal ::
  "'c coin_codec \<Rightarrow> 'c MsgRegisterAccount \<Rightarrow> go_panic + bytes" where
  "MsgRegisterAccount_Marshal cc m =
     marshalWith (MsgRegisterAccount_Size cc) (MsgRegisterAccount_MarshalToSizedBuffer cc) m"

definition MsgRegisterAccount_MarshalTo ::
  "'c coin_codec \<Rightarrow> 'c MsgRegisterAccount \<Rightarrow> go_slice \<Rightarrow> go_panic + go_slice \<times> int" where
  "MsgRegisterAccount_MarshalTo cc m dAtA =
     marshalToWith (MsgRegisterAccount_Size cc) (MsgRegisterAccount_MarshalToSizedBuffer cc) m dAtA"

definition MsgRegisterAccount_step ::
  "'c coin_codec \<Rightarrow> bytes \<Rightarrow> nat \<Rightarrow> 'c MsgRegisterAccount
     \<Rightarrow> proto_error + 'c MsgRegisterAccount \<times> nat" where
  "MsgRegisterAccount_step cc d preIndex m =
     bindE (decodeTag ''MsgRegisterAccount'' d preIndex) (\<lambda>(fieldNum, wireType, i).
       if fieldNum = 1 then
         read_bytes ''Sender'' wireType d i (\<lambda>b. m\<lparr>Sender := bytes_string b\<rparr>)
       else if fieldNum = 2 then
         read_varint ''CodeID'' wireType d i (\<lambda>v. m\<lparr>CodeID := v\<rparr>)
       else if fieldNum = 3 then
         read_bytes ''Msg'' wireType d i (\<lambda>b. m\<lparr>Msg := Some b\<rparr>)
       else if fieldNum = 4 then
         read_message ''Funds'' wireType d i (coin_Unmarshal cc) (\<lambda>c. m\<lparr>Funds := Funds m @ [c]\<rparr>)
       else if fieldNum = 5 then
         read_bytes ''Salt'' wireType d i (\<lambda>b. m\<lparr>Salt := Some b\<rparr>)
       else bindE (skipUnknown d preIndex) (\<lambda>i'. Inr (m, i')))"

lemma MsgRegisterAccount_step_progress: "MsgRegisterAccount_step cc d i m = Inr (m', j) \<Longrightarrow> i < j"
  by (auto simp: MsgRegisterAccount_step_def bindE_Inr_iff split: if_splits dest!: read_progress)

function MsgRegisterAccount_unmarshal_loop ::
  "'c coin_codec \<Rightarrow> bytes \<Rightarrow> nat \<Rightarrow> 'c MsgRegisterAccount \<Rightarrow> proto_error + 'c MsgRegisterAccount" where
  "MsgRegisterAccount_unmarshal_loop cc d i m =
     (if i < length d
      then bindE (MsgRegisterAccount_step cc d i m)
             (\<lambda>(m', j). MsgRegisterAccount_unmarshal_loop cc d j m')
      else if length d < i then Inl ErrUnexpectedEOF
      else Inr m)"
  by pat_completeness auto
termination
  by (relation "measure (\<lambda>(cc, d, i, m). length d - i)")
     (auto dest!: MsgRegisterAccount_step_progress)

declare MsgRegisterAccount_unmarshal_loop.simps [simp del]

definition MsgRegisterAccount_Unmarshal ::
  "'c coin_codec \<Rightarrow> 'c MsgRegisterAccount \<Rightarrow> bytes \<Rightarrow> proto_error + 'c MsgRegisterAccount" where
  "MsgRegisterAccount_Unmarshal cc m dAtA = MsgRegisterAccount_unmarshal_loop cc dAtA 0 m"

text \<open>The getters of the generated code, on a possibly nil message.\<close>

definition GetSender_MsgRegisterAccount :: "'c MsgRegisterAccount option \<Rightarrow> string" where
  "GetSender_MsgRegisterAccount m = (case m of Some x \<Rightarrow> Sender x | None \<Rightarrow> [])"

definition GetCodeID_MsgRegisterAccount :: "'c MsgRegisterAccount option \<Rightarrow> u64" where
  "GetCodeID_MsgRegisterAccount m = (case m of Some x \<Rightarrow> CodeID x | None \<Rightarrow> 0)"

definition GetMsg_MsgRegisterAccount :: "'c MsgRegisterAccount option \<Rightarrow> slice" where
  "GetMsg_MsgRegisterAccount m = (case m of Some x \<Rightarrow> Msg x | None \<Rightarrow> None)"

definition GetFunds_MsgRegisterAccount :: "'c MsgRegisterAccount option \<Rightarrow> 'c list" where
  "GetFunds_MsgRegisterAccount m = (case m of Some x \<Rightarrow> Funds x | None \<Rightarrow> [])"

definition GetSalt_MsgRegisterAccount :: "'c MsgRegisterAccount option \<Rightarrow> slice" where
  "GetSalt_MsgRegisterAccount m = (case m of Some x \<Rightarrow> Salt x | None \<Rightarrow> None)"

subsection \<open>The codec is correct for every correct coin codec\<close>

definition MsgRegisterAccount_enc :: "('c \<Rightarrow> bytes) \<Rightarrow> 'c MsgRegisterAccount \<Rightarrow> bytes" where
  "MsgRegisterAccount_enc enc m =
     enc_bytes 0x0a (string_bytes (Sender m))
   @ enc_varint 0x10 (CodeID m)
   @ enc_bytes 0x1a (slice_bytes (Msg m))
   @ enc_messages 0x22 enc (Funds m)
   @ enc_bytes 0x2a (slice_bytes (Salt m))"

definition MsgRegisterAccount_segs ::
  "('c \<Rightarrow> bytes) \<Rightarrow> 'c MsgRegisterAccount
     \<Rightarrow> (bytes \<times> ('c MsgRegisterAccount \<Rightarrow> 'c MsgRegisterAccount)) list" where
  "MsgRegisterAccount_segs enc m =
     seg (enc_bytes 0x0a (string_bytes (Sender m))) (\<lambda>x. x\<lparr>Sender := Sender m\<rparr>)
   @ seg (enc_varint 0x10 (CodeID m)) (\<lambda>x. x\<lparr>CodeID := CodeID m\<rparr>)
   @ seg (enc_bytes 0x1a (slice_bytes (Msg m))) (\<lambda>x. x\<lparr>Msg := Some (slice_bytes (Msg m))\<rparr>)
   @ map (\<lambda>c. (enc_message 0x22 (enc c), \<lambda>x. x\<lparr>Funds := Funds x @ [c]\<rparr>)) (Funds m)
   @ seg (enc_bytes 0x2a (slice_bytes (Salt m))) (\<lambda>x. x\<lparr>Salt := Some (slice_bytes (Salt m))\<rparr>)"

definition MsgRegisterAccount_merge ::
  "'c MsgRegisterAccount \<Rightarrow> 'c MsgRegisterAccount \<Rightarrow> 'c MsgRegisterAccount" where
  "MsgRegisterAccount_merge m0 m =
     \<lparr>Sender = (if Sender m = [] then Sender m0 else Sender m),
      CodeID = (if CodeID m = 0 then CodeID m0 else CodeID m),
      Msg = (if slice_bytes (Msg m) = [] then Msg m0 else Msg m),
      Funds = Funds m0 @ Funds m,
      Salt = (if slice_bytes (Salt m) = [] then Salt m0 else Salt m)\<rparr>"

definition MsgRegisterAccount_norm :: "'c MsgRegisterAccount \<Rightarrow> 'c MsgRegisterAccount" where
  "MsgRegisterAccount_norm m = m\<lparr>Msg := norm_slice (Msg m), Salt := norm_slice (Salt m)\<rparr>"

definition MsgRegisterAccount_known :: "int \<Rightarrow> bool" where
  "MsgRegisterAccount_known n \<longleftrightarrow> 1 \<le> n \<and> n \<le> 5"

lemma MsgRegisterAccount_steps [decode_intros]:
  "s \<noteq> [] \<Longrightarrow> decodes_as (MsgRegisterAccount_step cc) (enc_bytes 0x0a (string_bytes s))
     (\<lambda>x. x\<lparr>Sender := s\<rparr>)"
  "v \<noteq> 0 \<Longrightarrow> decodes_as (MsgRegisterAccount_step cc) (enc_varint 0x10 v) (\<lambda>x. x\<lparr>CodeID := v\<rparr>)"
  "b \<noteq> [] \<Longrightarrow> decodes_as (MsgRegisterAccount_step cc) (enc_bytes 0x1a b) (\<lambda>x. x\<lparr>Msg := Some b\<rparr>)"
  "b \<noteq> [] \<Longrightarrow> decodes_as (MsgRegisterAccount_step cc) (enc_bytes 0x2a b) (\<lambda>x. x\<lparr>Salt := Some b\<rparr>)"
  by ((rule decodes_string_field decodes_varint_field decodes_bytes_field, assumption);
      simp add: MsgRegisterAccount_step_def wire_simps)+

lemma MsgRegisterAccount_step_funds:
  assumes "coin_Unmarshal cc b = Inr c"
  shows "decodes_as (MsgRegisterAccount_step cc) (enc_message 0x22 b)
    (\<lambda>x. x\<lparr>Funds := Funds x @ [c]\<rparr>)"
  by (rule decodes_asI)
     (use assms in \<open>simp_all add: MsgRegisterAccount_step_def enc_message_def wire_simps\<close>)

lemma MsgRegisterAccount_parts_small:
  "length (MsgRegisterAccount_enc enc m) < 2 ^ 63 \<Longrightarrow>
   length (string_bytes (Sender m)) < 2 ^ 63 \<and> length (slice_bytes (Msg m)) < 2 ^ 63 \<and>
   length (slice_bytes (Salt m)) < 2 ^ 63 \<and> length (enc_messages 0x22 enc (Funds m)) < 2 ^ 63"
  using length_enc_bytes_ge [of "string_bytes (Sender m)" "0x0a"]
    length_enc_bytes_ge [of "slice_bytes (Msg m)" "0x1a"]
    length_enc_bytes_ge [of "slice_bytes (Salt m)" "0x2a"]
  by (simp add: MsgRegisterAccount_enc_def)

lemma coin_enc_small:
  assumes "length (MsgRegisterAccount_enc enc m) < 2 ^ 63" and "c \<in> set (Funds m)"
  shows "length (enc c) < 2 ^ 63"
proof -
  from assms(2) obtain xs ys where "Funds m = xs @ c # ys" by (auto dest: split_list)
  then have "length (enc c) \<le> length (enc_messages 0x22 enc (Funds m))"
    using length_enc_message_ge [of "enc c" "0x22"] by (simp add: enc_messages_def)
  with MsgRegisterAccount_parts_small [OF assms(1)] show ?thesis by simp
qed

lemma MsgRegisterAccount_size_enc:
  assumes "coin_codec_ok cc enc" and "length (MsgRegisterAccount_enc enc m) < 2 ^ 63"
  shows "MsgRegisterAccount_Size cc m = length (MsgRegisterAccount_enc enc m)"
proof -
  note parts = MsgRegisterAccount_parts_small [OF assms(2)]
  have "message_writer (coin_Size cc) (coin_MarshalToSizedBuffer cc) enc"
    using assms(1) by (simp add: coin_codec_ok_def)
  from message_writer.length_enc_messages [OF this, of "0x22" "Funds m"] parts
  have "length (enc_messages 0x22 enc (Funds m))
    = (if 0 < length (Funds m)
       then sum_list (map (\<lambda>e. size_message (coin_Size cc e)) (Funds m)) else 0)"
    by simp
  then show ?thesis
    using parts
    by (simp only: MsgRegisterAccount_Size_def MsgRegisterAccount_enc_def length_append size_simps
        Let_def add.assoc length_string_bytes)
qed

lemma MsgRegisterAccount_fill_enc:
  assumes "coin_codec_ok cc enc" and "length (MsgRegisterAccount_enc enc m) < 2 ^ 63"
    and "length (MsgRegisterAccount_enc enc m) \<le> length d"
  shows "MsgRegisterAccount_MarshalToSizedBuffer cc m d
    = Inr (take (length d - length (MsgRegisterAccount_enc enc m)) d @ MsgRegisterAccount_enc enc m,
           int (length (MsgRegisterAccount_enc enc m)))"
proof -
  have w: "message_writer (coin_Size cc) (coin_MarshalToSizedBuffer cc) enc"
    using assms(1) by (simp add: coin_codec_ok_def)
  have funds: "(if 0 < length (Funds m)
      then put_messages 0x22 (coin_MarshalToSizedBuffer cc) (Funds m) b else Inr b)
    = put_messages 0x22 (coin_MarshalToSizedBuffer cc) (Funds m) b" for b
    by simp
  have "MsgRegisterAccount_MarshalToSizedBuffer cc m d
    = bindE (Inr (window d (MsgRegisterAccount_enc enc m))) (\<lambda>(w, i). Inr (w, int (length d) - i))"
    unfolding MsgRegisterAccount_MarshalToSizedBuffer_def funds
    using assms(3) MsgRegisterAccount_parts_small [OF assms(2)]
    by (simp add: MsgRegisterAccount_enc_def window_start wire_simps
        message_writer.put_messages_window [OF w])
  then show ?thesis using assms(3) by (simp add: window_def)
qed

lemma fold_funds:
  "fold snd (map (\<lambda>c. (f c, \<lambda>x. x\<lparr>Funds := Funds x @ [c]\<rparr>)) cs) m = m\<lparr>Funds := Funds m @ cs\<rparr>"
  by (induction cs arbitrary: m) simp_all

lemma concat_funds: "concat (map fst (map (\<lambda>c. (enc_message t (enc c), g c)) cs)) = enc_messages t enc cs"
  by (induction cs) (simp_all add: enc_messages_def)

lemma register_decoder:
  "message_decoder (MsgRegisterAccount_step cc) (MsgRegisterAccount_unmarshal_loop cc)
    ''MsgRegisterAccount'' MsgRegisterAccount_known"
proof (unfold_locales, goal_cases)
  case (1 d i m)
  show ?case by (rule MsgRegisterAccount_unmarshal_loop.simps)
next
  case (2 d i num wt j m)
  then have "num \<noteq> 1" "num \<noteq> 2" "num \<noteq> 3" "num \<noteq> 4" "num \<noteq> 5"
    by (auto simp: MsgRegisterAccount_known_def)
  with 2(1) show ?case by (simp add: MsgRegisterAccount_step_def)
qed

lemma register_codec:
  assumes "coin_codec_ok cc enc"
  shows "message_codec (MsgRegisterAccount_Size cc) (MsgRegisterAccount_MarshalToSizedBuffer cc)
    (MsgRegisterAccount_enc enc) (MsgRegisterAccount_step cc) (MsgRegisterAccount_unmarshal_loop cc)
    ''MsgRegisterAccount'' MsgRegisterAccount_known (MsgRegisterAccount_segs enc)
    empty_MsgRegisterAccount MsgRegisterAccount_merge (\<lambda>_. True) MsgRegisterAccount_norm"
proof (unfold_locales, goal_cases)
  case (3 d i m)
  show ?case by (rule message_decoder.loop_unfold [OF register_decoder])
next
  case (4 d i num wt j m)
  then show ?case by (rule message_decoder.unknown_step [OF register_decoder])
next
  case (6 m xs f)
  then show ?case
    using coin_enc_small [of enc m] assms
    by (auto simp: MsgRegisterAccount_segs_def coin_codec_ok_def wire_simps
        intro: decode_intros MsgRegisterAccount_step_funds)
next
  case (7 m m0)
  show ?case
    by (cases m0)
       (auto simp: MsgRegisterAccount_segs_def MsgRegisterAccount_merge_def wire_simps fold_funds
         slice_bytes_eq)
next
  case (8 m)
  show ?case
    by (cases m) (simp add: MsgRegisterAccount_merge_def empty_MsgRegisterAccount_def
        MsgRegisterAccount_norm_def norm_slice_def2)
next
  case (5 m)
  show ?case
    by (simp only: MsgRegisterAccount_enc_def MsgRegisterAccount_segs_def map_append concat_append
        concat_seg concat_funds)
qed (simp_all add: MsgRegisterAccount_size_enc [OF assms] MsgRegisterAccount_fill_enc [OF assms])

end
