(* ===== verification/QueryPB.thy ===== *)
theory QueryPB
  imports ParamsPB
begin

text \<open>
  The messages of the query service and their generated codecs,
  \<open>x/abstractaccount/types/query.pb.go\<close>.
\<close>

subsection \<open>QueryParamsRequest\<close>

datatype QueryParamsRequest = QueryParamsRequest

definition QueryParamsRequest_Size :: "QueryParamsRequest \<Rightarrow> nat" where
  "QueryParamsRequest_Size m =
     0"

definition QueryParamsRequest_MarshalToSizedBuffer ::
  "QueryParamsRequest \<Rightarrow> bytes \<Rightarrow> go_panic + bytes \<times> int" where
  "QueryParamsRequest_MarshalToSizedBuffer m dAtA =
     Inr (dAtA, int (length dAtA) - int (length dAtA))"

definition QueryParamsRequest_Marshal :: "QueryParamsRequest \<Rightarrow> go_panic + bytes" where
  "QueryParamsRequest_Marshal m = marshalWith QueryParamsRequest_Size QueryParamsRequest_MarshalToSizedBuffer m"

definition QueryParamsRequest_MarshalTo :: "QueryParamsRequest \<Rightarrow> go_slice \<Rightarrow> go_panic + go_slice \<times> int" where
  "QueryParamsRequest_MarshalTo m dAtA =
     marshalToWith QueryParamsRequest_Size QueryParamsRequest_MarshalToSizedBuffer m dAtA"

definition QueryParamsRequest_step ::
  "bytes \<Rightarrow> nat \<Rightarrow> QueryParamsRequest \<Rightarrow> proto_error + QueryParamsRequest \<times> nat" where
  "QueryParamsRequest_step d preIndex m =
     bindE (decodeTag ''QueryParamsRequest'' d preIndex) (\<lambda>(fieldNum, wireType, i).
       bindE (skipUnknown d preIndex) (\<lambda>i'. Inr (m, i')))"

lemma QueryParamsRequest_step_progress: "QueryParamsRequest_step d i m = Inr (m', j) \<Longrightarrow> i < j"
  by (auto simp: QueryParamsRequest_step_def bindE_Inr_iff split: if_splits dest!: read_progress)

function QueryParamsRequest_unmarshal_loop ::
  "bytes \<Rightarrow> nat \<Rightarrow> QueryParamsRequest \<Rightarrow> proto_error + QueryParamsRequest" where
  "QueryParamsRequest_unmarshal_loop d i m =
     (if i < length d
      then bindE (QueryParamsRequest_step d i m) (\<lambda>(m', j). QueryParamsRequest_unmarshal_loop d j m')
      else if length d < i then Inl ErrUnexpectedEOF
      else Inr m)"
  by pat_completeness auto
termination
  by (relation "measure (\<lambda>(d, i, m). length d - i)") (auto dest!: QueryParamsRequest_step_progress)

declare QueryParamsRequest_unmarshal_loop.simps [simp del]

definition QueryParamsRequest_Unmarshal :: "QueryParamsRequest \<Rightarrow> bytes \<Rightarrow> proto_error + QueryParamsRequest" where
  "QueryParamsRequest_Unmarshal m dAtA = QueryParamsRequest_unmarshal_loop dAtA 0 m"

text \<open>The reference encoding of \<open>QueryParamsRequest\<close>, its segments, and the merge of two messages.\<close>

definition QueryParamsRequest_enc :: "QueryParamsRequest \<Rightarrow> bytes" where
  "QueryParamsRequest_enc m =
     []"

definition QueryParamsRequest_segs :: "QueryParamsRequest \<Rightarrow> (bytes \<times> (QueryParamsRequest \<Rightarrow> QueryParamsRequest)) list" where
  "QueryParamsRequest_segs m =
     []"

definition QueryParamsRequest_known :: "int \<Rightarrow> bool" where
  "QueryParamsRequest_known n \<longleftrightarrow> False"

interpretation query_request: message_codec QueryParamsRequest_Size QueryParamsRequest_MarshalToSizedBuffer
  QueryParamsRequest_enc QueryParamsRequest_step QueryParamsRequest_unmarshal_loop "''QueryParamsRequest''"
  QueryParamsRequest_known QueryParamsRequest_segs QueryParamsRequest "(\<lambda>m0 m. m)"
  "\<lambda>_. True" "\<lambda>m. m"
proof (unfold_locales, goal_cases)
  case (3 d i m)
  show ?case by (rule QueryParamsRequest_unmarshal_loop.simps)
next
  case (8 m)
  show ?case by (rule refl)
next
  case (7 m m0)
  show ?case by (cases m; cases m0) (simp add: QueryParamsRequest_segs_def)
qed (simp_all add: QueryParamsRequest_Size_def QueryParamsRequest_MarshalToSizedBuffer_def QueryParamsRequest_enc_def QueryParamsRequest_step_def QueryParamsRequest_known_def
    QueryParamsRequest_segs_def)

subsection \<open>QueryParamsResponse\<close>

record QueryParamsResponse =
  qr_Params :: "Params option"

definition empty_QueryParamsResponse :: QueryParamsResponse where
  "empty_QueryParamsResponse = \<lparr>qr_Params = None\<rparr>"

definition QueryParamsResponse_Size :: "QueryParamsResponse \<Rightarrow> nat" where
  "QueryParamsResponse_Size m =
     (case qr_Params m of None \<Rightarrow> 0 | Some p \<Rightarrow> size_message (Params_Size p))"

definition QueryParamsResponse_MarshalToSizedBuffer ::
  "QueryParamsResponse \<Rightarrow> bytes \<Rightarrow> go_panic + bytes \<times> int" where
  "QueryParamsResponse_MarshalToSizedBuffer m dAtA =
     bindE (put_message_opt 0x0a Params_MarshalToSizedBuffer (qr_Params m) (dAtA, int (length dAtA))) (\<lambda>(d, i).
     Inr (d, int (length dAtA) - i))"

definition QueryParamsResponse_Marshal :: "QueryParamsResponse \<Rightarrow> go_panic + bytes" where
  "QueryParamsResponse_Marshal m = marshalWith QueryParamsResponse_Size QueryParamsResponse_MarshalToSizedBuffer m"

definition QueryParamsResponse_MarshalTo :: "QueryParamsResponse \<Rightarrow> go_slice \<Rightarrow> go_panic + go_slice \<times> int" where
  "QueryParamsResponse_MarshalTo m dAtA =
     marshalToWith QueryParamsResponse_Size QueryParamsResponse_MarshalToSizedBuffer m dAtA"

definition QueryParamsResponse_step ::
  "bytes \<Rightarrow> nat \<Rightarrow> QueryParamsResponse \<Rightarrow> proto_error + QueryParamsResponse \<times> nat" where
  "QueryParamsResponse_step d preIndex m =
     bindE (decodeTag ''QueryParamsResponse'' d preIndex) (\<lambda>(fieldNum, wireType, i).
       if fieldNum = 1 then
         read_message ''Params'' wireType d i
           (Params_Unmarshal (case qr_Params m of None \<Rightarrow> empty_Params | Some q \<Rightarrow> q))
           (\<lambda>p. m\<lparr>qr_Params := Some p\<rparr>)
       else bindE (skipUnknown d preIndex) (\<lambda>i'. Inr (m, i')))"

lemma QueryParamsResponse_step_progress: "QueryParamsResponse_step d i m = Inr (m', j) \<Longrightarrow> i < j"
  by (auto simp: QueryParamsResponse_step_def bindE_Inr_iff split: if_splits dest!: read_progress)

function QueryParamsResponse_unmarshal_loop ::
  "bytes \<Rightarrow> nat \<Rightarrow> QueryParamsResponse \<Rightarrow> proto_error + QueryParamsResponse" where
  "QueryParamsResponse_unmarshal_loop d i m =
     (if i < length d
      then bindE (QueryParamsResponse_step d i m) (\<lambda>(m', j). QueryParamsResponse_unmarshal_loop d j m')
      else if length d < i then Inl ErrUnexpectedEOF
      else Inr m)"
  by pat_completeness auto
termination
  by (relation "measure (\<lambda>(d, i, m). length d - i)") (auto dest!: QueryParamsResponse_step_progress)

declare QueryParamsResponse_unmarshal_loop.simps [simp del]

definition QueryParamsResponse_Unmarshal :: "QueryParamsResponse \<Rightarrow> bytes \<Rightarrow> proto_error + QueryParamsResponse" where
  "QueryParamsResponse_Unmarshal m dAtA = QueryParamsResponse_unmarshal_loop dAtA 0 m"

text \<open>The reference encoding of \<open>QueryParamsResponse\<close>, its segments, and the merge of two messages.\<close>

definition QueryParamsResponse_enc :: "QueryParamsResponse \<Rightarrow> bytes" where
  "QueryParamsResponse_enc m =
     enc_message_opt 0x0a Params_enc (qr_Params m)"

definition QueryParamsResponse_segs :: "QueryParamsResponse \<Rightarrow> (bytes \<times> (QueryParamsResponse \<Rightarrow> QueryParamsResponse)) list" where
  "QueryParamsResponse_segs m =
     seg (enc_message_opt 0x0a Params_enc (qr_Params m))
       (\<lambda>x. x\<lparr>qr_Params := merge_Params_opt (qr_Params x) (qr_Params m)\<rparr>)"

definition QueryParamsResponse_merge :: "QueryParamsResponse \<Rightarrow> QueryParamsResponse \<Rightarrow> QueryParamsResponse" where
  "QueryParamsResponse_merge m0 m =
     \<lparr>qr_Params = merge_Params_opt (qr_Params m0) (qr_Params m)\<rparr>"

definition QueryParamsResponse_known :: "int \<Rightarrow> bool" where
  "QueryParamsResponse_known n \<longleftrightarrow> 1 \<le> n \<and> n \<le> 1"

lemma QueryParamsResponse_step_params [decode_intros]:
  assumes "length (Params_enc p) < 2 ^ 63"
  shows "decodes_as QueryParamsResponse_step (enc_message 0x0a (Params_enc p))
    (\<lambda>x. x\<lparr>qr_Params := merge_Params_opt (qr_Params x) (Some p)\<rparr>)"
proof (rule decodes_asI)
  fix q s :: bytes and m :: QueryParamsResponse
  let ?m = "case qr_Params m of None \<Rightarrow> empty_Params | Some q \<Rightarrow> q"
  assume "length q + length (enc_message 0x0a (Params_enc p)) + length s < 2 ^ 63"
  moreover have "Params_Unmarshal ?m (Params_enc p) = Inr (Params_merge ?m p)"
    using params.unmarshal_merges [of p ?m] assms by (simp add: Params_Unmarshal_def)
  ultimately show "QueryParamsResponse_step (q @ enc_message 0x0a (Params_enc p) @ s) (length q) m
    = Inr (m\<lparr>qr_Params := merge_Params_opt (qr_Params m) (Some p)\<rparr>,
           length q + length (enc_message 0x0a (Params_enc p)))"
    by (simp add: QueryParamsResponse_step_def enc_message_def wire_simps merge_Params_opt_def)
qed simp

lemma QueryParamsResponse_parts_small:
  "length (QueryParamsResponse_enc m) < 2 ^ 63 \<Longrightarrow>
   length (enc_message_opt 0x0a Params_enc (qr_Params m)) < 2 ^ 63"
  by (simp add: QueryParamsResponse_enc_def)

lemma QueryParamsResponse_size_enc:
  "length (QueryParamsResponse_enc m) < 2 ^ 63 \<Longrightarrow> QueryParamsResponse_Size m = length (QueryParamsResponse_enc m)"
  using QueryParamsResponse_parts_small [of m] params.length_enc_message_opt [of "0x0a" "qr_Params m"]
  by (simp add: QueryParamsResponse_Size_def QueryParamsResponse_enc_def size_simps Let_def)

lemma QueryParamsResponse_fill_enc:
  assumes "length (QueryParamsResponse_enc m) < 2 ^ 63" and "length (QueryParamsResponse_enc m) \<le> length d"
  shows "QueryParamsResponse_MarshalToSizedBuffer m d
    = Inr (take (length d - length (QueryParamsResponse_enc m)) d @ QueryParamsResponse_enc m, int (length (QueryParamsResponse_enc m)))"
proof -
  have "QueryParamsResponse_MarshalToSizedBuffer m d
    = bindE (Inr (window d (QueryParamsResponse_enc m))) (\<lambda>(w, i). Inr (w, int (length d) - i))"
    using assms(2) QueryParamsResponse_parts_small [OF assms(1)]
    by (simp add: QueryParamsResponse_MarshalToSizedBuffer_def QueryParamsResponse_enc_def window_start wire_simps)
  then show ?thesis using assms(2) by (simp add: window_def)
qed

interpretation query_response: message_codec QueryParamsResponse_Size QueryParamsResponse_MarshalToSizedBuffer
  QueryParamsResponse_enc QueryParamsResponse_step QueryParamsResponse_unmarshal_loop "''QueryParamsResponse''"
  QueryParamsResponse_known QueryParamsResponse_segs empty_QueryParamsResponse QueryParamsResponse_merge
  "\<lambda>_. True" "\<lambda>m. m"
proof (unfold_locales, goal_cases)
  case (3 d i m)
  show ?case by (rule QueryParamsResponse_unmarshal_loop.simps)
next
  case (4 d i num wt j m)
  then have "num \<noteq> 1" by (auto simp: QueryParamsResponse_known_def)
  with 4(1) show ?case by (simp add: QueryParamsResponse_step_def)
next
  case (6 m xs f)
  then show ?case
    using QueryParamsResponse_parts_small [of m]
      length_enc_message_ge [of "Params_enc (the (qr_Params m))" "0x0a"]
    by (auto simp: QueryParamsResponse_segs_def wire_simps enc_message_opt_def split: option.splits intro: decode_intros)
next
  case (7 m m0)
  show ?case
    by (cases m0) (auto simp: QueryParamsResponse_segs_def QueryParamsResponse_merge_def wire_simps merge_Params_opt_simps enc_message_opt_def split: option.splits)
next
  case (8 m)
  show ?case
    by (cases m) (simp add: QueryParamsResponse_merge_def empty_QueryParamsResponse_def merge_Params_opt_simps)
qed (simp_all add: QueryParamsResponse_size_enc QueryParamsResponse_fill_enc QueryParamsResponse_enc_def QueryParamsResponse_segs_def wire_simps)

text \<open>The getters of the generated code, on a possibly nil message.\<close>

definition GetParams_QueryParamsResponse :: "QueryParamsResponse option \<Rightarrow> Params option" where
  "GetParams_QueryParamsResponse m = (case m of Some x \<Rightarrow> qr_Params x | None \<Rightarrow> None)"

end
