(* ===== verification/CodecSpec.thy ===== *)
theory CodecSpec
  imports AccountPB GenesisPB EventsPB RegisterPB TxPB QueryPB
begin

text \<open>
  The properties of the generated codecs of all messages but \<open>Params\<close>, whose properties stand
  with its codec.  A message that fits in memory is one whose encoding is shorter than
  \<open>2 ^ 63\<close> bytes, the largest Go slice.
\<close>

text \<open>C35: The closed formula for the size of a varint, \<open>(bits.Len64(x | 1) + 6) / 7\<close>, agrees with
  the loops it stands for: it is the number of bytes of the base-128 representation of
  every 64-bit value (ten at most), \<open>encodeVarint\<close> writes exactly that representation into
  a buffer of that size, and decoding it, whatever follows it, reads exactly that many
  bytes and gives the value back.\<close>

theorem varint_size_equivalence:
  "sov v = length (varint (unat v)) \<and> sov v \<le> 10
    \<and> encodeVarint (replicate (sov v) 0, int (sov v)) v = Inr (varint (unat v), 0)
    \<and> decodeVarint (varint (unat v) @ rest) 0 0 0 = Inr (v, sov v)"
proof -
  let ?p = "replicate (sov v) 0 :: bytes"
  have len: "sov v = length (varint (unat v))" by (simp add: length_varint)
  have "encodeVarint (window ?p []) v = Inr (window ?p (varint (unat v) @ []))"
    by (rule encodeVarint_window) (simp add: len)
  then have "encodeVarint (?p, int (length ?p)) v = Inr (varint (unat v), 0)"
    using window_full [of ?p "varint (unat v)"] len by (simp only: window_start) simp
  moreover have "decodeVarint (varint (unat v) @ rest) 0 0 0 = Inr (v, sov v)"
    using decodeVarint_word [of "[]" v rest] len by simp
  ultimately show ?thesis using len sov_le_10 [of v] by simp
qed

text \<open>C32: Every decoder ends, on any bytes.  With one iteration of the field loop more than there
  are bytes, \<open>Unmarshal\<close> of each message has returned: every pass of the loop, unknown
  fields and groups included, moves the read position forward.\<close>

theorem decoders_terminate:
  "iterate Params_step (length bz + 1) bz 0 p = Some (Params_Unmarshal p bz)
    \<and> iterate GenesisState_step (length bz + 1) bz 0 gs = Some (GenesisState_Unmarshal gs bz)
    \<and> iterate AbstractAccount_step (length bz + 1) bz 0 a = Some (AbstractAccount_Unmarshal a bz)
    \<and> iterate NilPubKey_step (length bz + 1) bz 0 pk = Some (NilPubKey_Unmarshal pk bz)
    \<and> iterate EventAccountRegistered_step (length bz + 1) bz 0 ev = Some (EventAccountRegistered_Unmarshal ev bz)
    \<and> iterate MsgUpdateParams_step (length bz + 1) bz 0 up = Some (MsgUpdateParams_Unmarshal up bz)
    \<and> iterate MsgUpdateParamsResponse_step (length bz + 1) bz 0 ur
        = Some (MsgUpdateParamsResponse_Unmarshal ur bz)
    \<and> iterate (MsgRegisterAccount_step cc) (length bz + 1) bz 0 r = Some (MsgRegisterAccount_Unmarshal cc r bz)
    \<and> iterate MsgRegisterAccountResponse_step (length bz + 1) bz 0 rr
        = Some (MsgRegisterAccountResponse_Unmarshal rr bz)
    \<and> iterate QueryParamsRequest_step (length bz + 1) bz 0 qq = Some (QueryParamsRequest_Unmarshal qq bz)
    \<and> iterate QueryParamsResponse_step (length bz + 1) bz 0 qr = Some (QueryParamsResponse_Unmarshal qr bz)"
proof -
  have n: "length bz - 0 < length bz + 1" by simp
  show ?thesis
    unfolding Params_Unmarshal_def GenesisState_Unmarshal_def AbstractAccount_Unmarshal_def
      NilPubKey_Unmarshal_def EventAccountRegistered_Unmarshal_def MsgUpdateParams_Unmarshal_def
      MsgUpdateParamsResponse_Unmarshal_def MsgRegisterAccount_Unmarshal_def
      MsgRegisterAccountResponse_Unmarshal_def QueryParamsRequest_Unmarshal_def QueryParamsResponse_Unmarshal_def
    by (intro conjI params.loop_bounded [OF Params_step_progress n]
        genesis.loop_bounded [OF GenesisState_step_progress n]
        account.loop_bounded [OF AbstractAccount_step_progress n]
        nilpubkey.loop_bounded [OF NilPubKey_step_progress n]
        event.loop_bounded [OF EventAccountRegistered_step_progress n]
        update_params.loop_bounded [OF MsgUpdateParams_step_progress n]
        update_params_response.loop_bounded [OF MsgUpdateParamsResponse_step_progress n]
        message_decoder.loop_bounded [OF register_decoder MsgRegisterAccount_step_progress n]
        register_response.loop_bounded [OF MsgRegisterAccountResponse_step_progress n]
        query_request.loop_bounded [OF QueryParamsRequest_step_progress n]
        query_response.loop_bounded [OF QueryParamsResponse_step_progress n])
qed

text \<open>The account types survive storage: \<open>Unmarshal\<close> of what \<open>Marshal\<close> writes gives the same
  \<open>AbstractAccount\<close>, and the same \<open>NilPubKey\<close> up to the difference between nil and empty
  address bytes; neither panics.\<close>

theorem account_codecs_roundtrip:
  assumes "length (AbstractAccount_enc a) < 2 ^ 63" and "length (NilPubKey_enc pk) < 2 ^ 63"
  shows "bindE (AbstractAccount_Marshal a) (\<lambda>bz. Inr (AbstractAccount_Unmarshal empty_AbstractAccount bz))
      = Inr (Inr a)
    \<and> bindE (NilPubKey_Marshal pk) (\<lambda>bz. Inr (NilPubKey_Unmarshal empty_NilPubKey bz))
      = Inr (Inr (pk\<lparr>AddressBytes := norm_slice (AddressBytes pk)\<rparr>))"
  using account.marshal [OF assms(1)] account.roundtrip [OF _ assms(1)]
    nilpubkey.marshal [OF assms(2)] nilpubkey.roundtrip [OF _ assms(2)]
  by (simp add: AbstractAccount_Marshal_def AbstractAccount_Unmarshal_def NilPubKey_Marshal_def
      NilPubKey_Unmarshal_def NilPubKey_norm_def)

theorem account_codecs_roundtrip_witness:
  "bindE (AbstractAccount_Marshal \<lparr>Address = ''x'', AccountNumber = 3, Sequence = 200\<rparr>)
      (\<lambda>bz. Inr (AbstractAccount_Unmarshal empty_AbstractAccount bz))
    = Inr (Inr \<lparr>Address = ''x'', AccountNumber = 3, Sequence = 200\<rparr>)"
  using account_codecs_roundtrip [of "\<lparr>Address = ''x'', AccountNumber = 3, Sequence = 200\<rparr>"
      "\<lparr>AddressBytes = None\<rparr>"] length_varint_le_10 [of "unat (200 :: u64)"]
  by (simp add: AbstractAccount_enc_def NilPubKey_enc_def enc_varint_def enc_bytes_def varint_small)

text \<open>A genesis state survives encoding, missing parameters (a nil pointer) included, and
  \<open>Unmarshal\<close> into a state that already holds values merges: the parameters field by
  field, the next account id replaced when it is present.\<close>

theorem genesis_codec_merges:
  assumes "length (GenesisState_enc gs) < 2 ^ 63"
  shows "GenesisState_Marshal gs = Inr (GenesisState_enc gs)
    \<and> GenesisState_Unmarshal empty_GenesisState (GenesisState_enc gs) = Inr gs
    \<and> GenesisState_Unmarshal gs0 (GenesisState_enc gs)
      = Inr \<lparr>gs_Params = merge_Params_opt (gs_Params gs0) (gs_Params gs),
          NextAccountId = (if NextAccountId gs = 0 then NextAccountId gs0 else NextAccountId gs)\<rparr>"
  using genesis.marshal [OF assms] genesis.roundtrip [OF _ assms]
    genesis.unmarshal_merges [OF _ assms, of gs0]
  by (simp add: GenesisState_Marshal_def GenesisState_Unmarshal_def GenesisState_merge_def)

theorem genesis_codec_merges_witness:
  "GenesisState_Unmarshal \<lparr>gs_Params = None, NextAccountId = 9\<rparr>
     (GenesisState_enc \<lparr>gs_Params = Some empty_Params, NextAccountId = 0\<rparr>)
    = Inr \<lparr>gs_Params = Some empty_Params, NextAccountId = 9\<rparr>"
  using genesis_codec_merges [of "\<lparr>gs_Params = Some empty_Params, NextAccountId = 0\<rparr>"
      "\<lparr>gs_Params = None, NextAccountId = 9\<rparr>"]
  by (simp add: GenesisState_enc_def Params_enc_def empty_Params_def enc_bool_def enc_message_def
      varint_small merge_Params_opt_simps)

text \<open>The registration event survives encoding, and a decoder that meets fields it does not
  know, groups included, returns the same event.\<close>

theorem event_codec_forward_compatible:
  assumes "list_all (\<lambda>f. wf_field f \<and> 3 < field_num f) us"
    and "length (EventAccountRegistered_enc ev @ concat (map encode_field us)) < 2 ^ 63"
  shows "EventAccountRegistered_Unmarshal empty_EventAccountRegistered
    (EventAccountRegistered_enc ev @ concat (map encode_field us)) = Inr ev"
proof -
  have "list_all (\<lambda>f. wf_field f \<and> \<not> EventAccountRegistered_known (int (field_num f))) us"
    using assms(1) by (auto simp: list_all_iff EventAccountRegistered_known_def)
  then show ?thesis
    using assms(2) event.unmarshal_unknown by (simp add: EventAccountRegistered_Unmarshal_def)
qed

theorem event_codec_forward_compatible_witness:
  "EventAccountRegistered_Unmarshal empty_EventAccountRegistered
    (EventAccountRegistered_enc \<lparr>Creator = ''a'', ev_CodeID = 7, ContractAddr = ''c''\<rparr>
      @ concat (map encode_field [WVarint 9 1]))
   = Inr \<lparr>Creator = ''a'', ev_CodeID = 7, ContractAddr = ''c''\<rparr>"
  by (rule event_codec_forward_compatible)
     (simp_all add: EventAccountRegistered_enc_def enc_bytes_def enc_varint_def varint_small)

text \<open>C34: A registration message survives encoding whatever codec the coins have, as long as that
  codec is itself correct: \<open>Marshal\<close> writes exactly \<open>Size\<close> bytes and \<open>Unmarshal\<close> gives the
  message back, the funds in their order, up to the difference between nil and empty
  byte fields.\<close>

theorem register_codec_roundtrip:
  assumes "coin_codec_ok cc enc" and "length (MsgRegisterAccount_enc enc m) < 2 ^ 63"
  shows "\<exists>bz. MsgRegisterAccount_Marshal cc m = Inr bz \<and> length bz = MsgRegisterAccount_Size cc m
    \<and> MsgRegisterAccount_Unmarshal cc empty_MsgRegisterAccount bz
      = Inr (m\<lparr>Msg := norm_slice (Msg m), Salt := norm_slice (Salt m)\<rparr>)"
proof -
  note c = register_codec [OF assms(1)]
  note w = message_codec.axioms(1) [OF c]
  have "MsgRegisterAccount_Marshal cc m = Inr (MsgRegisterAccount_enc enc m)"
    using message_writer.marshal [OF w assms(2)] by (simp add: MsgRegisterAccount_Marshal_def)
  moreover have "MsgRegisterAccount_Size cc m = length (MsgRegisterAccount_enc enc m)"
    by (rule MsgRegisterAccount_size_enc [OF assms])
  moreover have "MsgRegisterAccount_Unmarshal cc empty_MsgRegisterAccount (MsgRegisterAccount_enc enc m)
      = Inr (MsgRegisterAccount_norm m)"
    using message_codec.roundtrip [OF c _ assms(2)] by (simp add: MsgRegisterAccount_Unmarshal_def)
  ultimately show ?thesis by (simp add: MsgRegisterAccount_norm_def)
qed

text \<open>
  For the witness the coins are abstract accounts: a type with a codec that is proved correct.
\<close>

definition sample_coin_codec :: "AbstractAccount coin_codec" where
  "sample_coin_codec =
     \<lparr>coin_Size = AbstractAccount_Size,
      coin_MarshalToSizedBuffer = AbstractAccount_MarshalToSizedBuffer,
      coin_Unmarshal = AbstractAccount_Unmarshal empty_AbstractAccount\<rparr>"

lemma sample_coin_codec_ok: "coin_codec_ok sample_coin_codec AbstractAccount_enc"
  using account.message_writer_axioms account.roundtrip
  by (simp add: coin_codec_ok_def sample_coin_codec_def AbstractAccount_Unmarshal_def)

theorem register_codec_roundtrip_witness:
  "\<exists>bz. MsgRegisterAccount_Marshal sample_coin_codec
      \<lparr>Sender = ''s'', CodeID = 1, Msg = Some [5], Funds = [empty_AbstractAccount], Salt = Some []\<rparr>
      = Inr bz
    \<and> MsgRegisterAccount_Unmarshal sample_coin_codec empty_MsgRegisterAccount bz
      = Inr \<lparr>Sender = ''s'', CodeID = 1, Msg = Some [5], Funds = [empty_AbstractAccount], Salt = None\<rparr>"
  using register_codec_roundtrip [OF sample_coin_codec_ok, of "\<lparr>Sender = ''s'', CodeID = 1,
      Msg = Some [5], Funds = [empty_AbstractAccount], Salt = Some []\<rparr>"]
  by (auto simp: MsgRegisterAccount_enc_def enc_bytes_def enc_varint_def enc_messages_def
      enc_message_def AbstractAccount_enc_def empty_AbstractAccount_def varint_small)

end
