(* ===== verification/Errors.thy ===== *)
theory Errors
  imports Varint
begin

text \<open>
  Error values, panics and results.  The module's own errors are those of
  \<open>x/abstractaccount/types/errors.go\<close>; the SDK errors are the \<open>sdkerrors\<close> values the
  module wraps, with the arguments of the wrapping call.  \<open>ProtoError\<close> is an error of the
  generated codec, \<open>ErrNew\<close> one made by \<open>errors.New\<close>, \<open>ErrWrapped\<close> one made by
  \<open>fmt.Errorf\<close> with a text before a wrapped error (\<open>%w\<close>); an error that a third-party call
  returns is \<open>External\<close> with its text.
\<close>

datatype error =
    ErrMalformedAllowList
  | ErrNonEmptyAllowList
  | ErrNotAllowedCodeID
  | ErrNotBaseAccount
  | ErrNotSingleSignature
  | ErrParsingParams error
  | ErrZeroMaxGas
  | ErrNotFound string
  | ErrUnauthorized string string
  | ErrWrongSequence u64 u64
  | ErrInvalidRequest string
  | ErrInvalidCoins
  | ErrTxDecode string
  | ErrLogic string
  | ErrNew string
  | ErrWrapped string error
  | ProtoError proto_error
  | External string

text \<open>
  A panic is a Go runtime error of the generated code, a nil dereference, an explicit
  \<open>panic(err)\<close> or \<open>panic(msg)\<close> of this module, or one raised inside a third-party
  call (an exhausted gas meter among them).  \<open>ProcessExit\<close> is a call of \<open>os.Exit\<close>, which ends
  the process as an unrecovered panic does, with the given code.
\<close>

datatype panic =
    PanicRuntime go_panic
  | NilDereference
  | PanicError error
  | PanicMsg string
  | ProcessExit int

datatype 'a res = Ok 'a | Err error | Panic panic

text \<open>A Go call that returns only an \<open>error\<close> is a \<open>unit res\<close>; \<open>check\<close> is the guard form.\<close>

fun is_Ok :: "'a res \<Rightarrow> bool" where
  "is_Ok (Ok x) = True"
| "is_Ok (Err e) = False"
| "is_Ok (Panic p) = False"

lemma is_Ok_iff: "is_Ok r \<longleftrightarrow> (\<exists>x. r = Ok x)"
  by (cases r) auto

fun bindR :: "'a res \<Rightarrow> ('a \<Rightarrow> 'b res) \<Rightarrow> 'b res" where
  "bindR (Ok x) f = f x"
| "bindR (Err e) f = Err e"
| "bindR (Panic p) f = Panic p"

lemma bindR_Ok_iff: "bindR r f = Ok y \<longleftrightarrow> (\<exists>x. r = Ok x \<and> f x = Ok y)"
  by (cases r) auto

text \<open>The results of the generated codec as results of the module.\<close>

fun of_panic :: "go_panic + 'a \<Rightarrow> 'a res" where
  "of_panic (Inl p) = Panic (PanicRuntime p)"
| "of_panic (Inr x) = Ok x"

fun of_error :: "(proto_error \<Rightarrow> error) \<Rightarrow> proto_error + 'a \<Rightarrow> 'a res" where
  "of_error w (Inl e) = Err (w e)"
| "of_error w (Inr x) = Ok x"

end
