(* ===== verification/Context.thy ===== *)
theory Context
  imports Errors EventsPB
begin

text \<open>
  The SDK context the module's code runs in, and how its calls are sequenced.

  A Go function that takes \<open>ctx sdk.Context\<close> reads and mutates, through it, the stores
  of the chain; it is modelled as a function from the context to its result and the
  context afterwards.  The context after a call that returned an error or panicked is
  kept: the module itself never rolls back, its callers do.

  The SDK is not part of this repository.  Its functions are fields of the records
  \<open>Sdk\<close> (here) and of the keeper records of the theories that use them; what the code
  relies on is stated about those fields where it is used.  The context keeps the parts
  of the state the module's own code reads or writes: the module's KVStore, the events,
  the gas meter and the chain id; everything else, the stores of all other modules
  among it, is the component \<open>world\<close> of a type left open.
\<close>

subsection \<open>Sequencing\<close>

type_synonym ('s, 'a) act = "'s \<Rightarrow> 'a res \<times> 's"

definition retM :: "'a \<Rightarrow> ('s, 'a) act" where
  "retM x = (\<lambda>s. (Ok x, s))"

definition liftM :: "'a res \<Rightarrow> ('s, 'a) act" where
  "liftM r = (\<lambda>s. (r, s))"

definition readM :: "('s \<Rightarrow> 'a) \<Rightarrow> ('s, 'a) act" where
  "readM f = (\<lambda>s. (Ok (f s), s))"

definition modifyM :: "('s \<Rightarrow> 's) \<Rightarrow> ('s, unit) act" where
  "modifyM f = (\<lambda>s. (Ok (), f s))"

definition bindM :: "('s, 'a) act \<Rightarrow> ('a \<Rightarrow> ('s, 'b) act) \<Rightarrow> ('s, 'b) act" where
  "bindM m f = (\<lambda>s. case m s of
     (Ok x, s') \<Rightarrow> f x s'
   | (Err e, s') \<Rightarrow> (Err e, s')
   | (Panic p, s') \<Rightarrow> (Panic p, s'))"

lemma bindM_simps [monad_simps]:
  "bindM (retM x) f = f x"
  "bindM (liftM (Ok x)) f = f x"
  "bindM (liftM (Err e)) f = liftM (Err e)"
  "bindM (liftM (Panic p)) f = liftM (Panic p)"
  by (simp_all add: bindM_def retM_def liftM_def fun_eq_iff)

lemma bindM_run [monad_simps]:
  "bindM (readM g) f s = f (g s) s"
  "bindM (modifyM h) k s = k () (h s)"
  by (simp_all add: bindM_def readM_def modifyM_def)

lemma run_simps [monad_simps]:
  "retM x s = (Ok x, s)"
  "liftM r s = (r, s)"
  "readM g s = (Ok (g s), s)"
  "modifyM h s = (Ok (), h s)"
  by (simp_all add: retM_def liftM_def readM_def modifyM_def)

lemma bindM_OkI [monad_simps]: "m s = (Ok x, s') \<Longrightarrow> bindM m f s = f x s'"
  by (simp add: bindM_def)

lemma bindM_ErrI [monad_simps]: "m s = (Err e, s') \<Longrightarrow> bindM m f s = (Err e, s')"
  by (simp add: bindM_def)

lemma bindM_PanicI [monad_simps]: "m s = (Panic p, s') \<Longrightarrow> bindM m f s = (Panic p, s')"
  by (simp add: bindM_def)

lemma bindM_Ok_iff:
  "bindM m f s = (Ok y, s') \<longleftrightarrow> (\<exists>x s1. m s = (Ok x, s1) \<and> f x s1 = (Ok y, s'))"
  by (auto simp: bindM_def split: prod.splits res.splits)

lemma bindM_assoc: "bindM (bindM m f) g = bindM m (\<lambda>x. bindM (f x) g)"
  by (auto simp: bindM_def fun_eq_iff split: prod.splits res.splits)

text \<open>
  \<open>keeps P m\<close>: the call \<open>m\<close>, whatever its result, leads from a state with \<open>P\<close> to one
  with \<open>P\<close>.  One rule per construct, so that an invariant is followed through a
  handler call by call.
\<close>

definition keeps :: "('s \<Rightarrow> bool) \<Rightarrow> ('s, 'a) act \<Rightarrow> bool" where
  "keeps P m \<longleftrightarrow> (\<forall>s. P s \<longrightarrow> P (snd (m s)))"

lemma keepsD: "keeps P m \<Longrightarrow> P s \<Longrightarrow> m s = (r, s') \<Longrightarrow> P s'"
  by (metis keeps_def snd_conv)

lemma keeps_retM [simp, intro]: "keeps P (retM x)"
  by (simp add: keeps_def retM_def)

lemma keeps_liftM [simp, intro]: "keeps P (liftM r)"
  by (simp add: keeps_def liftM_def)

lemma keeps_readM [simp, intro]: "keeps P (readM g)"
  by (simp add: keeps_def readM_def)

lemma keeps_modifyM: "keeps P (modifyM f) \<longleftrightarrow> (\<forall>s. P s \<longrightarrow> P (f s))"
  by (simp add: keeps_def modifyM_def)

lemma liftM_Ok_iff: "liftM r s = (Ok y, t) \<longleftrightarrow> r = Ok y \<and> t = s"
  by (auto simp: liftM_def)

lemma keeps_bindM [intro]: "keeps P m \<Longrightarrow> (\<And>x. keeps P (f x)) \<Longrightarrow> keeps P (bindM m f)"
  by (auto simp: keeps_def bindM_def split: prod.split res.split dest: spec)

subsection \<open>The context\<close>

record gas_meter =
  gas_limit :: "u64 option"
  gas_consumed :: u64

definition NewGasMeter :: "u64 \<Rightarrow> gas_meter" where
  "NewGasMeter limit = \<lparr>gas_limit = Some limit, gas_consumed = 0\<rparr>"

text \<open>An amount of one token, \<open>sdk.Coin\<close>; its \<open>Amount\<close> is an unbounded integer.\<close>

record Coin =
  Denom :: string
  Amount :: int

text \<open>An ABCI event: its type and its attributes.\<close>

type_synonym event = "string \<times> (string \<times> string) list"

record 'w ctx =
  module_store :: "bytes \<Rightarrow> slice"
  world :: 'w
  events :: "event list"
  meter :: gas_meter
  chain_id :: string

subsection \<open>The KVStore of the module\<close>

text \<open>
  \<open>Get\<close> returns nil for a key that is not set; \<open>Set\<close> panics on a nil value;
  \<open>Delete\<close> removes the key.
\<close>

definition store_Get :: "bytes \<Rightarrow> 'w ctx \<Rightarrow> slice" where
  "store_Get key ctx = module_store ctx key"

definition store_Set :: "bytes \<Rightarrow> slice \<Rightarrow> ('w ctx, unit) act" where
  "store_Set key value =
     (case value of
        None \<Rightarrow> liftM (Panic (PanicMsg ''value is nil''))
      | Some v \<Rightarrow> modifyM (\<lambda>ctx. ctx\<lparr>module_store := (module_store ctx)(key := Some v)\<rparr>))"

definition store_Delete :: "bytes \<Rightarrow> ('w ctx, unit) act" where
  "store_Delete key = modifyM (\<lambda>ctx. ctx\<lparr>module_store := (module_store ctx)(key := None)\<rparr>)"

text \<open>
  The contract of a store the keeper is written against: a client reads back what it
  wrote under a key, writing under one key leaves the others alone, and a deleted key
  reads as nil.
\<close>

locale kv_store =
  fixes get :: "bytes \<Rightarrow> 's \<Rightarrow> slice"
    and set_value :: "bytes \<Rightarrow> slice \<Rightarrow> ('s, unit) act"
    and delete :: "bytes \<Rightarrow> ('s, unit) act"
  assumes set_Some: "\<exists>s'. set_value k (Some v) s = (Ok (), s') \<and> get k s' = Some v
      \<and> (\<forall>j. j \<noteq> k \<longrightarrow> get j s' = get j s)"
    and set_None: "\<exists>p. set_value k None s = (Panic p, s)"
    and delete_ok: "\<exists>s'. delete k s = (Ok (), s') \<and> get k s' = None
      \<and> (\<forall>j. j \<noteq> k \<longrightarrow> get j s' = get j s)"
begin

lemma get_after_set: "set_value k v s = (Ok (), s') \<Longrightarrow> get k s' = v"
  using set_Some [of k "the v" s] set_None [of k s] by (cases v) auto

lemma other_after_set: "set_value k v s = (r, s') \<Longrightarrow> j \<noteq> k \<Longrightarrow> get j s' = get j s"
  using set_Some [of k "the v" s] set_None [of k s] by (cases v) auto

lemma set_result: "set_value k v s = (Ok (), s') \<Longrightarrow> v \<noteq> None"
  using set_None [of k s] by (cases v) auto

lemma get_after_delete: "delete k s = (r, s') \<Longrightarrow> get k s' = None"
  using delete_ok [of k s] by auto

lemma other_after_delete: "delete k s = (r, s') \<Longrightarrow> j \<noteq> k \<Longrightarrow> get j s' = get j s"
  using delete_ok [of k s] by auto

end

interpretation store: kv_store store_Get store_Set store_Delete
  by unfold_locales
     (simp_all add: store_Get_def store_Set_def store_Delete_def modifyM_def liftM_def)

subsection \<open>Functions of the SDK and of wasmd the module calls\<close>

text \<open>
  Package-level functions: address conversion (\<open>AccAddressFromBech32\<close> returns an
  address together with a possibly nil error), big-endian integers, and the conversion of
  a typed event to an ABCI event.
\<close>

record Sdk =
  AccAddressFromBech32 :: "string \<Rightarrow> slice \<times> error option"
  AccAddress_String :: "slice \<Rightarrow> string"
  Uint64ToBigEndian :: "u64 \<Rightarrow> bytes"
  BigEndianToUint64 :: "slice \<Rightarrow> u64"
  TypedEventToEvent :: "EventAccountRegistered \<Rightarrow> event res"

text \<open>
  \<open>BigEndianToUint64\<close> inverts \<open>Uint64ToBigEndian\<close>, and is zero on an empty slice.
\<close>

definition big_endian_ok :: "Sdk \<Rightarrow> bool" where
  "big_endian_ok sdk \<longleftrightarrow> (\<forall>n. BigEndianToUint64 sdk (Some (Uint64ToBigEndian sdk n)) = n)
     \<and> BigEndianToUint64 sdk None = 0"

text \<open>The address \<open>a\<close> prints to a string that parses back to it.\<close>

definition bech32_ok :: "Sdk \<Rightarrow> slice \<Rightarrow> bool" where
  "bech32_ok sdk a \<longleftrightarrow> AccAddressFromBech32 sdk (AccAddress_String sdk a) = (a, None)"

end
