(* ===== verification/Account.thy ===== *)
theory Account
  imports AccountPB Context
begin

text \<open>
  Accounts and public keys: \<open>x/abstractaccount/types/account.go\<close>.

  A value of the interface \<open>authtypes.AccountI\<close> is one of the account types the module
  tells apart by type assertion: the SDK's \<open>BaseAccount\<close>, the module's
  \<open>AbstractAccount\<close>, or any other.  Of an account type that is not in this repository
  only what its interface methods return is kept.
\<close>

record account_view =
  view_address :: slice
  view_number :: u64
  view_sequence :: u64

datatype AccountI =
    BaseAccount account_view
  | AbstractAcc AbstractAccount
  | OtherAccount account_view

text \<open>A value of the interface \<open>cryptotypes.PubKey\<close>: a \<open>*NilPubKey\<close> or some other key.\<close>

datatype PubKey = NilPK NilPubKey | OtherPK bytes

subsection \<open>AbstractAccount\<close>

definition NewAbstractAccount :: "string \<Rightarrow> u64 \<Rightarrow> u64 \<Rightarrow> AbstractAccount" where
  "NewAbstractAccount address accountNum seq =
     \<lparr>Address = address, AccountNumber = accountNum, Sequence = seq\<rparr>"

definition GetAddress :: "Sdk \<Rightarrow> AbstractAccount \<Rightarrow> slice" where
  "GetAddress sdk acc = fst (AccAddressFromBech32 sdk (Address acc))"

definition SetAddress :: "Sdk \<Rightarrow> slice \<Rightarrow> AbstractAccount \<Rightarrow> unit res \<times> AbstractAccount" where
  "SetAddress sdk addr acc =
     (if length (Address acc) \<noteq> 0
      then (Err (ErrNew ''cannot override AbstractAccount address''), acc)
      else (Ok (), acc\<lparr>Address := AccAddress_String sdk addr\<rparr>))"

definition NewNilPubKey :: "slice \<Rightarrow> NilPubKey" where
  "NewNilPubKey bz = \<lparr>AddressBytes = bz\<rparr>"

definition GetPubKey :: "Sdk \<Rightarrow> AbstractAccount \<Rightarrow> PubKey" where
  "GetPubKey sdk acc = NilPK (NewNilPubKey (GetAddress sdk acc))"

definition SetPubKey :: "PubKey option \<Rightarrow> AbstractAccount \<Rightarrow> unit res \<times> AbstractAccount" where
  "SetPubKey pk acc = (Err (ErrNew ''cannot set pubkey for AbstractAccount''), acc)"

definition GetAccountNumber :: "AbstractAccount \<Rightarrow> u64" where
  "GetAccountNumber acc = AccountNumber acc"

definition SetAccountNumber :: "u64 \<Rightarrow> AbstractAccount \<Rightarrow> unit res \<times> AbstractAccount" where
  "SetAccountNumber accNumber acc = (Ok (), acc\<lparr>AccountNumber := accNumber\<rparr>)"

definition GetSequence :: "AbstractAccount \<Rightarrow> u64" where
  "GetSequence acc = Sequence acc"

definition SetSequence :: "u64 \<Rightarrow> AbstractAccount \<Rightarrow> unit res \<times> AbstractAccount" where
  "SetSequence seq acc = (Ok (), acc\<lparr>Sequence := seq\<rparr>)"

text \<open>The interface methods, dispatched on the dynamic type.\<close>

fun AccountI_GetAddress :: "Sdk \<Rightarrow> AccountI \<Rightarrow> slice" where
  "AccountI_GetAddress sdk (BaseAccount v) = view_address v"
| "AccountI_GetAddress sdk (AbstractAcc acc) = GetAddress sdk acc"
| "AccountI_GetAddress sdk (OtherAccount v) = view_address v"

fun AccountI_GetAccountNumber :: "AccountI \<Rightarrow> u64" where
  "AccountI_GetAccountNumber (BaseAccount v) = view_number v"
| "AccountI_GetAccountNumber (AbstractAcc acc) = GetAccountNumber acc"
| "AccountI_GetAccountNumber (OtherAccount v) = view_number v"

fun AccountI_GetSequence :: "AccountI \<Rightarrow> u64" where
  "AccountI_GetSequence (BaseAccount v) = view_sequence v"
| "AccountI_GetSequence (AbstractAcc acc) = GetSequence acc"
| "AccountI_GetSequence (OtherAccount v) = view_sequence v"

definition NewAbstractAccountFromAccount :: "Sdk \<Rightarrow> AccountI \<Rightarrow> AbstractAccount" where
  "NewAbstractAccountFromAccount sdk acc =
     NewAbstractAccount (AccAddress_String sdk (AccountI_GetAddress sdk acc))
       (AccountI_GetAccountNumber acc) (AccountI_GetSequence acc)"

subsection \<open>NilPubKey\<close>

definition NilPubKey_Address :: "NilPubKey \<Rightarrow> slice" where
  "NilPubKey_Address pk = AddressBytes pk"

definition NilPubKey_Bytes :: "NilPubKey \<Rightarrow> slice" where
  "NilPubKey_Bytes pk = None"

definition NilPubKey_VerifySignature :: "NilPubKey \<Rightarrow> slice \<Rightarrow> slice \<Rightarrow> bool res" where
  "NilPubKey_VerifySignature pk msg sig =
     Panic (PanicMsg ''NilPubKey.VerifySignature should never be invoked'')"

text \<open>\<open>bytes.Equal\<close> does not tell a nil slice from an empty one.\<close>

fun NilPubKey_Equals :: "NilPubKey \<Rightarrow> PubKey option \<Rightarrow> bool" where
  "NilPubKey_Equals pk (Some (NilPK otherPk)) \<longleftrightarrow>
     slice_bytes (AddressBytes pk) = slice_bytes (AddressBytes otherPk)"
| "NilPubKey_Equals pk (Some (OtherPK k)) \<longleftrightarrow> False"
| "NilPubKey_Equals pk None \<longleftrightarrow> False"

definition NilPubKey_Type :: "NilPubKey \<Rightarrow> string" where
  "NilPubKey_Type pk = ''/'' @ ''abstractaccount.v1.NilPubKey''"

definition NilPubKey_String :: "Sdk \<Rightarrow> NilPubKey \<Rightarrow> string" where
  "NilPubKey_String sdk pk = AccAddress_String sdk (AddressBytes pk)"

subsection \<open>The account contract\<close>

text \<open>
  What the auth module relies on in any account it stores: a field reads back what was
  written, the setters of the number and the sequence never fail and touch nothing
  else, and a non-empty address is never overwritten.
\<close>

locale auth_account =
  fixes address :: "'a \<Rightarrow> string"
    and number sequence :: "'a \<Rightarrow> u64"
    and set_address :: "slice \<Rightarrow> 'a \<Rightarrow> unit res \<times> 'a"
    and set_number set_sequence :: "u64 \<Rightarrow> 'a \<Rightarrow> unit res \<times> 'a"
  assumes set_number: "\<exists>b. set_number n a = (Ok (), b) \<and> number b = n
      \<and> address b = address a \<and> sequence b = sequence a"
    and set_sequence: "\<exists>b. set_sequence n a = (Ok (), b) \<and> sequence b = n
      \<and> address b = address a \<and> number b = number a"
    and address_fixed: "address a \<noteq> [] \<Longrightarrow> \<exists>e. set_address d a = (Err e, a)"
    and address_rest: "set_address d a = (r, b) \<Longrightarrow> number b = number a \<and> sequence b = sequence a"
begin

text \<open>Any series of updates keeps the address of an account that has one.\<close>

lemma updates_keep_address:
  assumes "address a \<noteq> []"
  shows "address (fold (\<lambda>f x. snd (f x))
    (map (\<lambda>u. case u of Inl d \<Rightarrow> set_address d | Inr (Inl n) \<Rightarrow> set_number n
        | Inr (Inr n) \<Rightarrow> set_sequence n) us) a) = address a"
  using assms
proof (induction us arbitrary: a)
  case Nil
  then show ?case by simp
next
  case (Cons u us)
  consider (addr) d where "u = Inl d" | (num) n where "u = Inr (Inl n)"
    | (seq) n where "u = Inr (Inr n)"
    by (metis sumE)
  then show ?case
  proof cases
    case (addr d)
    then show ?thesis using Cons.IH Cons.prems address_fixed [OF Cons.prems, of d] by auto
  next
    case (num n)
    then show ?thesis using Cons set_number [of n a] by auto
  next
    case (seq n)
    then show ?thesis using Cons set_sequence [of n a] by auto
  qed
qed

end

interpretation account_methods: auth_account Address GetAccountNumber GetSequence
  "SetAddress sdk" SetAccountNumber SetSequence for sdk
  by unfold_locales
     (auto simp: SetAccountNumber_def SetSequence_def SetAddress_def GetAccountNumber_def
       GetSequence_def split: if_splits)

end
