(* ===== verification/Params.thy ===== *)
theory Params
  imports ParamsPB Errors
begin

text \<open>
  The module parameters: \<open>x/abstractaccount/types/params.go\<close>.  A \<open>*Params\<close> that may be
  nil is a \<open>Params option\<close>; reading a field of nil is Go's nil-dereference panic.
\<close>

definition DefaultMaxGas :: u64 where
  "DefaultMaxGas = 2000000"

text \<open>The loop of \<open>Validate\<close> over the allow list, with \<open>prevCodeID\<close> as its state.\<close>

fun validate_code_ids :: "u64 \<Rightarrow> u64 list \<Rightarrow> unit res" where
  "validate_code_ids prevCodeID [] = Ok ()"
| "validate_code_ids prevCodeID (codeID # codeIDs) =
     (if codeID \<le> prevCodeID then Err ErrMalformedAllowList
      else validate_code_ids codeID codeIDs)"

fun Params_Validate :: "Params option \<Rightarrow> unit res" where
  "Params_Validate None = Panic NilDereference"
| "Params_Validate (Some p) =
     (if MaxGasBefore p \<le> 0 then Err ErrZeroMaxGas
      else if MaxGasAfter p \<le> 0 then Err ErrZeroMaxGas
      else if AllowAllCodeIDs p \<and> length (AllowedCodeIDs p) \<noteq> 0 then Err ErrNonEmptyAllowList
      else validate_code_ids 0 (AllowedCodeIDs p))"

definition NewParams :: "bool \<Rightarrow> u64 list \<Rightarrow> u64 \<Rightarrow> u64 \<Rightarrow> Params \<times> unit res" where
  "NewParams allowAllCodeIDs allowedCodeIDs maxGasBefore maxGasAfter =
     (let params = \<lparr>AllowAllCodeIDs = allowAllCodeIDs, AllowedCodeIDs = allowedCodeIDs,
                    MaxGasBefore = maxGasBefore, MaxGasAfter = maxGasAfter\<rparr>
      in (params, Params_Validate (Some params)))"

definition DefaultParams :: Params where
  "DefaultParams = fst (NewParams True [] DefaultMaxGas DefaultMaxGas)"

fun code_id_listed :: "u64 \<Rightarrow> u64 list \<Rightarrow> bool" where
  "code_id_listed codeID [] = False"
| "code_id_listed codeID (allowedCodeID # rest) =
     (if codeID = allowedCodeID then True else code_id_listed codeID rest)"

definition IsAllowed :: "Params \<Rightarrow> u64 \<Rightarrow> bool" where
  "IsAllowed p codeID =
     (if AllowAllCodeIDs p then True else code_id_listed codeID (AllowedCodeIDs p))"

subsection \<open>What the checks mean\<close>

text \<open>The well-formedness that \<open>Validate\<close> decides, stated independently of its loop.\<close>

definition valid_params :: "Params \<Rightarrow> bool" where
  "valid_params p \<longleftrightarrow> 0 < MaxGasBefore p \<and> 0 < MaxGasAfter p
     \<and> (AllowAllCodeIDs p \<longrightarrow> AllowedCodeIDs p = [])
     \<and> 0 \<notin> set (AllowedCodeIDs p) \<and> distinct (AllowedCodeIDs p) \<and> sorted (AllowedCodeIDs p)"

lemma validate_code_ids_Ok:
  "validate_code_ids prev ids = Ok () \<longleftrightarrow>
   (\<forall>c \<in> set ids. prev < c) \<and> distinct ids \<and> sorted ids"
proof (induction ids arbitrary: prev)
  case Nil
  then show ?case by simp
next
  case (Cons c ids)
  show ?case
  proof (cases "c \<le> prev")
    case True
    then show ?thesis by auto
  next
    case False
    then show ?thesis using Cons.IH [of c] by (auto simp: not_le less_le dest: order_trans)
  qed
qed

lemma validate_code_ids_cases:
  "validate_code_ids prev ids = Ok () \<or> validate_code_ids prev ids = Err ErrMalformedAllowList"
  by (induction prev ids rule: validate_code_ids.induct) auto

lemma Validate_Ok_iff: "Params_Validate (Some p) = Ok () \<longleftrightarrow> valid_params p"
  by (auto simp: valid_params_def validate_code_ids_Ok word_gt_0)

lemma Validate_not_panic: "Params_Validate (Some p) \<noteq> Panic x"
  using validate_code_ids_cases [of 0 "AllowedCodeIDs p"] by auto

lemma code_id_listed_iff: "code_id_listed c ids \<longleftrightarrow> c \<in> set ids"
  by (induction ids) auto

lemma DefaultParams_fields:
  "AllowAllCodeIDs DefaultParams" "AllowedCodeIDs DefaultParams = []"
  "MaxGasBefore DefaultParams = 2000000" "MaxGasAfter DefaultParams = 2000000"
  by (simp_all add: DefaultParams_def NewParams_def Let_def DefaultMaxGas_def)

lemma valid_DefaultParams: "valid_params DefaultParams"
  by (simp add: DefaultParams_def NewParams_def valid_params_def DefaultMaxGas_def)

subsection \<open>Properties\<close>

text \<open>\<open>Validate\<close> decides well-formedness: it returns nil exactly for parameters with two
  positive gas limits, an empty allow list when every code id is allowed, and otherwise
  an allow list of non-zero code ids in strictly increasing order; on other parameters it
  returns the error of the first check that fails, and it never panics on a non-nil
  receiver.\<close>

theorem params_validate_spec:
  "Params_Validate (Some p) =
    (if MaxGasBefore p = 0 \<or> MaxGasAfter p = 0 then Err ErrZeroMaxGas
     else if AllowAllCodeIDs p \<and> AllowedCodeIDs p \<noteq> [] then Err ErrNonEmptyAllowList
     else if 0 \<notin> set (AllowedCodeIDs p) \<and> sorted_wrt (<) (AllowedCodeIDs p) then Ok ()
     else Err ErrMalformedAllowList)"
proof -
  have "validate_code_ids 0 ids = (if 0 \<notin> set ids \<and> sorted_wrt (<) ids
      then Ok () else Err ErrMalformedAllowList)" for ids
    using validate_code_ids_Ok [of 0 ids] validate_code_ids_cases [of 0 ids]
    by (auto simp: strict_sorted_iff word_gt_0)
  then show ?thesis by (simp add: word_le_0_iff)
qed

text \<open>\<open>IsAllowed\<close> answers what the parameters mean: any code id when all are allowed,
  otherwise membership in the allow list.\<close>

theorem params_is_allowed_spec:
  "IsAllowed p codeID \<longleftrightarrow> AllowAllCodeIDs p \<or> codeID \<in> set (AllowedCodeIDs p)"
  by (simp add: IsAllowed_def code_id_listed_iff)

end
