(* ===== verification/Keeper.thy ===== *)
theory Keeper
  imports Account Params
begin

text \<open>
  The keeper: \<open>x/abstractaccount/keeper/keeper.go\<close>, over the store keys of
  \<open>types/keys.go\<close>.  The keeper's state is the module's KVStore in the context; the
  interfaces it is given (codec, account keeper, contract keeper) are records of
  functions.
\<close>

subsection \<open>Keys\<close>

definition ModuleName :: string where
  "ModuleName = ''abstractaccount''"

definition StoreKey :: string where
  "StoreKey = ModuleName"

definition KeyParams :: bytes where
  "KeyParams = [0x00]"

definition KeyNextAccountID :: bytes where
  "KeyNextAccountID = [0x01]"

definition KeySignerAddress :: bytes where
  "KeySignerAddress = [0x02]"

lemma keys_distinct [simp]:
  "KeyParams \<noteq> KeyNextAccountID" "KeyParams \<noteq> KeySignerAddress"
  "KeyNextAccountID \<noteq> KeyParams" "KeyNextAccountID \<noteq> KeySignerAddress"
  "KeySignerAddress \<noteq> KeyParams" "KeySignerAddress \<noteq> KeyNextAccountID"
  by (simp_all add: KeyParams_def KeyNextAccountID_def KeySignerAddress_def)

subsection \<open>The interfaces the keeper is given\<close>

text \<open>\<open>codec.BinaryCodec\<close>, at the one message type the keeper stores.\<close>

record Codec =
  cdc_Marshal :: "Params option \<Rightarrow> bytes res"
  cdc_Unmarshal :: "bytes \<Rightarrow> Params res"

text \<open>
  A protobuf codec calls the message's own generated methods; it writes a message of
  size zero as the empty byte string without calling them.
\<close>

definition codec_ok :: "Codec \<Rightarrow> bool" where
  "codec_ok c \<longleftrightarrow>
     (\<forall>p. 0 < Params_Size p \<longrightarrow> cdc_Marshal c (Some p) = of_panic (Params_Marshal p))
   \<and> (\<forall>bz. cdc_Unmarshal c bz = of_error ProtoError (Params_Unmarshal empty_Params bz))"

text \<open>\<open>authkeeper.AccountKeeperI\<close>: accounts are part of the rest of the chain's state.\<close>

record 'w AccountKeeper =
  ak_GetAccount :: "'w \<Rightarrow> slice \<Rightarrow> AccountI option"
  ak_SetAccount :: "AccountI \<Rightarrow> 'w \<Rightarrow> 'w"

text \<open>
  \<open>wasmtypes.ContractOpsKeeper\<close>.  A contract may do anything to the chain, the module's
  own store included, so its calls act on the whole context.
\<close>

record 'w ContractOpsKeeper =
  ck_Instantiate2 :: "u64 \<Rightarrow> slice \<Rightarrow> slice \<Rightarrow> slice \<Rightarrow> string \<Rightarrow> Coin list \<Rightarrow> slice \<Rightarrow> bool
    \<Rightarrow> ('w ctx, slice \<times> slice) act"
  ck_UpdateContractAdmin :: "slice \<Rightarrow> slice \<Rightarrow> slice \<Rightarrow> ('w ctx, unit) act"
  ck_Sudo :: "slice \<Rightarrow> bytes \<Rightarrow> ('w ctx, slice) act"

record 'w Keeper =
  cdc :: Codec
  ak :: "'w AccountKeeper"
  ck :: "'w ContractOpsKeeper"
  authority :: string

definition NewKeeper ::
  "Codec \<Rightarrow> 'w AccountKeeper option \<Rightarrow> 'w ContractOpsKeeper option \<Rightarrow> string \<Rightarrow> 'w Keeper res" where
  "NewKeeper c a w auth =
     (case a of
        None \<Rightarrow> Panic (PanicMsg ''AccountKeeperI cannot be nil'')
      | Some a' \<Rightarrow>
         (case w of
            None \<Rightarrow> Panic (PanicMsg ''ContractOpsKeeper cannot be nil'')
          | Some w' \<Rightarrow> Ok \<lparr>cdc = c, ak = a', ck = w', authority = auth\<rparr>))"

definition ContractKeeper :: "'w Keeper \<Rightarrow> 'w ContractOpsKeeper" where
  "ContractKeeper k = ck k"

subsection \<open>What the code relies on\<close>

text \<open>
  The account keeper: an account that was set is read back at its own address, setting
  one leaves the accounts at other addresses alone, and the account read at an address
  has that address, which is one that prints and parses.
\<close>

definition account_keeper_ok :: "Sdk \<Rightarrow> 'w AccountKeeper \<Rightarrow> bool" where
  "account_keeper_ok sdk a \<longleftrightarrow>
     (\<forall>acc w. bech32_ok sdk (AccountI_GetAddress sdk acc) \<longrightarrow>
        ak_GetAccount a (ak_SetAccount a acc w) (AccountI_GetAddress sdk acc) = Some acc)
   \<and> (\<forall>acc w d. d \<noteq> AccountI_GetAddress sdk acc \<longrightarrow>
        ak_GetAccount a (ak_SetAccount a acc w) d = ak_GetAccount a w d)
   \<and> (\<forall>acc w d. ak_GetAccount a w d = Some acc \<longrightarrow>
        AccountI_GetAddress sdk acc = d \<and> bech32_ok sdk d)"

lemma account_keeper_read:
  "account_keeper_ok sdk a \<Longrightarrow> ak_GetAccount a w d = Some acc \<Longrightarrow>
   AccountI_GetAddress sdk acc = d \<and> bech32_ok sdk d"
  by (auto simp: account_keeper_ok_def)

lemma account_keeper_set:
  "account_keeper_ok sdk a \<Longrightarrow> bech32_ok sdk (AccountI_GetAddress sdk acc) \<Longrightarrow>
   ak_GetAccount a (ak_SetAccount a acc w) (AccountI_GetAddress sdk acc) = Some acc"
  by (auto simp: account_keeper_ok_def)

lemma account_keeper_other:
  "account_keeper_ok sdk a \<Longrightarrow> d \<noteq> AccountI_GetAddress sdk acc \<Longrightarrow>
   ak_GetAccount a (ak_SetAccount a acc w) d = ak_GetAccount a w d"
  by (auto simp: account_keeper_ok_def)

text \<open>A predicate of the context that no call of the contract keeper breaks.\<close>

definition contracts_keep :: "('w ctx \<Rightarrow> bool) \<Rightarrow> 'w ContractOpsKeeper \<Rightarrow> bool" where
  "contracts_keep P c \<longleftrightarrow>
     (\<forall>code cr ad m l f sa fx. keeps P (ck_Instantiate2 c code cr ad m l f sa fx))
   \<and> (\<forall>a b d. keeps P (ck_UpdateContractAdmin c a b d))
   \<and> (\<forall>a m. keeps P (ck_Sudo c a m))"

subsection \<open>Params\<close>

definition GetParams :: "'w Keeper \<Rightarrow> ('w ctx, Params) act" where
  "GetParams k =
     bindM (readM (store_Get KeyParams)) (\<lambda>bz.
       case bz of
         None \<Rightarrow> liftM (Err (ErrNotFound ''x/abstractaccount module params''))
       | Some b \<Rightarrow>
          (case cdc_Unmarshal (cdc k) b of
             Ok params \<Rightarrow> retM params
           | Err e \<Rightarrow> liftM (Err (ErrParsingParams e))
           | Panic p \<Rightarrow> liftM (Panic p)))"

definition SetParams :: "'w Keeper \<Rightarrow> Params option \<Rightarrow> ('w ctx, unit) act" where
  "SetParams k params =
     bindM (liftM (Params_Validate params)) (\<lambda>_.
       case cdc_Marshal (cdc k) params of
         Ok bz \<Rightarrow> store_Set KeyParams (Some bz)
       | Err e \<Rightarrow> liftM (Err (ErrParsingParams e))
       | Panic p \<Rightarrow> liftM (Panic p))"

subsection \<open>NextAccountId\<close>

definition GetNextAccountID :: "Sdk \<Rightarrow> ('w ctx, u64) act" where
  "GetNextAccountID sdk =
     bindM (readM (store_Get KeyNextAccountID)) (\<lambda>bz. retM (BigEndianToUint64 sdk bz))"

definition SetNextAccountID :: "Sdk \<Rightarrow> u64 \<Rightarrow> ('w ctx, unit) act" where
  "SetNextAccountID sdk accountID =
     store_Set KeyNextAccountID (Some (Uint64ToBigEndian sdk accountID))"

definition GetAndIncrementNextAccountID :: "Sdk \<Rightarrow> ('w ctx, u64) act" where
  "GetAndIncrementNextAccountID sdk =
     bindM (GetNextAccountID sdk) (\<lambda>accountID.
       bindM (SetNextAccountID sdk (accountID + 1)) (\<lambda>_. retM accountID))"

subsection \<open>SignerAddress\<close>

definition GetSignerAddress :: "('w ctx, slice) act" where
  "GetSignerAddress = readM (store_Get KeySignerAddress)"

definition SetSignerAddress :: "slice \<Rightarrow> ('w ctx, unit) act" where
  "SetSignerAddress signerAddr = store_Set KeySignerAddress signerAddr"

definition DeleteSignerAddress :: "('w ctx, unit) act" where
  "DeleteSignerAddress = store_Delete KeySignerAddress"

subsection \<open>The abstract module state\<close>

text \<open>
  What the module remembers, without keys and bytes: the parameters if any can be read,
  the next account id, and the signer a transaction left for its post handler.
\<close>

record module_state =
  st_params :: "Params option"
  st_next_id :: u64
  st_signer :: slice

fun decoded :: "Codec \<Rightarrow> slice \<Rightarrow> Params option" where
  "decoded c None = None"
| "decoded c (Some b) = (case cdc_Unmarshal c b of Ok p \<Rightarrow> Some p | Err e \<Rightarrow> None | Panic x \<Rightarrow> None)"

definition abs_state :: "Sdk \<Rightarrow> 'w Keeper \<Rightarrow> 'w ctx \<Rightarrow> module_state" where
  "abs_state sdk k ctx =
     \<lparr>st_params = decoded (cdc k) (store_Get KeyParams ctx),
      st_next_id = BigEndianToUint64 sdk (store_Get KeyNextAccountID ctx),
      st_signer = store_Get KeySignerAddress ctx\<rparr>"

text \<open>The part of the context the module's store operations never touch.\<close>

definition same_outside :: "'w ctx \<Rightarrow> 'w ctx \<Rightarrow> bool" where
  "same_outside s t \<longleftrightarrow> world s = world t \<and> events s = events t \<and> meter s = meter t
     \<and> chain_id s = chain_id t"

lemma same_outside_refl [simp]: "same_outside s s"
  by (simp add: same_outside_def)

lemma store_Set_same_outside: "store_Set key v s = (r, t) \<Longrightarrow> same_outside s t"
  by (auto simp: store_Set_def same_outside_def monad_simps split: option.splits)

lemma store_Delete_same_outside: "store_Delete key s = (r, t) \<Longrightarrow> same_outside s t"
  by (auto simp: store_Delete_def same_outside_def monad_simps)

lemmas same_outside_ops = store_Set_same_outside store_Delete_same_outside

text \<open>Validated parameters have a positive size, so the codec writes them out.\<close>

lemma valid_params_size: "valid_params p \<Longrightarrow> 0 < Params_Size p"
  by (auto simp: valid_params_def Params_Size_def)

definition small_params :: "Params \<Rightarrow> bool" where
  "small_params p \<longleftrightarrow> length (AllowedCodeIDs p) < 2 ^ 59"

lemma codec_params:
  assumes "codec_ok c" and "valid_params p" and "small_params p"
  shows "cdc_Marshal c (Some p) = Ok (Params_enc p)" and "cdc_Unmarshal c (Params_enc p) = Ok p"
proof -
  have len: "length (Params_enc p) < 2 ^ 63"
    using assms(3) by (simp only: small_params_def length_Params_enc)
  show "cdc_Marshal c (Some p) = Ok (Params_enc p)"
    using assms(1) valid_params_size [OF assms(2)] params.marshal [OF len]
    by (simp add: codec_ok_def Params_Marshal_def)
  show "cdc_Unmarshal c (Params_enc p) = Ok p"
    using assms(1) params.roundtrip [OF _ len] by (simp add: codec_ok_def Params_Unmarshal_def)
qed

lemma Params_Validate_cases:
  "Params_Validate (Some p) = Ok () \<and> valid_params p
   \<or> (\<exists>e. Params_Validate (Some p) = Err e) \<and> \<not> valid_params p"
  using Validate_Ok_iff [of p] Validate_not_panic [of p]
  by (cases "Params_Validate (Some p)") auto

subsection \<open>Each operation refines its abstract counterpart\<close>

lemma GetParams_run:
  "GetParams k s = (case store_Get KeyParams s of
       None \<Rightarrow> Err (ErrNotFound ''x/abstractaccount module params'')
     | Some b \<Rightarrow> (case cdc_Unmarshal (cdc k) b of
         Ok p \<Rightarrow> Ok p | Err e \<Rightarrow> Err (ErrParsingParams e) | Panic x \<Rightarrow> Panic x), s)"
  by (simp add: GetParams_def monad_simps split: option.split res.split)

lemma GetParams_pure: "GetParams k s = (r, t) \<Longrightarrow> t = s"
  by (simp add: GetParams_run)

lemma GetParams_Ok_iff:
  "GetParams k s = (Ok p, t) \<longleftrightarrow> st_params (abs_state sdk k s) = Some p \<and> t = s"
  by (auto simp: GetParams_run abs_state_def split: option.splits res.splits)

lemma SetParams_Ok:
  assumes "codec_ok (cdc k)" and "valid_params p" and "small_params p"
  shows "\<exists>t. SetParams k (Some p) s = (Ok (), t)
    \<and> abs_state sdk k t = (abs_state sdk k s)\<lparr>st_params := Some p\<rparr> \<and> same_outside s t"
proof -
  have V: "Params_Validate (Some p) = Ok ()" using assms(2) by (simp only: Validate_Ok_iff)
  obtain t where t: "store_Set KeyParams (Some (Params_enc p)) s = (Ok (), t)"
    using store.set_Some by blast
  have "SetParams k (Some p) s = (Ok (), t)"
    using t by (simp only: SetParams_def V monad_simps codec_params [OF assms] res.case)
  moreover have "abs_state sdk k t = (abs_state sdk k s)\<lparr>st_params := Some p\<rparr>"
    using store.get_after_set [OF t] store.other_after_set [OF t] codec_params [OF assms]
    by (simp add: abs_state_def)
  ultimately show ?thesis using store_Set_same_outside [OF t] by blast
qed

lemma SetParams_invalid:
  "\<not> valid_params p \<Longrightarrow> \<exists>e. SetParams k (Some p) s = (Err e, s)
     \<and> Params_Validate (Some p) = Err e"
  using Params_Validate_cases [of p]
  by (auto simp: SetParams_def monad_simps simp del: Params_Validate.simps)

lemma SetParams_nil: "SetParams k None s = (Panic NilDereference, s)"
  by (simp add: SetParams_def monad_simps)

lemma GetNextAccountID_run:
  "GetNextAccountID sdk s = (Ok (st_next_id (abs_state sdk k s)), s)"
  by (simp add: GetNextAccountID_def abs_state_def monad_simps)

lemma SetNextAccountID_run:
  assumes "big_endian_ok sdk"
  shows "\<exists>t. SetNextAccountID sdk n s = (Ok (), t)
    \<and> abs_state sdk k t = (abs_state sdk k s)\<lparr>st_next_id := n\<rparr> \<and> same_outside s t"
proof -
  obtain t where t: "store_Set KeyNextAccountID (Some (Uint64ToBigEndian sdk n)) s = (Ok (), t)"
    using store.set_Some by blast
  then have "abs_state sdk k t = (abs_state sdk k s)\<lparr>st_next_id := n\<rparr>"
    using store.get_after_set [OF t] store.other_after_set [OF t] assms
    by (simp add: abs_state_def big_endian_ok_def)
  with t show ?thesis
    using store_Set_same_outside [OF t] by (auto simp: SetNextAccountID_def)
qed

lemma GetAndIncrement_run:
  assumes "big_endian_ok sdk"
  shows "\<exists>t. GetAndIncrementNextAccountID sdk s = (Ok (st_next_id (abs_state sdk k s)), t)
    \<and> abs_state sdk k t = (abs_state sdk k s)\<lparr>st_next_id := st_next_id (abs_state sdk k s) + 1\<rparr>
    \<and> same_outside s t"
  using SetNextAccountID_run [OF assms, of "st_next_id (abs_state sdk k s) + 1" s k]
  by (auto simp: GetAndIncrementNextAccountID_def GetNextAccountID_run [of sdk s k] monad_simps)

lemma GetSignerAddress_run: "GetSignerAddress s = (Ok (st_signer (abs_state sdk k s)), s)"
  by (simp add: GetSignerAddress_def abs_state_def monad_simps)

lemma SetSignerAddress_Some:
  "\<exists>t. SetSignerAddress (Some a) s = (Ok (), t)
     \<and> abs_state sdk k t = (abs_state sdk k s)\<lparr>st_signer := Some a\<rparr> \<and> same_outside s t"
proof -
  obtain t where t: "store_Set KeySignerAddress (Some a) s = (Ok (), t)"
    using store.set_Some by blast
  then show ?thesis
    using store.get_after_set [OF t] store.other_after_set [OF t] store_Set_same_outside [OF t]
    by (auto simp: SetSignerAddress_def abs_state_def)
qed

lemma SetSignerAddress_None:
  "SetSignerAddress None s = (Panic (PanicMsg ''value is nil''), s)"
  by (simp add: SetSignerAddress_def store_Set_def monad_simps)

lemma DeleteSignerAddress_run:
  "\<exists>t. DeleteSignerAddress s = (Ok (), t)
     \<and> abs_state sdk k t = (abs_state sdk k s)\<lparr>st_signer := None\<rparr> \<and> same_outside s t"
proof -
  obtain t where t: "store_Delete KeySignerAddress s = (Ok (), t)"
    using store.delete_ok by blast
  then show ?thesis
    using store.get_after_delete [OF t] store.other_after_delete [OF t]
      store_Delete_same_outside [OF t]
    by (auto simp: DeleteSignerAddress_def abs_state_def)
qed

text \<open>
  The invariant of the store: parameters, if there are any, can be read and are valid.
\<close>

definition params_inv :: "'w Keeper \<Rightarrow> 'w ctx \<Rightarrow> bool" where
  "params_inv k s \<longleftrightarrow> (\<forall>b. store_Get KeyParams s = Some b \<longrightarrow>
     (\<exists>p. cdc_Unmarshal (cdc k) b = Ok p \<and> valid_params p))"

lemma params_inv_GetParams:
  "params_inv k s \<Longrightarrow> GetParams k s = (Ok p, t) \<Longrightarrow> valid_params p"
  by (auto simp: params_inv_def GetParams_run split: option.splits)

lemma keeps_SetParams:
  assumes "codec_ok (cdc k)" and "\<And>p. params = Some p \<Longrightarrow> small_params p"
  shows "keeps (params_inv k) (SetParams k params)"
proof (cases params)
  case None
  then show ?thesis by (simp add: keeps_def SetParams_nil)
next
  case (Some p)
  note small = assms(2) [OF Some]
  show ?thesis
  proof (cases "valid_params p")
    case True
    have "params_inv k t" if "SetParams k params s = (r, t)" for s r t
      using SetParams_Ok [OF assms(1) True small, of s undefined] that Some True
      by (auto simp: params_inv_def abs_state_def split: option.splits res.splits)
    then show ?thesis by (auto simp: keeps_def) (metis prod.collapse)
  next
    case False
    then show ?thesis
      using SetParams_invalid [OF False, of k] Some unfolding keeps_def by (metis snd_conv)
  qed
qed

lemma keeps_other_key:
  "key \<noteq> KeyParams \<Longrightarrow> keeps (params_inv k) (store_Set key v)"
  "key \<noteq> KeyParams \<Longrightarrow> keeps (params_inv k) (store_Delete key)"
proof -
  assume key: "key \<noteq> KeyParams"
  show "keeps (params_inv k) (store_Set key v)"
    using key store.other_after_set [of key v _ _ _ KeyParams]
    unfolding keeps_def params_inv_def by (metis prod.collapse)
  show "keeps (params_inv k) (store_Delete key)"
    using key store.other_after_delete [of key _ _ _ KeyParams]
    unfolding keeps_def params_inv_def by (metis prod.collapse)
qed

lemma keeps_GetParams [intro]: "keeps P (GetParams k)"
  by (simp add: keeps_def GetParams_run)

end
