(* ===== verification/Sample.thy ===== *)
theory Sample
  imports Keeper RegisterPB
begin

text \<open>
  One concrete instance of every function that is not in this repository, on which the
  witnesses of the properties are evaluated: addresses that print as their own bytes,
  big-endian integers, a protobuf codec, an account keeper over a map, and a contract
  keeper whose instantiation creates a base account.
\<close>

subsection \<open>SDK functions\<close>

definition be_bytes :: "u64 \<Rightarrow> bytes" where
  "be_bytes n = map (\<lambda>i. ucast (drop_bit (8 * i) n)) [7, 6, 5, 4, 3, 2, 1, 0]"

definition be_word :: "bytes \<Rightarrow> u64" where
  "be_word bz = foldl (\<lambda>a b. push_bit 8 a OR ucast b) 0 bz"

definition sample_sdk :: Sdk where
  "sample_sdk =
     \<lparr>AccAddressFromBech32 = (\<lambda>s. if s = [] then (Some [], Some (External ''empty address string is not allowed''))
        else (Some (string_bytes s), None)),
      AccAddress_String = (\<lambda>a. bytes_string (slice_bytes a)),
      Uint64ToBigEndian = be_bytes,
      BigEndianToUint64 = (\<lambda>bz. be_word (slice_bytes bz)),
      TypedEventToEvent = (\<lambda>ev. Ok (''abstractaccount.v1.EventAccountRegistered'',
        [(''creator'', Creator ev), (''contract_addr'', ContractAddr ev)]))\<rparr>"

lemma be_step:
  "push_bit 8 (drop_bit (Suc k * 8) n) OR ucast (ucast (drop_bit (k * 8) n) :: byte)
    = drop_bit (k * 8) (n :: u64)"
  by (rule bit_word_eqI) (auto simp: bit_simps not_le algebra_simps)

lemma be_word_be_bytes: "be_word (be_bytes n) = n"
  using be_step [of 0 n] be_step [of 1 n] be_step [of 2 n] be_step [of 3 n] be_step [of 4 n]
    be_step [of 5 n] be_step [of 6 n] be_step [of 7 n]
  by (simp add: be_word_def be_bytes_def)

lemma big_endian_sample: "big_endian_ok sample_sdk"
  by (simp add: big_endian_ok_def sample_sdk_def be_word_be_bytes) (simp add: be_word_def)

lemma bytes_string_eq_Nil [simp]: "bytes_string b = [] \<longleftrightarrow> b = []"
  by (simp add: bytes_string_def)

lemma bech32_sample: "bech32_ok sample_sdk a \<longleftrightarrow> (\<exists>b. a = Some b \<and> b \<noteq> [])"
  by (cases a) (auto simp: bech32_ok_def sample_sdk_def)

subsection \<open>Keepers\<close>

definition sample_codec :: Codec where
  "sample_codec =
     \<lparr>cdc_Marshal = (\<lambda>p. case p of None \<Rightarrow> Ok [] | Some q \<Rightarrow> of_panic (Params_Marshal q)),
      cdc_Unmarshal = (\<lambda>bz. of_error ProtoError (Params_Unmarshal empty_Params bz))\<rparr>"

lemma codec_sample: "codec_ok sample_codec"
  by (simp add: codec_ok_def sample_codec_def)

type_synonym sample_world = "slice \<Rightarrow> AccountI option"

definition sample_ak :: "sample_world AccountKeeper" where
  "sample_ak =
     \<lparr>ak_GetAccount = (\<lambda>w a. case w a of None \<Rightarrow> None
        | Some acc \<Rightarrow> if AccountI_GetAddress sample_sdk acc = a \<and> slice_bytes a \<noteq> [] then Some acc
            else None),
      ak_SetAccount = (\<lambda>acc w. w(AccountI_GetAddress sample_sdk acc := Some acc))\<rparr>"

lemma account_keeper_sample: "account_keeper_ok sample_sdk sample_ak"
  by (auto simp: account_keeper_ok_def sample_ak_def bech32_sample split: option.splits if_splits)
     (metis slice_bytes.simps not_None_eq)

definition sample_contract :: slice where
  "sample_contract = Some [7, 7]"

definition sample_ck :: "sample_world ContractOpsKeeper" where
  "sample_ck =
     \<lparr>ck_Instantiate2 = (\<lambda>code creator admin msg label funds salt fix_msg s.
        (Ok (sample_contract, Some []),
         s\<lparr>world := (world s)(sample_contract := Some (BaseAccount
            \<lparr>view_address = sample_contract, view_number = 12, view_sequence = 0\<rparr>))\<rparr>)),
      ck_UpdateContractAdmin = (\<lambda>contract admin new_admin s. (Ok (), s)),
      ck_Sudo = (\<lambda>contract msg s. (Ok None, s\<lparr>events := events s @ [(''sudo'', [])]\<rparr>))\<rparr>"

definition sample_keeper :: "sample_world Keeper" where
  "sample_keeper = \<lparr>cdc = sample_codec, ak = sample_ak, ck = sample_ck, authority = ''gov''\<rparr>"

lemma sample_keeper_ok:
  "codec_ok (cdc sample_keeper)" "account_keeper_ok sample_sdk (ak sample_keeper)"
  by (simp_all add: sample_keeper_def codec_sample account_keeper_sample)

subsection \<open>States\<close>

definition sample_ctx :: "sample_world ctx" where
  "sample_ctx = \<lparr>module_store = (\<lambda>k. None)(KeyParams := Some (Params_enc DefaultParams)),
     world = (\<lambda>a. None), events = [], meter = NewGasMeter 100, chain_id = ''test''\<rparr>"

definition sample_register :: "Coin MsgRegisterAccount" where
  "sample_register = \<lparr>Sender = ''alice'', CodeID = 7, Msg = Some [123, 125], Funds = [], Salt = Some [1]\<rparr>"

lemma sample_alice: "AccAddressFromBech32 sample_sdk ''alice'' = (Some (string_bytes ''alice''), None)"
  by (simp add: sample_sdk_def)

lemma sample_params: "cdc_Unmarshal sample_codec (Params_enc DefaultParams) = Ok DefaultParams"
  by (rule codec_params [OF codec_sample valid_DefaultParams])
     (simp add: small_params_def DefaultParams_fields)

lemma sample_GetParams: "GetParams sample_keeper sample_ctx = (Ok DefaultParams, sample_ctx)"
  by (simp add: GetParams_run store_Get_def sample_ctx_def sample_keeper_def sample_params)

lemma small_DefaultParams: "small_params DefaultParams"
  by (simp add: small_params_def DefaultParams_fields)

end
