(* ===== verification/AccountSpec.thy ===== *)
theory AccountSpec
  imports Account Sample
begin

text \<open>
  The properties of accounts and of the nil public key.
\<close>

text \<open>The address of an abstract account is set once: after \<open>SetAddress\<close> with a proper
  address \<open>GetAddress\<close> returns it, and from then on no sequence of \<open>SetAddress\<close>,
  \<open>SetAccountNumber\<close> and \<open>SetSequence\<close> calls changes it.\<close>

theorem account_address_fixed:
  assumes "bech32_ok sdk d" and "AccAddress_String sdk d \<noteq> []"
    and "SetAddress sdk d acc = (Ok (), acc')"
  shows "GetAddress sdk (fold (\<lambda>f x. snd (f x))
    (map (\<lambda>u. case u of Inl e \<Rightarrow> SetAddress sdk e | Inr (Inl n) \<Rightarrow> SetAccountNumber n
        | Inr (Inr n) \<Rightarrow> SetSequence n) us) acc') = d"
proof -
  have a: "Address acc' = AccAddress_String sdk d"
    using assms(3) by (auto simp: SetAddress_def split: if_splits)
  then have "Address (fold (\<lambda>f x. snd (f x))
    (map (\<lambda>u. case u of Inl e \<Rightarrow> SetAddress sdk e | Inr (Inl n) \<Rightarrow> SetAccountNumber n
        | Inr (Inr n) \<Rightarrow> SetSequence n) us) acc') = Address acc'"
    using assms(2) by (intro account_methods.updates_keep_address) simp
  then show ?thesis using a assms(1) by (simp add: GetAddress_def bech32_ok_def)
qed

theorem account_address_fixed_witness:
  "GetAddress sample_sdk (fold (\<lambda>f x. snd (f x))
    (map (\<lambda>u. case u of Inl e \<Rightarrow> SetAddress sample_sdk e | Inr (Inl n) \<Rightarrow> SetAccountNumber n
        | Inr (Inr n) \<Rightarrow> SetSequence n) [Inr (Inl 3), Inl (Some [66]), Inr (Inr 9)])
    \<lparr>Address = ''A'', AccountNumber = 0, Sequence = 0\<rparr>) = Some (string_bytes ''A'')"
  by (rule account_address_fixed [where acc = empty_AbstractAccount])
     (simp_all add: bech32_sample, simp_all add: sample_sdk_def SetAddress_def empty_AbstractAccount_def)

text \<open>An abstract account has no key to sign with: its public key is the nil public key of
  its own address, it cannot be replaced, verifying a signature with it panics whatever
  the message and the signature, its bytes are nil, and it equals a key exactly if that
  is a nil public key of the same address bytes.\<close>

theorem nil_pubkey_unusable:
  "(GetPubKey sdk acc = NilPK pk \<longleftrightarrow> NilPubKey_Address pk = GetAddress sdk acc)
   \<and> fst (SetPubKey new acc) \<noteq> Ok () \<and> snd (SetPubKey new acc) = acc
   \<and> NilPubKey_VerifySignature pk m sg
       = Panic (PanicMsg ''NilPubKey.VerifySignature should never be invoked'')
   \<and> NilPubKey_Bytes pk = None
   \<and> (NilPubKey_Equals pk other \<longleftrightarrow> (\<exists>q. other = Some (NilPK q)
       \<and> slice_bytes (AddressBytes q) = slice_bytes (AddressBytes pk)))"
proof -
  have "GetPubKey sdk acc = NilPK pk \<longleftrightarrow> NilPubKey_Address pk = GetAddress sdk acc"
    by (cases pk) (auto simp: GetPubKey_def NewNilPubKey_def NilPubKey_Address_def)
  moreover have "NilPubKey_Equals pk other \<longleftrightarrow> (\<exists>q. other = Some (NilPK q)
     \<and> slice_bytes (AddressBytes q) = slice_bytes (AddressBytes pk))"
    by (cases "(pk, other)" rule: NilPubKey_Equals.cases) auto
  ultimately show ?thesis
    by (simp add: SetPubKey_def NilPubKey_VerifySignature_def NilPubKey_Bytes_def)
qed

text \<open>Turning an account into an abstract account keeps its identity: address, account
  number and sequence read the same before and after.\<close>

theorem new_abstract_account_same_identity:
  assumes "bech32_ok sdk (AccountI_GetAddress sdk acc)"
  shows "GetAddress sdk (NewAbstractAccountFromAccount sdk acc) = AccountI_GetAddress sdk acc
    \<and> GetAccountNumber (NewAbstractAccountFromAccount sdk acc) = AccountI_GetAccountNumber acc
    \<and> GetSequence (NewAbstractAccountFromAccount sdk acc) = AccountI_GetSequence acc"
  using assms
  by (simp_all add: NewAbstractAccountFromAccount_def NewAbstractAccount_def GetAddress_def
      bech32_ok_def GetAccountNumber_def GetSequence_def)

theorem new_abstract_account_same_identity_witness:
  "GetAddress sample_sdk (NewAbstractAccountFromAccount sample_sdk
     (BaseAccount \<lparr>view_address = Some [7], view_number = 1, view_sequence = 2\<rparr>)) = Some [7]"
  using new_abstract_account_same_identity [of sample_sdk
      "BaseAccount \<lparr>view_address = Some [7], view_number = 1, view_sequence = 2\<rparr>"]
  by (simp add: bech32_sample)

end
