(* ===== verification/Genesis.thy ===== *)
theory Genesis
  imports Keeper GenesisPB
begin

text \<open>
  Genesis: \<open>x/abstractaccount/types/genesis.go\<close> and \<open>keeper/genesis.go\<close>.
\<close>

definition NewGenesisState :: "u64 \<Rightarrow> Params option \<Rightarrow> GenesisState" where
  "NewGenesisState nextAccountID params = \<lparr>gs_Params = params, NextAccountId = nextAccountID\<rparr>"

definition DefaultGenesisState :: GenesisState where
  "DefaultGenesisState = NewGenesisState 1 (Some DefaultParams)"

definition GenesisState_Validate :: "GenesisState \<Rightarrow> unit res" where
  "GenesisState_Validate gs = Params_Validate (gs_Params gs)"

text \<open>\<open>if err != nil { panic(err) }\<close>.\<close>

definition mustM :: "('s, 'a) act \<Rightarrow> ('s, 'a) act" where
  "mustM m = (\<lambda>s. case m s of
     (Ok x, t) \<Rightarrow> (Ok x, t)
   | (Err e, t) \<Rightarrow> (Panic (PanicError e), t)
   | (Panic p, t) \<Rightarrow> (Panic p, t))"

text \<open>The validator updates handed to consensus: a public key and a power.\<close>

type_synonym validator_update = "bytes \<times> int"

definition InitGenesis ::
  "Sdk \<Rightarrow> 'w Keeper \<Rightarrow> GenesisState \<Rightarrow> ('w ctx, validator_update list) act" where
  "InitGenesis sdk k gs =
     bindM (mustM (SetParams k (gs_Params gs))) (\<lambda>_.
       bindM (SetNextAccountID sdk (NextAccountId gs)) (\<lambda>_. retM []))"

definition ExportGenesis :: "Sdk \<Rightarrow> 'w Keeper \<Rightarrow> ('w ctx, GenesisState) act" where
  "ExportGenesis sdk k =
     bindM (mustM (GetParams k)) (\<lambda>params.
       bindM (GetNextAccountID sdk) (\<lambda>next_id.
         retM \<lparr>gs_Params = Some params, NextAccountId = next_id\<rparr>))"

lemma mustM_run [monad_simps]:
  "m s = (Ok x, t) \<Longrightarrow> mustM m s = (Ok x, t)"
  "m s = (Err e, t) \<Longrightarrow> mustM m s = (Panic (PanicError e), t)"
  "m s = (Panic p, t) \<Longrightarrow> mustM m s = (Panic p, t)"
  by (simp_all add: mustM_def)

lemma keeps_mustM [intro]: "keeps P m \<Longrightarrow> keeps P (mustM m)"
  unfolding keeps_def
proof (intro allI impI)
  fix s
  assume "\<forall>s. P s \<longrightarrow> P (snd (m s))" and "P s"
  then have "P (snd (m s))" by blast
  then show "P (snd (mustM m s))"
    by (cases "m s"; cases "fst (m s)") (auto simp: mustM_def)
qed

lemma InitGenesis_Ok:
  assumes "codec_ok (cdc k)" and "big_endian_ok sdk"
    and "valid_params p" and "small_params p"
  shows "\<exists>t. InitGenesis sdk k \<lparr>gs_Params = Some p, NextAccountId = n\<rparr> s = (Ok [], t)
    \<and> abs_state sdk k t = (abs_state sdk k s)\<lparr>st_params := Some p, st_next_id := n\<rparr>
    \<and> same_outside s t"
proof -
  obtain t where t: "SetParams k (Some p) s = (Ok (), t)"
    and abs_t: "abs_state sdk k t = (abs_state sdk k s)\<lparr>st_params := Some p\<rparr>"
    and out_t: "same_outside s t"
    using SetParams_Ok [OF assms(1,3,4)] by blast
  obtain u where u: "SetNextAccountID sdk n t = (Ok (), u)"
    and abs_u: "abs_state sdk k u = (abs_state sdk k t)\<lparr>st_next_id := n\<rparr>"
    and out_u: "same_outside t u"
    using SetNextAccountID_run [OF assms(2)] by blast
  have "InitGenesis sdk k \<lparr>gs_Params = Some p, NextAccountId = n\<rparr> s = (Ok [], u)"
    using t u by (simp add: InitGenesis_def monad_simps)
  moreover have "same_outside s u" using out_t out_u by (simp add: same_outside_def)
  ultimately show ?thesis using abs_t abs_u by auto
qed

lemma ExportGenesis_run:
  "ExportGenesis sdk k s = (case GetParams k s of
     (Ok p, _) \<Rightarrow> (Ok \<lparr>gs_Params = Some p, NextAccountId = st_next_id (abs_state sdk k s)\<rparr>, s)
   | (Err e, _) \<Rightarrow> (Panic (PanicError e), s)
   | (Panic x, _) \<Rightarrow> (Panic x, s))"
  by (auto simp: ExportGenesis_def bindM_def mustM_def GetNextAccountID_run [of sdk _ k] retM_def
      split: prod.splits res.splits dest: GetParams_pure)

lemma keeps_InitGenesis:
  assumes "codec_ok (cdc k)" and "\<And>p. gs_Params gs = Some p \<Longrightarrow> small_params p"
  shows "keeps (params_inv k) (InitGenesis sdk k gs)"
  unfolding InitGenesis_def SetNextAccountID_def
  by (intro keeps_bindM keeps_mustM keeps_SetParams keeps_other_key) (use assms in auto)

end
