(* ===== verification/KeeperSpec.thy ===== *)
theory KeeperSpec
  imports Genesis Sample
begin

text \<open>
  The properties of the keeper and of genesis.
\<close>

text \<open>\<open>SetParams\<close> followed by \<open>GetParams\<close> returns the parameters that were set, and setting
  them changes nothing else: not the next account id, not the stored signer, nothing
  outside the module.  Invalid parameters are never stored: the call returns the error of
  \<open>Validate\<close> and leaves the state as it was.\<close>

theorem set_params_get_params:
  assumes "codec_ok (cdc k)" and "small_params p"
  shows "if valid_params p
    then \<exists>t. SetParams k (Some p) s = (Ok (), t) \<and> GetParams k t = (Ok p, t)
      \<and> abs_state sdk k t = (abs_state sdk k s)\<lparr>st_params := Some p\<rparr> \<and> same_outside s t
    else \<exists>e. SetParams k (Some p) s = (Err e, s) \<and> Params_Validate (Some p) = Err e"
proof (cases "valid_params p")
  case True
  obtain t where t: "SetParams k (Some p) s = (Ok (), t)"
    and abs: "abs_state sdk k t = (abs_state sdk k s)\<lparr>st_params := Some p\<rparr>" and out: "same_outside s t"
    using SetParams_Ok [OF assms(1) True assms(2)] by blast
  have "GetParams k t = (Ok p, t)" using abs by (simp add: GetParams_Ok_iff [of k t p t sdk])
  with True t abs out show ?thesis by auto
next
  case False
  then show ?thesis using SetParams_invalid [OF False] by (simp del: Params_Validate.simps)
qed

theorem set_params_get_params_witness:
  "\<exists>t. SetParams sample_keeper (Some DefaultParams) sample_ctx = (Ok (), t)
     \<and> GetParams sample_keeper t = (Ok DefaultParams, t)"
  using set_params_get_params [OF sample_keeper_ok(1) small_DefaultParams, of sample_ctx sample_sdk]
    valid_DefaultParams
  by auto

text \<open>A series of \<open>n\<close> calls, and the ids they return.\<close>

fun take_ids :: "Sdk \<Rightarrow> nat \<Rightarrow> ('w ctx, u64 list) act" where
  "take_ids sdk 0 = retM []"
| "take_ids sdk (Suc n) = bindM (GetAndIncrementNextAccountID sdk) (\<lambda>a.
     bindM (take_ids sdk n) (\<lambda>as. retM (a # as)))"

text \<open>\<open>GetAndIncrementNextAccountID\<close> returns the stored id and stores its successor, modulo
  the width of the integer; a store that was never written counts as id 0.  So a series of
  calls hands out consecutive, hence distinct, ids.\<close>

theorem account_ids_consecutive:
  assumes "big_endian_ok sdk"
  shows "\<exists>t. take_ids sdk n s
      = (Ok (map (\<lambda>i. st_next_id (abs_state sdk k s) + of_nat i) [0..<n]), t)
    \<and> abs_state sdk k t
      = (abs_state sdk k s)\<lparr>st_next_id := st_next_id (abs_state sdk k s) + of_nat n\<rparr>
    \<and> same_outside s t"
proof (induction n arbitrary: s)
  case 0
  then show ?case by (simp add: retM_def)
next
  case (Suc n)
  let ?a = "st_next_id (abs_state sdk k s)"
  obtain s1 where s1: "GetAndIncrementNextAccountID sdk s = (Ok ?a, s1)"
    and abs1: "abs_state sdk k s1 = (abs_state sdk k s)\<lparr>st_next_id := ?a + 1\<rparr>"
    and out1: "same_outside s s1"
    using GetAndIncrement_run [OF assms, of s k] by blast
  obtain t where t: "take_ids sdk n s1 = (Ok (map (\<lambda>i. ?a + 1 + of_nat i) [0..<n]), t)"
    and abs: "abs_state sdk k t = (abs_state sdk k s1)\<lparr>st_next_id := ?a + 1 + of_nat n\<rparr>"
    and out: "same_outside s1 t"
    using Suc.IH [of s1] abs1 by auto
  have "[0..<Suc n] = 0 # map Suc [0..<n]" by (simp add: upt_conv_Cons map_Suc_upt del: upt_Suc)
  then have "map (\<lambda>i. ?a + of_nat i) [0..<Suc n] = ?a # map (\<lambda>i. ?a + 1 + of_nat i) [0..<n]"
    by (simp add: comp_def add.assoc del: upt_Suc)
  moreover have "same_outside s t" using out out1 by (simp add: same_outside_def)
  ultimately show ?case using s1 t abs abs1 by (simp add: monad_simps add.assoc)
qed

theorem account_ids_consecutive_witness:
  "fst (take_ids sample_sdk 3 sample_ctx) = Ok [0, 1, 2]"
proof -
  have "st_next_id (abs_state sample_sdk sample_keeper sample_ctx) = 0"
    using big_endian_sample
    by (simp add: abs_state_def store_Get_def sample_ctx_def big_endian_ok_def)
  then show ?thesis
    using account_ids_consecutive [OF big_endian_sample, of 3 sample_ctx sample_keeper]
    by (auto simp: upt_rec)
qed

text \<open>Exporting after an import gives back what was imported: \<open>InitGenesis\<close> with valid
  parameters succeeds without validator updates, \<open>ExportGenesis\<close> then returns the same
  genesis state and leaves the store alone, and the stored signer is not affected.\<close>

theorem genesis_export_import:
  assumes "codec_ok (cdc k)" and "big_endian_ok sdk" and "gs_Params gs = Some p"
    and "valid_params p" and "small_params p"
  shows "\<exists>t. InitGenesis sdk k gs s = (Ok [], t) \<and> ExportGenesis sdk k t = (Ok gs, t)
    \<and> st_signer (abs_state sdk k t) = st_signer (abs_state sdk k s) \<and> same_outside s t"
proof -
  have gs: "gs = \<lparr>gs_Params = Some p, NextAccountId = NextAccountId gs\<rparr>"
    using assms(3) by (cases gs) simp
  obtain t where t: "InitGenesis sdk k gs s = (Ok [], t)"
    and abs: "abs_state sdk k t
      = (abs_state sdk k s)\<lparr>st_params := Some p, st_next_id := NextAccountId gs\<rparr>"
    and out: "same_outside s t"
    using InitGenesis_Ok [OF assms(1,2,4,5), of "NextAccountId gs" s] gs by auto
  have p: "GetParams k t = (Ok p, t)" using abs by (simp add: GetParams_Ok_iff [of k t p t sdk])
  have "ExportGenesis sdk k t = (Ok gs, t)"
    using abs gs p by (simp add: ExportGenesis_run)
  with t abs out show ?thesis by auto
qed

theorem genesis_export_import_witness:
  "\<exists>t. InitGenesis sample_sdk sample_keeper DefaultGenesisState sample_ctx = (Ok [], t)
     \<and> ExportGenesis sample_sdk sample_keeper t = (Ok DefaultGenesisState, t)"
proof -
  have "gs_Params DefaultGenesisState = Some DefaultParams"
    by (simp add: DefaultGenesisState_def NewGenesisState_def)
  from genesis_export_import [OF sample_keeper_ok(1) big_endian_sample this valid_DefaultParams
      small_DefaultParams, of sample_ctx]
  show ?thesis by blast
qed

text \<open>A genesis state the module's \<open>Validate\<close> rejects stops the chain: \<open>InitGenesis\<close> panics
  with the validation error, or with a nil dereference when the parameters are missing,
  and stores nothing.\<close>

theorem init_genesis_panics:
  assumes "GenesisState_Validate gs \<noteq> Ok ()"
  shows "InitGenesis sdk k gs s =
    (case GenesisState_Validate gs of
       Err e \<Rightarrow> Panic (PanicError e)
     | Panic x \<Rightarrow> Panic x
     | Ok _ \<Rightarrow> Ok [], s)"
proof (cases "gs_Params gs")
  case None
  then show ?thesis
    using SetParams_nil [of k s]
    by (simp add: InitGenesis_def GenesisState_Validate_def monad_simps)
next
  case (Some p)
  then have "\<not> valid_params p"
    using assms Validate_Ok_iff [of p] by (simp add: GenesisState_Validate_def del: Params_Validate.simps)
  from SetParams_invalid [OF this, of k s] obtain e where "SetParams k (Some p) s = (Err e, s)"
    and "Params_Validate (Some p) = Err e" by blast
  then show ?thesis
    using Some
    by (simp add: InitGenesis_def GenesisState_Validate_def monad_simps del: Params_Validate.simps)
qed

theorem init_genesis_panics_witness:
  "InitGenesis sample_sdk sample_keeper \<lparr>gs_Params = None, NextAccountId = 1\<rparr> sample_ctx
    = (Panic NilDereference, sample_ctx)"
  using init_genesis_panics [of "\<lparr>gs_Params = None, NextAccountId = 1\<rparr>" sample_sdk sample_keeper sample_ctx]
  by (simp add: GenesisState_Validate_def)

end
