(* ===== verification/MsgServer.thy ===== *)
theory MsgServer
  imports Keeper RegisterPB QueryPB
begin

text \<open>
  The Msg and Query services: \<open>x/abstractaccount/keeper/msg_server.go\<close> and
  \<open>query_server.go\<close>.  The logger calls of the source write no state and are left out.
\<close>

subsection \<open>UpdateParams\<close>

definition UpdateParams ::
  "'w Keeper \<Rightarrow> MsgUpdateParams \<Rightarrow> ('w ctx, MsgUpdateParamsResponse) act" where
  "UpdateParams k req =
     (if up_Sender req \<noteq> authority k
      then liftM (Err (ErrUnauthorized (authority k) (up_Sender req)))
      else bindM (SetParams k (up_Params req)) (\<lambda>_. retM MsgUpdateParamsResponse))"

subsection \<open>RegisterAccount\<close>

text \<open>\<open>fmt.Sprintf("%s/%d", types.ModuleName, id)\<close>.\<close>

definition account_label :: "u64 \<Rightarrow> string" where
  "account_label accountID = ModuleName @ ''/'' @ decimal (unat accountID)"

text \<open>\<open>ctx.EventManager().EmitTypedEvent\<close>: convert, then append.\<close>

definition EmitTypedEvent :: "Sdk \<Rightarrow> EventAccountRegistered \<Rightarrow> ('w ctx, unit) act" where
  "EmitTypedEvent sdk ev =
     bindM (liftM (TypedEventToEvent sdk ev)) (\<lambda>e. modifyM (\<lambda>ctx. ctx\<lparr>events := events ctx @ [e]\<rparr>))"

definition SetAccount :: "'w Keeper \<Rightarrow> AccountI \<Rightarrow> ('w ctx, unit) act" where
  "SetAccount k acc = modifyM (\<lambda>ctx. ctx\<lparr>world := ak_SetAccount (ak k) acc (world ctx)\<rparr>)"

definition RegisterAccount ::
  "Sdk \<Rightarrow> 'w Keeper \<Rightarrow> Coin MsgRegisterAccount \<Rightarrow> ('w ctx, MsgRegisterAccountResponse) act" where
  "RegisterAccount sdk k req =
     bindM (GetParams k) (\<lambda>params.
     if \<not> IsAllowed params (CodeID req) then liftM (Err ErrNotAllowedCodeID)
     else (case AccAddressFromBech32 sdk (Sender req) of
       (senderAddr, Some err) \<Rightarrow> liftM (Err err)
     | (senderAddr, None) \<Rightarrow>
         bindM (GetAndIncrementNextAccountID sdk) (\<lambda>accountID.
         bindM (ck_Instantiate2 (ck k) (CodeID req) senderAddr senderAddr (Msg req)
                  (account_label accountID) (Funds req) (Salt req) False) (\<lambda>(contractAddr, data).
         bindM (ck_UpdateContractAdmin (ck k) contractAddr senderAddr contractAddr) (\<lambda>_.
         bindM (readM (\<lambda>ctx. ak_GetAccount (ak k) (world ctx) contractAddr)) (\<lambda>acc.
         case acc of
           Some (BaseAccount v) \<Rightarrow>
             bindM (SetAccount k (AbstractAcc (NewAbstractAccountFromAccount sdk (BaseAccount v)))) (\<lambda>_.
             bindM (EmitTypedEvent sdk \<lparr>Creator = Sender req, ev_CodeID = CodeID req,
                      ContractAddr = AccAddress_String sdk contractAddr\<rparr>) (\<lambda>_.
             retM \<lparr>resp_Address = AccAddress_String sdk contractAddr, resp_Data = data\<rparr>))
         | Some (AbstractAcc a) \<Rightarrow> liftM (Err ErrNotBaseAccount)
         | Some (OtherAccount v) \<Rightarrow> liftM (Err ErrNotBaseAccount)
         | None \<Rightarrow> liftM (Err ErrNotBaseAccount)))))))"

subsection \<open>Query\<close>

definition Query_Params ::
  "'w Keeper \<Rightarrow> QueryParamsRequest \<Rightarrow> ('w ctx, QueryParamsResponse) act" where
  "Query_Params k req = bindM (GetParams k) (\<lambda>params. retM \<lparr>qr_Params = Some params\<rparr>)"

subsection \<open>How the handlers run\<close>

lemma RegisterAccount_no_params:
  "GetParams k s = (Err e, t) \<Longrightarrow> RegisterAccount sdk k req s = (Err e, s)"
  by (simp add: RegisterAccount_def monad_simps GetParams_pure)

lemma RegisterAccount_not_allowed:
  "GetParams k s = (Ok p, t) \<Longrightarrow> \<not> IsAllowed p (CodeID req) \<Longrightarrow>
   RegisterAccount sdk k req s = (Err ErrNotAllowedCodeID, s)"
  by (auto simp: RegisterAccount_def monad_simps dest: GetParams_pure)

lemma RegisterAccount_bad_sender:
  "GetParams k s = (Ok p, t) \<Longrightarrow> IsAllowed p (CodeID req) \<Longrightarrow>
   AccAddressFromBech32 sdk (Sender req) = (a, Some e) \<Longrightarrow>
   RegisterAccount sdk k req s = (Err e, s)"
  by (auto simp: RegisterAccount_def monad_simps dest: GetParams_pure)

text \<open>
  What happens once the account id has been taken: the three calls to the outside and the
  replacement of the base account.
\<close>

definition register_tail ::
  "Sdk \<Rightarrow> 'w Keeper \<Rightarrow> Coin MsgRegisterAccount \<Rightarrow> slice \<Rightarrow> slice \<Rightarrow> slice
     \<Rightarrow> ('w ctx, MsgRegisterAccountResponse) act" where
  "register_tail sdk k req senderAddr contractAddr data =
     bindM (ck_UpdateContractAdmin (ck k) contractAddr senderAddr contractAddr) (\<lambda>_.
     bindM (readM (\<lambda>ctx. ak_GetAccount (ak k) (world ctx) contractAddr)) (\<lambda>acc.
     case acc of
       Some (BaseAccount v) \<Rightarrow>
         bindM (SetAccount k (AbstractAcc (NewAbstractAccountFromAccount sdk (BaseAccount v)))) (\<lambda>_.
         bindM (EmitTypedEvent sdk \<lparr>Creator = Sender req, ev_CodeID = CodeID req,
                  ContractAddr = AccAddress_String sdk contractAddr\<rparr>) (\<lambda>_.
         retM \<lparr>resp_Address = AccAddress_String sdk contractAddr, resp_Data = data\<rparr>))
     | Some (AbstractAcc a) \<Rightarrow> liftM (Err ErrNotBaseAccount)
     | Some (OtherAccount v) \<Rightarrow> liftM (Err ErrNotBaseAccount)
     | None \<Rightarrow> liftM (Err ErrNotBaseAccount)))"

lemma RegisterAccount_run:
  assumes "GetParams k s = (Ok p, s)" and "IsAllowed p (CodeID req)"
    and "AccAddressFromBech32 sdk (Sender req) = (a, None)"
    and "GetAndIncrementNextAccountID sdk s = (Ok n, s1)"
  shows "RegisterAccount sdk k req s =
    bindM (ck_Instantiate2 (ck k) (CodeID req) a a (Msg req) (account_label n) (Funds req)
      (Salt req) False) (\<lambda>(c, d). register_tail sdk k req a c d) s1"
  using assms by (simp add: RegisterAccount_def register_tail_def monad_simps)

lemma RegisterAccount_Ok:
  assumes "RegisterAccount sdk k req s = (Ok resp, t)"
  obtains p a n s1 c d s2 where "GetParams k s = (Ok p, s)" and "IsAllowed p (CodeID req)"
    and "AccAddressFromBech32 sdk (Sender req) = (a, None)"
    and "GetAndIncrementNextAccountID sdk s = (Ok n, s1)"
    and "ck_Instantiate2 (ck k) (CodeID req) a a (Msg req) (account_label n) (Funds req)
      (Salt req) False s1 = (Ok (c, d), s2)"
    and "register_tail sdk k req a c d s2 = (Ok resp, t)"
proof -
  obtain p where p: "GetParams k s = (Ok p, s)"
    using assms by (auto simp: RegisterAccount_def bindM_Ok_iff dest: GetParams_pure)
  moreover have al: "IsAllowed p (CodeID req)"
    using assms RegisterAccount_not_allowed [OF p, of req sdk] by (cases "IsAllowed p (CodeID req)") auto
  moreover obtain a where a: "AccAddressFromBech32 sdk (Sender req) = (a, None)"
    using assms RegisterAccount_bad_sender [OF p al, of sdk]
    by (cases "AccAddressFromBech32 sdk (Sender req)"; cases "snd (AccAddressFromBech32 sdk (Sender req))") auto
  moreover obtain n s1 where n: "GetAndIncrementNextAccountID sdk s = (Ok n, s1)"
    using assms p al a by (auto simp: RegisterAccount_def bindM_Ok_iff)
  ultimately show thesis
    using assms that unfolding RegisterAccount_run [OF p al a n] bindM_Ok_iff by fast
qed

lemma register_tail_not_base:
  assumes "ck_UpdateContractAdmin (ck k) c a c s = (Ok (), s1)"
    and "\<And>v. ak_GetAccount (ak k) (world s1) c \<noteq> Some (BaseAccount v)"
  shows "register_tail sdk k req a c d s = (Err ErrNotBaseAccount, s1)"
  using assms by (auto simp: register_tail_def monad_simps split: option.split AccountI.split)

lemma register_tail_Ok:
  assumes "register_tail sdk k req a c d s = (Ok resp, t)"
  obtains s1 v e where "ck_UpdateContractAdmin (ck k) c a c s = (Ok (), s1)"
    and "ak_GetAccount (ak k) (world s1) c = Some (BaseAccount v)"
    and "TypedEventToEvent sdk \<lparr>Creator = Sender req, ev_CodeID = CodeID req,
      ContractAddr = AccAddress_String sdk c\<rparr> = Ok e"
    and "t = s1\<lparr>world := ak_SetAccount (ak k)
        (AbstractAcc (NewAbstractAccountFromAccount sdk (BaseAccount v))) (world s1),
      events := events s1 @ [e]\<rparr>"
    and "resp = \<lparr>resp_Address = AccAddress_String sdk c, resp_Data = d\<rparr>"
proof -
  obtain s1 where upd: "ck_UpdateContractAdmin (ck k) c a c s = (Ok (), s1)"
    using assms unfolding register_tail_def bindM_Ok_iff by auto
  obtain v where acc: "ak_GetAccount (ak k) (world s1) c = Some (BaseAccount v)"
    using assms register_tail_not_base [OF upd, of sdk req d]
    by (metis Pair_inject res.distinct(1))
  let ?ev = "\<lparr>Creator = Sender req, ev_CodeID = CodeID req,
    ContractAddr = AccAddress_String sdk c\<rparr>"
  have tail: "register_tail sdk k req a c d s =
    bindM (SetAccount k (AbstractAcc (NewAbstractAccountFromAccount sdk (BaseAccount v)))) (\<lambda>_.
    bindM (EmitTypedEvent sdk ?ev) (\<lambda>_.
    retM \<lparr>resp_Address = AccAddress_String sdk c, resp_Data = d\<rparr>)) s1"
    using upd acc by (simp add: register_tail_def monad_simps)
  obtain e where e: "TypedEventToEvent sdk ?ev = Ok e"
    using assms unfolding tail
    by (auto simp: EmitTypedEvent_def bindM_Ok_iff liftM_Ok_iff)
  show thesis
    using assms e unfolding tail
    by (intro that [OF upd acc e]) (auto simp: SetAccount_def EmitTypedEvent_def monad_simps)
qed

lemma keeps_EmitTypedEvent:
  "(\<And>s e. P s \<Longrightarrow> P (s\<lparr>events := events s @ [e]\<rparr>)) \<Longrightarrow> keeps P (EmitTypedEvent sdk ev)"
  unfolding EmitTypedEvent_def by (intro keeps_bindM keeps_liftM) (simp add: keeps_def modifyM_def)

lemma keeps_register_tail:
  assumes "contracts_keep P (ck k)" and "\<And>s e. P s \<Longrightarrow> P (s\<lparr>events := e\<rparr>)"
    and "\<And>s w. P s \<Longrightarrow> P (s\<lparr>world := w\<rparr>)"
  shows "keeps P (register_tail sdk k req a c d)"
  unfolding register_tail_def
  by (intro keeps_bindM keeps_readM)
     (use assms in \<open>auto simp: contracts_keep_def SetAccount_def keeps_modifyM
       split: option.split AccountI.split intro!: keeps_bindM keeps_EmitTypedEvent\<close>)

lemma keeps_RegisterAccount:
  assumes "contracts_keep P (ck k)" and "\<And>s e. P s \<Longrightarrow> P (s\<lparr>events := e\<rparr>)"
    and "\<And>s w. P s \<Longrightarrow> P (s\<lparr>world := w\<rparr>)" and "\<And>v. keeps P (store_Set KeyNextAccountID v)"
  shows "keeps P (RegisterAccount sdk k req)"
proof -
  have "keeps P (GetAndIncrementNextAccountID sdk)"
    unfolding GetAndIncrementNextAccountID_def GetNextAccountID_def SetNextAccountID_def
    by (intro keeps_bindM keeps_readM keeps_retM assms(4))
  moreover have "keeps P (bindM (ck_Instantiate2 (ck k) (CodeID req) a a (Msg req) l (Funds req)
      (Salt req) False) (\<lambda>(c, d). register_tail sdk k req a c d))" for a l
    using assms(1) keeps_register_tail [OF assms(1-3), of sdk req]
    by (intro keeps_bindM) (auto simp: contracts_keep_def)
  ultimately show ?thesis
    unfolding RegisterAccount_def register_tail_def [symmetric]
    by (intro keeps_bindM keeps_GetParams) (auto split: prod.split option.split)
qed

end
