(* ===== verification/MsgServerSpec.thy ===== *)
theory MsgServerSpec
  imports MsgServer Sample
begin

text \<open>
  The properties of the Msg and Query services.
\<close>

subsection \<open>UpdateParams\<close>

text \<open>C29: \<open>UpdateParams\<close> is decided by two checks and nothing else: a sender that is not the
  authority gets \<open>ErrUnauthorized\<close>; otherwise the result is that of \<open>Validate\<close> on the
  message's parameters (its error, or the panic on nil parameters).  The stored
  parameters become the message's exactly when both checks pass; in every other case, and
  in every other part of the state, nothing changes.\<close>

theorem update_params_spec:
  assumes "codec_ok (cdc k)" and "\<And>p. up_Params req = Some p \<Longrightarrow> small_params p"
  shows "\<exists>t. UpdateParams k req s =
      (if up_Sender req \<noteq> authority k then Err (ErrUnauthorized (authority k) (up_Sender req))
       else bindR (Params_Validate (up_Params req)) (\<lambda>_. Ok MsgUpdateParamsResponse), t)
    \<and> abs_state sdk k t = (if up_Sender req = authority k \<and> Params_Validate (up_Params req) = Ok ()
        then (abs_state sdk k s)\<lparr>st_params := up_Params req\<rparr> else abs_state sdk k s)
    \<and> same_outside s t"
proof (cases "up_Params req")
  case None
  then show ?thesis by (auto simp: UpdateParams_def monad_simps SetParams_nil)
next
  case (Some p)
  show ?thesis
  proof (cases "valid_params p")
    case True
    then have V: "Params_Validate (Some p) = Ok ()" by (simp only: Validate_Ok_iff)
    from SetParams_Ok [OF assms(1) True assms(2) [OF Some], of s sdk]
    show ?thesis
      by (auto simp: UpdateParams_def monad_simps Some V simp del: Params_Validate.simps)
  next
    case False
    from SetParams_invalid [OF False, of k s] show ?thesis
      by (auto simp: UpdateParams_def monad_simps Some simp del: Params_Validate.simps)
  qed
qed

theorem update_params_spec_witness:
  "\<exists>t. UpdateParams sample_keeper \<lparr>up_Sender = ''gov'', up_Params = Some DefaultParams\<rparr> sample_ctx
      = (Ok MsgUpdateParamsResponse, t)
    \<and> st_params (abs_state sample_sdk sample_keeper t) = Some DefaultParams"
proof -
  have V: "Params_Validate (Some DefaultParams) = Ok ()"
    using valid_DefaultParams by (simp only: Validate_Ok_iff)
  show ?thesis
    using update_params_spec [of sample_keeper "\<lparr>up_Sender = ''gov'', up_Params = Some DefaultParams\<rparr>"
        sample_ctx sample_sdk] V small_DefaultParams sample_keeper_ok
    by (auto simp: sample_keeper_def simp del: Params_Validate.simps)
qed

text \<open>After a successful \<open>UpdateParams\<close> the query service returns exactly the parameters of
  the message, and they are valid.\<close>

theorem update_then_query:
  assumes "codec_ok (cdc k)" and "\<And>p. up_Params req = Some p \<Longrightarrow> small_params p"
    and "UpdateParams k req s = (Ok r, t)"
  shows "Query_Params k q t = (Ok \<lparr>qr_Params = up_Params req\<rparr>, t)
    \<and> (\<exists>p. up_Params req = Some p \<and> valid_params p)"
proof -
  have set: "SetParams k (up_Params req) s = (Ok (), t)"
    using assms(3) by (auto simp: UpdateParams_def bindM_Ok_iff liftM_Ok_iff run_simps split: if_splits)
  then obtain p where p: "up_Params req = Some p" "valid_params p"
    using SetParams_invalid [of _ k s]
    by (cases "up_Params req") (fastforce simp: SetParams_nil)+
  have "st_params (abs_state undefined k t) = Some p"
    using SetParams_Ok [OF assms(1) p(2) assms(2) [OF p(1)], of s undefined] set p(1) by auto
  then have "GetParams k t = (Ok p, t)" by (simp add: GetParams_Ok_iff [of k t p t undefined])
  then show ?thesis using p by (simp add: Query_Params_def monad_simps)
qed

theorem update_then_query_witness:
  "\<exists>t. UpdateParams sample_keeper \<lparr>up_Sender = ''gov'', up_Params = Some DefaultParams\<rparr> sample_ctx
      = (Ok MsgUpdateParamsResponse, t)
    \<and> Query_Params sample_keeper QueryParamsRequest t = (Ok \<lparr>qr_Params = Some DefaultParams\<rparr>, t)"
proof -
  let ?req = "\<lparr>up_Sender = ''gov'', up_Params = Some DefaultParams\<rparr>"
  obtain t where t: "SetParams sample_keeper (Some DefaultParams) sample_ctx = (Ok (), t)"
    using SetParams_Ok [OF sample_keeper_ok(1) valid_DefaultParams small_DefaultParams] by blast
  then have u: "UpdateParams sample_keeper ?req sample_ctx = (Ok MsgUpdateParamsResponse, t)"
    by (simp add: UpdateParams_def monad_simps) (simp add: sample_keeper_def)
  show ?thesis
    using u update_then_query [OF sample_keeper_ok(1) _ u, of QueryParamsRequest] small_DefaultParams
    by auto
qed

subsection \<open>RegisterAccount\<close>

text \<open>\<open>RegisterAccount\<close> rejects before it touches anything: when the parameters cannot be
  read, when they do not allow the code id, or when the sender is not an address, it
  returns the corresponding error (in that order of precedence) and the state is exactly
  the one before: the account id is not consumed and no contract is called.\<close>

theorem register_rejects:
  assumes "\<And>p t a. GetParams k s = (Ok p, t) \<Longrightarrow>
      AllowAllCodeIDs p \<or> CodeID req \<in> set (AllowedCodeIDs p) \<Longrightarrow>
      AccAddressFromBech32 sdk (Sender req) \<noteq> (a, None)"
  shows "RegisterAccount sdk k req s =
    (case fst (GetParams k s) of
       Ok p \<Rightarrow> if AllowAllCodeIDs p \<or> CodeID req \<in> set (AllowedCodeIDs p)
              then Err (the (snd (AccAddressFromBech32 sdk (Sender req))))
              else Err ErrNotAllowedCodeID
     | Err e \<Rightarrow> Err e
     | Panic x \<Rightarrow> Panic x, s)"
proof (cases "GetParams k s")
  case (Pair r t)
  then have t: "t = s" by (rule GetParams_pure)
  show ?thesis
  proof (cases r)
    case (Ok p)
    have al: "IsAllowed p (CodeID req) \<longleftrightarrow> AllowAllCodeIDs p \<or> CodeID req \<in> set (AllowedCodeIDs p)"
      by (simp add: IsAllowed_def code_id_listed_iff)
    obtain a e where e: "AccAddressFromBech32 sdk (Sender req) = (a, e)"
      by (cases "AccAddressFromBech32 sdk (Sender req)")
    show ?thesis
      using Pair Ok t al e assms [of p t a] RegisterAccount_not_allowed [of k s p t req sdk]
        RegisterAccount_bad_sender [of k s p t req sdk a "the e"]
      by (cases e) auto
  next
    case (Err e)
    then show ?thesis using Pair RegisterAccount_no_params [of k s e t sdk req] t by simp
  next
    case (Panic x)
    then show ?thesis using Pair t by (simp add: RegisterAccount_def monad_simps)
  qed
qed

theorem register_rejects_witness:
  "RegisterAccount sample_sdk sample_keeper
      \<lparr>Sender = [], CodeID = 7, Msg = None, Funds = [], Salt = None\<rparr> sample_ctx
    = (Err (External ''empty address string is not allowed''), sample_ctx)"
  using register_rejects [of sample_keeper sample_ctx
      "\<lparr>Sender = [], CodeID = 7, Msg = None, Funds = [], Salt = None\<rparr>" sample_sdk]
  by (simp add: sample_GetParams DefaultParams_fields sample_sdk_def)

text \<open>The account id is taken before any contract code runs: when the checks pass, the
  contract keeper is called with the label built from the stored next id, in a state where
  that id is already incremented and nothing else has changed.  So a contract that
  registers another account during its own instantiation cannot get the same label, and
  an error of the instantiation is returned as it is.\<close>

theorem register_takes_id_first:
  assumes "big_endian_ok sdk" and "GetParams k s = (Ok p, s)"
    and "AllowAllCodeIDs p \<or> CodeID req \<in> set (AllowedCodeIDs p)"
    and "AccAddressFromBech32 sdk (Sender req) = (a, None)"
  shows "\<exists>s1. abs_state sdk k s1
        = (abs_state sdk k s)\<lparr>st_next_id := st_next_id (abs_state sdk k s) + 1\<rparr>
    \<and> same_outside s s1
    \<and> (\<forall>e t. ck_Instantiate2 (ck k) (CodeID req) a a (Msg req)
          (account_label (st_next_id (abs_state sdk k s))) (Funds req) (Salt req) False s1 = (Err e, t)
        \<longrightarrow> RegisterAccount sdk k req s = (Err e, t))
    \<and> (\<forall>c d t. ck_Instantiate2 (ck k) (CodeID req) a a (Msg req)
          (account_label (st_next_id (abs_state sdk k s))) (Funds req) (Salt req) False s1 = (Ok (c, d), t)
        \<longrightarrow> RegisterAccount sdk k req s = register_tail sdk k req a c d t)"
proof -
  have al: "IsAllowed p (CodeID req)" using assms(3) by (auto simp: IsAllowed_def code_id_listed_iff)
  obtain s1 where n: "GetAndIncrementNextAccountID sdk s = (Ok (st_next_id (abs_state sdk k s)), s1)"
    and abs: "abs_state sdk k s1
        = (abs_state sdk k s)\<lparr>st_next_id := st_next_id (abs_state sdk k s) + 1\<rparr>"
    and out: "same_outside s s1"
    using GetAndIncrement_run [OF assms(1), of s k] by blast
  show ?thesis
    using abs out RegisterAccount_run [OF assms(2) al assms(4) n] by (auto simp: monad_simps)
qed

theorem register_takes_id_first_witness:
  "\<exists>s1. abs_state sample_sdk sample_keeper s1
        = (abs_state sample_sdk sample_keeper sample_ctx)\<lparr>st_next_id := 1\<rparr>"
proof -
  have n: "st_next_id (abs_state sample_sdk sample_keeper sample_ctx) = 0"
    using big_endian_sample
    by (simp add: abs_state_def store_Get_def sample_ctx_def big_endian_ok_def)
  show ?thesis
    using register_takes_id_first [OF big_endian_sample sample_GetParams, where
        req = sample_register and a = "Some (string_bytes ''alice'')"] sample_alice
    by (auto simp: n DefaultParams_fields sample_register_def)
qed

text \<open>What overwriting a base account does to the accounts.\<close>

lemma installed_account:
  assumes "account_keeper_ok sdk a" and "ak_GetAccount a w c = Some (BaseAccount v)"
  defines "w' \<equiv> ak_SetAccount a (AbstractAcc (NewAbstractAccountFromAccount sdk (BaseAccount v))) w"
  shows "ak_GetAccount a w' c = Some (AbstractAcc \<lparr>Address = AccAddress_String sdk c,
      AccountNumber = view_number v, Sequence = view_sequence v\<rparr>)"
    and "b \<noteq> c \<Longrightarrow> ak_GetAccount a w' b = ak_GetAccount a w b"
    and "AccAddressFromBech32 sdk (AccAddress_String sdk c) = (c, None)"
proof -
  have c: "view_address v = c" "bech32_ok sdk c"
    using account_keeper_read [OF assms(1,2)] by simp_all
  let ?new = "AbstractAcc (NewAbstractAccountFromAccount sdk (BaseAccount v))"
  have new: "?new = AbstractAcc \<lparr>Address = AccAddress_String sdk c, AccountNumber = view_number v,
      Sequence = view_sequence v\<rparr>"
    using c by (simp add: NewAbstractAccountFromAccount_def NewAbstractAccount_def)
  have at: "AccountI_GetAddress sdk ?new = c"
    using c by (simp add: new GetAddress_def bech32_ok_def)
  show "ak_GetAccount a w' c = Some (AbstractAcc \<lparr>Address = AccAddress_String sdk c,
      AccountNumber = view_number v, Sequence = view_sequence v\<rparr>)"
    using account_keeper_set [OF assms(1), of ?new w] at c(2) by (simp add: w'_def new)
  show "b \<noteq> c \<Longrightarrow> ak_GetAccount a w' b = ak_GetAccount a w b"
    using account_keeper_other [OF assms(1), of b ?new w] at by (simp add: w'_def)
  show "AccAddressFromBech32 sdk (AccAddress_String sdk c) = (c, None)"
    using c(2) by (simp add: bech32_ok_def)
qed

text \<open>C19: What a successful registration has done, call by call.  The parameters in force
  allow the code; the next id was taken and moved on; on that state the contract was
  instantiated, for the sender as creator and admin, under the label of the id taken; then
  its admin became the contract itself.  In the state these calls left, the account at the
  address of the contract was a base account; the final state is that one with this account
  set to an \<open>AbstractAccount\<close> with the same address, account number and sequence, so that it
  reads as one and every other account reads as before, and with the event of the
  registration added; and the response has the address and the data of the instantiation.\<close>

theorem register_installs_account:
  assumes "account_keeper_ok sdk (ak k)" and "big_endian_ok sdk"
    and "RegisterAccount sdk k req s = (Ok resp, t)"
  shows "\<exists>p a s1 c d s2 s3 v e.
      GetParams k s = (Ok p, s) \<and> (AllowAllCodeIDs p \<or> CodeID req \<in> set (AllowedCodeIDs p))
    \<and> AccAddressFromBech32 sdk (Sender req) = (a, None)
    \<and> GetAndIncrementNextAccountID sdk s = (Ok (st_next_id (abs_state sdk k s)), s1)
    \<and> abs_state sdk k s1 = (abs_state sdk k s)\<lparr>st_next_id := st_next_id (abs_state sdk k s) + 1\<rparr>
    \<and> same_outside s s1
    \<and> ck_Instantiate2 (ck k) (CodeID req) a a (Msg req) (account_label (st_next_id (abs_state sdk k s)))
        (Funds req) (Salt req) False s1 = (Ok (c, d), s2)
    \<and> ck_UpdateContractAdmin (ck k) c a c s2 = (Ok (), s3)
    \<and> ak_GetAccount (ak k) (world s3) c = Some (BaseAccount v)
    \<and> resp_Data resp = d \<and> AccAddressFromBech32 sdk (resp_Address resp) = (c, None)
    \<and> ak_GetAccount (ak k) (world t) c = Some (AbstractAcc \<lparr>Address = resp_Address resp,
        AccountNumber = view_number v, Sequence = view_sequence v\<rparr>)
    \<and> (\<forall>b. b \<noteq> c \<longrightarrow> ak_GetAccount (ak k) (world t) b = ak_GetAccount (ak k) (world s3) b)
    \<and> TypedEventToEvent sdk \<lparr>Creator = Sender req, ev_CodeID = CodeID req,
        ContractAddr = resp_Address resp\<rparr> = Ok e
    \<and> t = s3\<lparr>world := ak_SetAccount (ak k) (AbstractAcc \<lparr>Address = resp_Address resp,
          AccountNumber = view_number v, Sequence = view_sequence v\<rparr>) (world s3),
        events := events s3 @ [e]\<rparr>"
proof -
  obtain p a n s1 c d s2 where p: "GetParams k s = (Ok p, s)" and al: "IsAllowed p (CodeID req)"
    and a: "AccAddressFromBech32 sdk (Sender req) = (a, None)"
    and n: "GetAndIncrementNextAccountID sdk s = (Ok n, s1)"
    and inst: "ck_Instantiate2 (ck k) (CodeID req) a a (Msg req) (account_label n) (Funds req)
      (Salt req) False s1 = (Ok (c, d), s2)"
    and tail: "register_tail sdk k req a c d s2 = (Ok resp, t)"
    using RegisterAccount_Ok [OF assms(3)] by blast
  have id: "n = st_next_id (abs_state sdk k s)"
      "abs_state sdk k s1 = (abs_state sdk k s)\<lparr>st_next_id := st_next_id (abs_state sdk k s) + 1\<rparr>"
      "same_outside s s1"
    using GetAndIncrement_run [OF assms(2), of s k] n by auto
  obtain s3 v e where upd: "ck_UpdateContractAdmin (ck k) c a c s2 = (Ok (), s3)"
    and acc: "ak_GetAccount (ak k) (world s3) c = Some (BaseAccount v)"
    and e: "TypedEventToEvent sdk \<lparr>Creator = Sender req, ev_CodeID = CodeID req,
      ContractAddr = AccAddress_String sdk c\<rparr> = Ok e"
    and t: "t = s3\<lparr>world := ak_SetAccount (ak k)
        (AbstractAcc (NewAbstractAccountFromAccount sdk (BaseAccount v))) (world s3),
      events := events s3 @ [e]\<rparr>"
    and resp: "resp = \<lparr>resp_Address = AccAddress_String sdk c, resp_Data = d\<rparr>"
    by (rule register_tail_Ok [OF tail])
  have new: "ak_GetAccount (ak k) (world t) c = Some (AbstractAcc \<lparr>Address = resp_Address resp,
        AccountNumber = view_number v, Sequence = view_sequence v\<rparr>)"
      "b \<noteq> c \<Longrightarrow> ak_GetAccount (ak k) (world t) b = ak_GetAccount (ak k) (world s3) b"
      "AccAddressFromBech32 sdk (resp_Address resp) = (c, None)" for b
    using installed_account [OF assms(1) acc] by (simp_all add: t resp)
  have "view_address v = c" using account_keeper_read [OF assms(1) acc] by simp
  then have t': "t = s3\<lparr>world := ak_SetAccount (ak k) (AbstractAcc \<lparr>Address = resp_Address resp,
          AccountNumber = view_number v, Sequence = view_sequence v\<rparr>) (world s3), events := events s3 @ [e]\<rparr>"
    by (simp add: t resp NewAbstractAccountFromAccount_def NewAbstractAccount_def)
  show ?thesis
    by (rule exI [of _ p], rule exI [of _ a], rule exI [of _ s1], rule exI [of _ c], rule exI [of _ d],
        rule exI [of _ s2], rule exI [of _ s3], rule exI [of _ v], rule exI [of _ e])
       (use p al a n inst id upd acc e new resp t' in \<open>auto simp: IsAllowed_def code_id_listed_iff split: if_splits\<close>)
qed

text \<open>A run of the sample instance: account id 0 is taken and the contract's account replaced.\<close>

lemma sample_next_id: "st_next_id (abs_state sample_sdk sample_keeper sample_ctx) = 0"
  using big_endian_sample by (simp add: abs_state_def store_Get_def sample_ctx_def big_endian_ok_def)

lemma sample_take_id:
  "\<exists>s1. GetAndIncrementNextAccountID sample_sdk sample_ctx = (Ok 0, s1)
     \<and> same_outside sample_ctx s1"
  using GetAndIncrement_run [OF big_endian_sample, of sample_ctx sample_keeper]
  by (auto simp: sample_next_id)

lemma sample_IsAllowed: "IsAllowed DefaultParams c"
  by (simp add: IsAllowed_def DefaultParams_fields)

lemma sample_contract_address: "AccountI_GetAddress sample_sdk (BaseAccount
    \<lparr>view_address = sample_contract, view_number = 12, view_sequence = 0\<rparr>) = sample_contract"
  by simp

lemma sample_run_any:
  assumes "GetParams sample_keeper s = (Ok DefaultParams, s)"
  shows "\<exists>resp t. RegisterAccount sample_sdk sample_keeper sample_register s = (Ok resp, t)"
proof -
  obtain n s1 where s1: "GetAndIncrementNextAccountID sample_sdk s = (Ok n, s1)"
    using GetAndIncrement_run [OF big_endian_sample] by blast
  have "RegisterAccount sample_sdk sample_keeper sample_register s
    = bindM (ck_Instantiate2 (ck sample_keeper) 7 (Some (string_bytes ''alice''))
        (Some (string_bytes ''alice'')) (Some [123, 125]) (account_label n) [] (Some [1]) False)
        (\<lambda>(c, d). register_tail sample_sdk sample_keeper sample_register
          (Some (string_bytes ''alice'')) c d) s1"
    using RegisterAccount_run [OF assms, of sample_register] sample_alice s1
    by (simp add: sample_register_def sample_IsAllowed)
  then show ?thesis
    by (simp add: sample_keeper_def sample_ck_def sample_ak_def bindM_def register_tail_def readM_def
        sample_contract_def SetAccount_def EmitTypedEvent_def modifyM_def liftM_def retM_def)
       (simp add: sample_sdk_def)
qed

lemmas sample_run = sample_run_any [OF sample_GetParams]

theorem register_installs_account_witness:
  "\<exists>resp t. RegisterAccount sample_sdk sample_keeper sample_register sample_ctx = (Ok resp, t)
    \<and> ak_GetAccount (ak sample_keeper) (world t) sample_contract = Some (AbstractAcc \<lparr>Address = resp_Address resp,
        AccountNumber = 12, Sequence = 0\<rparr>)"
proof -
  obtain resp t where run: "RegisterAccount sample_sdk sample_keeper sample_register sample_ctx = (Ok resp, t)"
    using sample_run by blast
  obtain a label s1 c d s2 s3 v where inst: "ck_Instantiate2 (ck sample_keeper) (CodeID sample_register) a a
        (Msg sample_register) label (Funds sample_register) (Salt sample_register) False s1 = (Ok (c, d), s2)"
    and upd: "ck_UpdateContractAdmin (ck sample_keeper) c a c s2 = (Ok (), s3)"
    and acc: "ak_GetAccount (ak sample_keeper) (world s3) c = Some (BaseAccount v)"
    and new: "ak_GetAccount (ak sample_keeper) (world t) c = Some (AbstractAcc \<lparr>Address = resp_Address resp,
        AccountNumber = view_number v, Sequence = view_sequence v\<rparr>)"
    using register_installs_account [OF sample_keeper_ok(2) big_endian_sample run] by blast
  have "c = sample_contract" "view_number v = 12" "view_sequence v = 0"
    using inst upd acc by (auto simp: sample_keeper_def sample_ck_def sample_ak_def split: if_splits)
  then show ?thesis using run new by auto
qed

text \<open>When the contract's account after instantiation is not a \<open>BaseAccount\<close> (it is
  missing, already abstract, or of another type), the registration fails with
  \<open>ErrNotBaseAccount\<close> and does not overwrite it.\<close>

theorem register_not_base_account:
  assumes "ck_UpdateContractAdmin (ck k) c a c s2 = (Ok (), s3)"
    and "GetParams k s = (Ok p, s)" and "IsAllowed p (CodeID req)"
    and "AccAddressFromBech32 sdk (Sender req) = (a, None)"
    and "GetAndIncrementNextAccountID sdk s = (Ok n, s1)"
    and "ck_Instantiate2 (ck k) (CodeID req) a a (Msg req) (account_label n) (Funds req)
      (Salt req) False s1 = (Ok (c, d), s2)"
    and "\<nexists>v. ak_GetAccount (ak k) (world s3) c = Some (BaseAccount v)"
  shows "RegisterAccount sdk k req s = (Err ErrNotBaseAccount, s3)"
  using RegisterAccount_run [OF assms(2-5)] assms(1,6,7)
  by (simp add: monad_simps register_tail_not_base)

theorem register_not_base_account_witness:
  "\<exists>t. RegisterAccount sample_sdk (sample_keeper\<lparr>ak := sample_ak\<lparr>ak_GetAccount := \<lambda>w d. None\<rparr>\<rparr>)
      sample_register sample_ctx = (Err ErrNotBaseAccount, t)"
proof -
  let ?k = "sample_keeper\<lparr>ak := sample_ak\<lparr>ak_GetAccount := \<lambda>w d. None\<rparr>\<rparr>"
  obtain s1 where s1: "GetAndIncrementNextAccountID sample_sdk sample_ctx = (Ok 0, s1)"
    using sample_take_id by blast
  have p: "GetParams ?k sample_ctx = (Ok DefaultParams, sample_ctx)"
    using sample_GetParams by (simp add: GetParams_run split: option.splits)
  show ?thesis
    using register_not_base_account [where k = ?k, OF _ p sample_IsAllowed _ s1, of sample_contract
        "Some (string_bytes ''alice'')"] sample_alice
    by (simp add: sample_keeper_def sample_ck_def sample_register_def)
qed

text \<open>Labels identify accounts: two registered accounts with different ids have different
  labels.\<close>

theorem account_label_injective: "account_label a = account_label b \<longleftrightarrow> a = b"
  by (simp add: account_label_def decimal_inject word_unat_eq_iff)

text \<open>No message the service handles breaks the store invariant: if the stored parameters
  are readable and valid before, they are so after \<open>UpdateParams\<close> and \<open>RegisterAccount\<close>,
  whether the call succeeds, fails or panics, provided the contracts it runs keep the
  invariant themselves.\<close>

theorem msg_server_keeps_params_valid:
  assumes "codec_ok (cdc k)" and "contracts_keep (params_inv k) (ck k)"
    and "params_inv k s" and "\<And>p. up_Params u = Some p \<Longrightarrow> small_params p"
  shows "params_inv k (snd (UpdateParams k u s)) \<and> params_inv k (snd (RegisterAccount sdk k req s))"
proof -
  have world: "params_inv k s \<Longrightarrow> params_inv k (s\<lparr>world := w\<rparr>)" for s w
    by (simp add: params_inv_def store_Get_def)
  have events: "params_inv k s \<Longrightarrow> params_inv k (s\<lparr>events := e\<rparr>)" for s e
    by (simp add: params_inv_def store_Get_def)
  have "keeps (params_inv k) (UpdateParams k u)"
    unfolding UpdateParams_def using keeps_SetParams [OF assms(1,4)] by auto
  moreover have "keeps (params_inv k) (RegisterAccount sdk k req)"
    using keeps_RegisterAccount [OF assms(2) events world] keeps_other_key [of KeyNextAccountID k]
    by simp
  ultimately show ?thesis using assms(3) by (auto simp: keeps_def)
qed

lemma sample_contracts_keep: "contracts_keep (params_inv sample_keeper) sample_ck"
  by (auto simp: contracts_keep_def keeps_def sample_ck_def params_inv_def store_Get_def)

lemma sample_params_inv: "params_inv sample_keeper sample_ctx"
  by (simp add: params_inv_def store_Get_def sample_ctx_def sample_keeper_def sample_params
      valid_DefaultParams)

theorem msg_server_keeps_params_valid_witness:
  "params_inv sample_keeper (snd (RegisterAccount sample_sdk sample_keeper sample_register sample_ctx))"
  using msg_server_keeps_params_valid [of sample_keeper sample_ctx
      "\<lparr>up_Sender = ''gov'', up_Params = None\<rparr>" sample_sdk sample_register]
    sample_keeper_ok(1) sample_contracts_keep sample_params_inv
  by (simp add: sample_keeper_def)

end
