(* ===== verification/Wasmbinding.thy ===== *)
theory Wasmbinding
  imports Errors
begin

text \<open>
  The sudo messages sent to account contracts: \<open>x/abstractaccount/types/wasmbinding.go\<close>,
  and what \<open>encoding/json\<close> makes of them.  A \<open>[]byte\<close> is the base64 of its content, or
  \<open>null\<close> when it is nil; a field tagged \<open>omitempty\<close> is left out when it is a nil pointer
  or an empty slice; strings are escaped, with \<open><\<close>, \<open>>\<close> and \<open>&\<close> escaped as well.
  The escaping is that of ASCII text, which type URLs are.
\<close>

subsection \<open>Base64\<close>

definition b64_char :: "nat \<Rightarrow> char" where
  "b64_char i =
     (if i < 26 then char_of (65 + i)
      else if i < 52 then char_of (71 + i)
      else if i < 62 then char_of (i - 4)
      else if i = 62 then CHR ''+'' else CHR ''/'')"

definition b64_group :: "nat \<Rightarrow> string" where
  "b64_group n = [b64_char (n div 262144), b64_char (n div 4096 mod 64),
     b64_char (n div 64 mod 64), b64_char (n mod 64)]"

text \<open>\<open>base64.StdEncoding.EncodeToString\<close>, with padding.\<close>

fun base64 :: "bytes \<Rightarrow> string" where
  "base64 [] = []"
| "base64 [a] = take 2 (b64_group (unat a * 65536)) @ ''==''"
| "base64 [a, b] = take 3 (b64_group (unat a * 65536 + unat b * 256)) @ ''=''"
| "base64 (a # b # c # rest) =
     b64_group (unat a * 65536 + unat b * 256 + unat c) @ base64 rest"

text \<open>A decoder, to state that nothing is lost.\<close>

definition b64_val :: "char \<Rightarrow> nat" where
  "b64_val c =
     (let n = of_char c :: nat
      in if 65 \<le> n \<and> n \<le> 90 then n - 65
         else if 97 \<le> n \<and> n \<le> 122 then n - 71
         else if 48 \<le> n \<and> n \<le> 57 then n + 4
         else if n = 43 then 62 else 63)"

definition ungroup :: "char \<Rightarrow> char \<Rightarrow> char \<Rightarrow> char \<Rightarrow> bytes" where
  "ungroup p q r s =
     (let n = b64_val p * 262144 + b64_val q * 4096 + (if r = CHR ''='' then 0 else b64_val r * 64)
            + (if s = CHR ''='' then 0 else b64_val s);
          bs = [of_nat (n div 65536), of_nat (n div 256 mod 256), of_nat (n mod 256)]
      in take (if r = CHR ''='' then 1 else if s = CHR ''='' then 2 else 3) bs)"

fun unbase64 :: "string \<Rightarrow> bytes" where
  "unbase64 (p # q # r # s # rest) = ungroup p q r s @ unbase64 rest"
| "unbase64 _ = []"

lemma b64_val_char: "i < 64 \<Longrightarrow> b64_val (b64_char i) = i"
  by (auto simp: b64_val_def b64_char_def Let_def)

lemma b64_char_not_pad: "i < 64 \<Longrightarrow> b64_char i \<noteq> CHR ''=''"
proof
  assume i: "i < 64" and e: "b64_char i = CHR ''=''"
  then have "(of_char (b64_char i) :: nat) = 61" by simp
  with i show False by (auto simp: b64_char_def split: if_splits)
qed

lemma base64_sum:
  fixes n :: nat
  assumes "n = q1 * 64 + r1" and "q1 = q2 * 64 + r2" and "q2 = q3 * 64 + r3"
  shows "q3 * 262144 + r3 * 4096 + r2 * 64 + r1 = n"
  using assms by simp

lemma b64_digits:
  fixes n :: nat
  assumes "n < 16777216"
  shows "n div 262144 < 64"
    and "n div 262144 * 262144 + n div 4096 mod 64 * 4096 + n div 64 mod 64 * 64 + n mod 64 = n"
proof -
  show "n div 262144 < 64" using assms by (simp add: less_mult_imp_div_less)
  have e: "n div 262144 = n div 64 div 64 div 64" "n div 4096 = n div 64 div 64"
    by (simp_all flip: div_mult2_eq)
  show "n div 262144 * 262144 + n div 4096 mod 64 * 4096 + n div 64 mod 64 * 64 + n mod 64 = n"
    unfolding e by (rule base64_sum) (simp_all only: div_mult_mod_eq)
qed

lemma unat_byte_less: "unat (b :: byte) < 256"
  using unsigned_less [of b, where ?'a = nat] by simp

lemma group_bytes:
  fixes a b c :: nat
  assumes "a < 256" and "b < 256" and "c < 256"
  shows "a * 65536 + b * 256 + c < 16777216" (is "?n < _")
    and "(a * 65536 + b * 256 + c) div 65536 = a"
    and "(a * 65536 + b * 256 + c) div 256 mod 256 = b"
    and "(a * 65536 + b * 256 + c) mod 256 = c"
proof -
  show "?n < 16777216" using assms by simp
  have n: "?n = (a * 256 + b) * 256 + c" by simp
  have q: "?n div 256 = a * 256 + b" unfolding n using assms(3) by simp
  have "?n div 65536 = ?n div 256 div 256" by (simp flip: div_mult2_eq)
  also have "\<dots> = a" unfolding q using assms(2) by simp
  finally show "?n div 65536 = a" .
  show "?n div 256 mod 256 = b" unfolding q using assms(2) by simp
  show "?n mod 256 = c" unfolding n by (simp only: mod_mult_self3 mod_less [OF assms(3)])
qed

text \<open>Decoding a group of four characters: two, one or no padding.\<close>

lemma unbase64_pad2:
  "i < 64 \<Longrightarrow> j < 64 \<Longrightarrow> unbase64 [b64_char i, b64_char j, CHR ''='', CHR ''=''] =
   [of_nat ((i * 262144 + j * 4096) div 65536)]"
  by (simp only: unbase64.simps ungroup_def b64_val_char Let_def simp_thms if_True take.simps numeral_1_eq_Suc_0
      One_nat_def) simp

lemma unbase64_pad1:
  "i < 64 \<Longrightarrow> j < 64 \<Longrightarrow> k < 64 \<Longrightarrow>
   unbase64 [b64_char i, b64_char j, b64_char k, CHR ''=''] =
   [of_nat ((i * 262144 + j * 4096 + k * 64) div 65536),
    of_nat ((i * 262144 + j * 4096 + k * 64) div 256 mod 256)]"
  by (simp only: unbase64.simps ungroup_def b64_val_char b64_char_not_pad Let_def simp_thms if_True if_False
      numeral_2_eq_2) simp

lemma unbase64_pad0:
  assumes "i < 64" and "j < 64" and "k < 64" and "l < 64"
    and "n = i * 262144 + j * 4096 + k * 64 + l"
  shows "unbase64 (b64_char i # b64_char j # b64_char k # b64_char l # rest) =
   of_nat (n div 65536) # of_nat (n div 256 mod 256) # of_nat (n mod 256) # unbase64 rest"
  unfolding assms(5)
  by (simp only: unbase64.simps ungroup_def b64_val_char assms(1-4) b64_char_not_pad Let_def simp_thms if_True
      if_False numeral_3_eq_3) simp

lemma mod_64_less: "k mod 64 < (64 :: nat)"
  by simp

lemma unbase64_group:
  assumes "n < 16777216"
  shows "unbase64 (b64_group n @ rest)
      = of_nat (n div 65536) # of_nat (n div 256 mod 256) # of_nat (n mod 256) # unbase64 rest"
    and "n mod 64 = 0 \<Longrightarrow> unbase64 (take 3 (b64_group n) @ ''='')
      = [of_nat (n div 65536), of_nat (n div 256 mod 256)]"
    and "n mod 64 = 0 \<Longrightarrow> n div 64 mod 64 = 0 \<Longrightarrow> unbase64 (take 2 (b64_group n) @ ''=='')
      = [of_nat (n div 65536)]"
proof -
  note d = b64_digits [OF assms]
  show "unbase64 (b64_group n @ rest)
      = of_nat (n div 65536) # of_nat (n div 256 mod 256) # of_nat (n mod 256) # unbase64 rest"
    unfolding b64_group_def append.simps
    by (rule unbase64_pad0 [OF d(1) mod_64_less mod_64_less mod_64_less d(2) [symmetric]])
  show "unbase64 (take 3 (b64_group n) @ ''='')
      = [of_nat (n div 65536), of_nat (n div 256 mod 256)]" if "n mod 64 = 0"
    using d(2) that unbase64_pad1 [OF d(1) mod_64_less mod_64_less, of "n div 4096" "n div 64"]
    by (simp add: b64_group_def)
  show "unbase64 (take 2 (b64_group n) @ ''=='') = [of_nat (n div 65536)]"
    if "n mod 64 = 0" "n div 64 mod 64 = 0"
    using d(2) that unbase64_pad2 [OF d(1) mod_64_less, of "n div 4096"]
    by (simp add: b64_group_def)
qed

lemma word_of_nat_unat: "of_nat (unat (b :: byte)) = b"
  by simp

lemma unbase64_base64: "unbase64 (base64 bs) = bs"
proof (induction bs rule: base64.induct)
  case 1
  then show ?case by simp
next
  case (2 a)
  have n: "unat a * 65536 = 64 * (64 * (16 * unat a))" by simp
  have z: "unat a * 65536 mod 64 = 0" "unat a * 65536 div 64 mod 64 = 0"
    unfolding n by simp_all
  have g: "unat a * 65536 < 16777216" "unat a * 65536 div 65536 = unat a"
    using unat_byte_less [of a] by simp_all
  show ?case
    unfolding base64.simps unbase64_group(3) [OF g(1) z] g(2) word_of_nat_unat ..
next
  case (3 a b)
  have n: "unat a * 65536 + unat b * 256 = 64 * (1024 * unat a + 4 * unat b)" by simp
  have z: "(unat a * 65536 + unat b * 256) mod 64 = 0" unfolding n by simp
  note g = group_bytes [OF unat_byte_less unat_byte_less, of 0 a b, simplified add_0_right, OF zero_less_numeral]
  show ?case
    unfolding base64.simps unbase64_group(2) [OF g(1) z] g(2,3) word_of_nat_unat ..
next
  case (4 a b c rest)
  note g = group_bytes [OF unat_byte_less unat_byte_less unat_byte_less, of a b c]
  show ?case
    unfolding base64.simps unbase64_group(1) [OF g(1)] g(2-4) word_of_nat_unat "4.IH" ..
qed

lemma base64_inject: "base64 xs = base64 ys \<longleftrightarrow> xs = ys"
  by (metis unbase64_base64)

subsection \<open>JSON\<close>

datatype json =
    JNull
  | JBool bool
  | JString string
  | JArray "json list"
  | JObject "(string \<times> json) list"

definition hex_digit :: "nat \<Rightarrow> char" where
  "hex_digit n = (if n < 10 then char_of (48 + n) else char_of (87 + n))"

definition json_escape :: "char \<Rightarrow> string" where
  "json_escape c =
     (let n = of_char c :: nat
      in if n = 34 \<or> n = 92 then [CHR 0x5C, c]
         else if n = 10 then [CHR 0x5C, CHR ''n'']
         else if n = 13 then [CHR 0x5C, CHR ''r'']
         else if n = 9 then [CHR 0x5C, CHR ''t'']
         else if n < 32 \<or> n = 60 \<or> n = 62 \<or> n = 38
           then CHR 0x5C # ''u00'' @ [hex_digit (n div 16), hex_digit (n mod 16)]
         else [c])"

definition json_quote :: "string \<Rightarrow> string" where
  "json_quote s = CHR 0x22 # concat (map json_escape s) @ [CHR 0x22]"

fun join :: "string \<Rightarrow> string list \<Rightarrow> string" where
  "join sep [] = []"
| "join sep [x] = x"
| "join sep (x # y # xs) = x @ sep @ join sep (y # xs)"

fun render :: "json \<Rightarrow> string" where
  "render JNull = ''null''"
| "render (JBool b) = (if b then ''true'' else ''false'')"
| "render (JString s) = json_quote s"
| "render (JArray xs) = ''['' @ join '','' (map render xs) @ '']''"
| "render (JObject fs) =
     ''{'' @ join '','' (map (\<lambda>(k, v). json_quote k @ '':'' @ render v) fs) @ ''}''"

definition json_bytes :: "slice \<Rightarrow> json" where
  "json_bytes s = (case s of None \<Rightarrow> JNull | Some b \<Rightarrow> JString (base64 b))"

subsection \<open>The messages\<close>

record Any =
  TypeURL :: string
  Value :: slice

record BeforeTx =
  Msgs :: "Any list"
  TxBytes :: slice
  CredBytes :: slice
  Simulate :: bool

record AfterTx =
  after_Simulate :: bool

record AccountSudoMsg =
  sudo_BeforeTx :: "BeforeTx option"
  sudo_AfterTx :: "AfterTx option"

definition Any_json :: "Any \<Rightarrow> json" where
  "Any_json a = JObject [(''type_url'', JString (TypeURL a)), (''value'', json_bytes (Value a))]"

definition BeforeTx_json :: "BeforeTx \<Rightarrow> json" where
  "BeforeTx_json b = JObject
     ([(''msgs'', JArray (map Any_json (Msgs b))), (''tx_bytes'', json_bytes (TxBytes b))]
    @ (if length (slice_bytes (CredBytes b)) = 0 then [] else [(''cred_bytes'', json_bytes (CredBytes b))])
    @ [(''simulate'', JBool (Simulate b))])"

definition AfterTx_json :: "AfterTx \<Rightarrow> json" where
  "AfterTx_json a = JObject [(''simulate'', JBool (after_Simulate a))]"

definition AccountSudoMsg_json :: "AccountSudoMsg \<Rightarrow> json" where
  "AccountSudoMsg_json m = JObject
     ((case sudo_BeforeTx m of None \<Rightarrow> [] | Some b \<Rightarrow> [(''before_tx'', BeforeTx_json b)])
    @ (case sudo_AfterTx m of None \<Rightarrow> [] | Some a \<Rightarrow> [(''after_tx'', AfterTx_json a)]))"

text \<open>\<open>json.Marshal\<close> of a message: these types have no value it cannot encode.\<close>

definition json_Marshal :: "AccountSudoMsg \<Rightarrow> bytes res" where
  "json_Marshal m = Ok (string_bytes (render (AccountSudoMsg_json m)))"

text \<open>
  A protobuf message, through what the protobuf library says about it: its registered
  name and the result of \<open>proto.Marshal\<close>.
\<close>

record SdkMsg =
  msg_name :: string
  msg_Marshal :: "slice res"

definition NewAnyFromProtoMsg :: "SdkMsg \<Rightarrow> Any res" where
  "NewAnyFromProtoMsg msg =
     bindR (msg_Marshal msg) (\<lambda>msgBytes.
       Ok \<lparr>TypeURL = ''/'' @ msg_name msg, Value = msgBytes\<rparr>)"

subsection \<open>The encoding determines the message\<close>

lemma json_bytes_inject: "json_bytes s = json_bytes t \<longleftrightarrow> s = t"
  by (auto simp: json_bytes_def base64_inject split: option.splits)

lemma Any_json_inject: "Any_json a = Any_json b \<longleftrightarrow> a = b"
  by (cases a; cases b) (auto simp: Any_json_def json_bytes_inject)

lemma map_Any_json_inject: "map Any_json xs = map Any_json ys \<longleftrightarrow> xs = ys"
  by (rule inj_map_eq_map) (simp add: inj_def Any_json_inject)

definition norm_BeforeTx :: "BeforeTx \<Rightarrow> BeforeTx" where
  "norm_BeforeTx b = b\<lparr>CredBytes := norm_slice (CredBytes b)\<rparr>"

lemma BeforeTx_json_inject: "BeforeTx_json a = BeforeTx_json b \<longleftrightarrow> norm_BeforeTx a = norm_BeforeTx b"
  by (cases a; cases b)
     (auto simp: BeforeTx_json_def norm_BeforeTx_def norm_slice_def2 map_Any_json_inject
       json_bytes_inject split: if_splits)

end
