(* ===== verification/Ante.thy ===== *)
theory Ante
  imports Keeper Wasmbinding
begin

text \<open>
  The transaction handlers: \<open>x/abstractaccount/ante.go\<close>.  A transaction, its messages and
  its signatures are kept through what the code reads of them; the handlers of the SDK it
  delegates to are the fields of \<open>AuthAnte\<close>, and \<open>CtxOps\<close> holds the two halves of
  \<open>ctx.CacheContext()\<close>: the cached context, and the function \<open>write\<close>, which takes the
  parent context and the cached one to the parent afterwards.
\<close>

subsection \<open>Transactions\<close>

text \<open>A value of the interface \<open>txsigning.SignatureData\<close>.\<close>

datatype SignatureData =
    SingleSignatureData int slice
  | OtherSignatureData

record SignatureV2 =
  sig_PubKey :: "PubKey option"
  sig_Data :: SignatureData
  sig_Sequence :: u64

text \<open>What a \<open>SigVerifiableTx\<close> answers, and a transaction, which may not be one.\<close>

record SigVerifiableTx =
  GetSignaturesV2 :: "SignatureV2 list res"
  GetSigners :: "slice list"

record Tx =
  as_SigVerifiableTx :: "SigVerifiableTx option"
  GetMsgs :: "SdkMsg list"
  tx_body :: bytes

record SignerData =
  sd_Address :: string
  sd_ChainID :: string
  sd_AccountNumber :: u64
  sd_Sequence :: u64
  sd_PubKey :: "PubKey option"

record AuthParams =
  MaxMemoCharacters :: u64
  TxSigLimit :: u64
  TxSizeCostPerByte :: u64
  SigVerifyCostED25519 :: u64
  SigVerifyCostSecp256k1 :: u64

type_synonym 'w AnteHandler = "Tx \<Rightarrow> bool \<Rightarrow> ('w ctx, unit) act"
type_synonym 'w PostHandler = "Tx \<Rightarrow> bool \<Rightarrow> bool \<Rightarrow> ('w ctx, unit) act"

text \<open>The functions of the SDK's package \<open>authante\<close> and the sign mode handler.\<close>

record 'w AuthAnte =
  GetSignerAcc :: "'w ctx \<Rightarrow> slice \<Rightarrow> AccountI res"
  DefaultSigVerificationGasConsumer ::
    "gas_meter \<Rightarrow> SignatureV2 \<Rightarrow> AuthParams \<Rightarrow> unit res \<times> gas_meter"
  SigVerificationDecorator :: "'w AnteHandler \<Rightarrow> 'w AnteHandler"
  GetSignBytes :: "int \<Rightarrow> SignerData \<Rightarrow> Tx \<Rightarrow> slice res"

record 'w CtxOps =
  ctx_Cache :: "'w ctx \<Rightarrow> 'w ctx"
  ctx_write :: "'w ctx \<Rightarrow> 'w ctx \<Rightarrow> 'w ctx"

subsection \<open>Signature gas\<close>

definition SigVerificationGasConsumer ::
  "'w AuthAnte \<Rightarrow> gas_meter \<Rightarrow> SignatureV2 \<Rightarrow> AuthParams \<Rightarrow> unit res \<times> gas_meter" where
  "SigVerificationGasConsumer aa m sig params =
     (case sig_PubKey sig of
        Some (NilPK pk) \<Rightarrow> (Ok (), m)
      | Some (OtherPK pk) \<Rightarrow> DefaultSigVerificationGasConsumer aa m sig params
      | None \<Rightarrow> DefaultSigVerificationGasConsumer aa m sig params)"

subsection \<open>Helpers\<close>

text \<open>
  \<open>Ok None\<close> is the result \<open>false, nil, nil, nil\<close>; \<open>Ok (Some (acc, sig))\<close> is
  \<open>true, absAcc, &sigs[0], nil\<close>.
\<close>

definition IsAbstractAccountTx ::
  "'w AuthAnte \<Rightarrow> 'w ctx \<Rightarrow> Tx \<Rightarrow> (AbstractAccount \<times> SignatureV2) option res" where
  "IsAbstractAccountTx aa ctx tx =
     (case as_SigVerifiableTx tx of
        None \<Rightarrow> Err (ErrTxDecode ''tx is not a SigVerifiableTx'')
      | Some sigTx \<Rightarrow>
         bindR (GetSignaturesV2 sigTx) (\<lambda>sigs.
           let signerAddrs = GetSigners sigTx
           in if length signerAddrs \<noteq> 1 \<or> length sigs \<noteq> 1 then Ok None
              else bindR (GetSignerAcc aa ctx (signerAddrs ! 0)) (\<lambda>signerAcc.
                case signerAcc of
                  AbstractAcc absAcc \<Rightarrow> Ok (Some (absAcc, sigs ! 0))
                | BaseAccount v \<Rightarrow> Ok None
                | OtherAccount v \<Rightarrow> Ok None)))"

definition prepareCredentials ::
  "Sdk \<Rightarrow> 'w AuthAnte \<Rightarrow> 'w ctx \<Rightarrow> Tx \<Rightarrow> AbstractAccount \<Rightarrow> SignatureData \<Rightarrow> (slice \<times> slice) res" where
  "prepareCredentials sdk aa ctx tx signerAcc sigData =
     (let signerData =
        \<lparr>sd_Address = AccAddress_String sdk (GetAddress sdk signerAcc),
         sd_ChainID = chain_id ctx,
         sd_AccountNumber = GetAccountNumber signerAcc,
         sd_Sequence = GetSequence signerAcc,
         sd_PubKey = Some (GetPubKey sdk signerAcc)\<rparr>
      in case sigData of
           SingleSignatureData signMode signature \<Rightarrow>
             bindR (GetSignBytes aa signMode signerData tx) (\<lambda>signBytes. Ok (signBytes, signature))
         | OtherSignatureData \<Rightarrow> Err ErrNotSingleSignature)"

fun sdkMsgsToAnys_loop :: "Any list \<Rightarrow> SdkMsg list \<Rightarrow> Any list res" where
  "sdkMsgsToAnys_loop anys [] = Ok anys"
| "sdkMsgsToAnys_loop anys (msg # msgs) =
     bindR (NewAnyFromProtoMsg msg) (\<lambda>msgAny. sdkMsgsToAnys_loop (anys @ [msgAny]) msgs)"

definition sdkMsgsToAnys :: "SdkMsg list \<Rightarrow> Any list res" where
  "sdkMsgsToAnys msgs = sdkMsgsToAnys_loop [] msgs"

text \<open>
  The contract runs on a cached context with a gas meter of its own.  When \<open>Sudo\<close> fails
  or panics the cached context is dropped; otherwise it is written back and its events
  are emitted again on the parent.
\<close>

definition sudoWithGasLimit ::
  "'w CtxOps \<Rightarrow> 'w ContractOpsKeeper \<Rightarrow> slice \<Rightarrow> bytes \<Rightarrow> u64 \<Rightarrow> ('w ctx, unit) act" where
  "sudoWithGasLimit co contractKeeper contractAddr msg maxGas = (\<lambda>ctx.
     let cacheCtx = (ctx_Cache co ctx)\<lparr>meter := NewGasMeter maxGas\<rparr>
     in case ck_Sudo contractKeeper contractAddr msg cacheCtx of
          (Ok data, cacheCtx') \<Rightarrow>
            let ctx' = ctx_write co ctx cacheCtx'
            in (Ok (), ctx'\<lparr>events := events ctx' @ events cacheCtx'\<rparr>)
        | (Err e, cacheCtx') \<Rightarrow> (Err e, ctx)
        | (Panic p, cacheCtx') \<Rightarrow> (Panic p, ctx))"

subsection \<open>BeforeTx\<close>

definition BeforeTx_AnteHandle ::
  "Sdk \<Rightarrow> 'w CtxOps \<Rightarrow> 'w Keeper \<Rightarrow> 'w AuthAnte \<Rightarrow> 'w AnteHandler \<Rightarrow> 'w AnteHandler" where
  "BeforeTx_AnteHandle sdk co k aa nxt tx simulate =
     bindM (\<lambda>ctx. (IsAbstractAccountTx aa ctx tx, ctx)) (\<lambda>aaTx.
     case aaTx of
       None \<Rightarrow> SigVerificationDecorator aa nxt tx simulate
     | Some (signerAcc, sig) \<Rightarrow>
        bindM (SetSignerAddress (GetAddress sdk signerAcc)) (\<lambda>_.
        if sig_Sequence sig \<noteq> GetSequence signerAcc
        then liftM (Err (ErrWrongSequence (GetSequence signerAcc) (sig_Sequence sig)))
        else
        bindM (liftM (sdkMsgsToAnys (GetMsgs tx))) (\<lambda>msgAnys.
        bindM (\<lambda>ctx. (prepareCredentials sdk aa ctx tx signerAcc (sig_Data sig), ctx))
          (\<lambda>(signBytes, sigBytes).
        bindM (liftM (json_Marshal \<lparr>sudo_BeforeTx = Some \<lparr>Msgs = msgAnys, TxBytes = signBytes,
          CredBytes = sigBytes, Simulate = simulate\<rparr>, sudo_AfterTx = None\<rparr>)) (\<lambda>sudoMsgBytes.
        bindM (GetParams k) (\<lambda>params.
        bindM (sudoWithGasLimit co (ContractKeeper k) (GetAddress sdk signerAcc) sudoMsgBytes
          (MaxGasBefore params)) (\<lambda>_.
        nxt tx simulate)))))))"

subsection \<open>AfterTx\<close>

definition AfterTx_PostHandle :: "'w CtxOps \<Rightarrow> 'w Keeper \<Rightarrow> 'w PostHandler \<Rightarrow> 'w PostHandler" where
  "AfterTx_PostHandle co k nxt tx simulate success =
     bindM GetSignerAddress (\<lambda>signerAddr.
     if signerAddr = None then nxt tx simulate success
     else
     bindM DeleteSignerAddress (\<lambda>_.
     bindM (liftM (json_Marshal \<lparr>sudo_BeforeTx = None,
       sudo_AfterTx = Some \<lparr>after_Simulate = simulate\<rparr>\<rparr>)) (\<lambda>sudoMsgBytes.
     bindM (GetParams k) (\<lambda>params.
     bindM (sudoWithGasLimit co (ContractKeeper k) signerAddr sudoMsgBytes (MaxGasAfter params)) (\<lambda>_.
     nxt tx simulate success)))))"

subsection \<open>What the code relies on\<close>

text \<open>
  A cached context starts as a copy of its parent; \<open>write\<close> moves the stores back and
  leaves the parent's gas meter and chain id alone.  Events: the cached context has an
  event manager of its own, whose events \<open>write\<close> emits on the parent.
\<close>

definition ctx_ops_ok :: "'w CtxOps \<Rightarrow> bool" where
  "ctx_ops_ok co \<longleftrightarrow>
     (\<forall>s. module_store (ctx_Cache co s) = module_store s \<and> world (ctx_Cache co s) = world s
        \<and> chain_id (ctx_Cache co s) = chain_id s)
   \<and> (\<forall>p c. module_store (ctx_write co p c) = module_store c \<and> world (ctx_write co p c) = world c
        \<and> meter (ctx_write co p c) = meter p \<and> chain_id (ctx_write co p c) = chain_id p)"

definition ctx_events_ok :: "'w CtxOps \<Rightarrow> bool" where
  "ctx_events_ok co \<longleftrightarrow> (\<forall>s. events (ctx_Cache co s) = [])
     \<and> (\<forall>p c. events (ctx_write co p c) = events p @ events c)"

subsection \<open>How the helpers run\<close>

lemma sdkMsgsToAnys_loop_Ok:
  "sdkMsgsToAnys_loop anys msgs = Ok bs \<longleftrightarrow>
   (\<exists>cs. bs = anys @ cs \<and> list_all2 (\<lambda>m a. NewAnyFromProtoMsg m = Ok a) msgs cs)"
proof (induction msgs arbitrary: anys)
  case Nil
  then show ?case by auto
next
  case (Cons m msgs)
  then show ?case by (auto simp: bindR_Ok_iff list_all2_Cons1)
qed

lemma sdkMsgsToAnys_Ok:
  "sdkMsgsToAnys msgs = Ok bs \<longleftrightarrow> list_all2 (\<lambda>m a. NewAnyFromProtoMsg m = Ok a) msgs bs"
  by (simp add: sdkMsgsToAnys_def sdkMsgsToAnys_loop_Ok)

lemma prepareCredentials_Ok:
  "prepareCredentials sdk aa ctx tx acc d = Ok (signBytes, cred) \<longleftrightarrow>
   (\<exists>mode. d = SingleSignatureData mode cred \<and> GetSignBytes aa mode
     \<lparr>sd_Address = AccAddress_String sdk (GetAddress sdk acc), sd_ChainID = chain_id ctx,
      sd_AccountNumber = AccountNumber acc, sd_Sequence = Sequence acc,
      sd_PubKey = Some (NilPK \<lparr>AddressBytes = GetAddress sdk acc\<rparr>)\<rparr> tx = Ok signBytes)"
  by (cases d) (auto simp: prepareCredentials_def bindR_Ok_iff GetPubKey_def NewNilPubKey_def
      GetAccountNumber_def GetSequence_def)

lemma sudo_Ok:
  "sudoWithGasLimit co c addr msg g s = (Ok (), t) \<longleftrightarrow>
   (\<exists>d u. ck_Sudo c addr msg ((ctx_Cache co s)\<lparr>meter := NewGasMeter g\<rparr>) = (Ok d, u)
      \<and> t = (ctx_write co s u)\<lparr>events := events (ctx_write co s u) @ events u\<rparr>)"
  by (auto simp: sudoWithGasLimit_def Let_def split: prod.splits res.splits)

lemma sudo_Err:
  "sudoWithGasLimit co c addr msg g s = (Err e, t) \<longleftrightarrow>
   (\<exists>u. ck_Sudo c addr msg ((ctx_Cache co s)\<lparr>meter := NewGasMeter g\<rparr>) = (Err e, u) \<and> t = s)"
  by (auto simp: sudoWithGasLimit_def Let_def split: prod.splits res.splits)

lemma sudo_Panic:
  "sudoWithGasLimit co c addr msg g s = (Panic p, t) \<longleftrightarrow>
   (\<exists>u. ck_Sudo c addr msg ((ctx_Cache co s)\<lparr>meter := NewGasMeter g\<rparr>) = (Panic p, u) \<and> t = s)"
  by (auto simp: sudoWithGasLimit_def Let_def split: prod.splits res.splits)

lemmas sudo_iffs = sudo_Ok sudo_Err sudo_Panic

text \<open>The message a contract is sent, before and after the transaction's messages.\<close>

definition before_tx_msg :: "Any list \<Rightarrow> slice \<Rightarrow> slice \<Rightarrow> bool \<Rightarrow> bytes" where
  "before_tx_msg anys signBytes cred simulate = string_bytes (render (AccountSudoMsg_json
     \<lparr>sudo_BeforeTx = Some \<lparr>Msgs = anys, TxBytes = signBytes, CredBytes = cred, Simulate = simulate\<rparr>,
      sudo_AfterTx = None\<rparr>))"

definition after_tx_msg :: "bool \<Rightarrow> bytes" where
  "after_tx_msg simulate = string_bytes (render (AccountSudoMsg_json
     \<lparr>sudo_BeforeTx = None, sudo_AfterTx = Some \<lparr>after_Simulate = simulate\<rparr>\<rparr>))"

lemma BeforeTx_not_AA:
  "IsAbstractAccountTx aa s tx = Ok None \<Longrightarrow>
   BeforeTx_AnteHandle sdk co k aa nxt tx sim s = SigVerificationDecorator aa nxt tx sim s"
  by (simp add: BeforeTx_AnteHandle_def bindM_def)

lemma BeforeTx_error:
  "IsAbstractAccountTx aa s tx = Err e \<Longrightarrow>
   BeforeTx_AnteHandle sdk co k aa nxt tx sim s = (Err e, s)"
  by (simp add: BeforeTx_AnteHandle_def bindM_def)

lemma BeforeTx_no_address:
  "IsAbstractAccountTx aa s tx = Ok (Some (acc, sig)) \<Longrightarrow> GetAddress sdk acc = None \<Longrightarrow>
   BeforeTx_AnteHandle sdk co k aa nxt tx sim s = (Panic (PanicMsg ''value is nil''), s)"
  by (simp add: BeforeTx_AnteHandle_def bindM_def SetSignerAddress_None)

lemma BeforeTx_AA:
  assumes "IsAbstractAccountTx aa s tx = Ok (Some (acc, sig))"
    and "SetSignerAddress (GetAddress sdk acc) s = (Ok (), s1)"
  shows "BeforeTx_AnteHandle sdk co k aa nxt tx sim s =
    (if sig_Sequence sig \<noteq> Sequence acc
     then (Err (ErrWrongSequence (Sequence acc) (sig_Sequence sig)), s1)
     else bindM (liftM (sdkMsgsToAnys (GetMsgs tx))) (\<lambda>msgAnys.
       bindM (\<lambda>ctx. (prepareCredentials sdk aa ctx tx acc (sig_Data sig), ctx))
         (\<lambda>(signBytes, cred).
       bindM (GetParams k) (\<lambda>params.
       bindM (sudoWithGasLimit co (ck k) (GetAddress sdk acc)
         (before_tx_msg msgAnys signBytes cred sim) (MaxGasBefore params)) (\<lambda>_.
       nxt tx sim)))) s1)"
  using assms
  by (simp add: BeforeTx_AnteHandle_def bindM_def liftM_def GetSequence_def json_Marshal_def
      ContractKeeper_def before_tx_msg_def)

lemma AfterTx_run:
  "AfterTx_PostHandle co k nxt tx sim success s =
   (case st_signer (abs_state sdk k s) of
      None \<Rightarrow> nxt tx sim success s
    | Some a \<Rightarrow> bindM (GetParams k) (\<lambda>params.
        bindM (sudoWithGasLimit co (ck k) (Some a) (after_tx_msg sim) (MaxGasAfter params)) (\<lambda>_.
        nxt tx sim success)) (snd (DeleteSignerAddress s)))"
proof -
  obtain t where t: "DeleteSignerAddress s = (Ok (), t)" using DeleteSignerAddress_run by blast
  then show ?thesis
    using GetSignerAddress_run [of s sdk k]
    by (cases "st_signer (abs_state sdk k s)")
       (simp_all add: AfterTx_PostHandle_def monad_simps json_Marshal_def ContractKeeper_def
         after_tx_msg_def)
qed

subsection \<open>What the handlers keep\<close>

text \<open>A predicate of the module's store alone.\<close>

definition store_pred :: "('w ctx \<Rightarrow> bool) \<Rightarrow> bool" where
  "store_pred P \<longleftrightarrow> (\<forall>s t. module_store s = module_store t \<longrightarrow> P s = P t)"

lemma keeps_sudo:
  assumes "ctx_ops_ok co" and "contracts_keep P c" and "store_pred P"
  shows "keeps P (sudoWithGasLimit co c addr msg g)"
  unfolding keeps_def
proof (intro allI impI)
  fix s
  assume P: "P s"
  let ?ctx = "(ctx_Cache co s)\<lparr>meter := NewGasMeter g\<rparr>"
  obtain r u where run: "ck_Sudo c addr msg ?ctx = (r, u)" by (cases "ck_Sudo c addr msg ?ctx")
  have "module_store ?ctx = module_store s" using assms(1) by (simp add: ctx_ops_ok_def)
  then have "P ?ctx" using P assms(3) unfolding store_pred_def by blast
  then have u: "P u" using assms(2) run unfolding contracts_keep_def keeps_def by (metis snd_conv)
  let ?w = "(ctx_write co s u)\<lparr>events := events (ctx_write co s u) @ events u\<rparr>"
  have "module_store ?w = module_store u" using assms(1) by (simp add: ctx_ops_ok_def)
  then have "P ?w" using u assms(3) unfolding store_pred_def by blast
  then show "P (snd (sudoWithGasLimit co c addr msg g s))"
    using P run by (cases r) (simp_all add: sudoWithGasLimit_def Let_def)
qed

definition signer_is :: "slice \<Rightarrow> 'w ctx \<Rightarrow> bool" where
  "signer_is a s \<longleftrightarrow> store_Get KeySignerAddress s = a"

lemma store_pred_signer [simp]: "store_pred (signer_is a)"
  by (simp add: store_pred_def signer_is_def store_Get_def)

lemma store_pred_params_inv [simp]: "store_pred (params_inv k)"
  by (simp add: store_pred_def params_inv_def store_Get_def)

lemma signer_is_abs: "signer_is a s \<longleftrightarrow> st_signer (abs_state sdk k s) = a"
  by (simp add: signer_is_def abs_state_def)

lemma keeps_pure: "keeps P (\<lambda>s. (f s, s))"
  by (simp add: keeps_def)

text \<open>Once an abstract account's transaction has passed, its address is in the store.\<close>

lemma BeforeTx_leaves_signer:
  assumes "ctx_ops_ok co" and "contracts_keep (signer_is (GetAddress sdk acc)) (ck k)"
    and "\<And>tx sim. keeps (signer_is (GetAddress sdk acc)) (nxt tx sim)"
    and "IsAbstractAccountTx aa s tx = Ok (Some (acc, sig))"
    and "BeforeTx_AnteHandle sdk co k aa nxt tx sim s = (Ok (), t)"
  shows "signer_is (GetAddress sdk acc) t"
proof -
  let ?P = "signer_is (GetAddress sdk acc) :: 'a ctx \<Rightarrow> bool"
  obtain addr where addr: "GetAddress sdk acc = Some addr"
    using assms(4,5) BeforeTx_no_address [OF assms(4), of sdk co k nxt sim]
    by (cases "GetAddress sdk acc") auto
  obtain s1 where s1: "SetSignerAddress (GetAddress sdk acc) s = (Ok (), s1)"
    and abs: "st_signer (abs_state sdk k s1) = Some addr"
    using SetSignerAddress_Some [of addr s sdk k] addr by auto
  have P: "?P s1" using abs addr by (simp add: signer_is_abs [of _ _ sdk k])
  have "keeps ?P (bindM (liftM (sdkMsgsToAnys (GetMsgs tx))) (\<lambda>msgAnys.
       bindM (\<lambda>ctx. (prepareCredentials sdk aa ctx tx acc (sig_Data sig), ctx))
         (\<lambda>(signBytes, cred).
       bindM (GetParams k) (\<lambda>params.
       bindM (sudoWithGasLimit co (ck k) (GetAddress sdk acc)
         (before_tx_msg msgAnys signBytes cred sim) (MaxGasBefore params)) (\<lambda>_.
       nxt tx sim)))))"
    using assms(3)
    by (auto intro!: keeps_bindM keeps_pure keeps_GetParams keeps_sudo [OF assms(1,2)]
        split: prod.split)
  moreover have "sig_Sequence sig = Sequence acc"
    using assms(5) BeforeTx_AA [OF assms(4) s1, of co k nxt sim] by (auto split: if_splits)
  ultimately show ?thesis
    using assms(5) BeforeTx_AA [OF assms(4) s1, of co k nxt sim] P by (auto dest: keepsD)
qed

lemma AfterTx_clears_signer:
  assumes "ctx_ops_ok co" and "contracts_keep (signer_is None) (ck k)"
    and "\<And>tx sim success. keeps (signer_is None) (nxt tx sim success)"
  shows "signer_is None (snd (AfterTx_PostHandle co k nxt tx sim success s))"
proof (cases "st_signer (abs_state undefined k s)")
  case None
  then have "signer_is None s" by (simp add: signer_is_abs [of _ _ undefined k])
  then show ?thesis
    using None assms(3) AfterTx_run [of co k nxt tx sim success s undefined] by (simp add: keeps_def)
next
  case (Some a)
  obtain s1 where s1: "DeleteSignerAddress s = (Ok (), s1)"
    and "st_signer (abs_state undefined k s1) = None"
    using DeleteSignerAddress_run [of s undefined k] by auto
  then have "signer_is None s1" by (simp add: signer_is_abs [of _ _ undefined k])
  moreover have "keeps (signer_is None) (bindM (GetParams k) (\<lambda>params.
        bindM (sudoWithGasLimit co (ck k) (Some a) (after_tx_msg sim) (MaxGasAfter params)) (\<lambda>_.
        nxt tx sim success)))"
    using assms(3)
    by (auto intro!: keeps_bindM keeps_GetParams keeps_sudo [OF assms(1,2)])
  ultimately show ?thesis
    using AfterTx_run [of co k nxt tx sim success s undefined] Some s1 by (simp add: keeps_def)
qed

end
