(* ===== verification/AnteSpec.thy ===== *)
theory AnteSpec
  imports Ante Sample
begin

text \<open>
  The properties of the transaction handlers, and the instance of the SDK's handlers on
  which their witnesses are evaluated.
\<close>

subsection \<open>A sample transaction\<close>

definition sample_aa :: "sample_world AuthAnte" where
  "sample_aa =
     \<lparr>GetSignerAcc = (\<lambda>ctx a. case world ctx a of Some acc \<Rightarrow> Ok acc
        | None \<Rightarrow> Err (External ''account does not exist'')),
      DefaultSigVerificationGasConsumer = (\<lambda>m sig params.
        (Ok (), m\<lparr>gas_consumed := gas_consumed m + SigVerifyCostSecp256k1 params\<rparr>)),
      SigVerificationDecorator = (\<lambda>nxt. nxt),
      GetSignBytes = (\<lambda>mode sd tx. Ok (Some [1, 2, 3]))\<rparr>"

definition sample_co :: "'w CtxOps" where
  "sample_co =
     \<lparr>ctx_Cache = (\<lambda>s. s\<lparr>events := []\<rparr>),
      ctx_write = (\<lambda>p c. p\<lparr>module_store := module_store c, world := world c,
        events := events p @ events c\<rparr>)\<rparr>"

lemma sample_co_ok: "ctx_ops_ok sample_co" "ctx_events_ok sample_co"
  by (simp_all add: ctx_ops_ok_def ctx_events_ok_def sample_co_def)

definition sample_acc :: AbstractAccount where
  "sample_acc = \<lparr>Address = ''acc'', AccountNumber = 12, Sequence = 4\<rparr>"

definition sample_addr :: slice where
  "sample_addr = Some (string_bytes ''acc'')"

definition sample_sig :: "u64 \<Rightarrow> SignatureV2" where
  "sample_sig seq = \<lparr>sig_PubKey = Some (NilPK \<lparr>AddressBytes = sample_addr\<rparr>),
     sig_Data = SingleSignatureData 1 (Some [9]), sig_Sequence = seq\<rparr>"

definition sample_tx :: "u64 \<Rightarrow> Tx" where
  "sample_tx seq = \<lparr>as_SigVerifiableTx = Some \<lparr>GetSignaturesV2 = Ok [sample_sig seq],
       GetSigners = [sample_addr]\<rparr>,
     GetMsgs = [\<lparr>msg_name = ''cosmos.bank.v1beta1.MsgSend'', msg_Marshal = Ok (Some [8, 1])\<rparr>],
     tx_body = []\<rparr>"

definition sample_aa_ctx :: "sample_world ctx" where
  "sample_aa_ctx = sample_ctx\<lparr>world := (\<lambda>a. None)(sample_addr := Some (AbstractAcc sample_acc))\<rparr>"

lemma sample_address: "GetAddress sample_sdk sample_acc = sample_addr"
  by (simp add: GetAddress_def sample_sdk_def sample_acc_def sample_addr_def)

lemma sample_is_aa:
  "IsAbstractAccountTx sample_aa sample_aa_ctx (sample_tx seq) = Ok (Some (sample_acc, sample_sig seq))"
  by (simp add: IsAbstractAccountTx_def sample_tx_def sample_aa_def sample_aa_ctx_def)

lemma sample_sudo:
  "ck_Sudo (ck sample_keeper) a m s = (Ok None, s\<lparr>events := events s @ [(''sudo'', [])]\<rparr>)"
  by (simp add: sample_keeper_def sample_ck_def)

lemma sample_aa_GetParams:
  assumes "store_Get KeyParams s = Some (Params_enc DefaultParams)"
  shows "GetParams sample_keeper s = (Ok DefaultParams, s)"
  using assms by (simp add: GetParams_run sample_keeper_def sample_params)

subsection \<open>Which transactions\<close>

lemma case_abstract_iff:
  "(case x of AbstractAcc a \<Rightarrow> Ok (Some (a, y)) | BaseAccount v \<Rightarrow> Ok None | OtherAccount v \<Rightarrow> Ok None)
     = Ok (Some (acc, sig)) \<longleftrightarrow> x = AbstractAcc acc \<and> y = sig"
  by (cases x) auto

lemma IsAbstractAccountTx_iff:
  "IsAbstractAccountTx aa ctx tx = Ok (Some (acc, sig)) \<longleftrightarrow>
   (\<exists>st a. as_SigVerifiableTx tx = Some st \<and> GetSignaturesV2 st = Ok [sig] \<and> GetSigners st = [a]
      \<and> GetSignerAcc aa ctx a = Ok (AbstractAcc acc))"
proof (cases "as_SigVerifiableTx tx")
  case None
  then show ?thesis by (simp add: IsAbstractAccountTx_def)
next
  case (Some st)
  have "IsAbstractAccountTx aa ctx tx = Ok (Some (acc, sig)) \<longleftrightarrow>
    (\<exists>sigs. GetSignaturesV2 st = Ok sigs \<and> length (GetSigners st) = 1 \<and> length sigs = 1
      \<and> GetSignerAcc aa ctx (GetSigners st ! 0) = Ok (AbstractAcc acc) \<and> sigs ! 0 = sig)"
    by (auto simp: IsAbstractAccountTx_def Some bindR_Ok_iff Let_def case_abstract_iff)
  then show ?thesis by (auto simp: Some length_Suc_conv)
qed

text \<open>Account abstraction applies exactly to the transactions the code says it does: the
  transaction is signature-verifiable, has exactly one signature and exactly one signer,
  and the account stored for that signer is an \<open>AbstractAccount\<close>; the account and the
  signature handed on are those.\<close>

theorem is_abstract_account_tx_iff:
  "IsAbstractAccountTx aa ctx tx = Ok (Some (acc, sig)) \<longleftrightarrow>
   (\<exists>st a. as_SigVerifiableTx tx = Some st \<and> GetSignaturesV2 st = Ok [sig] \<and> GetSigners st = [a]
      \<and> GetSignerAcc aa ctx a = Ok (AbstractAcc acc))"
  by (rule IsAbstractAccountTx_iff)

subsection \<open>The gas of a signature\<close>

text \<open>No gas is charged for the signature of an abstract account, whose key is a
  \<open>NilPubKey\<close>; every other key is charged what the SDK's own consumer charges, with its
  errors.\<close>

theorem sig_gas_consumer_spec:
  "SigVerificationGasConsumer aa m sig params =
    (if \<exists>pk. sig_PubKey sig = Some (NilPK pk) then (Ok (), m)
     else DefaultSigVerificationGasConsumer aa m sig params)"
  by (auto simp: SigVerificationGasConsumer_def split: option.split PubKey.split)

subsection \<open>The contract runs in isolation\<close>

text \<open>C27: \<open>sudoWithGasLimit\<close> isolates the contract: it runs on the caller's stores with a fresh
  gas meter whose limit is the configured one; the caller's own gas meter is not touched;
  if the contract returns an error or panics (out of gas included) nothing it did
  survives, and if it succeeds its writes are exactly those of its own final state.\<close>

theorem sudo_isolated:
  assumes "ctx_ops_ok co" and "sudoWithGasLimit co c addr msg maxGas s = (r, t)"
  shows "\<exists>ctx r' u. meter ctx = \<lparr>gas_limit = Some maxGas, gas_consumed = 0\<rparr>
    \<and> module_store ctx = module_store s \<and> world ctx = world s \<and> chain_id ctx = chain_id s
    \<and> ck_Sudo c addr msg ctx = (r', u) \<and> is_Ok r = is_Ok r'
    \<and> meter t = meter s \<and> chain_id t = chain_id s
    \<and> (if is_Ok r' then module_store t = module_store u \<and> world t = world u else t = s)"
proof -
  let ?ctx = "(ctx_Cache co s)\<lparr>meter := NewGasMeter maxGas\<rparr>"
  have ctx: "meter ?ctx = \<lparr>gas_limit = Some maxGas, gas_consumed = 0\<rparr>"
    "module_store ?ctx = module_store s" "world ?ctx = world s" "chain_id ?ctx = chain_id s"
    using assms(1) by (simp_all add: NewGasMeter_def ctx_ops_ok_def)
  obtain r' u where run: "ck_Sudo c addr msg ?ctx = (r', u)" by (cases "ck_Sudo c addr msg ?ctx")
  have "is_Ok r = is_Ok r' \<and> meter t = meter s \<and> chain_id t = chain_id s
    \<and> (if is_Ok r' then module_store t = module_store u \<and> world t = world u else t = s)"
    using assms run
    by (cases r') (auto simp: sudoWithGasLimit_def Let_def ctx_ops_ok_def)
  with ctx run show ?thesis by blast
qed

theorem sudo_isolated_witness:
  "\<exists>t. sudoWithGasLimit sample_co sample_ck sample_addr [1] 500 sample_ctx = (Ok (), t)
    \<and> meter t = NewGasMeter 100"
proof -
  obtain t where t: "sudoWithGasLimit sample_co sample_ck sample_addr [1] 500 sample_ctx = (Ok (), t)"
    by (auto simp: sudo_Ok sample_ck_def)
  show ?thesis
    using t sudo_isolated [OF sample_co_ok(1) t] by (auto simp: sample_ctx_def)
qed

text \<open>C14: The events of a contract call are emitted twice.  A successful \<open>sudoWithGasLimit\<close> ran
  the contract on a copy of the caller's stores, with no events yet and a fresh meter; and
  since \<open>write\<close> already emits the events of the cached context on the parent, as the
  documentation of \<open>CacheContext\<close> says, the explicit \<open>EmitEvents\<close> that follows it emits each of
  them a second time: the caller's events end in two copies of the contract's.\<close>

theorem sudo_events_emitted_twice:
  assumes "ctx_ops_ok co" and "ctx_events_ok co"
    and "sudoWithGasLimit co c addr msg maxGas s = (Ok (), t)"
  shows "\<exists>ctx d u. events ctx = [] \<and> meter ctx = \<lparr>gas_limit = Some maxGas, gas_consumed = 0\<rparr>
    \<and> module_store ctx = module_store s \<and> world ctx = world s \<and> chain_id ctx = chain_id s
    \<and> ck_Sudo c addr msg ctx = (Ok d, u) \<and> module_store t = module_store u \<and> world t = world u
    \<and> events t = events s @ events u @ events u"
proof -
  let ?c = "(ctx_Cache co s)\<lparr>meter := NewGasMeter maxGas\<rparr>"
  obtain d u where run: "ck_Sudo c addr msg ?c = (Ok d, u)"
    and t: "t = (ctx_write co s u)\<lparr>events := events (ctx_write co s u) @ events u\<rparr>"
    using assms(3) by (auto simp: sudo_Ok)
  show ?thesis
    by (rule exI [of _ ?c], rule exI [of _ d], rule exI [of _ u])
       (use assms(1,2) run t in \<open>simp add: ctx_events_ok_def ctx_ops_ok_def NewGasMeter_def\<close>)
qed

theorem sudo_events_emitted_twice_witness:
  "\<exists>t. sudoWithGasLimit sample_co sample_ck sample_addr [1] 500 sample_ctx = (Ok (), t)
    \<and> events t = [(''sudo'', []), (''sudo'', [])]"
proof -
  obtain t where t: "sudoWithGasLimit sample_co sample_ck sample_addr [1] 500 sample_ctx = (Ok (), t)"
    by (auto simp: sudo_Ok sample_ck_def)
  show ?thesis
    using t sudo_events_emitted_twice [OF sample_co_ok t]
    by (auto simp: sample_ctx_def sample_ck_def)
qed

subsection \<open>Before the messages\<close>

text \<open>What a passing transaction of an abstract account has been through.\<close>

lemma BeforeTx_gate:
  assumes "IsAbstractAccountTx aa s tx = Ok (Some (acc, sig))"
    and "BeforeTx_AnteHandle sdk co k aa nxt tx sim s = (Ok (), t)"
  shows "\<exists>addr s1 anys mode signBytes cred p s2.
      GetAddress sdk acc = Some addr \<and> sig_Sequence sig = Sequence acc
    \<and> abs_state sdk k s1 = (abs_state sdk k s)\<lparr>st_signer := Some addr\<rparr> \<and> same_outside s s1
    \<and> list_all2 (\<lambda>m a. NewAnyFromProtoMsg m = Ok a) (GetMsgs tx) anys
    \<and> sig_Data sig = SingleSignatureData mode cred
    \<and> GetSignBytes aa mode \<lparr>sd_Address = AccAddress_String sdk (Some addr),
        sd_ChainID = chain_id s, sd_AccountNumber = AccountNumber acc,
        sd_Sequence = Sequence acc, sd_PubKey = Some (NilPK \<lparr>AddressBytes = Some addr\<rparr>)\<rparr> tx
        = Ok signBytes
    \<and> st_params (abs_state sdk k s) = Some p
    \<and> sudoWithGasLimit co (ck k) (Some addr) (before_tx_msg anys signBytes cred sim)
        (MaxGasBefore p) s1 = (Ok (), s2)
    \<and> nxt tx sim s2 = (Ok (), t)"
proof -
  obtain addr where addr: "GetAddress sdk acc = Some addr"
    using assms BeforeTx_no_address [OF assms(1), of sdk co k nxt sim]
    by (cases "GetAddress sdk acc") auto
  obtain s1 where s1: "SetSignerAddress (Some addr) s = (Ok (), s1)"
    and abs: "abs_state sdk k s1 = (abs_state sdk k s)\<lparr>st_signer := Some addr\<rparr>"
    and out: "same_outside s s1"
    using SetSignerAddress_Some by blast
  note run = assms(2) [unfolded BeforeTx_AA [OF assms(1), of sdk s1 co k nxt sim, unfolded addr, OF s1]]
  have seq: "sig_Sequence sig = Sequence acc" using run by (auto split: if_splits)
  obtain anys signBytes cred p s2 where anys: "sdkMsgsToAnys (GetMsgs tx) = Ok anys"
    and cred: "prepareCredentials sdk aa s1 tx acc (sig_Data sig) = Ok (signBytes, cred)"
    and p: "st_params (abs_state sdk k s1) = Some p"
    and sudo: "sudoWithGasLimit co (ck k) (Some addr) (before_tx_msg anys signBytes cred sim)
        (MaxGasBefore p) s1 = (Ok (), s2)"
    and nxt: "nxt tx sim s2 = (Ok (), t)"
    using run seq
    by (auto simp: bindM_Ok_iff liftM_Ok_iff GetParams_Ok_iff [of _ _ _ _ sdk])
  have "st_params (abs_state sdk k s) = Some p"
    using p abs by simp
  moreover have "list_all2 (\<lambda>m a. NewAnyFromProtoMsg m = Ok a) (GetMsgs tx) anys"
    using anys by (simp only: sdkMsgsToAnys_Ok)
  moreover have "chain_id s1 = chain_id s" using out by (simp add: same_outside_def)
  then obtain mode where "sig_Data sig = SingleSignatureData mode cred"
    and "GetSignBytes aa mode \<lparr>sd_Address = AccAddress_String sdk (Some addr),
        sd_ChainID = chain_id s, sd_AccountNumber = AccountNumber acc,
        sd_Sequence = Sequence acc, sd_PubKey = Some (NilPK \<lparr>AddressBytes = Some addr\<rparr>)\<rparr> tx
        = Ok signBytes"
    using cred unfolding prepareCredentials_Ok addr by auto
  ultimately show ?thesis using addr seq abs out sudo nxt by blast
qed

text \<open>An abstract account's transaction passes only with the consent of its contract.
  If \<open>AnteHandle\<close> returns no error for such a transaction, then the signature's sequence is
  the account's; the contract at the account's own address was called, under the gas limit
  \<open>MaxGasBefore\<close>, with the \<open>before_tx\<close> message made of all messages of the transaction, the
  sign bytes (for this chain, account number, sequence and nil public key), the
  credential and the simulate flag, and it returned no error; the address was left in the
  module's store; and the next decorator ran on the state after that call.\<close>

theorem before_tx_needs_contract:
  assumes "IsAbstractAccountTx aa s tx = Ok (Some (acc, sig))"
    and "BeforeTx_AnteHandle sdk co k aa nxt tx sim s = (Ok (), t)"
  shows "\<exists>addr s1 anys mode signBytes cred p s2.
      GetAddress sdk acc = Some addr \<and> sig_Sequence sig = Sequence acc
    \<and> abs_state sdk k s1 = (abs_state sdk k s)\<lparr>st_signer := Some addr\<rparr> \<and> same_outside s s1
    \<and> list_all2 (\<lambda>m a. NewAnyFromProtoMsg m = Ok a) (GetMsgs tx) anys
    \<and> sig_Data sig = SingleSignatureData mode cred
    \<and> GetSignBytes aa mode \<lparr>sd_Address = AccAddress_String sdk (Some addr),
        sd_ChainID = chain_id s, sd_AccountNumber = AccountNumber acc,
        sd_Sequence = Sequence acc, sd_PubKey = Some (NilPK \<lparr>AddressBytes = Some addr\<rparr>)\<rparr> tx
        = Ok signBytes
    \<and> st_params (abs_state sdk k s) = Some p
    \<and> sudoWithGasLimit co (ck k) (Some addr) (before_tx_msg anys signBytes cred sim)
        (MaxGasBefore p) s1 = (Ok (), s2)
    \<and> nxt tx sim s2 = (Ok (), t)"
  by (rule BeforeTx_gate [OF assms])

theorem before_tx_needs_contract_witness:
  "\<exists>t. BeforeTx_AnteHandle sample_sdk sample_co sample_keeper sample_aa (\<lambda>tx sim. retM ())
      (sample_tx 4) False sample_aa_ctx = (Ok (), t)
    \<and> (\<exists>s1. st_signer (abs_state sample_sdk sample_keeper s1) = sample_addr)"
proof -
  obtain s1 where s1: "SetSignerAddress sample_addr sample_aa_ctx = (Ok (), s1)"
    and abs: "abs_state sample_sdk sample_keeper s1
      = (abs_state sample_sdk sample_keeper sample_aa_ctx)\<lparr>st_signer := sample_addr\<rparr>"
    using SetSignerAddress_Some [of "string_bytes ''acc''" sample_aa_ctx sample_sdk sample_keeper]
    by (auto simp: sample_addr_def)
  have "GetParams sample_keeper sample_aa_ctx = (Ok DefaultParams, sample_aa_ctx)"
    by (rule sample_aa_GetParams) (simp add: store_Get_def sample_aa_ctx_def sample_ctx_def)
  then have p: "GetParams sample_keeper s1 = (Ok DefaultParams, s1)"
    using abs by (simp add: GetParams_Ok_iff [of _ _ _ _ sample_sdk])
  obtain t where "BeforeTx_AnteHandle sample_sdk sample_co sample_keeper sample_aa (\<lambda>tx sim. retM ())
      (sample_tx 4) False sample_aa_ctx = (Ok (), t)"
    using BeforeTx_AA [OF sample_is_aa, of sample_sdk s1, unfolded sample_address, OF s1]
    by (auto simp: sample_sig_def sample_acc_def sample_tx_def sdkMsgsToAnys_def
        NewAnyFromProtoMsg_def prepareCredentials_def sample_aa_def monad_simps p bindM_def
        liftM_def retM_def sudoWithGasLimit_def sample_sudo Let_def)
  then show ?thesis
    using before_tx_needs_contract [OF sample_is_aa] abs by (metis module_state.select_convs(3)
        module_state.update_convs(3) module_state.surjective)
qed

text \<open>A transaction whose signature carries another sequence number than the account is
  refused with \<open>ErrWrongSequence\<close> before its contract is called: the result is the same
  for every contract and every next decorator, and apart from the signer address nothing
  in the state has changed.\<close>

theorem before_tx_wrong_sequence:
  assumes "IsAbstractAccountTx aa s tx = Ok (Some (acc, sig))"
    and "GetAddress sdk acc = Some addr" and "sig_Sequence sig \<noteq> Sequence acc"
  shows "\<exists>t. BeforeTx_AnteHandle sdk co k aa nxt tx sim s
      = (Err (ErrWrongSequence (Sequence acc) (sig_Sequence sig)), t)
    \<and> abs_state sdk k t = (abs_state sdk k s)\<lparr>st_signer := Some addr\<rparr> \<and> same_outside s t"
proof -
  obtain t where "SetSignerAddress (Some addr) s = (Ok (), t)"
    and "abs_state sdk k t = (abs_state sdk k s)\<lparr>st_signer := Some addr\<rparr>" and "same_outside s t"
    using SetSignerAddress_Some by blast
  then show ?thesis using BeforeTx_AA [OF assms(1), of sdk t] assms(2,3) by auto
qed

theorem before_tx_wrong_sequence_witness:
  "\<exists>t. BeforeTx_AnteHandle sample_sdk sample_co sample_keeper sample_aa (\<lambda>tx sim. retM ())
      (sample_tx 3) False sample_aa_ctx = (Err (ErrWrongSequence 4 3), t)"
  using before_tx_wrong_sequence [OF sample_is_aa [of 3] sample_address [unfolded sample_addr_def]]
  by (fastforce simp: sample_sig_def sample_acc_def)

text \<open>C26: When the contract refuses, the refusal is final: the error of the contract is the
  error of \<open>AnteHandle\<close>, the next decorator does not run, and nothing the contract wrote
  is kept.\<close>

theorem before_tx_refused:
  assumes "IsAbstractAccountTx aa s tx = Ok (Some (acc, sig))"
    and "GetAddress sdk acc = Some addr" and "sig_Sequence sig = Sequence acc"
    and "st_params (abs_state sdk k s) = Some p"
    and "sdkMsgsToAnys (GetMsgs tx) = Ok anys"
    and "prepareCredentials sdk aa s tx acc (sig_Data sig) = Ok (signBytes, cred)"
    and "\<And>ctx. fst (ck_Sudo (ck k) (Some addr) (before_tx_msg anys signBytes cred sim) ctx) = Err e"
  shows "\<exists>t. BeforeTx_AnteHandle sdk co k aa nxt tx sim s = (Err e, t)
    \<and> abs_state sdk k t = (abs_state sdk k s)\<lparr>st_signer := Some addr\<rparr> \<and> same_outside s t"
proof -
  obtain t where t: "SetSignerAddress (Some addr) s = (Ok (), t)"
    and abs: "abs_state sdk k t = (abs_state sdk k s)\<lparr>st_signer := Some addr\<rparr>"
    and out: "same_outside s t"
    using SetSignerAddress_Some by blast
  have p: "GetParams k t = (Ok p, t)"
    using assms(4) abs by (simp add: GetParams_Ok_iff [of k t p t sdk])
  have c: "prepareCredentials sdk aa t tx acc (sig_Data sig) = Ok (signBytes, cred)"
    using assms(6) out by (simp add: prepareCredentials_Ok same_outside_def)
  have "sudoWithGasLimit co (ck k) (Some addr) (before_tx_msg anys signBytes cred sim)
      (MaxGasBefore p) t = (Err e, t)"
    using assms(7) by (simp add: sudo_Err) (metis prod.collapse)
  then show ?thesis
    using BeforeTx_AA [OF assms(1), of sdk t] assms(2,3,5) t abs out p c
    by (simp add: bindM_def liftM_def)
qed

theorem before_tx_refused_witness:
  "\<exists>t. BeforeTx_AnteHandle sample_sdk sample_co
      (sample_keeper\<lparr>ck := sample_ck\<lparr>ck_Sudo := \<lambda>a m s. (Err (External ''no''), s)\<rparr>\<rparr>) sample_aa
      (\<lambda>tx sim. retM ())
      (sample_tx 4) False sample_aa_ctx = (Err (External ''no''), t)"
proof -
  let ?k = "sample_keeper\<lparr>ck := sample_ck\<lparr>ck_Sudo := \<lambda>a m s. (Err (External ''no''), s)\<rparr>\<rparr>"
  have "GetParams sample_keeper sample_aa_ctx = (Ok DefaultParams, sample_aa_ctx)"
    by (rule sample_aa_GetParams) (simp add: store_Get_def sample_aa_ctx_def sample_ctx_def)
  then have p: "st_params (abs_state sample_sdk ?k sample_aa_ctx) = Some DefaultParams"
    using GetParams_Ok_iff [of sample_keeper sample_aa_ctx DefaultParams sample_aa_ctx sample_sdk]
    by (simp add: abs_state_def)
  have c: "prepareCredentials sample_sdk sample_aa sample_aa_ctx (sample_tx 4) sample_acc
      (sig_Data (sample_sig 4)) = Ok (Some [1, 2, 3], Some [9])"
    by (simp add: prepareCredentials_def sample_sig_def sample_aa_def)
  have a: "sdkMsgsToAnys (GetMsgs (sample_tx 4))
      = Ok [\<lparr>TypeURL = ''/cosmos.bank.v1beta1.MsgSend'', Value = Some [8, 1]\<rparr>]"
    by (simp add: sdkMsgsToAnys_def sample_tx_def NewAnyFromProtoMsg_def)
  have q: "sig_Sequence (sample_sig 4) = Sequence sample_acc"
    by (simp add: sample_sig_def sample_acc_def)
  show ?thesis
    using before_tx_refused [where e = "External ''no''",
        OF sample_is_aa sample_address [unfolded sample_addr_def] q p a c]
    by simp blast
qed

subsection \<open>Other transactions\<close>

text \<open>A transaction that is not an abstract account's is none of the module's business:
  \<open>AnteHandle\<close> is the SDK's own signature verification, run on the same state with the same
  next decorator.  A transaction that cannot be classified (it is not
  signature-verifiable, its signatures cannot be decoded, its signer has no account) is
  refused with the error of that check and leaves the state as it was.  An abstract account
  whose stored address does not parse makes the handler panic.\<close>

theorem before_tx_other:
  "case IsAbstractAccountTx aa s tx of
     Ok None \<Rightarrow> BeforeTx_AnteHandle sdk co k aa nxt tx sim s = SigVerificationDecorator aa nxt tx sim s
   | Err e \<Rightarrow> BeforeTx_AnteHandle sdk co k aa nxt tx sim s = (Err e, s)
   | Panic x \<Rightarrow> BeforeTx_AnteHandle sdk co k aa nxt tx sim s = (Panic x, s)
   | Ok (Some (acc, sig)) \<Rightarrow> GetAddress sdk acc = None \<longrightarrow>
       BeforeTx_AnteHandle sdk co k aa nxt tx sim s = (Panic (PanicMsg ''value is nil''), s)"
  by (auto simp: BeforeTx_not_AA BeforeTx_error BeforeTx_no_address split: res.split option.split)
     (simp add: BeforeTx_AnteHandle_def bindM_def)

theorem before_tx_other_witness:
  "BeforeTx_AnteHandle sample_sdk sample_co sample_keeper sample_aa (\<lambda>tx sim. retM ())
      \<lparr>as_SigVerifiableTx = None, GetMsgs = [], tx_body = []\<rparr> False sample_ctx
    = (Err (ErrTxDecode ''tx is not a SigVerifiableTx''), sample_ctx)"
  using before_tx_other [where aa = sample_aa and s = sample_ctx and sdk = sample_sdk
      and co = sample_co and k = sample_keeper and nxt = "\<lambda>tx sim. retM ()" and sim = False
      and tx = "\<lparr>as_SigVerifiableTx = None, GetMsgs = [], tx_body = []\<rparr>"]
  by (simp add: IsAbstractAccountTx_def)

subsection \<open>After the messages\<close>

text \<open>C28: \<open>PostHandle\<close> calls the account that the ante handler left in the store, once: it
  removes the address, calls the contract at it under the gas limit \<open>MaxGasAfter\<close> with the
  \<open>after_tx\<close> message, and on success runs the next decorator; an error of the contract is
  its error and keeps only the removal.  With no address in the store it runs the next
  decorator and does nothing else.\<close>

theorem after_tx_spec:
  assumes "st_params (abs_state sdk k s) = Some p"
  shows "case st_signer (abs_state sdk k s) of
      None \<Rightarrow> AfterTx_PostHandle co k nxt tx sim success s = nxt tx sim success s
    | Some a \<Rightarrow> \<exists>s1. abs_state sdk k s1 = (abs_state sdk k s)\<lparr>st_signer := None\<rparr>
        \<and> same_outside s s1
        \<and> AfterTx_PostHandle co k nxt tx sim success s =
            (case sudoWithGasLimit co (ck k) (Some a) (after_tx_msg sim) (MaxGasAfter p) s1 of
               (Ok _, s2) \<Rightarrow> nxt tx sim success s2
             | (Err e, s2) \<Rightarrow> (Err e, s1)
             | (Panic x, s2) \<Rightarrow> (Panic x, s1))"
proof (cases "st_signer (abs_state sdk k s)")
  case None
  then show ?thesis using AfterTx_run [of co k nxt tx sim success s sdk] by simp
next
  case (Some a)
  obtain s1 where s1: "DeleteSignerAddress s = (Ok (), s1)"
    and abs: "abs_state sdk k s1 = (abs_state sdk k s)\<lparr>st_signer := None\<rparr>"
    and out: "same_outside s s1"
    using DeleteSignerAddress_run by blast
  have p: "GetParams k s1 = (Ok p, s1)"
    using assms abs by (simp add: GetParams_Ok_iff [of k s1 p s1 sdk])
  have "AfterTx_PostHandle co k nxt tx sim success s =
      bindM (sudoWithGasLimit co (ck k) (Some a) (after_tx_msg sim) (MaxGasAfter p)) (\<lambda>_.
        nxt tx sim success) s1"
    using AfterTx_run [of co k nxt tx sim success s sdk] Some s1 p by (simp add: monad_simps)
  also have "\<dots> = (case sudoWithGasLimit co (ck k) (Some a) (after_tx_msg sim) (MaxGasAfter p) s1 of
               (Ok _, s2) \<Rightarrow> nxt tx sim success s2
             | (Err e, s2) \<Rightarrow> (Err e, s1)
             | (Panic x, s2) \<Rightarrow> (Panic x, s1))"
    by (auto simp: bindM_def sudo_iffs split: prod.split res.split)
  finally show ?thesis using abs out Some by auto
qed

theorem after_tx_spec_witness:
  "AfterTx_PostHandle sample_co sample_keeper (\<lambda>tx sim success. retM ()) (sample_tx 4) False True
      sample_ctx = (Ok (), sample_ctx)"
proof -
  have "st_params (abs_state sample_sdk sample_keeper sample_ctx) = Some DefaultParams"
    using sample_GetParams by (simp add: GetParams_Ok_iff [of _ _ _ _ sample_sdk])
  from after_tx_spec [OF this, of sample_co "\<lambda>tx sim success. retM ()" "sample_tx 4" False True]
  show ?thesis by (simp add: abs_state_def store_Get_def sample_ctx_def retM_def)
qed

subsection \<open>Across the two handlers\<close>

text \<open>The two handlers are paired through the store: after an abstract account's
  transaction has passed \<open>AnteHandle\<close>, and its messages have left the module's signer entry
  alone, \<open>PostHandle\<close> finds exactly that account's address, and afterwards the entry is
  gone, whatever the outcome of the call.\<close>

theorem handlers_paired:
  assumes "ctx_ops_ok co" and "\<And>b. contracts_keep (signer_is b) (ck k)"
    and "\<And>b tx sim. keeps (signer_is b) (nxt tx sim)"
    and "\<And>b tx sim success. keeps (signer_is b) (pnxt tx sim success)"
    and "IsAbstractAccountTx aa s tx = Ok (Some (acc, sig))"
    and "BeforeTx_AnteHandle sdk co k aa nxt tx sim s = (Ok (), t)"
    and "store_Get KeySignerAddress u = store_Get KeySignerAddress t"
  shows "GetSignerAddress u = (Ok (GetAddress sdk acc), u)
    \<and> GetSignerAddress (snd (AfterTx_PostHandle co k pnxt tx sim success u))
        = (Ok None, snd (AfterTx_PostHandle co k pnxt tx sim success u))"
proof -
  have "signer_is (GetAddress sdk acc) t"
    by (rule BeforeTx_leaves_signer [OF assms(1,2,3,5,6)])
  moreover have "signer_is None (snd (AfterTx_PostHandle co k pnxt tx sim success u))"
    by (rule AfterTx_clears_signer [OF assms(1,2,4)])
  ultimately show ?thesis
    using assms(7) by (simp add: signer_is_def GetSignerAddress_def run_simps)
qed

lemma sample_keeps_signer: "contracts_keep (signer_is b) (ck sample_keeper)"
  by (auto simp: contracts_keep_def keeps_def sample_keeper_def sample_ck_def signer_is_def store_Get_def)

lemma sample_meter:
  "IsAbstractAccountTx sample_aa (s\<lparr>meter := g\<rparr>) tx = IsAbstractAccountTx sample_aa s tx"
proof -
  have "GetSignerAcc sample_aa (s\<lparr>meter := g\<rparr>) = GetSignerAcc sample_aa s"
    by (simp add: sample_aa_def)
  then show ?thesis unfolding IsAbstractAccountTx_def by (simp only:)
qed

lemma sample_before_any_meter:
  "\<exists>t. BeforeTx_AnteHandle sample_sdk sample_co sample_keeper sample_aa (\<lambda>tx sim. retM ())
      (sample_tx 4) False (sample_aa_ctx\<lparr>meter := g\<rparr>) = (Ok (), t)"
proof -
  let ?s = "sample_aa_ctx\<lparr>meter := g\<rparr>"
  have aa: "IsAbstractAccountTx sample_aa ?s (sample_tx seq) = Ok (Some (sample_acc, sample_sig seq))" for seq
    by (simp only: sample_meter sample_is_aa)
  obtain s1 where s1: "SetSignerAddress sample_addr ?s = (Ok (), s1)"
    and abs: "abs_state sample_sdk sample_keeper s1
      = (abs_state sample_sdk sample_keeper ?s)\<lparr>st_signer := sample_addr\<rparr>"
    using SetSignerAddress_Some [of "string_bytes ''acc''" ?s sample_sdk sample_keeper]
    by (auto simp: sample_addr_def)
  have "GetParams sample_keeper ?s = (Ok DefaultParams, ?s)"
    by (rule sample_aa_GetParams) (simp add: store_Get_def sample_aa_ctx_def sample_ctx_def)
  then have p: "GetParams sample_keeper s1 = (Ok DefaultParams, s1)"
    using abs by (simp add: GetParams_Ok_iff [of _ _ _ _ sample_sdk])
  show ?thesis
    using BeforeTx_AA [OF aa, of sample_sdk s1, unfolded sample_address, OF s1]
    by (auto simp: sample_sig_def sample_acc_def sample_tx_def sdkMsgsToAnys_def
        NewAnyFromProtoMsg_def prepareCredentials_def sample_aa_def monad_simps p bindM_def
        liftM_def retM_def sudoWithGasLimit_def sample_sudo Let_def)
qed

lemma sample_before_ok:
  "\<exists>t. BeforeTx_AnteHandle sample_sdk sample_co sample_keeper sample_aa (\<lambda>tx sim. retM ())
      (sample_tx 4) False sample_aa_ctx = (Ok (), t)"
  using sample_before_any_meter [of "meter sample_aa_ctx"] by simp

theorem handlers_paired_witness:
  "\<exists>t. BeforeTx_AnteHandle sample_sdk sample_co sample_keeper sample_aa (\<lambda>tx sim. retM ())
      (sample_tx 4) False sample_aa_ctx = (Ok (), t) \<and> GetSignerAddress t = (Ok sample_addr, t)"
proof -
  obtain t where t: "BeforeTx_AnteHandle sample_sdk sample_co sample_keeper sample_aa
      (\<lambda>tx sim. retM ()) (sample_tx 4) False sample_aa_ctx = (Ok (), t)"
    using sample_before_ok by blast
  then show ?thesis
    using handlers_paired [where pnxt = "\<lambda>tx sim success. retM ()", OF sample_co_ok(1)
        sample_keeps_signer _ _ sample_is_aa t refl, of True]
    by (auto simp: sample_address)
qed

text \<open>C25: The pairing does not survive a transaction whose messages fail.  The address stored
  by \<open>AnteHandle\<close> stays when no \<open>PostHandle\<close> follows (the SDK keeps the state of the ante
  handlers and, as the code's own comment says, runs the post handlers only after
  success); the next transaction, of any other kind of account, goes through \<open>AnteHandle\<close>
  without clearing it, and its \<open>PostHandle\<close> calls the contract of the first account: if
  that contract refuses, the unrelated transaction fails with its error.\<close>

theorem stale_signer_blocks_other_tx:
  assumes "ctx_ops_ok co" and "\<And>b. contracts_keep (signer_is b) (ck k)"
    and "\<And>b tx sim. keeps (signer_is b) (nxt tx sim)"
    and "\<And>b tx sim. keeps (signer_is b) (SigVerificationDecorator aa nxt tx sim)"
    and "IsAbstractAccountTx aa s tx1 = Ok (Some (acc, sig))"
    and "BeforeTx_AnteHandle sdk co k aa nxt tx1 sim s = (Ok (), t)"
    and "IsAbstractAccountTx aa t tx2 = Ok None"
    and "BeforeTx_AnteHandle sdk co k aa nxt tx2 sim t = (Ok (), u)"
    and "st_params (abs_state sdk k u) = Some p"
    and "\<And>ctx. fst (ck_Sudo (ck k) (GetAddress sdk acc) (after_tx_msg sim) ctx) = Err e"
  shows "fst (AfterTx_PostHandle co k pnxt tx2 sim success u) = Err e"
proof -
  obtain a where a: "GetAddress sdk acc = Some a"
    using assms(5,6) BeforeTx_no_address [OF assms(5), of sdk co k nxt sim]
    by (cases "GetAddress sdk acc") auto
  have "signer_is (Some a) t"
    using BeforeTx_leaves_signer [OF assms(1,2,3,5,6)] a by simp
  moreover have "SigVerificationDecorator aa nxt tx2 sim t = (Ok (), u)"
    using assms(8) BeforeTx_not_AA [OF assms(7)] by simp
  ultimately have "signer_is (Some a) u" using assms(4) by (blast dest: keepsD)
  then have st: "st_signer (abs_state sdk k u) = Some a"
    by (simp add: signer_is_def abs_state_def)
  obtain v where v: "DeleteSignerAddress u = (Ok (), v)"
    and abs: "abs_state sdk k v = (abs_state sdk k u)\<lparr>st_signer := None\<rparr>"
    using DeleteSignerAddress_run by blast
  have p: "GetParams k v = (Ok p, v)"
    using assms(9) abs by (simp add: GetParams_Ok_iff [of k v p v sdk])
  have "sudoWithGasLimit co (ck k) (Some a) (after_tx_msg sim) (MaxGasAfter p) v = (Err e, v)"
    using assms(10) a by (simp add: sudo_Err) (metis prod.collapse)
  then show ?thesis
    using AfterTx_run [of co k pnxt tx2 sim success u sdk] st v p by (simp add: monad_simps)
qed

text \<open>
  A contract that accepts every \<open>before_tx\<close> and refuses \<open>after_tx\<close>, and a transaction of two
  signers, which is not an abstract account's.
\<close>

lemma before_not_after: "before_tx_msg anys b c d \<noteq> after_tx_msg e"
  by (simp add: before_tx_msg_def after_tx_msg_def AccountSudoMsg_json_def json_quote_def
      json_escape_def)

definition sample_stale :: "sample_world Keeper" where
  "sample_stale = sample_keeper\<lparr>ck := sample_ck\<lparr>ck_Sudo := \<lambda>a m s.
     if m = after_tx_msg False then (Err (External ''no''), s) else (Ok None, s)\<rparr>\<rparr>"

lemma sample_stale_sudo: "ck_Sudo (ck sample_stale) a m s =
    (if m = after_tx_msg False then (Err (External ''no''), s) else (Ok None, s))"
  by (simp add: sample_stale_def)

definition sample_other_tx :: Tx where
  "sample_other_tx = \<lparr>as_SigVerifiableTx = Some \<lparr>GetSignaturesV2 = Ok [], GetSigners = [None, None]\<rparr>,
     GetMsgs = [], tx_body = []\<rparr>"

lemma abs_state_cong: "module_store s = module_store t \<Longrightarrow> abs_state sdk k s = abs_state sdk k t"
  by (simp add: abs_state_def store_Get_def)

lemma sample_stale_before:
  "\<exists>t. BeforeTx_AnteHandle sample_sdk sample_co sample_stale sample_aa (\<lambda>tx sim. retM ())
      (sample_tx 4) False sample_aa_ctx = (Ok (), t)
    \<and> st_params (abs_state sample_sdk sample_stale t) = Some DefaultParams"
proof -
  obtain s1 where s1: "SetSignerAddress sample_addr sample_aa_ctx = (Ok (), s1)"
    and abs: "abs_state sample_sdk sample_stale s1
      = (abs_state sample_sdk sample_stale sample_aa_ctx)\<lparr>st_signer := sample_addr\<rparr>"
    using SetSignerAddress_Some [of "string_bytes ''acc''" sample_aa_ctx sample_sdk sample_stale]
    by (auto simp: sample_addr_def)
  have "st_params (abs_state sample_sdk sample_stale sample_aa_ctx) = Some DefaultParams"
    using sample_params
    by (simp add: abs_state_def store_Get_def sample_aa_ctx_def sample_ctx_def sample_stale_def
        sample_keeper_def)
  then have st: "st_params (abs_state sample_sdk sample_stale s1) = Some DefaultParams"
    using abs by simp
  then have p: "GetParams sample_stale s1 = (Ok DefaultParams, s1)"
    by (simp add: GetParams_Ok_iff [of _ _ _ _ sample_sdk])
  obtain t where "BeforeTx_AnteHandle sample_sdk sample_co sample_stale sample_aa (\<lambda>tx sim. retM ())
      (sample_tx 4) False sample_aa_ctx = (Ok (), t)" and "module_store t = module_store s1"
    using BeforeTx_AA [OF sample_is_aa, of sample_sdk s1, unfolded sample_address, OF s1]
    by (auto simp: sample_sig_def sample_acc_def sample_tx_def sdkMsgsToAnys_def
        NewAnyFromProtoMsg_def prepareCredentials_def sample_aa_def monad_simps p bindM_def
        liftM_def retM_def sudoWithGasLimit_def sample_stale_sudo before_not_after Let_def
        sample_co_def)
  then show ?thesis using st abs_state_cong by metis
qed

lemma sample_stale_keeps_signer: "contracts_keep (signer_is b) (ck sample_stale)"
  by (auto simp: contracts_keep_def keeps_def sample_stale_def sample_ck_def signer_is_def
      store_Get_def)

theorem stale_signer_blocks_other_tx_witness:
  "\<exists>t. BeforeTx_AnteHandle sample_sdk sample_co sample_stale sample_aa (\<lambda>tx sim. retM ())
      (sample_tx 4) False sample_aa_ctx = (Ok (), t)
    \<and> BeforeTx_AnteHandle sample_sdk sample_co sample_stale sample_aa (\<lambda>tx sim. retM ())
      sample_other_tx False t = (Ok (), t)
    \<and> fst (AfterTx_PostHandle sample_co sample_stale (\<lambda>tx sim success. retM ()) sample_other_tx
      False True t) = Err (External ''no'')"
proof -
  obtain t where t: "BeforeTx_AnteHandle sample_sdk sample_co sample_stale sample_aa
      (\<lambda>tx sim. retM ()) (sample_tx 4) False sample_aa_ctx = (Ok (), t)"
    and p: "st_params (abs_state sample_sdk sample_stale t) = Some DefaultParams"
    using sample_stale_before by blast
  have none: "IsAbstractAccountTx sample_aa t sample_other_tx = Ok None"
    by (simp add: IsAbstractAccountTx_def sample_other_tx_def)
  have o: "BeforeTx_AnteHandle sample_sdk sample_co sample_stale sample_aa (\<lambda>tx sim. retM ())
      sample_other_tx False t = (Ok (), t)"
    using BeforeTx_not_AA [OF none] by (simp add: sample_aa_def retM_def)
  have "fst (AfterTx_PostHandle sample_co sample_stale (\<lambda>tx sim success. retM ()) sample_other_tx
      False True t) = Err (External ''no'')"
    by (rule stale_signer_blocks_other_tx [OF sample_co_ok(1) sample_stale_keeps_signer _ _
          sample_is_aa t none o p])
       (simp_all add: sample_stale_def, simp add: sample_aa_def)
  with t o show ?thesis by blast
qed

end
