(* ===== verification/Tx.thy ===== *)
theory Tx
  imports MsgServer TxPB
begin

text \<open>
  The stateless checks and the signers of the module's messages:
  \<open>x/abstractaccount/types/tx.go\<close>.  The checks delegated to wasmd and to the SDK (the
  initial message is JSON, the funds are valid coins, the salt has an admissible length)
  are the fields of \<open>MsgLib\<close>, and so is the text \<open>err.Error()\<close> of an error.
\<close>

record 'c MsgLib =
  RawContractMessage_ValidateBasic :: "slice \<Rightarrow> unit res"
  Coins_IsValid :: "'c list \<Rightarrow> bool"
  ValidateSalt :: "slice \<Rightarrow> unit res"
  Error_text :: "error \<Rightarrow> string"

subsection \<open>MsgUpdateParams\<close>

definition MsgUpdateParams_ValidateBasic :: "Sdk \<Rightarrow> MsgUpdateParams \<Rightarrow> unit res" where
  "MsgUpdateParams_ValidateBasic sdk m =
     (case AccAddressFromBech32 sdk (up_Sender m) of
        (senderAddr, Some err) \<Rightarrow> Err (ErrInvalidRequest ''invalid sender address'')
      | (senderAddr, None) \<Rightarrow> Params_Validate (up_Params m))"

definition MsgUpdateParams_GetSigners :: "Sdk \<Rightarrow> MsgUpdateParams \<Rightarrow> slice list" where
  "MsgUpdateParams_GetSigners sdk m = [fst (AccAddressFromBech32 sdk (up_Sender m))]"

subsection \<open>MsgRegisterAccount\<close>

definition MsgRegisterAccount_ValidateBasic ::
  "Sdk \<Rightarrow> 'c MsgLib \<Rightarrow> 'c MsgRegisterAccount \<Rightarrow> unit res" where
  "MsgRegisterAccount_ValidateBasic sdk lib m =
     (case AccAddressFromBech32 sdk (Sender m) of
        (senderAddr, Some err) \<Rightarrow> Err (ErrInvalidRequest ''invalid sender address'')
      | (senderAddr, None) \<Rightarrow>
         if CodeID m = 0 then Err (ErrInvalidRequest ''code id cannot be zero'')
         else (case RawContractMessage_ValidateBasic lib (Msg m) of
            Err err \<Rightarrow> Err (ErrInvalidRequest (''invalid init msg: '' @ Error_text lib err))
          | Panic p \<Rightarrow> Panic p
          | Ok _ \<Rightarrow>
             if \<not> Coins_IsValid lib (Funds m) then Err ErrInvalidCoins
             else ValidateSalt lib (Salt m)))"

definition MsgRegisterAccount_GetSigners :: "Sdk \<Rightarrow> 'c MsgRegisterAccount \<Rightarrow> slice list" where
  "MsgRegisterAccount_GetSigners sdk m = [fst (AccAddressFromBech32 sdk (Sender m))]"

subsection \<open>When the checks pass\<close>

lemma update_params_basic_Ok:
  "MsgUpdateParams_ValidateBasic sdk m = Ok () \<longleftrightarrow>
   (\<exists>a p. AccAddressFromBech32 sdk (up_Sender m) = (a, None) \<and> up_Params m = Some p \<and> valid_params p)"
  using Validate_Ok_iff
  by (cases "up_Params m")
     (auto simp: MsgUpdateParams_ValidateBasic_def split: prod.split option.split
       simp del: Params_Validate.simps(2))

lemma register_basic_Ok:
  "MsgRegisterAccount_ValidateBasic sdk lib m = Ok () \<longleftrightarrow>
   (\<exists>a. AccAddressFromBech32 sdk (Sender m) = (a, None)) \<and> CodeID m \<noteq> 0
   \<and> RawContractMessage_ValidateBasic lib (Msg m) = Ok () \<and> Coins_IsValid lib (Funds m)
   \<and> ValidateSalt lib (Salt m) = Ok ()"
  by (auto simp: MsgRegisterAccount_ValidateBasic_def split: prod.split option.split res.split)

end
