(* ===== verification/TxSpec.thy ===== *)
theory TxSpec
  imports Tx Sample
begin

text \<open>
  The properties of the stateless checks: what a message that passed them is guaranteed
  when its handler runs.
\<close>

definition sample_lib :: "Coin MsgLib" where
  "sample_lib =
     \<lparr>RawContractMessage_ValidateBasic = (\<lambda>m. if slice_bytes m = [] then Err (External ''invalid'') else Ok ()),
      Coins_IsValid = (\<lambda>cs. list_all (\<lambda>c. 0 < Amount c) cs),
      ValidateSalt = (\<lambda>b. if length (slice_bytes b) = 0 then Err (External ''empty'')
        else if 64 < length (slice_bytes b) then Err (External ''too long'') else Ok ()),
      Error_text = (\<lambda>e. ''error'')\<rparr>"

text \<open>The account that signs a registration is the account it acts for.  For a message
  that passed \<open>ValidateBasic\<close>, the single signer the ante handlers authenticate is the
  address that the handler gives to the contract instantiation as creator and as admin;
  the message's code id is not zero, and the sender check of the handler cannot fail.\<close>

theorem validated_register_acts_for_signer:
  assumes "MsgRegisterAccount_ValidateBasic sdk lib req = Ok ()"
    and "GetParams k s = (Ok p, s)" and "IsAllowed p (CodeID req)"
    and "GetAndIncrementNextAccountID sdk s = (Ok n, s1)"
  shows "\<exists>signer. MsgRegisterAccount_GetSigners sdk req = [signer] \<and> CodeID req \<noteq> 0
    \<and> RegisterAccount sdk k req s =
      bindM (ck_Instantiate2 (ck k) (CodeID req) signer signer (Msg req) (account_label n)
        (Funds req) (Salt req) False) (\<lambda>(c, d). register_tail sdk k req signer c d) s1"
proof -
  from assms(1) obtain a where a: "AccAddressFromBech32 sdk (Sender req) = (a, None)"
    and "CodeID req \<noteq> 0"
    unfolding register_basic_Ok by blast
  then show ?thesis
    using RegisterAccount_run [OF assms(2,3) a assms(4)]
    by (simp add: MsgRegisterAccount_GetSigners_def)
qed

lemma sample_register_basic: "MsgRegisterAccount_ValidateBasic sample_sdk sample_lib sample_register = Ok ()"
  by (simp add: register_basic_Ok sample_lib_def sample_register_def sample_alice)

theorem validated_register_acts_for_signer_witness:
  "MsgRegisterAccount_GetSigners sample_sdk sample_register = [Some (string_bytes ''alice'')]
   \<and> (\<exists>n s1. GetAndIncrementNextAccountID sample_sdk sample_ctx = (Ok n, s1)
       \<and> RegisterAccount sample_sdk sample_keeper sample_register sample_ctx =
         bindM (ck_Instantiate2 sample_ck 7 (Some (string_bytes ''alice''))
           (Some (string_bytes ''alice'')) (Some [123, 125]) (account_label n) [] (Some [1]) False)
         (\<lambda>(c, d). register_tail sample_sdk sample_keeper sample_register
           (Some (string_bytes ''alice'')) c d) s1)"
proof -
  obtain n s1 where n: "GetAndIncrementNextAccountID sample_sdk sample_ctx = (Ok n, s1)"
    using GetAndIncrement_run [OF big_endian_sample] by blast
  have al: "IsAllowed DefaultParams (CodeID sample_register)"
    by (simp add: IsAllowed_def DefaultParams_fields)
  have sig: "MsgRegisterAccount_GetSigners sample_sdk sample_register = [Some (string_bytes ''alice'')]"
    by (simp add: MsgRegisterAccount_GetSigners_def sample_register_def sample_alice)
  then show ?thesis
    using validated_register_acts_for_signer [OF sample_register_basic sample_GetParams al n] n
    by (simp add: sample_keeper_def sample_register_def)
qed

text \<open>A parameter update that passed \<open>ValidateBasic\<close> carries valid parameters, and its
  handler neither panics nor fails on them: from the authority it stores exactly those
  parameters, from anyone else it is refused and changes nothing.\<close>

theorem validated_update_params:
  assumes "MsgUpdateParams_ValidateBasic sdk req = Ok ()" and "codec_ok (cdc k)"
    and "\<And>p. up_Params req = Some p \<Longrightarrow> small_params p"
  shows "\<exists>p. up_Params req = Some p \<and> valid_params p
    \<and> (if up_Sender req = authority k
       then \<exists>t. UpdateParams k req s = (Ok MsgUpdateParamsResponse, t)
         \<and> abs_state sdk k t = (abs_state sdk k s)\<lparr>st_params := Some p\<rparr> \<and> same_outside s t
       else UpdateParams k req s = (Err (ErrUnauthorized (authority k) (up_Sender req)), s))"
proof -
  from assms(1) obtain p where p: "up_Params req = Some p" "valid_params p"
    unfolding update_params_basic_Ok by blast
  obtain t where t: "SetParams k (Some p) s = (Ok (), t)"
    and "abs_state sdk k t = (abs_state sdk k s)\<lparr>st_params := Some p\<rparr>" and "same_outside s t"
    using SetParams_Ok [OF assms(2) p(2) assms(3) [OF p(1)]] by blast
  then show ?thesis
    using p by (auto simp: UpdateParams_def monad_simps)
qed

theorem validated_update_params_witness:
  "\<exists>t. UpdateParams sample_keeper \<lparr>up_Sender = ''gov'', up_Params = Some DefaultParams\<rparr> sample_ctx
    = (Ok MsgUpdateParamsResponse, t)"
proof -
  let ?req = "\<lparr>up_Sender = ''gov'', up_Params = Some DefaultParams\<rparr>"
  have "MsgUpdateParams_ValidateBasic sample_sdk ?req = Ok ()"
    by (simp add: update_params_basic_Ok valid_DefaultParams) (simp add: sample_sdk_def)
  from validated_update_params [OF this sample_keeper_ok(1), of sample_ctx] small_DefaultParams
  show ?thesis by (auto simp: sample_keeper_def)
qed

end
