(* ===== verification/Services.thy ===== *)
theory Services
  imports MsgServer Tx TxPB QueryPB
begin

text \<open>
  The gRPC services of the module as the generated code wires them: the server interfaces
  and their implementations (\<open>keeper/msg_server.go\<close>, \<open>keeper/query_server.go\<close>), the
  service descriptors with their handlers and the clients (\<open>types/tx.pb.go\<close>,
  \<open>types/query.pb.go\<close>), and the registration of the module's types
  (\<open>types/codec.go\<close>).  Encodings, connections, interceptors and registries belong to gRPC
  and to the SDK: they are arguments.
\<close>

subsection \<open>Messages as values of an interface\<close>

text \<open>A Go \<open>interface{}\<close> that holds a pointer to one of the service's messages.\<close>

datatype Message =
    M_UpdateParams MsgUpdateParams
  | M_UpdateParamsResponse MsgUpdateParamsResponse
  | M_RegisterAccount "Coin MsgRegisterAccount"
  | M_RegisterAccountResponse MsgRegisterAccountResponse
  | M_QueryParams QueryParamsRequest
  | M_QueryParamsResponse QueryParamsResponse

fun message_name :: "Message \<Rightarrow> string" where
  "message_name (M_UpdateParams m) = ''abstractaccount.v1.MsgUpdateParams''"
| "message_name (M_UpdateParamsResponse m) = ''abstractaccount.v1.MsgUpdateParamsResponse''"
| "message_name (M_RegisterAccount m) = ''abstractaccount.v1.MsgRegisterAccount''"
| "message_name (M_RegisterAccountResponse m) = ''abstractaccount.v1.MsgRegisterAccountResponse''"
| "message_name (M_QueryParams m) = ''abstractaccount.v1.QueryParamsRequest''"
| "message_name (M_QueryParamsResponse m) = ''abstractaccount.v1.QueryParamsResponse''"

subsection \<open>Servers\<close>

record 'w MsgServer =
  srv_UpdateParams :: "MsgUpdateParams \<Rightarrow> ('w ctx, MsgUpdateParamsResponse) act"
  srv_RegisterAccount :: "Coin MsgRegisterAccount \<Rightarrow> ('w ctx, MsgRegisterAccountResponse) act"

record 'w QueryServer =
  srv_Params :: "QueryParamsRequest \<Rightarrow> ('w ctx, QueryParamsResponse) act"

definition NewMsgServerImpl :: "Sdk \<Rightarrow> 'w Keeper \<Rightarrow> 'w MsgServer" where
  "NewMsgServerImpl sdk k = \<lparr>srv_UpdateParams = UpdateParams k, srv_RegisterAccount = RegisterAccount sdk k\<rparr>"

definition NewQueryServerImpl :: "'w Keeper \<Rightarrow> 'w QueryServer" where
  "NewQueryServerImpl k = \<lparr>srv_Params = Query_Params k\<rparr>"

definition UnimplementedMsgServer :: "'w MsgServer" where
  "UnimplementedMsgServer =
     \<lparr>srv_UpdateParams = (\<lambda>req. liftM (Err (External ''method UpdateParams not implemented''))),
      srv_RegisterAccount = (\<lambda>req. liftM (Err (External ''method RegisterAccount not implemented'')))\<rparr>"

definition UnimplementedQueryServer :: "'w QueryServer" where
  "UnimplementedQueryServer =
     \<lparr>srv_Params = (\<lambda>req. liftM (Err (External ''method Params not implemented'')))\<rparr>"

subsection \<open>Handlers of the service descriptors\<close>

text \<open>
  \<open>dec\<close> fills a new message from the wire; an interceptor gets the request, the full
  method name and the handler to call.  The type assertion \<open>req.(*T)\<close> panics on a message
  of another type.
\<close>

record Decoder =
  dec_UpdateParams :: "MsgUpdateParams \<Rightarrow> MsgUpdateParams res"
  dec_RegisterAccount :: "Coin MsgRegisterAccount \<Rightarrow> Coin MsgRegisterAccount res"
  dec_QueryParams :: "QueryParamsRequest \<Rightarrow> QueryParamsRequest res"

type_synonym 'w unary_handler = "Message \<Rightarrow> ('w ctx, Message) act"
type_synonym 'w interceptor = "Message \<Rightarrow> string \<Rightarrow> 'w unary_handler \<Rightarrow> ('w ctx, Message) act"

definition wrong_type :: "('w ctx, Message) act" where
  "wrong_type = liftM (Panic (PanicMsg ''interface conversion''))"

definition Msg_UpdateParams_Handler ::
  "'w MsgServer \<Rightarrow> Decoder \<Rightarrow> 'w interceptor option \<Rightarrow> ('w ctx, Message) act" where
  "Msg_UpdateParams_Handler srv dec interceptor =
     bindM (liftM (dec_UpdateParams dec empty_MsgUpdateParams)) (\<lambda>m.
     case interceptor of
       None \<Rightarrow> bindM (srv_UpdateParams srv m) (\<lambda>r. retM (M_UpdateParamsResponse r))
     | Some i \<Rightarrow> i (M_UpdateParams m) ''/abstractaccount.v1.Msg/UpdateParams'' (\<lambda>req.
         case req of
           M_UpdateParams m' \<Rightarrow> bindM (srv_UpdateParams srv m') (\<lambda>r. retM (M_UpdateParamsResponse r))
         | _ \<Rightarrow> wrong_type))"

definition Msg_RegisterAccount_Handler ::
  "'w MsgServer \<Rightarrow> Decoder \<Rightarrow> 'w interceptor option \<Rightarrow> ('w ctx, Message) act" where
  "Msg_RegisterAccount_Handler srv dec interceptor =
     bindM (liftM (dec_RegisterAccount dec empty_MsgRegisterAccount)) (\<lambda>m.
     case interceptor of
       None \<Rightarrow> bindM (srv_RegisterAccount srv m) (\<lambda>r. retM (M_RegisterAccountResponse r))
     | Some i \<Rightarrow> i (M_RegisterAccount m) ''/abstractaccount.v1.Msg/RegisterAccount'' (\<lambda>req.
         case req of
           M_RegisterAccount m' \<Rightarrow>
             bindM (srv_RegisterAccount srv m') (\<lambda>r. retM (M_RegisterAccountResponse r))
         | _ \<Rightarrow> wrong_type))"

definition Query_Params_Handler ::
  "'w QueryServer \<Rightarrow> Decoder \<Rightarrow> 'w interceptor option \<Rightarrow> ('w ctx, Message) act" where
  "Query_Params_Handler srv dec interceptor =
     bindM (liftM (dec_QueryParams dec QueryParamsRequest)) (\<lambda>m.
     case interceptor of
       None \<Rightarrow> bindM (srv_Params srv m) (\<lambda>r. retM (M_QueryParamsResponse r))
     | Some i \<Rightarrow> i (M_QueryParams m) ''/abstractaccount.v1.Query/Params'' (\<lambda>req.
         case req of
           M_QueryParams m' \<Rightarrow> bindM (srv_Params srv m') (\<lambda>r. retM (M_QueryParamsResponse r))
         | _ \<Rightarrow> wrong_type))"

text \<open>A service descriptor over the type \<open>'v\<close> of its server interface.\<close>

type_synonym ('w, 'v) method_handler =
  "'v \<Rightarrow> Decoder \<Rightarrow> 'w interceptor option \<Rightarrow> ('w ctx, Message) act"

record ('w, 'v) ServiceDesc =
  ServiceName :: string
  Methods :: "(string \<times> ('w, 'v) method_handler) list"
  Metadata :: string

definition Msg_serviceDesc :: "('w, 'w MsgServer) ServiceDesc" where
  "Msg_serviceDesc =
     \<lparr>ServiceName = ''abstractaccount.v1.Msg'',
      Methods = [(''UpdateParams'', Msg_UpdateParams_Handler),
                 (''RegisterAccount'', Msg_RegisterAccount_Handler)],
      Metadata = ''abstractaccount/v1/tx.proto''\<rparr>"

definition Query_serviceDesc :: "('w, 'w QueryServer) ServiceDesc" where
  "Query_serviceDesc =
     \<lparr>ServiceName = ''abstractaccount.v1.Query'',
      Methods = [(''Params'', Query_Params_Handler)],
      Metadata = ''abstractaccount/v1/query.proto''\<rparr>"

text \<open>
  \<open>grpc1.Server\<close>, for a state type \<open>'g\<close> of the server: one registration function per
  server interface.
\<close>

record ('g, 'w) GrpcServer =
  RegisterService_Msg :: "('w, 'w MsgServer) ServiceDesc \<Rightarrow> 'w MsgServer \<Rightarrow> 'g \<Rightarrow> 'g"
  RegisterService_Query :: "('w, 'w QueryServer) ServiceDesc \<Rightarrow> 'w QueryServer \<Rightarrow> 'g \<Rightarrow> 'g"

definition RegisterMsgServer :: "('g, 'w) GrpcServer \<Rightarrow> 'w MsgServer \<Rightarrow> 'g \<Rightarrow> 'g" where
  "RegisterMsgServer s srv = RegisterService_Msg s Msg_serviceDesc srv"

definition RegisterQueryServer :: "('g, 'w) GrpcServer \<Rightarrow> 'w QueryServer \<Rightarrow> 'g \<Rightarrow> 'g" where
  "RegisterQueryServer s srv = RegisterService_Query s Query_serviceDesc srv"

subsection \<open>Clients\<close>

text \<open>
  A connection's \<open>Invoke\<close> sends a request to a full method name and fills the response
  message it is given, which the caller has just made.
\<close>

record 's ClientConn =
  Invoke_UpdateParams :: "string \<Rightarrow> MsgUpdateParams \<Rightarrow> MsgUpdateParamsResponse
    \<Rightarrow> ('s, MsgUpdateParamsResponse) act"
  Invoke_RegisterAccount :: "string \<Rightarrow> Coin MsgRegisterAccount \<Rightarrow> MsgRegisterAccountResponse
    \<Rightarrow> ('s, MsgRegisterAccountResponse) act"
  Invoke_QueryParams :: "string \<Rightarrow> QueryParamsRequest \<Rightarrow> QueryParamsResponse
    \<Rightarrow> ('s, QueryParamsResponse) act"

definition msgClient_UpdateParams ::
  "'s ClientConn \<Rightarrow> MsgUpdateParams \<Rightarrow> ('s, MsgUpdateParamsResponse) act" where
  "msgClient_UpdateParams cc m =
     Invoke_UpdateParams cc ''/abstractaccount.v1.Msg/UpdateParams'' m MsgUpdateParamsResponse"

definition msgClient_RegisterAccount ::
  "'s ClientConn \<Rightarrow> Coin MsgRegisterAccount \<Rightarrow> ('s, MsgRegisterAccountResponse) act" where
  "msgClient_RegisterAccount cc m =
     Invoke_RegisterAccount cc ''/abstractaccount.v1.Msg/RegisterAccount'' m
       empty_MsgRegisterAccountResponse"

definition queryClient_Params ::
  "'s ClientConn \<Rightarrow> QueryParamsRequest \<Rightarrow> ('s, QueryParamsResponse) act" where
  "queryClient_Params cc m =
     Invoke_QueryParams cc ''/abstractaccount.v1.Query/Params'' m empty_QueryParamsResponse"

subsection \<open>Registration of types\<close>

text \<open>An interface registry, by its state type \<open>'r\<close> and the two calls the code makes.\<close>

record ('r, 'w) RegistryOps =
  RegisterImplementations :: "string \<Rightarrow> string list \<Rightarrow> 'r \<Rightarrow> 'r"
  RegisterMsgServiceDesc :: "('w, 'w MsgServer) ServiceDesc \<Rightarrow> 'r \<Rightarrow> 'r"

definition RegisterInterfaces :: "('r, 'w) RegistryOps \<Rightarrow> 'r \<Rightarrow> 'r" where
  "RegisterInterfaces ops r =
     (let r1 = RegisterImplementations ops ''authtypes.AccountI'' [''abstractaccount.v1.AbstractAccount''] r;
          r2 = RegisterImplementations ops ''cryptotypes.PubKey'' [''abstractaccount.v1.NilPubKey''] r1;
          r3 = RegisterImplementations ops ''sdk.Msg'' [''abstractaccount.v1.MsgRegisterAccount''] r2;
          r4 = RegisterImplementations ops ''sdk.Msg'' [''abstractaccount.v1.MsgUpdateParams''] r3
      in RegisterMsgServiceDesc ops Msg_serviceDesc r4)"

text \<open>
  What is relied on: \<open>known iface name r\<close> tells whether the registry resolves \<open>name\<close> as an
  implementation of \<open>iface\<close>; an implementation that was registered is resolved from then
  on.
\<close>

definition registry_ok :: "('r, 'w) RegistryOps \<Rightarrow> (string \<Rightarrow> string \<Rightarrow> 'r \<Rightarrow> bool) \<Rightarrow> bool" where
  "registry_ok ops known \<longleftrightarrow>
     (\<forall>iface names r. (\<forall>n \<in> set names. known iface n (RegisterImplementations ops iface names r))
        \<and> (\<forall>i n. known i n r \<longrightarrow> known i n (RegisterImplementations ops iface names r)))
   \<and> (\<forall>desc r i n. known i n r \<longrightarrow> known i n (RegisterMsgServiceDesc ops desc r))"

lemma registered:
  assumes "registry_ok ops known"
  shows "known ''authtypes.AccountI'' ''abstractaccount.v1.AbstractAccount'' (RegisterInterfaces ops r)"
    and "known ''cryptotypes.PubKey'' ''abstractaccount.v1.NilPubKey'' (RegisterInterfaces ops r)"
    and "known ''sdk.Msg'' ''abstractaccount.v1.MsgRegisterAccount'' (RegisterInterfaces ops r)"
    and "known ''sdk.Msg'' ''abstractaccount.v1.MsgUpdateParams'' (RegisterInterfaces ops r)"
proof -
  have new: "known i n (RegisterImplementations ops i [n] r)" for i n r
    using assms unfolding registry_ok_def by simp
  have old: "known i n r \<Longrightarrow> known i n (RegisterImplementations ops j ns r)" for i n j ns r
    using assms unfolding registry_ok_def by blast
  have desc: "known i n r \<Longrightarrow> known i n (RegisterMsgServiceDesc ops d r)" for i n d r
    using assms unfolding registry_ok_def by blast
  show "known ''authtypes.AccountI'' ''abstractaccount.v1.AbstractAccount'' (RegisterInterfaces ops r)"
    "known ''cryptotypes.PubKey'' ''abstractaccount.v1.NilPubKey'' (RegisterInterfaces ops r)"
    "known ''sdk.Msg'' ''abstractaccount.v1.MsgRegisterAccount'' (RegisterInterfaces ops r)"
    "known ''sdk.Msg'' ''abstractaccount.v1.MsgUpdateParams'' (RegisterInterfaces ops r)"
    unfolding RegisterInterfaces_def Let_def by (rule desc old new | assumption)+
qed

end
