(* ===== verification/Module.thy ===== *)
theory Module
  imports Services Genesis
begin

text \<open>
  The module as the application sees it: \<open>x/abstractaccount/module.go\<close>.  The JSON codec is
  an argument, and so are the values the SDK hands to a module: the configurator with its
  two servers, the interface registry, and (for the entry points that ignore them) the
  routers and codecs, whose state is a type variable.
\<close>

subsection \<open>The JSON codec\<close>

text \<open>
  \<open>UnmarshalJSON\<close> fills a new genesis state; the \<open>Must\<close> variants panic instead of
  returning an error.  A genesis state with parameters survives being written and read.
\<close>

record JSONCodec =
  UnmarshalJSON :: "bytes \<Rightarrow> GenesisState res"
  MustUnmarshalJSON :: "bytes \<Rightarrow> GenesisState res"
  MustMarshalJSON :: "GenesisState \<Rightarrow> bytes res"

definition json_codec_ok :: "JSONCodec \<Rightarrow> bool" where
  "json_codec_ok j \<longleftrightarrow>
     (\<forall>bz. MustUnmarshalJSON j bz = (case UnmarshalJSON j bz of
        Ok gs \<Rightarrow> Ok gs | Err e \<Rightarrow> Panic (PanicError e) | Panic p \<Rightarrow> Panic p))
   \<and> (\<forall>gs p. gs_Params gs = Some p \<and> small_params p \<longrightarrow>
        (\<exists>bz. MustMarshalJSON j gs = Ok bz \<and> UnmarshalJSON j bz = Ok gs))"

lemma json_codec_roundtrip:
  assumes "json_codec_ok j" and "gs_Params gs = Some p" and "small_params p"
  obtains bz where "MustMarshalJSON j gs = Ok bz" and "UnmarshalJSON j bz = Ok gs"
  using assms unfolding json_codec_ok_def by blast

subsection \<open>AppModuleBasic\<close>

datatype AppModuleBasic = AppModuleBasic

definition AppModuleBasic_Name :: "AppModuleBasic \<Rightarrow> string" where
  "AppModuleBasic_Name b = ModuleName"

definition AppModuleBasic_RegisterInterfaces ::
  "AppModuleBasic \<Rightarrow> ('r, 'w) RegistryOps \<Rightarrow> 'r \<Rightarrow> 'r" where
  "AppModuleBasic_RegisterInterfaces b ops registry = RegisterInterfaces ops registry"

definition DefaultGenesis :: "AppModuleBasic \<Rightarrow> JSONCodec \<Rightarrow> bytes res" where
  "DefaultGenesis b j = MustMarshalJSON j DefaultGenesisState"

definition ValidateGenesis :: "AppModuleBasic \<Rightarrow> JSONCodec \<Rightarrow> bytes \<Rightarrow> unit res" where
  "ValidateGenesis b j bz =
     (case UnmarshalJSON j bz of
        Err err \<Rightarrow> Err (ErrWrapped (''failed to unmarshal x/'' @ ModuleName @ '' genesis state: '') err)
      | Panic p \<Rightarrow> Panic p
      | Ok gs \<Rightarrow> GenesisState_Validate gs)"

text \<open>The gateway's multiplexer, the amino codec and the REST router are returned as they are.\<close>

definition RegisterGRPCGatewayRoutes :: "AppModuleBasic \<Rightarrow> 'x \<Rightarrow> 'm \<Rightarrow> 'm" where
  "RegisterGRPCGatewayRoutes b clientCtx mux = mux"

definition AppModuleBasic_RegisterLegacyAminoCodec :: "AppModuleBasic \<Rightarrow> 'm \<Rightarrow> 'm" where
  "AppModuleBasic_RegisterLegacyAminoCodec b amino = amino"

definition RegisterRESTRoutes :: "AppModuleBasic \<Rightarrow> 'x \<Rightarrow> 'm \<Rightarrow> 'm" where
  "RegisterRESTRoutes b clientCtx router = router"

subsection \<open>AppModule\<close>

record 'w AppModule =
  am_basic :: AppModuleBasic
  am_keeper :: "'w Keeper"

definition NewAppModule :: "'w Keeper \<Rightarrow> 'w AppModule" where
  "NewAppModule k = \<lparr>am_basic = AppModuleBasic, am_keeper = k\<rparr>"

definition RegisterInvariants :: "'w AppModule \<Rightarrow> 'i \<Rightarrow> 'i" where
  "RegisterInvariants am ir = ir"

text \<open>The configurator gives access to the server of messages and to the server of queries.\<close>

record ('g, 'w) Configurator =
  cfg_MsgServer :: "('g, 'w) GrpcServer"
  cfg_QueryServer :: "('g, 'w) GrpcServer"

definition RegisterServices :: "Sdk \<Rightarrow> 'w AppModule \<Rightarrow> ('g, 'w) Configurator \<Rightarrow> 'g \<Rightarrow> 'g" where
  "RegisterServices sdk am cfg g =
     (let g1 = RegisterMsgServer (cfg_MsgServer cfg) (NewMsgServerImpl sdk (am_keeper am)) g
      in RegisterQueryServer (cfg_QueryServer cfg) (NewQueryServerImpl (am_keeper am)) g1)"

definition ConsensusVersion :: "'w AppModule \<Rightarrow> u64" where
  "ConsensusVersion am = 1"

definition AppModule_BeginBlock :: "'w AppModule \<Rightarrow> 'q \<Rightarrow> ('w ctx, unit) act" where
  "AppModule_BeginBlock am req = retM ()"

definition AppModule_EndBlock :: "'w AppModule \<Rightarrow> 'q \<Rightarrow> ('w ctx, validator_update list) act" where
  "AppModule_EndBlock am req = retM []"

definition AppModule_InitGenesis ::
  "Sdk \<Rightarrow> (error \<Rightarrow> string) \<Rightarrow> 'w AppModule \<Rightarrow> JSONCodec \<Rightarrow> bytes
     \<Rightarrow> ('w ctx, validator_update list) act" where
  "AppModule_InitGenesis sdk error_text am j data =
     bindM (liftM (MustUnmarshalJSON j data)) (\<lambda>gs.
     case GenesisState_Validate gs of
       Err err \<Rightarrow> liftM (Panic (PanicMsg (''invalid x/'' @ ModuleName @ '' module genesis state: ''
         @ error_text err)))
     | Panic p \<Rightarrow> liftM (Panic p)
     | Ok _ \<Rightarrow> InitGenesis sdk (am_keeper am) gs)"

definition AppModule_ExportGenesis :: "Sdk \<Rightarrow> 'w AppModule \<Rightarrow> JSONCodec \<Rightarrow> ('w ctx, bytes) act" where
  "AppModule_ExportGenesis sdk am j =
     bindM (ExportGenesis sdk (am_keeper am)) (\<lambda>gs. liftM (MustMarshalJSON j gs))"

subsection \<open>How the entry points run\<close>

lemma ValidateGenesis_Ok:
  "ValidateGenesis b j bz = Ok () \<longleftrightarrow>
   (\<exists>gs p. UnmarshalJSON j bz = Ok gs \<and> gs_Params gs = Some p \<and> valid_params p)"
proof -
  have "GenesisState_Validate gs = Ok () \<longleftrightarrow> (\<exists>p. gs_Params gs = Some p \<and> valid_params p)" for gs
    using Validate_Ok_iff
    by (cases "gs_Params gs") (auto simp: GenesisState_Validate_def simp del: Params_Validate.simps(2))
  then show ?thesis
    by (auto simp: ValidateGenesis_def split: res.split)
qed

lemma AppModule_InitGenesis_valid:
  assumes "json_codec_ok j" and "UnmarshalJSON j data = Ok gs" and "GenesisState_Validate gs = Ok ()"
  shows "AppModule_InitGenesis sdk txt am j data = InitGenesis sdk (am_keeper am) gs"
  using assms by (simp add: AppModule_InitGenesis_def json_codec_ok_def monad_simps)

lemma AppModule_InitGenesis_invalid:
  assumes "json_codec_ok j" and "ValidateGenesis b j data \<noteq> Ok ()"
  shows "\<exists>p. AppModule_InitGenesis sdk txt am j data s = (Panic p, s)"
  using assms
  by (cases "UnmarshalJSON j data")
     (auto simp: AppModule_InitGenesis_def ValidateGenesis_def json_codec_ok_def monad_simps
       split: res.split)

end
