(* ===== verification/ModuleSpec.thy ===== *)
theory ModuleSpec
  imports Module Sample
begin

text \<open>
  The properties of the module's entry points and of its services, and the instances on
  which their witnesses are evaluated.
\<close>

subsection \<open>Services\<close>

text \<open>C36: The Msg service is well typed end to end.  Each method \<open>M\<close> of its descriptor
  takes the message \<open>MsgM\<close>, which the module registers as an implementation of \<open>sdk.Msg\<close>,
  and every answer of its handler is an \<open>MsgMResponse\<close>, for every server, decoder and
  interceptor that only calls the handler it is given, with the request it was given; such
  an interceptor changes nothing.\<close>

theorem msg_service_typed:
  assumes "registry_ok ops known" and "(name, handler) \<in> set (Methods Msg_serviceDesc)"
    and "\<And>m full h. i m full h = h m"
  shows "known ''sdk.Msg'' (''abstractaccount.v1.Msg'' @ name) (RegisterInterfaces ops r)
    \<and> handler srv dec (Some i) = handler srv dec None
    \<and> (\<forall>s resp t. handler srv dec None s = (Ok resp, t) \<longrightarrow>
        message_name resp = ''abstractaccount.v1.Msg'' @ name @ ''Response'')"
proof -
  consider "name = ''UpdateParams''" "handler = Msg_UpdateParams_Handler"
    | "name = ''RegisterAccount''" "handler = Msg_RegisterAccount_Handler"
    using assms(2) by (auto simp: Msg_serviceDesc_def)
  then show ?thesis
  proof cases
    case 1
    then show ?thesis
      using registered(4) [OF assms(1)] assms(3)
      by (auto simp: Msg_UpdateParams_Handler_def bindM_Ok_iff retM_def)
  next
    case 2
    then show ?thesis
      using registered(3) [OF assms(1)] assms(3)
      by (auto simp: Msg_RegisterAccount_Handler_def bindM_Ok_iff retM_def)
  qed
qed

definition sample_registry :: "((string \<times> string) list, sample_world) RegistryOps" where
  "sample_registry =
     \<lparr>RegisterImplementations = (\<lambda>iface names r. r @ map (Pair iface) names),
      RegisterMsgServiceDesc = (\<lambda>desc r. r)\<rparr>"

lemma sample_registry_ok: "registry_ok sample_registry (\<lambda>i n r. (i, n) \<in> set r)"
  by (auto simp: registry_ok_def sample_registry_def)

definition sample_decoder :: Decoder where
  "sample_decoder = \<lparr>dec_UpdateParams = Ok, dec_RegisterAccount = Ok, dec_QueryParams = Ok\<rparr>"

theorem msg_service_typed_witness:
  "(''sdk.Msg'', ''abstractaccount.v1.MsgUpdateParams'') \<in> set (RegisterInterfaces sample_registry [])"
  using msg_service_typed [OF sample_registry_ok, of "''UpdateParams''" Msg_UpdateParams_Handler
      "\<lambda>m full h. h m" "[]" "UnimplementedMsgServer :: sample_world MsgServer" sample_decoder]
  by (simp add: Msg_serviceDesc_def)

subsection \<open>Genesis\<close>

definition json_small :: "JSONCodec \<Rightarrow> bytes \<Rightarrow> bool" where
  "json_small j data \<longleftrightarrow> (\<forall>gs p. UnmarshalJSON j data = Ok gs \<and> gs_Params gs = Some p \<longrightarrow> small_params p)"

lemma init_genesis_bytes:
  assumes "json_codec_ok j" and "codec_ok (cdc k)" and "big_endian_ok sdk"
    and "UnmarshalJSON j data = Ok gs" and "gs_Params gs = Some p"
    and "valid_params p" and "small_params p"
  shows "\<exists>t. AppModule_InitGenesis sdk txt (NewAppModule k) j data s = (Ok [], t)
    \<and> abs_state sdk k t = (abs_state sdk k s)\<lparr>st_params := Some p, st_next_id := NextAccountId gs\<rparr>
    \<and> same_outside s t"
proof -
  have v: "GenesisState_Validate gs = Ok ()"
    using assms(5,6) Validate_Ok_iff [of p]
    by (simp add: GenesisState_Validate_def del: Params_Validate.simps)
  have gs: "gs = \<lparr>gs_Params = Some p, NextAccountId = NextAccountId gs\<rparr>" using assms(5) by simp
  show ?thesis
    using InitGenesis_Ok [OF assms(2,3,6,7), of "NextAccountId gs" s]
    by (simp add: AppModule_InitGenesis_valid [OF assms(1,4) v] NewAppModule_def flip: gs)
qed

text \<open>C30: \<open>ValidateGenesis\<close>, which a chain's operators run on a genesis file, agrees with
  \<open>InitGenesis\<close>, which the chain runs: the module starts from given JSON, without validator
  updates, exactly when \<open>ValidateGenesis\<close> accepts it, and otherwise it panics and stores
  nothing.\<close>

theorem validate_genesis_iff_init:
  assumes "json_codec_ok j" and "codec_ok (cdc k)" and "big_endian_ok sdk" and "json_small j data"
  shows "if ValidateGenesis AppModuleBasic j data = Ok ()
    then \<exists>t. AppModule_InitGenesis sdk txt (NewAppModule k) j data s = (Ok [], t)
    else \<exists>p. AppModule_InitGenesis sdk txt (NewAppModule k) j data s = (Panic p, s)"
proof (cases "ValidateGenesis AppModuleBasic j data = Ok ()")
  case True
  then obtain gs p where gs: "UnmarshalJSON j data = Ok gs" "gs_Params gs = Some p" "valid_params p"
    by (auto simp: ValidateGenesis_Ok)
  then have "small_params p" using assms(4) by (auto simp: json_small_def)
  from init_genesis_bytes [OF assms(1,2,3) gs this] True show ?thesis by auto
next
  case False
  then show ?thesis using AppModule_InitGenesis_invalid [OF assms(1) False] by auto
qed

text \<open>C31: Genesis survives the round trip of a chain restart, and the default genesis starts a
  chain.  After the module started from accepted JSON, \<open>ExportGenesis\<close> leaves the state
  alone and returns JSON that reads back as exactly the imported genesis state; and
  \<open>DefaultGenesis\<close> is JSON that \<open>ValidateGenesis\<close> accepts.\<close>

theorem module_genesis_roundtrip:
  assumes "json_codec_ok j" and "codec_ok (cdc k)" and "big_endian_ok sdk" and "json_small j data"
    and "ValidateGenesis AppModuleBasic j data = Ok ()"
  shows "(\<exists>t bz. AppModule_InitGenesis sdk txt (NewAppModule k) j data s = (Ok [], t)
      \<and> AppModule_ExportGenesis sdk (NewAppModule k) j t = (Ok bz, t)
      \<and> UnmarshalJSON j bz = UnmarshalJSON j data)
    \<and> (\<exists>bz. DefaultGenesis AppModuleBasic j = Ok bz \<and> ValidateGenesis AppModuleBasic j bz = Ok ())"
proof
  obtain gs p where gs: "UnmarshalJSON j data = Ok gs" "gs_Params gs = Some p" "valid_params p"
    using assms(5) by (auto simp: ValidateGenesis_Ok)
  have small: "small_params p" using assms(4) gs by (auto simp: json_small_def)
  obtain t where t: "AppModule_InitGenesis sdk txt (NewAppModule k) j data s = (Ok [], t)"
    and abs: "abs_state sdk k t = (abs_state sdk k s)\<lparr>st_params := Some p, st_next_id := NextAccountId gs\<rparr>"
    using init_genesis_bytes [OF assms(1,2,3) gs small] by blast
  obtain bz where bz: "MustMarshalJSON j gs = Ok bz" "UnmarshalJSON j bz = Ok gs"
    using json_codec_roundtrip [OF assms(1) gs(2) small] .
  have "GetParams k t = (Ok p, t)" using abs by (simp add: GetParams_Ok_iff [of k t p t sdk])
  then have "ExportGenesis sdk k t = (Ok gs, t)" using abs gs(2) by (simp add: ExportGenesis_run)
  then have "AppModule_ExportGenesis sdk (NewAppModule k) j t = (Ok bz, t)"
    using bz(1) by (simp add: AppModule_ExportGenesis_def NewAppModule_def monad_simps)
  with t bz(2) gs(1) show "\<exists>t bz. AppModule_InitGenesis sdk txt (NewAppModule k) j data s = (Ok [], t)
      \<and> AppModule_ExportGenesis sdk (NewAppModule k) j t = (Ok bz, t)
      \<and> UnmarshalJSON j bz = UnmarshalJSON j data" by auto
next
  have d: "gs_Params DefaultGenesisState = Some DefaultParams"
    by (simp add: DefaultGenesisState_def NewGenesisState_def)
  obtain bz where "MustMarshalJSON j DefaultGenesisState = Ok bz" "UnmarshalJSON j bz = Ok DefaultGenesisState"
    using json_codec_roundtrip [OF assms(1) d small_DefaultParams] .
  then show "\<exists>bz. DefaultGenesis AppModuleBasic j = Ok bz \<and> ValidateGenesis AppModuleBasic j bz = Ok ()"
    using d valid_DefaultParams by (auto simp: DefaultGenesis_def ValidateGenesis_Ok)
qed

subsection \<open>A sample codec\<close>

text \<open>Any faithful encoding serves as JSON; this one is the protobuf encoding.\<close>

definition sample_json :: JSONCodec where
  "sample_json =
     \<lparr>UnmarshalJSON = (\<lambda>bz. of_error ProtoError (GenesisState_Unmarshal empty_GenesisState bz)),
      MustUnmarshalJSON = (\<lambda>bz. case GenesisState_Unmarshal empty_GenesisState bz of
        Inl e \<Rightarrow> Panic (PanicError (ProtoError e)) | Inr gs \<Rightarrow> Ok gs),
      MustMarshalJSON = (\<lambda>gs. of_panic (GenesisState_Marshal gs))\<rparr>"

lemma small_genesis:
  assumes "gs_Params gs = Some p" and "small_params p"
  shows "length (GenesisState_enc gs) < 2 ^ 63"
proof -
  have p: "length (Params_enc p) < 35 + 10 * 2 ^ 59"
    using assms(2) length_Params_enc_bound by (simp add: small_params_def)
  then have "length (varint (length (Params_enc p))) \<le> 10" by (intro length_varint_le_10) simp
  moreover have "length (enc_varint 0x10 (NextAccountId gs)) \<le> 11"
    using sov_le_10 [of "NextAccountId gs"] by (simp add: length_enc_varint)
  ultimately show ?thesis
    using p assms(1) by (simp add: GenesisState_enc_def enc_message_opt_def enc_message_def)
qed

lemma sample_json_ok: "json_codec_ok sample_json"
  using genesis.marshal [OF small_genesis] genesis.roundtrip [OF _ small_genesis]
  by (auto simp: json_codec_ok_def sample_json_def GenesisState_Marshal_def
      GenesisState_Unmarshal_def split: sum.split)

definition sample_data :: bytes where
  "sample_data = GenesisState_enc DefaultGenesisState"

lemma sample_data_read: "UnmarshalJSON sample_json sample_data = Ok DefaultGenesisState"
  using genesis.roundtrip [OF _ small_genesis, of DefaultGenesisState DefaultParams] small_DefaultParams
  by (simp add: sample_json_def sample_data_def GenesisState_Unmarshal_def DefaultGenesisState_def
      NewGenesisState_def)

lemma sample_data_ok:
  "json_small sample_json sample_data" "ValidateGenesis AppModuleBasic sample_json sample_data = Ok ()"
  using small_DefaultParams valid_DefaultParams
  by (simp_all add: json_small_def ValidateGenesis_Ok sample_data_read DefaultGenesisState_def
      NewGenesisState_def)

theorem validate_genesis_iff_init_witness:
  "\<exists>t. AppModule_InitGenesis sample_sdk (\<lambda>e. []) (NewAppModule sample_keeper) sample_json sample_data
     sample_ctx = (Ok [], t)"
  using validate_genesis_iff_init [OF sample_json_ok sample_keeper_ok(1) big_endian_sample
      sample_data_ok(1), of "\<lambda>e. []" sample_ctx] sample_data_ok(2)
  by simp

theorem module_genesis_roundtrip_witness:
  "\<exists>t bz. AppModule_ExportGenesis sample_sdk (NewAppModule sample_keeper) sample_json t = (Ok bz, t)
     \<and> UnmarshalJSON sample_json bz = Ok DefaultGenesisState"
  using module_genesis_roundtrip [OF sample_json_ok sample_keeper_ok(1) big_endian_sample
      sample_data_ok, of "\<lambda>e. []" sample_ctx] sample_data_read
  by auto

end
