(* ===== verification/SimAppAnte.thy ===== *)
theory SimAppAnte
  imports Ante
begin

text \<open>
  The handlers of the application: \<open>simapp/ante.go\<close>, and the decorator values of
  \<open>x/abstractaccount/ante.go\<close> they are made of.  A decorator is a function of the next
  handler.  The decorators of the SDK and of wasmd, and the two functions that chain
  decorators, are the fields of \<open>AnteLib\<close>; what is relied on about them is stated below
  the definitions.  A Go interface or pointer that the code compares with nil is an
  option.
\<close>

subsection \<open>Types of the SDK\<close>

type_synonym 'w AnteDecorator = "'w AnteHandler \<Rightarrow> 'w AnteHandler"
type_synonym 'w PostDecorator = "'w PostHandler \<Rightarrow> 'w PostHandler"
type_synonym 'w SigGasConsumer = "gas_meter \<Rightarrow> SignatureV2 \<Rightarrow> AuthParams \<Rightarrow> unit res \<times> gas_meter"
type_synonym ExtensionOptionChecker = "Any \<Rightarrow> bool"
type_synonym 'w TxFeeChecker = "'w ctx \<Rightarrow> Tx \<Rightarrow> (Coin list \<times> int) res"
type_synonym 'w FeegrantKeeper =
  "slice \<Rightarrow> slice \<Rightarrow> Coin list \<Rightarrow> SdkMsg list \<Rightarrow> ('w ctx, unit) act"

record SignModeHandler =
  DefaultMode :: int
  Modes :: "int list"
  smh_GetSignBytes :: "int \<Rightarrow> SignerData \<Rightarrow> Tx \<Rightarrow> slice res"

record WasmConfig =
  SimulationGasLimit :: "u64 option"

text \<open>\<open>'b\<close> is the type of bank keepers, which the code only passes on.\<close>

record ('w, 'b) AnteLib =
  NewSetUpContextDecorator :: "'w AnteDecorator"
  NewLimitSimulationGasDecorator :: "u64 option \<Rightarrow> 'w AnteDecorator"
  NewCountTXDecorator :: "string \<Rightarrow> 'w AnteDecorator"
  NewExtensionOptionsDecorator :: "ExtensionOptionChecker option \<Rightarrow> 'w AnteDecorator"
  NewValidateBasicDecorator :: "'w AnteDecorator"
  NewTxTimeoutHeightDecorator :: "'w AnteDecorator"
  NewValidateMemoDecorator :: "'w AccountKeeper \<Rightarrow> 'w AnteDecorator"
  NewConsumeGasForTxSizeDecorator :: "'w AccountKeeper \<Rightarrow> 'w AnteDecorator"
  NewDeductFeeDecorator :: "'w AccountKeeper \<Rightarrow> 'b \<Rightarrow> 'w FeegrantKeeper option
    \<Rightarrow> 'w TxFeeChecker option \<Rightarrow> 'w AnteDecorator"
  NewSetPubKeyDecorator :: "'w AccountKeeper \<Rightarrow> 'w AnteDecorator"
  NewValidateSigCountDecorator :: "'w AccountKeeper \<Rightarrow> 'w AnteDecorator"
  NewSigGasConsumeDecorator :: "'w AccountKeeper \<Rightarrow> 'w SigGasConsumer option \<Rightarrow> 'w AnteDecorator"
  NewIncrementSequenceDecorator :: "'w AccountKeeper \<Rightarrow> 'w AnteDecorator"
  NewSigVerificationDecorator :: "'w AccountKeeper \<Rightarrow> SignModeHandler \<Rightarrow> 'w AnteDecorator"
  lib_GetSignerAcc :: "'w AccountKeeper \<Rightarrow> 'w ctx \<Rightarrow> slice \<Rightarrow> AccountI res"
  lib_DefaultSigVerificationGasConsumer :: "'w SigGasConsumer"
  ChainAnteDecorators :: "'w AnteDecorator list \<Rightarrow> 'w AnteHandler"
  ChainPostDecorators :: "'w PostDecorator list \<Rightarrow> 'w PostHandler"

text \<open>The functions of the SDK the decorators call, for the keeper and handler they hold.\<close>

definition auth_ante :: "('w, 'b) AnteLib \<Rightarrow> 'w AccountKeeper \<Rightarrow> SignModeHandler \<Rightarrow> 'w AuthAnte" where
  "auth_ante lib a h =
     \<lparr>GetSignerAcc = lib_GetSignerAcc lib a,
      DefaultSigVerificationGasConsumer = lib_DefaultSigVerificationGasConsumer lib,
      SigVerificationDecorator = NewSigVerificationDecorator lib a h,
      GetSignBytes = smh_GetSignBytes h\<rparr>"

subsection \<open>The decorators of the module\<close>

record 'w BeforeTxDecorator =
  bt_aak :: "'w Keeper"
  bt_ak :: "'w AccountKeeper"
  bt_signModeHandler :: SignModeHandler

definition NewBeforeTxDecorator ::
  "'w Keeper \<Rightarrow> 'w AccountKeeper \<Rightarrow> SignModeHandler \<Rightarrow> 'w BeforeTxDecorator" where
  "NewBeforeTxDecorator aak a signModeHandler =
     \<lparr>bt_aak = aak, bt_ak = a, bt_signModeHandler = signModeHandler\<rparr>"

definition BeforeTxDecorator_AnteHandle ::
  "Sdk \<Rightarrow> 'w CtxOps \<Rightarrow> ('w, 'b) AnteLib \<Rightarrow> 'w BeforeTxDecorator \<Rightarrow> 'w AnteDecorator" where
  "BeforeTxDecorator_AnteHandle sdk co lib d =
     BeforeTx_AnteHandle sdk co (bt_aak d) (auth_ante lib (bt_ak d) (bt_signModeHandler d))"

record 'w AfterTxDecorator =
  after_aak :: "'w Keeper"

definition NewAfterTxDecorator :: "'w Keeper \<Rightarrow> 'w AfterTxDecorator" where
  "NewAfterTxDecorator aak = \<lparr>after_aak = aak\<rparr>"

definition AfterTxDecorator_PostHandle :: "'w CtxOps \<Rightarrow> 'w AfterTxDecorator \<Rightarrow> 'w PostDecorator" where
  "AfterTxDecorator_PostHandle co d = AfterTx_PostHandle co (after_aak d)"

subsection \<open>NewAnteHandler\<close>

record ('w, 'b) HandlerOptions =
  ho_AccountKeeper :: "'w AccountKeeper option"
  ho_BankKeeper :: "'b option"
  ho_ExtensionOptionChecker :: "ExtensionOptionChecker option"
  ho_FeegrantKeeper :: "'w FeegrantKeeper option"
  ho_SignModeHandler :: "SignModeHandler option"
  ho_SigGasConsumer :: "'w SigGasConsumer option"
  ho_TxFeeChecker :: "'w TxFeeChecker option"

record ('w, 'b) AnteHandlerOptions = "('w, 'b) HandlerOptions" +
  WasmCfg :: "WasmConfig option"
  TXCounterStoreKey :: "string option"
  AbstractAccountKeeper :: "'w Keeper"

text \<open>The slice \<open>anteDecorators\<close>, once the dependencies are known to be there.\<close>

definition ante_decorators ::
  "Sdk \<Rightarrow> 'w CtxOps \<Rightarrow> ('w, 'b) AnteLib \<Rightarrow> ('w, 'b) AnteHandlerOptions \<Rightarrow> 'w AccountKeeper \<Rightarrow> 'b
     \<Rightarrow> WasmConfig \<Rightarrow> SignModeHandler \<Rightarrow> string \<Rightarrow> 'w AnteDecorator list" where
  "ante_decorators sdk co lib options accountKeeper bankKeeper wasmCfg signModeHandler txCounterKey =
     [NewSetUpContextDecorator lib,
      NewLimitSimulationGasDecorator lib (SimulationGasLimit wasmCfg),
      NewCountTXDecorator lib txCounterKey,
      NewExtensionOptionsDecorator lib (ho_ExtensionOptionChecker options),
      NewValidateBasicDecorator lib,
      NewTxTimeoutHeightDecorator lib,
      NewValidateMemoDecorator lib accountKeeper,
      NewConsumeGasForTxSizeDecorator lib accountKeeper,
      NewDeductFeeDecorator lib accountKeeper bankKeeper None (ho_TxFeeChecker options),
      NewSetPubKeyDecorator lib accountKeeper,
      NewValidateSigCountDecorator lib accountKeeper,
      NewSigGasConsumeDecorator lib accountKeeper (ho_SigGasConsumer options),
      BeforeTxDecorator_AnteHandle sdk co lib
        (NewBeforeTxDecorator (AbstractAccountKeeper options) accountKeeper signModeHandler),
      NewIncrementSequenceDecorator lib accountKeeper]"

definition NewAnteHandler ::
  "Sdk \<Rightarrow> 'w CtxOps \<Rightarrow> ('w, 'b) AnteLib \<Rightarrow> ('w, 'b) AnteHandlerOptions \<Rightarrow> 'w AnteHandler res" where
  "NewAnteHandler sdk co lib options =
     (case ho_AccountKeeper options of
        None \<Rightarrow> Err (ErrLogic ''account keeper is required for AnteHandler'')
      | Some accountKeeper \<Rightarrow>
     (case ho_BankKeeper options of
        None \<Rightarrow> Err (ErrLogic ''bank keeper is required for AnteHandler'')
      | Some bankKeeper \<Rightarrow>
     (case WasmCfg options of
        None \<Rightarrow> Err (ErrLogic ''wasm config is required for ante builder'')
      | Some wasmCfg \<Rightarrow>
     (case ho_SignModeHandler options of
        None \<Rightarrow> Err (ErrLogic ''sign mode handler is required for ante builder'')
      | Some signModeHandler \<Rightarrow>
     (case TXCounterStoreKey options of
        None \<Rightarrow> Err (ErrLogic ''tx counter key is required for ante builder'')
      | Some txCounterKey \<Rightarrow>
     Ok (ChainAnteDecorators lib (ante_decorators sdk co lib options accountKeeper bankKeeper
           wasmCfg signModeHandler txCounterKey)))))))"

subsection \<open>NewPostHandler\<close>

record 'w PostHandlerOptions =
  ph_AccountKeeper :: "'w AccountKeeper option"
  ph_AbstractAccountKeeper :: "'w Keeper"

definition NewPostHandler ::
  "'w CtxOps \<Rightarrow> ('w, 'b) AnteLib \<Rightarrow> 'w PostHandlerOptions \<Rightarrow> 'w PostHandler res" where
  "NewPostHandler co lib options =
     (if ph_AccountKeeper options = None
      then Err (ErrLogic ''account keeper is required for AnteHandler'')
      else Ok (ChainPostDecorators lib
        [AfterTxDecorator_PostHandle co (NewAfterTxDecorator (ph_AbstractAccountKeeper options))]))"

subsection \<open>What the code relies on\<close>

text \<open>
  Chaining: each decorator runs with the chain of the ones after it as its next handler,
  and the last one's next handler accepts without touching anything.
\<close>

definition chains_ok :: "('w, 'b) AnteLib \<Rightarrow> bool" where
  "chains_ok lib \<longleftrightarrow>
     (\<forall>d ds tx sim. ChainAnteDecorators lib (d # ds) tx sim =
        d (if ds = [] then \<lambda>tx sim. retM () else ChainAnteDecorators lib ds) tx sim)
   \<and> (\<forall>d ds tx sim success. ChainPostDecorators lib (d # ds) tx sim success =
        d (if ds = [] then \<lambda>tx sim success. retM () else ChainPostDecorators lib ds) tx sim success)"

text \<open>
  A decorator that accepts has handed the transaction on to the next handler, and
  returned what that one returned.  \<open>view\<close> is what of the state the decorator leaves as it
  found it.
\<close>

definition hands_on :: "('w ctx \<Rightarrow> 'v) \<Rightarrow> 'w AnteDecorator \<Rightarrow> bool" where
  "hands_on view d \<longleftrightarrow> (\<forall>nxt tx sim s t. d nxt tx sim s = (Ok (), t) \<longrightarrow>
     (\<exists>s1. view s1 = view s \<and> nxt tx sim s1 = (Ok (), t)))"

lemma hands_onE:
  assumes "hands_on view d" and "d nxt tx sim s = (Ok (), t)"
  obtains s1 where "view s1 = view s" and "nxt tx sim s1 = (Ok (), t)"
  using assms unfolding hands_on_def by blast

fun run_chain :: "'w AnteDecorator list \<Rightarrow> 'w AnteHandler" where
  "run_chain [] = (\<lambda>tx sim. retM ())"
| "run_chain (d # ds) = d (run_chain ds)"

lemma chain_run:
  assumes "chains_ok lib" and "ds \<noteq> []"
  shows "ChainAnteDecorators lib ds = run_chain ds"
  using assms(2)
proof (induction ds)
  case Nil
  then show ?case by simp
next
  case (Cons d ds)
  have "ChainAnteDecorators lib (d # ds) =
      d (if ds = [] then \<lambda>tx sim. retM () else ChainAnteDecorators lib ds)"
    using assms(1) by (intro ext) (simp add: chains_ok_def)
  then show ?case using Cons.IH by (cases "ds = []") simp_all
qed

lemma post_chain_single:
  "chains_ok lib \<Longrightarrow> ChainPostDecorators lib [d] = d (\<lambda>tx sim success. retM ())"
  by (intro ext) (simp add: chains_ok_def)

lemma run_chain_suffix:
  assumes "\<And>d. d \<in> set ds \<Longrightarrow> hands_on view d" and "run_chain (ds @ es) tx sim s = (Ok (), t)"
  obtains s1 where "view s1 = view s" and "run_chain es tx sim s1 = (Ok (), t)"
  using assms
proof (induction ds arbitrary: s thesis)
  case Nil
  then show ?case by simp
next
  case (Cons d ds)
  have "hands_on view d" using Cons.prems(2) by simp
  moreover have "d (run_chain (ds @ es)) tx sim s = (Ok (), t)" using Cons.prems(3) by simp
  ultimately obtain s1 where s1: "view s1 = view s" "run_chain (ds @ es) tx sim s1 = (Ok (), t)"
    by (rule hands_onE)
  show ?case
    by (rule Cons.IH [OF _ _ s1(2)]) (use Cons.prems(1,2) s1(1) in auto)
qed

lemma NewAnteHandler_Ok:
  "NewAnteHandler sdk co lib options = Ok h \<longleftrightarrow>
   (\<exists>a b w m key. ho_AccountKeeper options = Some a \<and> ho_BankKeeper options = Some b
      \<and> WasmCfg options = Some w \<and> ho_SignModeHandler options = Some m
      \<and> TXCounterStoreKey options = Some key
      \<and> h = ChainAnteDecorators lib (ante_decorators sdk co lib options a b w m key))"
  by (auto simp: NewAnteHandler_def split: option.splits)

lemma NewPostHandler_Ok:
  "NewPostHandler co lib options = Ok h \<longleftrightarrow>
   ph_AccountKeeper options \<noteq> None \<and> h = ChainPostDecorators lib
      [AfterTxDecorator_PostHandle co (NewAfterTxDecorator (ph_AbstractAccountKeeper options))]"
  by (auto simp: NewPostHandler_def)

text \<open>
  The decorators before the module's own are the first twelve; the one after it runs last.
\<close>

lemma ante_decorators_split:
  "ante_decorators sdk co lib options a b w m key =
    take 12 (ante_decorators sdk co lib options a b w m key)
    @ [BeforeTxDecorator_AnteHandle sdk co lib
        (NewBeforeTxDecorator (AbstractAccountKeeper options) a m),
       NewIncrementSequenceDecorator lib a]"
  by (simp add: ante_decorators_def)

end
