(* ===== verification/SimAppSpec.thy ===== *)
theory SimAppSpec
  imports SimAppAnte AnteSpec
begin

text \<open>
  The properties of the handlers the application installs, and the instance of the SDK's
  decorators on which their witnesses are evaluated.
\<close>

subsection \<open>A sample of the SDK's decorators\<close>

definition pass_all :: "'w AnteDecorator" where
  "pass_all = (\<lambda>nxt tx sim s. nxt tx sim s)"

fun run_post :: "'w PostDecorator list \<Rightarrow> 'w PostHandler" where
  "run_post [] = (\<lambda>tx sim success. retM ())"
| "run_post (d # ds) = d (run_post ds)"

definition sample_ante_lib :: "(sample_world, unit) AnteLib" where
  "sample_ante_lib =
     \<lparr>NewSetUpContextDecorator = (\<lambda>nxt tx sim s. nxt tx sim (s\<lparr>meter := NewGasMeter 1000\<rparr>)),
      NewLimitSimulationGasDecorator = (\<lambda>limit. pass_all),
      NewCountTXDecorator = (\<lambda>key. pass_all),
      NewExtensionOptionsDecorator = (\<lambda>checker. pass_all),
      NewValidateBasicDecorator = pass_all,
      NewTxTimeoutHeightDecorator = pass_all,
      NewValidateMemoDecorator = (\<lambda>a. pass_all),
      NewConsumeGasForTxSizeDecorator = (\<lambda>a. pass_all),
      NewDeductFeeDecorator = (\<lambda>a b g f. pass_all),
      NewSetPubKeyDecorator = (\<lambda>a. pass_all),
      NewValidateSigCountDecorator = (\<lambda>a. pass_all),
      NewSigGasConsumeDecorator = (\<lambda>a g. pass_all),
      NewIncrementSequenceDecorator = (\<lambda>a. pass_all),
      NewSigVerificationDecorator = (\<lambda>a h. SigVerificationDecorator sample_aa),
      lib_GetSignerAcc = (\<lambda>a. GetSignerAcc sample_aa),
      lib_DefaultSigVerificationGasConsumer = DefaultSigVerificationGasConsumer sample_aa,
      ChainAnteDecorators = run_chain,
      ChainPostDecorators = run_post\<rparr>"

definition sample_modes :: SignModeHandler where
  "sample_modes = \<lparr>DefaultMode = 1, Modes = [1], smh_GetSignBytes = GetSignBytes sample_aa\<rparr>"

lemma sample_auth_ante: "auth_ante sample_ante_lib a sample_modes = sample_aa"
  by (simp add: auth_ante_def sample_ante_lib_def sample_modes_def sample_aa_def)

lemma run_chain_Nil_eq: "(if ds = [] then \<lambda>tx sim. retM () else run_chain ds) = run_chain ds"
  by simp

lemma run_post_Nil_eq: "(if ds = [] then \<lambda>tx sim success. retM () else run_post ds) = run_post ds"
  by simp

lemma sample_chains_ok: "chains_ok sample_ante_lib"
  by (simp only: chains_ok_def sample_ante_lib_def AnteLib.select_convs run_chain_Nil_eq
      run_post_Nil_eq run_chain.simps run_post.simps simp_thms)

lemma hands_on_pass_all: "hands_on view pass_all"
  unfolding hands_on_def pass_all_def by blast

definition sample_options :: "(sample_world, unit) AnteHandlerOptions" where
  "sample_options =
     \<lparr>ho_AccountKeeper = Some sample_ak, ho_BankKeeper = Some (), ho_ExtensionOptionChecker = None,
      ho_FeegrantKeeper = None, ho_SignModeHandler = Some sample_modes,
      ho_SigGasConsumer = Some (SigVerificationGasConsumer sample_aa), ho_TxFeeChecker = None,
      WasmCfg = Some \<lparr>SimulationGasLimit = None\<rparr>, TXCounterStoreKey = Some ''wasm'',
      AbstractAccountKeeper = sample_keeper\<rparr>"

subsection \<open>Construction\<close>

text \<open>\<open>NewAnteHandler\<close> returns a handler exactly when the five dependencies it checks are
  present; a missing one is reported by the text of the first check that fails, whatever
  else is in the options.\<close>

theorem new_ante_handler_errors:
  "(case NewAnteHandler sdk co lib options of
      Err e \<Rightarrow> e = ErrLogic
        (if ho_AccountKeeper options = None then ''account keeper is required for AnteHandler''
         else if ho_BankKeeper options = None then ''bank keeper is required for AnteHandler''
         else if WasmCfg options = None then ''wasm config is required for ante builder''
         else if ho_SignModeHandler options = None then ''sign mode handler is required for ante builder''
         else ''tx counter key is required for ante builder'')
    | Ok h \<Rightarrow> ho_AccountKeeper options \<noteq> None \<and> ho_BankKeeper options \<noteq> None
        \<and> WasmCfg options \<noteq> None \<and> ho_SignModeHandler options \<noteq> None
        \<and> TXCounterStoreKey options \<noteq> None
    | Panic p \<Rightarrow> False)"
  by (auto simp: NewAnteHandler_def split: option.split)

subsection \<open>The gate\<close>

text \<open>
  What the decorators in front must leave alone: how the transaction is classified, the
  module's parameters and the chain id.
\<close>

definition gate_view ::
  "Sdk \<Rightarrow> 'w Keeper \<Rightarrow> 'w AuthAnte \<Rightarrow> Tx \<Rightarrow> 'w ctx
     \<Rightarrow> (AbstractAccount \<times> SignatureV2) option res \<times> Params option \<times> string" where
  "gate_view sdk k aa tx s = (IsAbstractAccountTx aa s tx, st_params (abs_state sdk k s), chain_id s)"

text \<open>The twelve decorators in front of the module's own only hand transactions on.\<close>

definition front_hands_on ::
  "Sdk \<Rightarrow> 'w CtxOps \<Rightarrow> ('w, 'b) AnteLib \<Rightarrow> ('w, 'b) AnteHandlerOptions \<Rightarrow> 'w AccountKeeper
     \<Rightarrow> SignModeHandler \<Rightarrow> Tx \<Rightarrow> bool" where
  "front_hands_on sdk co lib options a m tx \<longleftrightarrow>
     (\<forall>b w key. \<forall>d \<in> set (take 12 (ante_decorators sdk co lib options a b w m key)).
        hands_on (gate_view sdk (AbstractAccountKeeper options) (auth_ante lib a m) tx) d)"

text \<open>
  They may be known to leave more of the state alone than that: \<open>view\<close> is any part of it,
  the state of the contracts for one.
\<close>

definition front_keeps ::
  "Sdk \<Rightarrow> 'w CtxOps \<Rightarrow> ('w, 'b) AnteLib \<Rightarrow> ('w, 'b) AnteHandlerOptions \<Rightarrow> 'w AccountKeeper
     \<Rightarrow> SignModeHandler \<Rightarrow> ('w ctx \<Rightarrow> 'v) \<Rightarrow> Tx \<Rightarrow> bool" where
  "front_keeps sdk co lib options a m view tx \<longleftrightarrow>
     (\<forall>b w key. \<forall>d \<in> set (take 12 (ante_decorators sdk co lib options a b w m key)).
        hands_on (\<lambda>s. (gate_view sdk (AbstractAccountKeeper options) (auth_ante lib a m) tx s, view s)) d)"

lemma front_keeps_nothing: "front_keeps sdk co lib options a m (\<lambda>s. ()) tx = front_hands_on sdk co lib options a m tx"
  by (simp add: front_keeps_def front_hands_on_def hands_on_def)

lemma ante_handler_reaches_view:
  assumes "chains_ok lib" and "NewAnteHandler sdk co lib options = Ok h"
    and "ho_AccountKeeper options = Some a" and "ho_SignModeHandler options = Some m"
    and "\<And>b w key d. d \<in> set (take 12 (ante_decorators sdk co lib options a b w m key)) \<Longrightarrow> hands_on view d"
    and "h tx sim s = (Ok (), t)"
  obtains s0 where "view s0 = view s"
    and "BeforeTx_AnteHandle sdk co (AbstractAccountKeeper options) (auth_ante lib a m)
      (NewIncrementSequenceDecorator lib a (\<lambda>tx sim. retM ())) tx sim s0 = (Ok (), t)"
proof -
  let ?k = "AbstractAccountKeeper options"
  obtain b w key where h: "h = ChainAnteDecorators lib (ante_decorators sdk co lib options a b w m key)"
    using assms(2-4) by (auto simp: NewAnteHandler_Ok)
  let ?ds = "ante_decorators sdk co lib options a b w m key"
  let ?es = "[BeforeTxDecorator_AnteHandle sdk co lib (NewBeforeTxDecorator ?k a m),
    NewIncrementSequenceDecorator lib a]"
  have "?ds \<noteq> []" by (simp add: ante_decorators_def)
  then have "h = run_chain (take 12 ?ds @ ?es)"
    unfolding h ante_decorators_split [symmetric] by (rule chain_run [OF assms(1)])
  with assms(6) have run: "run_chain (take 12 ?ds @ ?es) tx sim s = (Ok (), t)" by simp
  obtain s0 where "view s0 = view s" and "run_chain ?es tx sim s0 = (Ok (), t)"
    using run_chain_suffix [where view = view, OF assms(5) run] .
  then show thesis
    by (intro that) (simp_all add: BeforeTxDecorator_AnteHandle_def NewBeforeTxDecorator_def)
qed

lemma ante_handler_reaches:
  assumes "chains_ok lib" and "NewAnteHandler sdk co lib options = Ok h"
    and "ho_AccountKeeper options = Some a" and "ho_SignModeHandler options = Some m"
    and "front_hands_on sdk co lib options a m tx" and "h tx sim s = (Ok (), t)"
  obtains s0 where "gate_view sdk (AbstractAccountKeeper options) (auth_ante lib a m) tx s0
      = gate_view sdk (AbstractAccountKeeper options) (auth_ante lib a m) tx s"
    and "BeforeTx_AnteHandle sdk co (AbstractAccountKeeper options) (auth_ante lib a m)
      (NewIncrementSequenceDecorator lib a (\<lambda>tx sim. retM ())) tx sim s0 = (Ok (), t)"
  using ante_handler_reaches_view [OF assms(1-4) _ assms(6),
      where view = "gate_view sdk (AbstractAccountKeeper options) (auth_ante lib a m) tx"]
    assms(5) unfolding front_hands_on_def by blast

lemma ante_gate:
  assumes "chains_ok lib" and "NewAnteHandler sdk co lib options = Ok h"
    and "ho_AccountKeeper options = Some a" and "ho_SignModeHandler options = Some m"
    and "front_keeps sdk co lib options a m view tx"
    and "IsAbstractAccountTx (auth_ante lib a m) s tx = Ok (Some (acc, sig))"
    and "h tx sim s = (Ok (), t)" and "k = AbstractAccountKeeper options"
  shows "\<exists>addr s0 s1 anys mode signBytes cred p s2.
      gate_view sdk k (auth_ante lib a m) tx s0 = gate_view sdk k (auth_ante lib a m) tx s
    \<and> view s0 = view s
    \<and> GetAddress sdk acc = Some addr \<and> sig_Sequence sig = Sequence acc
    \<and> abs_state sdk k s1 = (abs_state sdk k s0)\<lparr>st_signer := Some addr\<rparr> \<and> same_outside s0 s1
    \<and> list_all2 (\<lambda>m a. NewAnyFromProtoMsg m = Ok a) (GetMsgs tx) anys
    \<and> sig_Data sig = SingleSignatureData mode cred
    \<and> smh_GetSignBytes m mode \<lparr>sd_Address = AccAddress_String sdk (Some addr),
        sd_ChainID = chain_id s, sd_AccountNumber = AccountNumber acc,
        sd_Sequence = Sequence acc, sd_PubKey = Some (NilPK \<lparr>AddressBytes = Some addr\<rparr>)\<rparr> tx
        = Ok signBytes
    \<and> st_params (abs_state sdk k s) = Some p
    \<and> sudoWithGasLimit co (ck k) (Some addr)
        (before_tx_msg anys signBytes cred sim) (MaxGasBefore p) s1 = (Ok (), s2)
    \<and> NewIncrementSequenceDecorator lib a (\<lambda>tx sim. retM ()) tx sim s2 = (Ok (), t)"
proof -
  let ?aa = "auth_ante lib a m"
  have front: "hands_on (\<lambda>s. (gate_view sdk k ?aa tx s, view s)) d"
    if "d \<in> set (take 12 (ante_decorators sdk co lib options a b w m key))" for b w key d
    using assms(5) that unfolding front_keeps_def assms(8) by blast
  obtain s0 where v: "(gate_view sdk k ?aa tx s0, view s0) = (gate_view sdk k ?aa tx s, view s)"
    and run: "BeforeTx_AnteHandle sdk co k ?aa
      (NewIncrementSequenceDecorator lib a (\<lambda>tx sim. retM ())) tx sim s0 = (Ok (), t)"
    using ante_handler_reaches_view [OF assms(1-4) front assms(7), folded assms(8)] .
  have aa: "IsAbstractAccountTx ?aa s0 tx = Ok (Some (acc, sig))"
    and p: "st_params (abs_state sdk k s0) = st_params (abs_state sdk k s)"
    and c: "chain_id s0 = chain_id s"
    using v assms(6) by (simp_all add: gate_view_def)
  have g: "GetSignBytes ?aa = smh_GetSignBytes m" by (simp add: auth_ante_def)
  from BeforeTx_gate [OF aa run] v show ?thesis
    unfolding p c g by blast
qed

lemma sample_front:
  assumes "\<And>s g. view (s\<lparr>meter := g\<rparr>) = view s"
    and "d \<in> set (take 12 (ante_decorators sample_sdk sample_co sample_ante_lib sample_options a b w m key))"
  shows "hands_on view d"
proof -
  have "hands_on view (\<lambda>nxt tx sim s. nxt tx sim (s\<lparr>meter := g\<rparr>))" for g
    unfolding hands_on_def by (intro allI impI exI conjI) (auto simp: assms(1))
  then show ?thesis
    using assms(2) by (auto simp: ante_decorators_def sample_ante_lib_def hands_on_pass_all)
qed

lemma sample_view: "gate_view sample_sdk k sample_aa tx (s\<lparr>meter := g\<rparr>) = gate_view sample_sdk k sample_aa tx s"
  by (simp add: gate_view_def abs_state_def store_Get_def sample_meter)

lemma sample_front_hands_on:
  "front_hands_on sample_sdk sample_co sample_ante_lib sample_options sample_ak sample_modes tx"
  unfolding front_hands_on_def sample_auth_ante using sample_front by (blast intro: sample_view)

lemma sample_front_keeps:
  "front_keeps sample_sdk sample_co sample_ante_lib sample_options sample_ak sample_modes world tx"
  unfolding front_keeps_def sample_auth_ante using sample_front
  by (intro allI ballI) (rule sample_front, simp_all add: sample_view)

lemma sample_ante_handler:
  "NewAnteHandler sample_sdk sample_co sample_ante_lib sample_options =
    Ok (\<lambda>tx sim s. BeforeTx_AnteHandle sample_sdk sample_co sample_keeper sample_aa
      (\<lambda>tx sim. retM ()) tx sim (s\<lparr>meter := NewGasMeter 1000\<rparr>))"
  by (simp add: NewAnteHandler_def sample_options_def ante_decorators_def
      BeforeTxDecorator_AnteHandle_def NewBeforeTxDecorator_def sample_auth_ante)
     (simp add: sample_ante_lib_def pass_all_def)

end
