(* ===== verification/Lifecycle.thy ===== *)
theory Lifecycle
  imports SimAppAnte Module
begin

text \<open>
  A chain that runs the module: genesis, then transactions through the handlers of
  \<open>simapp/ante.go\<close>, and whatever else happens to the rest of the state.  The order of the
  calls is the one BaseApp documents: the ante handler runs first and its state is kept if
  it accepts, whatever comes after; then the messages run; if none fails, the post handler
  runs on the state they left; if it accepts, that state is kept, and otherwise only the
  state of the ante handler is.  A transaction that is refused changes nothing.
\<close>

subsection \<open>Messages of a transaction\<close>

text \<open>
  Where a message is routed to: the message server of the module, with the request the
  message carries, or another module, which is any computation.
\<close>

datatype 'w item =
    Update MsgUpdateParams
  | Register "Coin MsgRegisterAccount"
  | Foreign "('w ctx, unit) act"

text \<open>The messages run in order; the first that fails ends the transaction.\<close>

fun run_item :: "Sdk \<Rightarrow> 'w Keeper \<Rightarrow> 'w item \<Rightarrow> ('w ctx, unit) act" where
  "run_item sdk k (Update m) = bindM (UpdateParams k m) (\<lambda>_. retM ())"
| "run_item sdk k (Register m) = bindM (RegisterAccount sdk k m) (\<lambda>_. retM ())"
| "run_item sdk k (Foreign a) = a"

fun run_items :: "Sdk \<Rightarrow> 'w Keeper \<Rightarrow> 'w item list \<Rightarrow> ('w ctx, unit) act" where
  "run_items sdk k [] = retM ()"
| "run_items sdk k (it # its) = bindM (run_item sdk k it) (\<lambda>_. run_items sdk k its)"

text \<open>The messages of a transaction, each as the router \<open>route\<close> resolves it.\<close>

definition run_msgs :: "Sdk \<Rightarrow> 'w Keeper \<Rightarrow> (SdkMsg \<Rightarrow> 'w item) \<Rightarrow> Tx \<Rightarrow> ('w ctx, unit) act" where
  "run_msgs sdk k route tx = run_items sdk k (map route (GetMsgs tx))"

subsection \<open>Steps\<close>

datatype outcome = Refused | Failed | PostFailed | Done | Elsewhere

text \<open>One transaction goes through all three: its messages are the ones that run.\<close>

inductive deliver ::
  "Sdk \<Rightarrow> 'w Keeper \<Rightarrow> 'w AnteHandler \<Rightarrow> 'w PostHandler \<Rightarrow> (SdkMsg \<Rightarrow> 'w item)
     \<Rightarrow> 'w ctx \<Rightarrow> outcome \<Rightarrow> 'w ctx \<Rightarrow> bool"
  for sdk k ante post route where
  refused: "ante tx False s = (r, s1) \<Longrightarrow> \<not> is_Ok r \<Longrightarrow> deliver sdk k ante post route s Refused s"
| failed: "ante tx False s = (Ok (), s1) \<Longrightarrow> run_msgs sdk k route tx s1 = (r, s2) \<Longrightarrow>
    \<not> is_Ok r \<Longrightarrow> deliver sdk k ante post route s Failed s1"
| post_failed: "ante tx False s = (Ok (), s1) \<Longrightarrow> run_msgs sdk k route tx s1 = (Ok (), s2) \<Longrightarrow>
    post tx False True s2 = (r, s3) \<Longrightarrow> \<not> is_Ok r \<Longrightarrow>
    deliver sdk k ante post route s PostFailed s1"
| accepted: "ante tx False s = (Ok (), s1) \<Longrightarrow> run_msgs sdk k route tx s1 = (Ok (), s2) \<Longrightarrow>
    post tx False True s2 = (Ok (), s3) \<Longrightarrow> deliver sdk k ante post route s Done s3"
| elsewhere: "module_store t = module_store s \<Longrightarrow> deliver sdk k ante post route s Elsewhere t"

inductive_cases deliver_Done: "deliver sdk k ante post route s Done t"
inductive_simps deliver_Refused: "deliver sdk k ante post route s Refused t"

text \<open>A run, with the outcomes of its steps, in order.\<close>

inductive run ::
  "Sdk \<Rightarrow> 'w Keeper \<Rightarrow> 'w AnteHandler \<Rightarrow> 'w PostHandler \<Rightarrow> (SdkMsg \<Rightarrow> 'w item)
     \<Rightarrow> 'w ctx \<Rightarrow> outcome list \<Rightarrow> 'w ctx \<Rightarrow> bool"
  for sdk k ante post route where
  start: "run sdk k ante post route s [] s"
| step: "run sdk k ante post route s os t \<Longrightarrow> deliver sdk k ante post route t out u \<Longrightarrow>
    run sdk k ante post route s (os @ [out]) u"

subsection \<open>Invariants of a run\<close>

lemma keeps_run_items: "(\<And>it. it \<in> set its \<Longrightarrow> keeps P (run_item sdk k it)) \<Longrightarrow> keeps P (run_items sdk k its)"
  by (induction its) (auto intro!: keeps_bindM)

lemma keeps_run_msgs: "(\<And>m. keeps P (run_item sdk k (route m))) \<Longrightarrow> keeps P (run_msgs sdk k route tx)"
  unfolding run_msgs_def by (intro keeps_run_items) auto

lemma deliver_keeps:
  assumes "deliver sdk k ante post route s out t" and "P s" and "store_pred P"
    and "\<And>tx. keeps P (ante tx False)" and "\<And>tx. keeps P (post tx False True)"
    and "\<And>m. keeps P (run_item sdk k (route m))"
  shows "P t"
  using assms(1)
proof (cases rule: deliver.cases)
  case (refused tx r s1)
  then show ?thesis using assms(2) by simp
next
  case (failed tx r s2)
  then show ?thesis using assms(2,4) by (auto dest: keepsD)
next
  case (post_failed tx s2 r s3)
  then show ?thesis using assms(2,4) by (auto dest: keepsD)
next
  case (accepted tx s1 s2)
  have "P s1" using accepted assms(2,4) by (auto dest: keepsD)
  moreover have "keeps P (run_msgs sdk k route tx)" by (intro keeps_run_msgs assms(6))
  ultimately have "P s2" using accepted by (blast dest: keepsD)
  then show ?thesis using accepted assms(5) by (auto dest: keepsD)
next
  case elsewhere
  then show ?thesis using assms(2,3) unfolding store_pred_def by metis
qed

lemma run_keeps:
  assumes "run sdk k ante post route s os t" and "P s" and "store_pred P"
    and "\<And>tx. keeps P (ante tx False)" and "\<And>tx. keeps P (post tx False True)"
    and "\<And>m. keeps P (run_item sdk k (route m))"
  shows "P t"
  using assms(1,2)
proof (induction rule: run.induct)
  case (start s)
  then show ?case by simp
next
  case (step s os t out u)
  have "P t" using step by blast
  then show ?case by (rule deliver_keeps [OF step.hyps(2) _ assms(3-6)])
qed

subsection \<open>The handlers of the application\<close>

text \<open>A decorator that keeps a predicate of the state if the next handler does.\<close>

definition ante_keeps :: "('w ctx \<Rightarrow> bool) \<Rightarrow> 'w AnteDecorator \<Rightarrow> bool" where
  "ante_keeps P d \<longleftrightarrow>
     (\<forall>nxt. (\<forall>tx sim. keeps P (nxt tx sim)) \<longrightarrow> (\<forall>tx sim. keeps P (d nxt tx sim)))"

lemma run_chain_keeps:
  "(\<And>d. d \<in> set ds \<Longrightarrow> ante_keeps P d) \<Longrightarrow> keeps P (run_chain ds tx sim)"
  by (induction ds arbitrary: tx sim) (auto simp: ante_keeps_def)

text \<open>The predicates that taking note of a signer does not break.\<close>

lemma ante_keeps_BeforeTx:
  assumes "ctx_ops_ok co" and "contracts_keep P (ck k)" and "store_pred P"
    and "\<And>v. keeps P (store_Set KeySignerAddress v)"
    and "ante_keeps P (SigVerificationDecorator aa)"
  shows "ante_keeps P (BeforeTx_AnteHandle sdk co k aa)"
  unfolding ante_keeps_def BeforeTx_AnteHandle_def ContractKeeper_def SetSignerAddress_def
proof (intro allI impI keeps_bindM keeps_pure, goal_cases)
  case (1 nxt tx sim aaTx)
  have svd: "keeps P (SigVerificationDecorator aa nxt tx sim)"
    using assms(5) 1 unfolding ante_keeps_def by blast
  show ?case
    using 1 assms(4) svd
    by (auto split: option.split prod.split intro!: keeps_bindM keeps_pure keeps_GetParams
        keeps_sudo [OF assms(1-3)])
qed

text \<open>All decorators but the module's own keep \<open>P\<close>: a condition on the SDK's decorators.\<close>

definition lib_keeps :: "('w ctx \<Rightarrow> bool) \<Rightarrow> ('w, 'b) AnteLib \<Rightarrow> bool" where
  "lib_keeps P lib \<longleftrightarrow>
     ante_keeps P (NewSetUpContextDecorator lib) \<and> ante_keeps P (NewValidateBasicDecorator lib)
   \<and> ante_keeps P (NewTxTimeoutHeightDecorator lib)
   \<and> (\<forall>x. ante_keeps P (NewLimitSimulationGasDecorator lib x))
   \<and> (\<forall>x. ante_keeps P (NewCountTXDecorator lib x))
   \<and> (\<forall>x. ante_keeps P (NewExtensionOptionsDecorator lib x))
   \<and> (\<forall>a. ante_keeps P (NewValidateMemoDecorator lib a)
        \<and> ante_keeps P (NewConsumeGasForTxSizeDecorator lib a)
        \<and> ante_keeps P (NewSetPubKeyDecorator lib a) \<and> ante_keeps P (NewValidateSigCountDecorator lib a)
        \<and> ante_keeps P (NewIncrementSequenceDecorator lib a)
        \<and> (\<forall>b g f. ante_keeps P (NewDeductFeeDecorator lib a b g f))
        \<and> (\<forall>g. ante_keeps P (NewSigGasConsumeDecorator lib a g))
        \<and> (\<forall>m. ante_keeps P (NewSigVerificationDecorator lib a m)))"

lemma NewAnteHandler_keeps:
  assumes "chains_ok lib" and "NewAnteHandler sdk co lib options = Ok ante"
    and "ctx_ops_ok co" and "contracts_keep P (ck (AbstractAccountKeeper options))" and "store_pred P"
    and "\<And>v. keeps P (store_Set KeySignerAddress v)" and "lib_keeps P lib"
  shows "keeps P (ante tx sim)"
proof -
  obtain a b w m key where ante: "ante = ChainAnteDecorators lib (ante_decorators sdk co lib options a b w m key)"
    using assms(2) by (auto simp: NewAnteHandler_Ok)
  let ?ds = "ante_decorators sdk co lib options a b w m key"
  have "ante_keeps P (SigVerificationDecorator (auth_ante lib a m))"
    using assms(7) by (simp add: auth_ante_def lib_keeps_def)
  then have "ante_keeps P (BeforeTxDecorator_AnteHandle sdk co lib
      (NewBeforeTxDecorator (AbstractAccountKeeper options) a m))"
    unfolding BeforeTxDecorator_AnteHandle_def NewBeforeTxDecorator_def
    using ante_keeps_BeforeTx [OF assms(3-6)] by simp
  then have "ante_keeps P d" if "d \<in> set ?ds" for d
    using that assms(7) unfolding ante_decorators_def lib_keeps_def by auto
  moreover have "?ds \<noteq> []" by (simp add: ante_decorators_def)
  ultimately show ?thesis
    unfolding ante chain_run [OF assms(1) \<open>?ds \<noteq> []\<close>] by (intro run_chain_keeps)
qed

lemma NewPostHandler_run:
  assumes "chains_ok lib" and "NewPostHandler co lib options = Ok post"
  shows "post = AfterTx_PostHandle co (ph_AbstractAccountKeeper options) (\<lambda>tx sim success. retM ())"
  using assms
  by (auto simp: NewPostHandler_Ok post_chain_single AfterTxDecorator_PostHandle_def NewAfterTxDecorator_def)

lemma AfterTx_keeps:
  assumes "ctx_ops_ok co" and "contracts_keep P (ck k)" and "store_pred P"
    and "keeps P (store_Delete KeySignerAddress)" and "\<And>tx sim success. keeps P (nxt tx sim success)"
  shows "keeps P (AfterTx_PostHandle co k nxt tx sim success)"
  unfolding AfterTx_PostHandle_def GetSignerAddress_def DeleteSignerAddress_def ContractKeeper_def
  using assms(4,5)
  by (auto intro!: keeps_bindM keeps_readM keeps_GetParams keeps_liftM keeps_sudo [OF assms(1-3)])

end
