(* ===== verification/LifecycleSpec.thy ===== *)
theory LifecycleSpec
  imports Lifecycle SimAppSpec MsgServerSpec ModuleSpec
begin

text \<open>
  Properties of whole runs of a chain: what holds in every state it can reach, and what
  the transactions it accepts have in common.
\<close>

subsection \<open>Predicates of one store key\<close>

definition on_key :: "bytes \<Rightarrow> (slice \<Rightarrow> bool) \<Rightarrow> 'w ctx \<Rightarrow> bool" where
  "on_key key Q s \<longleftrightarrow> Q (store_Get key s)"

lemma store_pred_on_key [simp]: "store_pred (on_key key Q)"
  by (simp add: store_pred_def on_key_def store_Get_def)

lemma on_key_rest [simp]:
  "on_key key Q (s\<lparr>world := w\<rparr>) = on_key key Q s"
  "on_key key Q (s\<lparr>events := e\<rparr>) = on_key key Q s"
  by (simp_all add: on_key_def store_Get_def)

lemma keeps_on_other_key:
  assumes "key' \<noteq> key"
  shows "keeps (on_key key Q) (store_Set key' v)" and "keeps (on_key key Q) (store_Delete key')"
  using store.other_after_set [of key' v _ _ _ key] store.other_after_delete [of key' _ _ _ key] assms
  unfolding keeps_def on_key_def by (metis prod.collapse)+

lemma keeps_Register_on_key:
  assumes "contracts_keep (on_key key Q) (ck k)" and "key \<noteq> KeyNextAccountID"
  shows "keeps (on_key key Q) (RegisterAccount sdk k m)"
  using assms(2) by (intro keeps_RegisterAccount [OF assms(1)] keeps_on_other_key) auto

text \<open>Parameters are stored, can be read, and are valid and of bounded size.\<close>

definition params_set :: "'w Keeper \<Rightarrow> 'w ctx \<Rightarrow> bool" where
  "params_set k = on_key KeyParams
     (\<lambda>bz. \<exists>p. decoded (cdc k) bz = Some p \<and> valid_params p \<and> small_params p)"

lemma params_set_abs:
  "params_set k s \<longleftrightarrow>
   (\<exists>p. st_params (abs_state sdk k s) = Some p \<and> valid_params p \<and> small_params p)"
  by (simp add: params_set_def on_key_def abs_state_def)

lemma keeps_SetParams_set:
  assumes "codec_ok (cdc k)" and "\<And>p. params = Some p \<Longrightarrow> small_params p"
  shows "keeps (params_set k) (SetParams k params)"
  unfolding keeps_def
proof (intro allI impI)
  fix s
  assume P: "params_set k s"
  show "params_set k (snd (SetParams k params s))"
  proof (cases params)
    case None
    then show ?thesis using P by (simp add: SetParams_nil)
  next
    case (Some p)
    show ?thesis
    proof (cases "valid_params p")
      case True
      obtain t where "SetParams k (Some p) s = (Ok (), t)"
        and "abs_state undefined k t = (abs_state undefined k s)\<lparr>st_params := Some p\<rparr>"
        using SetParams_Ok [OF assms(1) True assms(2) [OF Some]] by blast
      then show ?thesis using True Some assms(2) by (simp add: params_set_abs [of k _ undefined])
    next
      case False
      then show ?thesis using SetParams_invalid [OF False, of k s] P Some by auto
    qed
  qed
qed

text \<open>The messages a chain is assumed to carry: parameters of bounded size, and messages of
  other modules that keep \<open>P\<close>.\<close>

fun item_keeps :: "('w ctx \<Rightarrow> bool) \<Rightarrow> 'w item \<Rightarrow> bool" where
  "item_keeps P (Update m) \<longleftrightarrow> (\<forall>p. up_Params m = Some p \<longrightarrow> small_params p)"
| "item_keeps P (Register m) \<longleftrightarrow> True"
| "item_keeps P (Foreign a) \<longleftrightarrow> keeps P a"

lemma keeps_item_params:
  assumes "codec_ok (cdc k)" and "contracts_keep (params_set k) (ck k)" and "item_keeps (params_set k) it"
  shows "keeps (params_set k) (run_item sdk k it)"
proof (cases it)
  case (Update m)
  then show ?thesis
    using keeps_SetParams_set [OF assms(1), of "up_Params m"] assms(3)
    by (auto simp: UpdateParams_def intro!: keeps_bindM)
next
  case (Register m)
  then show ?thesis
    using keeps_Register_on_key [OF assms(2) [unfolded params_set_def]]
    by (auto simp: params_set_def intro!: keeps_bindM)
next
  case (Foreign a)
  then show ?thesis using assms(3) by simp
qed

subsection \<open>A chain with the application's handlers\<close>

text \<open>
  What is assumed of everything around the module, for one predicate of its store: no
  contract, no decorator of the SDK and no message of another module breaks it.
\<close>

definition surroundings ::
  "('w ctx \<Rightarrow> bool) \<Rightarrow> 'w CtxOps \<Rightarrow> 'w Keeper \<Rightarrow> ('w, 'b) AnteLib \<Rightarrow> 'w item set \<Rightarrow> bool" where
  "surroundings P co k lib Items \<longleftrightarrow> ctx_ops_ok co \<and> chains_ok lib \<and> contracts_keep P (ck k)
     \<and> lib_keeps P lib \<and> (\<forall>it \<in> Items. item_keeps P it)"

text \<open>The two handlers, made from one keeper.\<close>

definition handlers ::
  "Sdk \<Rightarrow> 'w CtxOps \<Rightarrow> ('w, 'b) AnteLib \<Rightarrow> ('w, 'b) AnteHandlerOptions \<Rightarrow> 'w PostHandlerOptions
     \<Rightarrow> 'w Keeper \<Rightarrow> 'w AnteHandler \<Rightarrow> 'w PostHandler \<Rightarrow> bool" where
  "handlers sdk co lib options poptions k ante post \<longleftrightarrow>
     NewAnteHandler sdk co lib options = Ok ante \<and> NewPostHandler co lib poptions = Ok post
   \<and> AbstractAccountKeeper options = k \<and> ph_AbstractAccountKeeper poptions = k"

lemma handlers_keep:
  assumes "handlers sdk co lib options poptions k ante post" and "surroundings P co k lib Items"
    and "store_pred P" and "\<And>v. keeps P (store_Set KeySignerAddress v)"
    and "keeps P (store_Delete KeySignerAddress)"
  shows "keeps P (ante tx sim)" and "keeps P (post tx sim success)"
proof -
  show "keeps P (ante tx sim)"
    using assms NewAnteHandler_keeps [of lib sdk co options ante P]
    by (auto simp: handlers_def surroundings_def)
  have "post = AfterTx_PostHandle co k (\<lambda>tx sim success. retM ())"
    using assms(1,2) NewPostHandler_run [of lib co poptions post]
    by (auto simp: handlers_def surroundings_def)
  then show "keeps P (post tx sim success)"
    using assms AfterTx_keeps [of co P k] by (auto simp: surroundings_def)
qed

lemma run_params_set:
  assumes "handlers sdk co lib options poptions k ante post"
    and "surroundings (params_set k) co k lib (range route)" and "codec_ok (cdc k)"
    and "params_set k s" and "run sdk k ante post route s os t"
  shows "params_set k t"
proof -
  note P = params_set_def [of k]
  have "keeps (params_set k) (run_item sdk k (route m))" for m
    using assms(2,3) by (intro keeps_item_params) (auto simp: surroundings_def)
  moreover have "store_pred (params_set k)" by (simp add: P)
  moreover have "keeps (params_set k) (store_Set KeySignerAddress v)"
    "keeps (params_set k) (store_Delete KeySignerAddress)" for v
    by (simp_all add: P keeps_on_other_key)
  ultimately show ?thesis
    using run_keeps [where P = "params_set k", OF assms(5,4)] handlers_keep [OF assms(1,2)] by blast
qed

lemma params_set_query:
  assumes "params_set k t"
  obtains p where "GetParams k t = (Ok p, t)" and "valid_params p" and "small_params p"
    and "Query_Params k QueryParamsRequest t = (Ok \<lparr>qr_Params = Some p\<rparr>, t)"
proof -
  obtain p where "GetParams k t = (Ok p, t)" "valid_params p" "small_params p"
    using assms by (auto simp: params_set_abs [of k _ undefined] GetParams_Ok_iff [of k _ _ _ undefined])
  then show thesis by (intro that) (simp_all add: Query_Params_def monad_simps)
qed

text \<open>On a running chain the module's parameters are always there and valid.  If the
  module was started from a genesis with valid parameters, then after any run, with
  parameter updates, registrations, accepted, refused and failed transactions in any order,
  the \<open>Params\<close> query answers without an error, and its answer is valid parameters.\<close>

theorem params_query_always_answers:
  assumes "handlers sdk co lib options poptions k ante post"
    and "surroundings (params_set k) co k lib (range route)"
    and "codec_ok (cdc k)" and "big_endian_ok sdk" and "valid_params p0" and "small_params p0"
    and "InitGenesis sdk k \<lparr>gs_Params = Some p0, NextAccountId = n\<rparr> s0 = (r, s)"
    and "run sdk k ante post route s os t"
  shows "\<exists>p. Query_Params k QueryParamsRequest t = (Ok \<lparr>qr_Params = Some p\<rparr>, t) \<and> valid_params p"
proof -
  have "params_set k s"
    using InitGenesis_Ok [OF assms(3-6), of n s0] assms(5-7) by (auto simp: params_set_abs [of k _ sdk])
  then show ?thesis
    using params_set_query [OF run_params_set [OF assms(1-3) _ assms(8)]] by metis
qed

abbreviation next_id :: "Sdk \<Rightarrow> 'w ctx \<Rightarrow> u64" where
  "next_id sdk s \<equiv> BigEndianToUint64 sdk (store_Get KeyNextAccountID s)"

subsection \<open>The signer between transactions\<close>

text \<open>C24: Between transactions no signer address is left behind, unless messages failed.
  From a state without one, a run in which no transaction passes the ante handler and then
  fails, whatever else is accepted or refused, ends in a state without one; so the post
  handler of the next transaction calls a contract only if that transaction's own ante
  handler stored its account.\<close>

theorem signer_cleared_without_failures:
  assumes "handlers sdk co lib options poptions k ante post"
    and "surroundings (signer_is None) co k lib (range route)"
    and "signer_is None s" and "run sdk k ante post route s os t"
    and "Failed \<notin> set os" and "PostFailed \<notin> set os"
  shows "GetSignerAddress t = (Ok None, t)
    \<and> post tx sim success t = (Ok (), t)"
proof -
  have co: "ctx_ops_ok co" and ck: "contracts_keep (signer_is None) (ck k)"
    and post: "post = AfterTx_PostHandle co k (\<lambda>tx sim success. retM ())"
    using assms(1,2) NewPostHandler_run [of lib co poptions post]
    by (auto simp: handlers_def surroundings_def)
  have clear: "signer_is None (snd (post tx sim success u))" for tx sim success and u
    unfolding post by (rule AfterTx_clears_signer [OF co ck]) simp
  have "signer_is None t"
    using assms(4,3,5,6)
  proof (induction rule: run.induct)
    case (start s)
    then show ?case by simp
  next
    case (step s os t out u)
    then have none: "signer_is None t" by simp
    from step.hyps(2) step.prems(2,3) show ?case
    proof (cases rule: deliver.cases)
      case (refused tx r s1)
      then show ?thesis using none by simp
    next
      case (accepted tx s1 s2)
      then show ?thesis using clear by (metis snd_conv)
    next
      case elsewhere
      then show ?thesis using none by (simp add: signer_is_def store_Get_def)
    qed simp_all
  qed
  moreover from this have "post tx sim success t = (Ok (), t)"
    unfolding post AfterTx_run [where sdk = sdk] by (simp add: signer_is_abs [of _ _ sdk k] run_simps)
  ultimately show ?thesis by (simp add: GetSignerAddress_def signer_is_def run_simps)
qed

lemma keeps_item_signer:
  assumes "contracts_keep (signer_is a) (ck k)" and "item_keeps (signer_is a) it"
  shows "keeps (signer_is a) (run_item sdk k it)"
proof -
  have on_key: "signer_is a = on_key KeySignerAddress (\<lambda>v. v = a)"
    by (simp add: fun_eq_iff signer_is_def on_key_def)
  show ?thesis
  proof (cases it)
    case (Update m)
    then show ?thesis
      by (auto simp: UpdateParams_def SetParams_def on_key split: res.split
          intro!: keeps_bindM keeps_on_other_key)
  next
    case (Register m)
    then show ?thesis
      using keeps_Register_on_key [OF assms(1) [unfolded on_key]]
      by (auto simp: on_key intro!: keeps_bindM)
  next
    case (Foreign f)
    then show ?thesis using assms(2) by simp
  qed
qed

text \<open>C2: A transaction of an abstract account takes effect only if the contract approved it
  twice.  When such a transaction passes the application's ante handler, its own messages
  run, and the post handler accepts, the contract of its account accepted two calls.  The
  first came before the messages: a \<open>before_tx\<close> call with exactly those messages, the sign
  bytes and the credential, under \<open>MaxGasBefore\<close>, on the state the transaction came with
  (apart from the signer that is noted and what the decorators in front change, \<open>view\<close>
  being any part that they leave alone), and the state it left is the one the messages run on
  once the sequence is incremented.  The second came after them: an \<open>after_tx\<close> call under the
  \<open>MaxGasAfter\<close> then in force, on the state they left apart from the cleared signer, and the
  state it left is the final one, with no signer in it.\<close>

theorem accepted_aa_tx_approved_twice:
  assumes "handlers sdk co lib options poptions k ante post"
    and "ho_AccountKeeper options = Some a" and "ho_SignModeHandler options = Some m"
    and "front_keeps sdk co lib options a m view tx"
    and "\<And>b. surroundings (signer_is b) co k lib (range route)"
    and "aa = auth_ante lib a m" and "IsAbstractAccountTx aa s tx = Ok (Some (acc, sig))"
    and "ante tx False s = (Ok (), s1)" and "run_msgs sdk k route tx s1 = (Ok (), s2)"
    and "post tx False True s2 = (Ok (), s3)"
  shows "\<exists>addr anys mode signBytes cred p s0 u1 u2 p' u3.
      GetAddress sdk acc = Some addr \<and> sig_Sequence sig = Sequence acc
    \<and> list_all2 (\<lambda>m a. NewAnyFromProtoMsg m = Ok a) (GetMsgs tx) anys
    \<and> sig_Data sig = SingleSignatureData mode cred
    \<and> smh_GetSignBytes m mode \<lparr>sd_Address = AccAddress_String sdk (Some addr),
        sd_ChainID = chain_id s, sd_AccountNumber = AccountNumber acc,
        sd_Sequence = Sequence acc, sd_PubKey = Some (NilPK \<lparr>AddressBytes = Some addr\<rparr>)\<rparr> tx
        = Ok signBytes
    \<and> st_params (abs_state sdk k s) = Some p
    \<and> gate_view sdk k aa tx s0 = gate_view sdk k aa tx s \<and> view s0 = view s
    \<and> abs_state sdk k u1 = (abs_state sdk k s0)\<lparr>st_signer := Some addr\<rparr> \<and> same_outside s0 u1
    \<and> sudoWithGasLimit co (ck k) (Some addr) (before_tx_msg anys signBytes cred False)
        (MaxGasBefore p) u1 = (Ok (), u2)
    \<and> NewIncrementSequenceDecorator lib a (\<lambda>tx sim. retM ()) tx False u2 = (Ok (), s1)
    \<and> st_params (abs_state sdk k s2) = Some p'
    \<and> abs_state sdk k u3 = (abs_state sdk k s2)\<lparr>st_signer := None\<rparr> \<and> same_outside s2 u3
    \<and> sudoWithGasLimit co (ck k) (Some addr) (after_tx_msg False) (MaxGasAfter p') u3 = (Ok (), s3)
    \<and> GetSignerAddress s3 = (Ok None, s3)"
proof -
  have lib: "chains_ok lib" "ctx_ops_ok co" "lib_keeps (signer_is b) lib"
    "contracts_keep (signer_is b) (ck k)" "item_keeps (signer_is b) (route m)" for b m
    using assms(5) by (auto simp: surroundings_def)
  have h: "NewAnteHandler sdk co lib options = Ok ante" "k = AbstractAccountKeeper options"
    and post: "post = AfterTx_PostHandle co k (\<lambda>tx sim success. retM ())"
    using assms(1) NewPostHandler_run [OF lib(1), of co poptions post] by (auto simp: handlers_def)
  let ?nxt = "NewIncrementSequenceDecorator lib a (\<lambda>tx sim. retM ())"
  obtain s0 u1 addr anys mode signBytes cred p u2 where before:
    "gate_view sdk k aa tx s0 = gate_view sdk k aa tx s" "view s0 = view s"
    "GetAddress sdk acc = Some addr" "sig_Sequence sig = Sequence acc"
    "abs_state sdk k u1 = (abs_state sdk k s0)\<lparr>st_signer := Some addr\<rparr>" "same_outside s0 u1"
    "list_all2 (\<lambda>m a. NewAnyFromProtoMsg m = Ok a) (GetMsgs tx) anys"
    "sig_Data sig = SingleSignatureData mode cred"
    "smh_GetSignBytes m mode \<lparr>sd_Address = AccAddress_String sdk (Some addr),
        sd_ChainID = chain_id s, sd_AccountNumber = AccountNumber acc,
        sd_Sequence = Sequence acc, sd_PubKey = Some (NilPK \<lparr>AddressBytes = Some addr\<rparr>)\<rparr> tx = Ok signBytes"
    "st_params (abs_state sdk k s) = Some p"
    "sudoWithGasLimit co (ck k) (Some addr) (before_tx_msg anys signBytes cred False)
        (MaxGasBefore p) u1 = (Ok (), u2)" "?nxt tx False u2 = (Ok (), s1)"
    using ante_gate [OF lib(1) h(1) assms(2-4) assms(7) [unfolded assms(6)] assms(8) h(2)]
    unfolding assms(6) [symmetric] by (elim exE conjE)
  have "signer_is (Some addr) u2"
    using keepsD [OF keeps_sudo [OF lib(2,4) store_pred_signer] _ before(11)] before(5)
    by (simp add: signer_is_abs [of _ _ sdk k])
  moreover have nxt: "keeps (signer_is b) (?nxt tx sim)" for b tx sim
    using lib(3) [of b] by (simp add: lib_keeps_def ante_keeps_def)
  ultimately have "signer_is (Some addr) s1" using before(12) by (blast dest: keepsD)
  moreover have "keeps (signer_is (Some addr)) (run_msgs sdk k route tx)"
    using lib(4,5) by (intro keeps_run_msgs keeps_item_signer)
  ultimately have "st_signer (abs_state sdk k s2) = Some addr"
    using assms(9) by (auto simp: signer_is_abs [of _ _ sdk k, symmetric] dest: keepsD)
  moreover obtain u3 where u3: "DeleteSignerAddress s2 = (Ok (), u3)"
    and abs: "abs_state sdk k u3 = (abs_state sdk k s2)\<lparr>st_signer := None\<rparr>" and "same_outside s2 u3"
    using DeleteSignerAddress_run by blast
  ultimately obtain p' where "st_params (abs_state sdk k s2) = Some p'"
    and "sudoWithGasLimit co (ck k) (Some addr) (after_tx_msg False) (MaxGasAfter p') u3 = (Ok (), s3)"
    using assms(10) unfolding post AfterTx_run [where sdk = sdk]
    by (auto simp: bindM_Ok_iff retM_def GetParams_Ok_iff [of _ _ _ _ sdk])
  moreover have "GetSignerAddress s3 = (Ok None, s3)"
    using AfterTx_clears_signer [OF lib(2,4), of "\<lambda>tx sim success. retM ()" tx False True s2] assms(10)
    by (simp add: post GetSignerAddress_def signer_is_def run_simps)
  ultimately show ?thesis
    by (intro exI conjI) (assumption | rule before abs \<open>same_outside s2 u3\<close>)+
qed

text \<open>An abstract account's transaction with the right sequence, messages that can be
  packed, a single signature with sign bytes, and a contract that accepts, does pass: the
  ante handler returns no error, provided the next decorator accepts.\<close>

theorem before_tx_passes:
  assumes "IsAbstractAccountTx aa s tx = Ok (Some (acc, sig))" and "GetAddress sdk acc = Some addr"
    and "sig_Sequence sig = Sequence acc" and "sig_Data sig = SingleSignatureData mode cred"
    and "list_all2 (\<lambda>m a. NewAnyFromProtoMsg m = Ok a) (GetMsgs tx) anys"
    and "GetSignBytes aa mode \<lparr>sd_Address = AccAddress_String sdk (Some addr),
        sd_ChainID = chain_id s, sd_AccountNumber = AccountNumber acc,
        sd_Sequence = Sequence acc, sd_PubKey = Some (NilPK \<lparr>AddressBytes = Some addr\<rparr>)\<rparr> tx
        = Ok signBytes"
    and "st_params (abs_state sdk k s) = Some p"
    and "\<And>u. abs_state sdk k u = (abs_state sdk k s)\<lparr>st_signer := Some addr\<rparr> \<Longrightarrow> same_outside s u \<Longrightarrow>
      \<exists>v. sudoWithGasLimit co (ck k) (Some addr) (before_tx_msg anys signBytes cred sim)
        (MaxGasBefore p) u = (Ok (), v)"
    and "\<And>u. \<exists>v. nxt tx sim u = (Ok (), v)"
  shows "\<exists>t. BeforeTx_AnteHandle sdk co k aa nxt tx sim s = (Ok (), t)"
proof -
  obtain s1 where s1: "SetSignerAddress (Some addr) s = (Ok (), s1)"
    and abs: "abs_state sdk k s1 = (abs_state sdk k s)\<lparr>st_signer := Some addr\<rparr>"
    and out: "same_outside s s1"
    using SetSignerAddress_Some by blast
  have "GetParams k s1 = (Ok p, s1)" using abs assms(7) by (simp add: GetParams_Ok_iff [of _ _ _ _ sdk])
  moreover have "prepareCredentials sdk aa s1 tx acc (sig_Data sig) = Ok (signBytes, cred)"
    using assms(2,4,6) out by (simp add: prepareCredentials_Ok same_outside_def)
  moreover have "sdkMsgsToAnys (GetMsgs tx) = Ok anys" using assms(5) by (simp only: sdkMsgsToAnys_Ok)
  moreover obtain u where u: "sudoWithGasLimit co (ck k) (Some addr) (before_tx_msg anys signBytes cred sim)
        (MaxGasBefore p) s1 = (Ok (), u)"
    using assms(8) [OF abs out] by blast
  moreover obtain v where "nxt tx sim u = (Ok (), v)" using assms(9) by blast
  ultimately show ?thesis
    unfolding BeforeTx_AA [OF assms(1), of sdk s1, unfolded assms(2), OF s1]
    using assms(3) by (simp add: monad_simps)
qed

subsection \<open>A sample chain\<close>

definition sample_poptions :: "sample_world PostHandlerOptions" where
  "sample_poptions = \<lparr>ph_AccountKeeper = Some sample_ak, ph_AbstractAccountKeeper = sample_keeper\<rparr>"

definition sample_ante :: "sample_world AnteHandler" where
  "sample_ante = (\<lambda>tx sim s. BeforeTx_AnteHandle sample_sdk sample_co sample_keeper sample_aa
      (\<lambda>tx sim. retM ()) tx sim (s\<lparr>meter := NewGasMeter 1000\<rparr>))"

definition sample_post :: "sample_world PostHandler" where
  "sample_post = AfterTx_PostHandle sample_co sample_keeper (\<lambda>tx sim success. retM ())"

lemma sample_handlers:
  "handlers sample_sdk sample_co sample_ante_lib sample_options sample_poptions sample_keeper
     sample_ante sample_post"
  by (simp add: handlers_def sample_ante_handler sample_ante_def)
     (simp add: sample_options_def sample_poptions_def NewPostHandler_def sample_ante_lib_def
       sample_post_def AfterTxDecorator_PostHandle_def NewAfterTxDecorator_def)

lemma ante_keeps_pass_all: "ante_keeps P pass_all"
  by (simp add: ante_keeps_def pass_all_def)

text \<open>
  The sample chain routes two kinds of messages: registrations, and calls of a contract
  that registers two accounts itself; all others do nothing.
\<close>

definition sample_exec :: "(sample_world ctx, unit) act" where
  "sample_exec =
     bindM (RegisterAccount sample_sdk sample_keeper sample_register) (\<lambda>_.
     bindM (RegisterAccount sample_sdk sample_keeper sample_register) (\<lambda>_. retM ()))"

definition sample_route :: "SdkMsg \<Rightarrow> sample_world item" where
  "sample_route m =
     (if msg_name m = ''abstractaccount.v1.MsgRegisterAccount'' then Register sample_register
      else if msg_name m = ''cosmwasm.wasm.v1.MsgExecuteContract'' then Foreign sample_exec
      else Foreign (retM ()))"

definition sample_block_tx :: Tx where
  "sample_block_tx = sample_other_tx\<lparr>GetMsgs :=
     [\<lparr>msg_name = ''abstractaccount.v1.MsgRegisterAccount'', msg_Marshal = Ok None\<rparr>,
      \<lparr>msg_name = ''cosmwasm.wasm.v1.MsgExecuteContract'', msg_Marshal = Ok None\<rparr>]\<rparr>"

lemma sample_contracts: "contracts_keep (on_key key Q) (ck sample_keeper)"
  by (auto simp: contracts_keep_def keeps_def sample_ck_def sample_keeper_def)

lemma sample_register_keeps:
  "key \<noteq> KeyNextAccountID \<Longrightarrow> keeps (on_key key Q) (RegisterAccount sample_sdk sample_keeper sample_register)"
  by (intro keeps_Register_on_key sample_contracts)

lemma sample_route_keeps:
  assumes "key \<noteq> KeyNextAccountID"
  shows "item_keeps (on_key key Q) (sample_route m)"
    and "keeps (on_key key Q) (run_item sample_sdk sample_keeper (sample_route m))"
  using assms by (auto simp: sample_route_def sample_exec_def intro!: keeps_bindM sample_register_keeps)

lemma sample_surroundings:
  assumes "key \<noteq> KeyNextAccountID"
  shows "surroundings (on_key key Q) sample_co sample_keeper sample_ante_lib (range sample_route)"
proof -
  have setup_ok: "ante_keeps (on_key key Q) (\<lambda>nxt tx sim s. nxt tx sim (s\<lparr>meter := g\<rparr>))" for g
    by (auto simp: ante_keeps_def keeps_def on_key_def store_Get_def)
  have "lib_keeps (on_key key Q) sample_ante_lib"
    using setup_ok
    by (simp add: lib_keeps_def sample_ante_lib_def sample_aa_def ante_keeps_pass_all)
       (simp add: ante_keeps_def)
  then show ?thesis
    using sample_co_ok(1) sample_chains_ok sample_contracts sample_route_keeps(1) [OF assms]
    by (simp add: surroundings_def)
qed

lemma sample_surroundings_key:
  "surroundings (params_set sample_keeper) sample_co sample_keeper sample_ante_lib (range sample_route)"
  unfolding params_set_def by (rule sample_surroundings) simp

lemma signer_is_on_key: "signer_is a = on_key KeySignerAddress (\<lambda>v. v = a)"
  by (simp add: fun_eq_iff signer_is_def on_key_def)

lemma sample_surroundings_signer:
  "surroundings (signer_is a) sample_co sample_keeper sample_ante_lib (range sample_route)"
  unfolding signer_is_on_key by (rule sample_surroundings) simp

text \<open>One transaction with both, on the sample state.\<close>

lemma sample_block_msgs:
  "run_msgs sample_sdk sample_keeper sample_route sample_block_tx =
    bindM (run_item sample_sdk sample_keeper (Register sample_register)) (\<lambda>_.
    bindM (run_item sample_sdk sample_keeper (Foreign sample_exec)) (\<lambda>_. retM ()))"
  by (simp add: run_msgs_def sample_block_tx_def sample_route_def)

lemma sample_next_register:
  assumes "on_key KeyParams (\<lambda>bz. bz = Some (Params_enc DefaultParams)) s"
  obtains resp t where "RegisterAccount sample_sdk sample_keeper sample_register s = (Ok resp, t)"
    and "on_key KeyParams (\<lambda>bz. bz = Some (Params_enc DefaultParams)) t"
proof -
  have "GetParams sample_keeper s = (Ok DefaultParams, s)"
    by (rule sample_aa_GetParams) (use assms in \<open>simp add: on_key_def\<close>)
  then obtain resp t where t: "RegisterAccount sample_sdk sample_keeper sample_register s = (Ok resp, t)"
    using sample_run_any by blast
  moreover have "on_key KeyParams (\<lambda>bz. bz = Some (Params_enc DefaultParams)) t"
    by (rule keepsD [OF sample_register_keeps assms t]) simp
  ultimately show thesis by (rule that)
qed

lemma sample_block_run:
  assumes "store_Get KeyParams s = Some (Params_enc DefaultParams)" and "signer_is None s"
  shows "\<exists>s1 r1 t1 r2 t2 r3 t3. sample_ante sample_block_tx False s = (Ok (), s1)
    \<and> module_store s1 = module_store s
    \<and> RegisterAccount sample_sdk sample_keeper sample_register s1 = (Ok r1, t1)
    \<and> RegisterAccount sample_sdk sample_keeper sample_register t1 = (Ok r2, t2)
    \<and> RegisterAccount sample_sdk sample_keeper sample_register t2 = (Ok r3, t3)
    \<and> sample_post sample_block_tx False True t3 = (Ok (), t3) \<and> signer_is None t3"
proof -
  let ?s1 = "s\<lparr>meter := NewGasMeter 1000\<rparr>"
  have ante: "sample_ante sample_block_tx False s = (Ok (), ?s1)"
    by (simp add: sample_ante_def BeforeTx_not_AA IsAbstractAccountTx_def sample_block_tx_def sample_other_tx_def)
       (simp add: sample_aa_def retM_def)
  have "on_key KeyParams (\<lambda>bz. bz = Some (Params_enc DefaultParams)) ?s1"
    using assms(1) by (simp add: on_key_def store_Get_def)
  then obtain r1 t1 r2 t2 r3 t3 where reg:
    "RegisterAccount sample_sdk sample_keeper sample_register ?s1 = (Ok r1, t1)"
    "RegisterAccount sample_sdk sample_keeper sample_register t1 = (Ok r2, t2)"
    "RegisterAccount sample_sdk sample_keeper sample_register t2 = (Ok r3, t3)"
    using sample_next_register by metis
  have "keeps (signer_is None) (RegisterAccount sample_sdk sample_keeper sample_register)"
    unfolding signer_is_on_key by (rule sample_register_keeps) simp
  moreover have "signer_is None ?s1" using assms(2) by (simp add: signer_is_def store_Get_def)
  ultimately have none: "signer_is None t3" using reg by (meson keepsD)
  then have "sample_post sample_block_tx False True t3 = (Ok (), t3)"
    unfolding sample_post_def AfterTx_run [where sdk = sample_sdk]
    by (simp add: signer_is_abs [of _ _ sample_sdk sample_keeper] run_simps)
  then show ?thesis using ante reg none by force
qed

lemma sample_block:
  assumes "store_Get KeyParams s = Some (Params_enc DefaultParams)" and "signer_is None s"
  shows "\<exists>t. run sample_sdk sample_keeper sample_ante sample_post sample_route s [Done] t"
proof -
  obtain s1 r1 t1 r2 t2 r3 t3 where ante: "sample_ante sample_block_tx False s = (Ok (), s1)"
    and reg: "RegisterAccount sample_sdk sample_keeper sample_register s1 = (Ok r1, t1)"
    "RegisterAccount sample_sdk sample_keeper sample_register t1 = (Ok r2, t2)"
    "RegisterAccount sample_sdk sample_keeper sample_register t2 = (Ok r3, t3)"
    and post: "sample_post sample_block_tx False True t3 = (Ok (), t3)"
    using sample_block_run [OF assms] by blast
  have msgs: "run_msgs sample_sdk sample_keeper sample_route sample_block_tx s1 = (Ok (), t3)"
    using reg by (simp add: sample_block_msgs sample_exec_def bindM_OkI retM_def)
  have "deliver sample_sdk sample_keeper sample_ante sample_post sample_route s Done t3"
    by (rule deliver.accepted [where ante = sample_ante and post = sample_post, OF ante msgs post])
  from run.step [OF run.start this] show ?thesis by auto
qed

lemma sample_ctx_block:
  "\<exists>t. run sample_sdk sample_keeper sample_ante sample_post sample_route sample_ctx [Done] t"
  using sample_block [of sample_ctx] by (simp add: store_Get_def sample_ctx_def signer_is_def)

theorem params_query_always_answers_witness:
  "\<exists>t p. Query_Params sample_keeper QueryParamsRequest t = (Ok \<lparr>qr_Params = Some p\<rparr>, t) \<and> valid_params p"
proof -
  obtain s where s: "InitGenesis sample_sdk sample_keeper
      \<lparr>gs_Params = Some DefaultParams, NextAccountId = 1\<rparr> sample_ctx = (Ok [], s)"
    and abs: "abs_state sample_sdk sample_keeper s = (abs_state sample_sdk sample_keeper sample_ctx)
      \<lparr>st_params := Some DefaultParams, st_next_id := 1\<rparr>"
    using InitGenesis_Ok [OF sample_keeper_ok(1) big_endian_sample valid_DefaultParams small_DefaultParams]
    by blast
  show ?thesis
    using params_query_always_answers [OF sample_handlers
        sample_surroundings_key sample_keeper_ok(1) big_endian_sample
        valid_DefaultParams small_DefaultParams s run.start] by blast
qed

theorem signer_cleared_without_failures_witness:
  "\<exists>t. run sample_sdk sample_keeper sample_ante sample_post sample_route sample_ctx [Done] t
     \<and> GetSignerAddress t = (Ok None, t)"
proof -
  obtain t where t: "run sample_sdk sample_keeper sample_ante sample_post sample_route sample_ctx [Done] t"
    using sample_ctx_block by blast
  have "signer_is None sample_ctx" by (simp add: signer_is_def store_Get_def sample_ctx_def)
  then show ?thesis
    using signer_cleared_without_failures [OF sample_handlers
        sample_surroundings_signer _ t,
        of sample_other_tx False True] t by auto
qed

text \<open>A transaction of the sample abstract account, without messages of the module.\<close>

lemma sample_aa_params: "params_set sample_keeper sample_aa_ctx"
  using sample_params valid_DefaultParams small_DefaultParams
  by (simp add: params_set_def on_key_def store_Get_def sample_aa_ctx_def sample_ctx_def sample_keeper_def)

lemma sample_aa_block:
  "\<exists>s1 s3. sample_ante (sample_tx 4) False sample_aa_ctx = (Ok (), s1)
     \<and> sample_post (sample_tx 4) False True s1 = (Ok (), s3)"
proof -
  obtain s1 where s1: "sample_ante (sample_tx 4) False sample_aa_ctx = (Ok (), s1)"
    unfolding sample_ante_def using sample_before_any_meter by blast
  have "keeps (params_set sample_keeper) (sample_ante (sample_tx 4) False)"
    using handlers_keep(1) [OF sample_handlers sample_surroundings_key]
    by (simp add: params_set_def keeps_on_other_key)
  then have P: "params_set sample_keeper s1" using s1 sample_aa_params by (blast dest: keepsD)
  have "\<exists>s3. sample_post (sample_tx 4) False True s1 = (Ok (), s3)"
  proof (cases "st_signer (abs_state sample_sdk sample_keeper s1)")
    case None
    then show ?thesis by (simp add: sample_post_def AfterTx_run [where sdk = sample_sdk] retM_def)
  next
    case (Some addr)
    obtain u where u: "DeleteSignerAddress s1 = (Ok (), u)"
      and "abs_state sample_sdk sample_keeper u
        = (abs_state sample_sdk sample_keeper s1)\<lparr>st_signer := None\<rparr>"
      using DeleteSignerAddress_run by blast
    then obtain p where "GetParams sample_keeper u = (Ok p, u)"
      using P by (auto simp: params_set_abs [of _ _ sample_sdk] GetParams_Ok_iff [of _ _ _ _ sample_sdk])
    then show ?thesis
      using u Some
      by (simp add: sample_post_def AfterTx_run [where sdk = sample_sdk] bindM_def retM_def
          sudoWithGasLimit_def sample_sudo Let_def)
  qed
  with s1 show ?thesis by blast
qed

theorem accepted_aa_tx_approved_twice_witness:
  "\<exists>anys signBytes cred (p :: Params) u1 u2 (p' :: Params) u3 s3.
     world u1 = world sample_aa_ctx
   \<and> sudoWithGasLimit sample_co sample_ck sample_addr (before_tx_msg anys signBytes cred False)
       (MaxGasBefore p) u1 = (Ok (), u2)
   \<and> world u3 = world u2
   \<and> sudoWithGasLimit sample_co sample_ck sample_addr (after_tx_msg False) (MaxGasAfter p') u3 = (Ok (), s3)
   \<and> GetSignerAddress s3 = (Ok None, s3)"
proof -
  obtain s1 s3 where ante: "sample_ante (sample_tx 4) False sample_aa_ctx = (Ok (), s1)"
    and post: "sample_post (sample_tx 4) False True s1 = (Ok (), s3)"
    using sample_aa_block by blast
  have k: "ho_AccountKeeper sample_options = Some sample_ak"
    "ho_SignModeHandler sample_options = Some sample_modes"
    by (simp_all add: sample_options_def)
  have msgs: "run_msgs sample_sdk sample_keeper sample_route (sample_tx 4) s1 = (Ok (), s1)"
    by (simp add: run_msgs_def sample_tx_def sample_route_def bindM_def retM_def)
  have ck: "ck sample_keeper = sample_ck" by (simp add: sample_keeper_def)
  have inc: "NewIncrementSequenceDecorator sample_ante_lib a nxt tx sim s = nxt tx sim s" for a nxt tx sim s
    by (simp add: sample_ante_lib_def pass_all_def)
  obtain addr anys signBytes cred s0 u1 u2 u3 and p p' :: Params where "sample_addr = Some addr"
    "world s0 = world sample_aa_ctx" "same_outside s0 u1"
    "sudoWithGasLimit sample_co sample_ck (Some addr) (before_tx_msg anys signBytes cred False)
       (MaxGasBefore p) u1 = (Ok (), u2)"
    "u2 = s1" "same_outside s1 u3"
    "sudoWithGasLimit sample_co sample_ck (Some addr) (after_tx_msg False) (MaxGasAfter p') u3 = (Ok (), s3)"
    "GetSignerAddress s3 = (Ok None, s3)"
    using accepted_aa_tx_approved_twice [OF sample_handlers k sample_front_keeps
        sample_surroundings_signer sample_auth_ante [symmetric] sample_is_aa ante msgs post,
        unfolded ck sample_address inc]
    by (auto simp: retM_def)
  then show ?thesis unfolding same_outside_def by metis
qed

theorem before_tx_passes_witness:
  "\<exists>t. BeforeTx_AnteHandle sample_sdk sample_co sample_keeper sample_aa (\<lambda>tx sim. retM ())
      (sample_tx 4) False sample_aa_ctx = (Ok (), t)"
proof (rule before_tx_passes [OF sample_is_aa])
  show "GetAddress sample_sdk sample_acc = Some (string_bytes ''acc'')"
    by (simp add: sample_address sample_addr_def)
  show "st_params (abs_state sample_sdk sample_keeper sample_aa_ctx) = Some DefaultParams"
    by (simp add: abs_state_def store_Get_def sample_aa_ctx_def sample_ctx_def sample_keeper_def sample_params)
  show "list_all2 (\<lambda>m a. NewAnyFromProtoMsg m = Ok a) (GetMsgs (sample_tx 4))
      [\<lparr>TypeURL = ''/cosmos.bank.v1beta1.MsgSend'', Value = Some [8, 1]\<rparr>]"
    by (simp add: sample_tx_def NewAnyFromProtoMsg_def)
  show "sig_Data (sample_sig 4) = SingleSignatureData 1 (Some [9])"
    by (simp add: sample_sig_def)
qed (simp_all add: sample_sig_def sample_acc_def sample_aa_def sudoWithGasLimit_def sample_sudo Let_def retM_def)

end
