(* ===== verification/App.thy ===== *)
theory App
  imports SimAppAnte Module
begin

text \<open>
  The example application: \<open>simapp/app.go\<close>, \<open>encoding.go\<close> and \<open>genesis.go\<close>.  It wires keepers,
  modules, handlers and a BaseApp of the SDK together.  Constructors of the SDK and of
  wasmd are fields of \<open>AppLib\<close>, their constants fields of \<open>Names\<close>; \<open>'b\<close> is the type of bank
  keepers, \<open>'n\<close> of consensus parameter keepers, \<open>'v\<close> of wasm keepers, \<open>'r\<close> of interface
  registries, \<open>'m\<close> of amino codecs and \<open>'o\<close> of wasm options.  A BaseApp is known by the
  calls made on it, in order; what it answers is a function of these.
\<close>

subsection \<open>Constants\<close>

definition AppName :: string where "AppName = ''SimApp''"

definition Authority :: string where
  "Authority = ''cosmos1tqr9a9m9nk0c22uq2c2slundmqhtnrnhwks7x0''"

record Names =
  auth_StoreKey :: string
  bank_StoreKey :: string
  consensus_StoreKey :: string
  wasm_StoreKey :: string
  auth_ModuleName :: string
  bank_ModuleName :: string
  consensus_ModuleName :: string
  poa_ModuleName :: string
  wasm_ModuleName :: string
  FeeCollectorName :: string
  Burner :: string
  Bech32MainPrefix :: string
  Version :: string

text \<open>A nil slice of permissions is an empty list.\<close>

definition maccPerms :: "Names \<Rightarrow> (string \<times> string list) list" where
  "maccPerms names = [(FeeCollectorName names, []), (wasm_ModuleName names, [Burner names])]"

subsection \<open>Paths\<close>

text \<open>Go's \<open>path/filepath\<close> on Unix: the elements of a path, \<open>Clean\<close> and \<open>Join\<close>.\<close>

fun split_path :: "string \<Rightarrow> string \<Rightarrow> string list" where
  "split_path acc [] = [acc]"
| "split_path acc (c # cs) =
     (if c = CHR ''/'' then acc # split_path [] cs else split_path (acc @ [c]) cs)"

fun clean_elems :: "bool \<Rightarrow> string list \<Rightarrow> string list \<Rightarrow> string list" where
  "clean_elems rooted out [] = out"
| "clean_elems rooted out (e # es) =
     (if e = '''' \<or> e = ''.'' then clean_elems rooted out es
      else if e \<noteq> ''..'' then clean_elems rooted (out @ [e]) es
      else if out \<noteq> [] \<and> last out \<noteq> ''..'' then clean_elems rooted (butlast out) es
      else if rooted then clean_elems rooted out es
      else clean_elems rooted (out @ [e]) es)"

fun slash_join :: "string list \<Rightarrow> string" where
  "slash_join [] = ''''"
| "slash_join [e] = e"
| "slash_join (e # es) = e @ ''/'' @ slash_join es"

definition filepath_Clean :: "string \<Rightarrow> string" where
  "filepath_Clean path =
     (let rooted = (path \<noteq> [] \<and> hd path = CHR ''/'');
          out = (if rooted then ''/'' else '''') @ slash_join (clean_elems rooted [] (split_path [] path))
      in if out = '''' then ''.'' else out)"

definition filepath_Join :: "string list \<Rightarrow> string" where
  "filepath_Join elems =
     (case dropWhile (\<lambda>e. e = '''') elems of
        [] \<Rightarrow> ''''
      | es \<Rightarrow> filepath_Clean (slash_join es))"

subsection \<open>Encoding\<close>

text \<open>\<open>codec.Codec\<close> is a binary codec and a JSON codec.\<close>

record AppCodec =
  BinaryCodec :: Codec
  JSON :: JSONCodec

record TxConfig =
  TxEncoder :: "Tx \<Rightarrow> bytes res"
  TxDecoder :: "bytes \<Rightarrow> Tx res"
  tc_SignModeHandler :: SignModeHandler

text \<open>
  The codec and the transaction configuration hold a pointer to the interface registry, so
  they are functions of what the registry contains when they are used.
\<close>

record ('r, 'm) EncodingConfig =
  InterfaceRegistry :: 'r
  ec_Codec :: "'r \<Rightarrow> AppCodec"
  ec_TxConfig :: "'r \<Rightarrow> TxConfig"
  Amino :: 'm

datatype BasicModule = AbstractAccountBasic AppModuleBasic | SDKBasic string

text \<open>
  Application options, by what the code reads from them.  A resource of the process (a
  logger, a database, a writer) and an option for the BaseApp are known by name.
\<close>

record AppOptions =
  FlagHome :: string
  opt_WasmConfig :: "WasmConfig res"

type_synonym handle = string

subsection \<open>Modules\<close>

text \<open>The modules given to the manager, each with what it was made from.\<close>

datatype ('w, 'b, 'n, 'v) ManagedModule =
    AbstractAccountModule "'w AppModule"
  | AuthModule AppCodec "'w AccountKeeper"
  | BankModule AppCodec 'b "'w AccountKeeper"
  | ConsensusModule AppCodec 'n
  | PoaModule
  | WasmModule AppCodec 'v "'w AccountKeeper" 'b

fun managed_name :: "Names \<Rightarrow> ('w, 'b, 'n, 'v) ManagedModule \<Rightarrow> string" where
  "managed_name names (AbstractAccountModule am) = AppModuleBasic_Name (am_basic am)"
| "managed_name names (AuthModule c a) = auth_ModuleName names"
| "managed_name names (BankModule c b a) = bank_ModuleName names"
| "managed_name names (ConsensusModule c n) = consensus_ModuleName names"
| "managed_name names PoaModule = poa_ModuleName names"
| "managed_name names (WasmModule c v a b) = wasm_ModuleName names"

record ('w, 'b, 'n, 'v) ModuleManager =
  mm_Modules :: "('w, 'b, 'n, 'v) ManagedModule list"
  OrderBeginBlockers :: "string list"
  OrderEndBlockers :: "string list"
  OrderInitGenesis :: "string list"
  OrderExportGenesis :: "string list"

subsection \<open>The BaseApp\<close>

type_synonym raw_genesis = "string \<rightharpoonup> bytes"

datatype ('w, 'b, 'n, 'v, 'r) base_call =
    NewBaseApp string handle handle "bytes \<Rightarrow> Tx res" "handle list"
  | SetCommitMultiStoreTracer "handle option"
  | SetVersion string
  | SetInterfaceRegistry 'r
  | SetTxEncoder "Tx \<Rightarrow> bytes res"
  | SetParamStore 'n
  | RegisterModuleServices "('w, 'b, 'n, 'v) ModuleManager"
  | MountKVStores "string \<rightharpoonup> string"
  | MountTransientStores "string \<rightharpoonup> string"
  | MountMemoryStores "string \<rightharpoonup> string"
  | SetInitChainer "bytes \<Rightarrow> ('w ctx, validator_update list) act"
  | SetBeginBlocker "bytes \<Rightarrow> ('w ctx, unit) act"
  | SetEndBlocker "bytes \<Rightarrow> ('w ctx, validator_update list) act"
  | SetAnteHandler "'w AnteHandler"
  | SetPostHandler "'w PostHandler"
  | RegisterSnapshotter 'v
  | LoadLatestVersion
  | LoggerError string error
  | NewUncachedContext bool
  | InitializePinnedCodes 'v
  | LoadVersion int

text \<open>
  What the application calls.  The answers of the BaseApp depend on the calls made on it
  before.  \<open>NewWasmKeeper\<close> also gets the two routers of the BaseApp and seven nil keepers.
\<close>

record ('w, 'b, 'n, 'v, 'r, 'm, 'o) AppLib =
  NewLegacyAmino :: 'm
  NewInterfaceRegistry :: 'r
  NewProtoCodec :: "'r \<Rightarrow> AppCodec"
  NewTxConfig :: "AppCodec \<Rightarrow> TxConfig"
  std_RegisterLegacyAminoCodec :: "'m \<Rightarrow> 'm"
  std_RegisterInterfaces :: "'r \<Rightarrow> 'r"
  basics_RegisterLegacyAminoCodec :: "BasicModule list \<Rightarrow> 'm \<Rightarrow> 'm"
  basics_RegisterInterfaces :: "BasicModule list \<Rightarrow> 'r \<Rightarrow> 'r"
  basics_DefaultGenesis :: "BasicModule list \<Rightarrow> JSONCodec \<Rightarrow> raw_genesis res"
  NewModuleAddress :: "string \<Rightarrow> slice"
  UserHomeDir :: "string res"
  NewKVStoreKeys :: "string list \<Rightarrow> (string \<rightharpoonup> string)"
  NewTransientStoreKeys :: "string list \<Rightarrow> (string \<rightharpoonup> string)"
  NewMemoryStoreKeys :: "string list \<Rightarrow> (string \<rightharpoonup> string)"
  NewConsensusKeeper :: "AppCodec \<Rightarrow> string option \<Rightarrow> string \<Rightarrow> 'n"
  NewAccountKeeper :: "AppCodec \<Rightarrow> string option \<Rightarrow> (string \<times> string list) list \<Rightarrow> string \<Rightarrow> string
    \<Rightarrow> 'w AccountKeeper"
  NewBaseKeeper :: "AppCodec \<Rightarrow> string option \<Rightarrow> 'w AccountKeeper \<Rightarrow> (string \<rightharpoonup> bool) \<Rightarrow> string \<Rightarrow> 'b"
  NewWasmKeeper :: "AppCodec \<Rightarrow> string option \<Rightarrow> 'w AccountKeeper \<Rightarrow> 'b \<Rightarrow> string \<Rightarrow> WasmConfig
    \<Rightarrow> string \<Rightarrow> string \<Rightarrow> 'o list \<Rightarrow> 'v"
  NewGovPermissionKeeper :: "'v \<Rightarrow> 'w ContractOpsKeeper"
  has_SnapshotManager :: "('w, 'b, 'n, 'v, 'r) base_call list \<Rightarrow> bool"
  RegisterExtensions :: "'v \<Rightarrow> unit res"
  LoadLatestVersion_result :: "('w, 'b, 'n, 'v, 'r) base_call list \<Rightarrow> unit res"
  LoadVersion_result :: "int \<Rightarrow> ('w, 'b, 'n, 'v, 'r) base_call list \<Rightarrow> unit res"
  InitializePinnedCodes_result :: "'v \<Rightarrow> ('w, 'b, 'n, 'v, 'r) base_call list \<Rightarrow> unit res"
  tmos_Exit :: "string \<Rightarrow> panic"
  json_Unmarshal_Genesis :: "bytes \<Rightarrow> raw_genesis res"
  mm_InitGenesis :: "('w, 'b, 'n, 'v) ModuleManager \<Rightarrow> JSONCodec \<Rightarrow> raw_genesis
    \<Rightarrow> ('w ctx, validator_update list) act"
  mm_BeginBlock :: "('w, 'b, 'n, 'v) ModuleManager \<Rightarrow> bytes \<Rightarrow> ('w ctx, unit) act"
  mm_EndBlock :: "('w, 'b, 'n, 'v) ModuleManager \<Rightarrow> bytes \<Rightarrow> ('w ctx, validator_update list) act"

definition ModuleBasics :: "BasicModule list" where
  "ModuleBasics = [AbstractAccountBasic AppModuleBasic, SDKBasic ''auth'', SDKBasic ''bank'',
     SDKBasic ''consensus'', SDKBasic ''poa'', SDKBasic ''wasm'']"

definition MakeTestEncodingConfig ::
  "('w, 'b, 'n, 'v, 'r, 'm, 'o) AppLib \<Rightarrow> ('r, 'm) EncodingConfig" where
  "MakeTestEncodingConfig lib =
     \<lparr>InterfaceRegistry = NewInterfaceRegistry lib, ec_Codec = NewProtoCodec lib,
      ec_TxConfig = (\<lambda>r. NewTxConfig lib (NewProtoCodec lib r)), Amino = NewLegacyAmino lib\<rparr>"

definition MakeEncodingConfig ::
  "('w, 'b, 'n, 'v, 'r, 'm, 'o) AppLib \<Rightarrow> ('r, 'm) EncodingConfig" where
  "MakeEncodingConfig lib =
     (let encCfg = MakeTestEncodingConfig lib;
          amino = basics_RegisterLegacyAminoCodec lib ModuleBasics
            (std_RegisterLegacyAminoCodec lib (Amino encCfg));
          registry = basics_RegisterInterfaces lib ModuleBasics
            (std_RegisterInterfaces lib (InterfaceRegistry encCfg))
      in encCfg\<lparr>InterfaceRegistry := registry, Amino := amino\<rparr>)"

definition simapp_DefaultGenesisState ::
  "('w, 'b, 'n, 'v, 'r, 'm, 'o) AppLib \<Rightarrow> JSONCodec \<Rightarrow> raw_genesis res" where
  "simapp_DefaultGenesisState lib c = basics_DefaultGenesis lib ModuleBasics c"

subsection \<open>Helpers\<close>

text \<open>The package initialiser: the value of \<open>DefaultNodeHome\<close>, or its panic.\<close>

definition DefaultNodeHome :: "('w, 'b, 'n, 'v, 'r, 'm, 'o) AppLib \<Rightarrow> string res" where
  "DefaultNodeHome lib =
     (case UserHomeDir lib of
        Err err \<Rightarrow> Panic (PanicError err)
      | Panic p \<Rightarrow> Panic p
      | Ok userHomeDir \<Rightarrow> Ok (filepath_Join [userHomeDir, ''.simapp'']))"

definition blockedAddresses ::
  "Sdk \<Rightarrow> ('w, 'b, 'n, 'v, 'r, 'm, 'o) AppLib \<Rightarrow> Names \<Rightarrow> (string \<rightharpoonup> bool)" where
  "blockedAddresses sdk lib names =
     foldl (\<lambda>modAccAddrs (acc, perms). modAccAddrs(AccAddress_String sdk (NewModuleAddress lib acc) \<mapsto> True))
       Map.empty (maccPerms names)"

definition wasmParams :: "(error \<Rightarrow> string) \<Rightarrow> AppOptions \<Rightarrow> (string \<times> WasmConfig \<times> string) res" where
  "wasmParams error_text appOpts =
     (let wasmDir = filepath_Join [FlagHome appOpts, ''wasm'']
      in case opt_WasmConfig appOpts of
           Err err \<Rightarrow> Panic (PanicMsg (''error while reading wasm config: '' @ error_text err))
         | Panic p \<Rightarrow> Panic p
         | Ok wasmCfg \<Rightarrow> Ok (wasmDir, wasmCfg, ''iterator,staking,stargate,cosmwasm_1_1,cosmwasm_1_2''))"

subsection \<open>The module manager\<close>

definition blocker_order :: "Names \<Rightarrow> string list" where
  "blocker_order names = [poa_ModuleName names, auth_ModuleName names, bank_ModuleName names,
     consensus_ModuleName names, wasm_ModuleName names, ModuleName]"

definition genesisModuleOrder :: "Names \<Rightarrow> string list" where
  "genesisModuleOrder names = [auth_ModuleName names, bank_ModuleName names, poa_ModuleName names,
     consensus_ModuleName names, wasm_ModuleName names, ModuleName]"

definition simapp_ModuleManager ::
  "Names \<Rightarrow> AppCodec \<Rightarrow> 'w Keeper \<Rightarrow> 'w AccountKeeper \<Rightarrow> 'b \<Rightarrow> 'n \<Rightarrow> 'v \<Rightarrow> ('w, 'b, 'n, 'v) ModuleManager" where
  "simapp_ModuleManager names c k a b n v =
     \<lparr>mm_Modules = [AbstractAccountModule (NewAppModule k), AuthModule c a, BankModule c b a,
        ConsensusModule c n, PoaModule, WasmModule c v a b],
      OrderBeginBlockers = blocker_order names,
      OrderEndBlockers = blocker_order names,
      OrderInitGenesis = genesisModuleOrder names,
      OrderExportGenesis = genesisModuleOrder names\<rparr>"

subsection \<open>SimApp\<close>

text \<open>The BaseApp inside it is the state the methods run on.\<close>

record ('w, 'b, 'n, 'v, 'r, 'm) SimApp =
  app_amino :: 'm
  app_cdc :: AppCodec
  app_txConfig :: TxConfig
  app_interfaceRegistry :: 'r
  app_keys :: "string \<rightharpoonup> string"
  app_tkeys :: "string \<rightharpoonup> string"
  app_memKeys :: "string \<rightharpoonup> string"
  app_AbstractAccountKeeper :: "'w Keeper"
  app_AccountKeeper :: "'w AccountKeeper"
  app_BankKeeper :: 'b
  app_ConsensusParamsKeeper :: 'n
  app_WasmKeeper :: 'v
  app_ModuleManager :: "('w, 'b, 'n, 'v) ModuleManager"

type_synonym ('w, 'b, 'n, 'v, 'r, 'a) app_act = "(('w, 'b, 'n, 'v, 'r) base_call list, 'a) act"

definition base :: "('w, 'b, 'n, 'v, 'r) base_call \<Rightarrow> ('w, 'b, 'n, 'v, 'r, unit) app_act" where
  "base c = modifyM (\<lambda>calls. calls @ [c])"

definition InitChainer ::
  "('w, 'b, 'n, 'v, 'r, 'm, 'o) AppLib \<Rightarrow> ('w, 'b, 'n, 'v, 'r, 'm) SimApp \<Rightarrow> bytes
     \<Rightarrow> ('w ctx, validator_update list) act" where
  "InitChainer lib app appStateBytes =
     (case json_Unmarshal_Genesis lib appStateBytes of
        Err err \<Rightarrow> liftM (Panic (PanicError err))
      | Panic p \<Rightarrow> liftM (Panic p)
      | Ok genesisState \<Rightarrow> mm_InitGenesis lib (app_ModuleManager app) (JSON (app_cdc app)) genesisState)"

definition BeginBlocker ::
  "('w, 'b, 'n, 'v, 'r, 'm, 'o) AppLib \<Rightarrow> ('w, 'b, 'n, 'v, 'r, 'm) SimApp \<Rightarrow> bytes \<Rightarrow> ('w ctx, unit) act" where
  "BeginBlocker lib app req = mm_BeginBlock lib (app_ModuleManager app) req"

definition EndBlocker ::
  "('w, 'b, 'n, 'v, 'r, 'm, 'o) AppLib \<Rightarrow> ('w, 'b, 'n, 'v, 'r, 'm) SimApp \<Rightarrow> bytes
     \<Rightarrow> ('w ctx, validator_update list) act" where
  "EndBlocker lib app req = mm_EndBlock lib (app_ModuleManager app) req"

text \<open>The options \<open>setAnteHandler\<close> gives to \<open>NewAnteHandler\<close>.\<close>

definition app_ante_options ::
  "('w, 'b) AnteLib \<Rightarrow> ('w, 'b, 'n, 'v, 'r, 'm) SimApp \<Rightarrow> TxConfig \<Rightarrow> WasmConfig \<Rightarrow> string option
     \<Rightarrow> ('w, 'b) AnteHandlerOptions" where
  "app_ante_options alib app txCfg wasmCfg txCounterStoreKey =
     \<lparr>ho_AccountKeeper = Some (app_AccountKeeper app), ho_BankKeeper = Some (app_BankKeeper app),
      ho_ExtensionOptionChecker = None, ho_FeegrantKeeper = None,
      ho_SignModeHandler = Some (tc_SignModeHandler txCfg),
      ho_SigGasConsumer = Some (SigVerificationGasConsumer
        (auth_ante alib (app_AccountKeeper app) (tc_SignModeHandler txCfg))),
      ho_TxFeeChecker = None,
      WasmCfg = Some wasmCfg, TXCounterStoreKey = txCounterStoreKey,
      AbstractAccountKeeper = app_AbstractAccountKeeper app\<rparr>"

text \<open>\<open>mustM\<close> is the \<open>if err != nil { panic(err) }\<close> after the two constructors of handlers.\<close>

definition setAnteHandler ::
  "Sdk \<Rightarrow> 'w CtxOps \<Rightarrow> ('w, 'b) AnteLib \<Rightarrow> ('w, 'b, 'n, 'v, 'r, 'm) SimApp \<Rightarrow> TxConfig \<Rightarrow> WasmConfig
     \<Rightarrow> string option \<Rightarrow> ('w, 'b, 'n, 'v, 'r, unit) app_act" where
  "setAnteHandler sdk co alib app txCfg wasmCfg txCounterStoreKey =
     bindM (mustM (liftM (NewAnteHandler sdk co alib
       (app_ante_options alib app txCfg wasmCfg txCounterStoreKey)))) (\<lambda>anteHandler.
     base (SetAnteHandler anteHandler))"

definition setPostHandler ::
  "'w CtxOps \<Rightarrow> ('w, 'b) AnteLib \<Rightarrow> ('w, 'b, 'n, 'v, 'r, 'm) SimApp \<Rightarrow> ('w, 'b, 'n, 'v, 'r, unit) app_act" where
  "setPostHandler co alib app =
     bindM (mustM (liftM (NewPostHandler co alib
       \<lparr>ph_AccountKeeper = Some (app_AccountKeeper app),
        ph_AbstractAccountKeeper = app_AbstractAccountKeeper app\<rparr>))) (\<lambda>postHandler.
     base (SetPostHandler postHandler))"

text \<open>\<open>if manager := app.SnapshotManager(); manager != nil\<close>.\<close>

definition register_snapshotter ::
  "('w, 'b, 'n, 'v, 'r, 'm, 'o) AppLib \<Rightarrow> (error \<Rightarrow> string) \<Rightarrow> 'v \<Rightarrow> ('w, 'b, 'n, 'v, 'r, unit) app_act" where
  "register_snapshotter lib error_text wk =
     bindM (readM (has_SnapshotManager lib)) (\<lambda>manager.
     if \<not> manager then retM ()
     else bindM (base (RegisterSnapshotter wk)) (\<lambda>_.
       case RegisterExtensions lib wk of
         Err err \<Rightarrow> liftM (Panic (PanicError
           (ErrNew (''failed to register snapshot extension: '' @ error_text err))))
       | Panic p \<Rightarrow> liftM (Panic p)
       | Ok _ \<Rightarrow> retM ()))"

text \<open>\<open>if loadLatest\<close>.\<close>

definition load_latest ::
  "('w, 'b, 'n, 'v, 'r, 'm, 'o) AppLib \<Rightarrow> (error \<Rightarrow> string) \<Rightarrow> 'v \<Rightarrow> ('w, 'b, 'n, 'v, 'r, unit) app_act" where
  "load_latest lib error_text wk =
     bindM (readM (LoadLatestVersion_result lib)) (\<lambda>r.
     bindM (base LoadLatestVersion) (\<lambda>_.
     case r of
       Err err \<Rightarrow> bindM (base (LoggerError ''error on loading last version'' err)) (\<lambda>_.
         liftM (Panic (ProcessExit 1)))
     | Panic p \<Rightarrow> liftM (Panic p)
     | Ok _ \<Rightarrow>
         bindM (base (NewUncachedContext True)) (\<lambda>_.
         bindM (readM (InitializePinnedCodes_result lib wk)) (\<lambda>r.
         bindM (base (InitializePinnedCodes wk)) (\<lambda>_.
         case r of
           Err err \<Rightarrow> liftM (Panic (tmos_Exit lib (''failed initialize pinned codes '' @ error_text err)))
         | Panic p \<Rightarrow> liftM (Panic p)
         | Ok _ \<Rightarrow> retM ())))))"

end
