(* ===== verification/SimApp.thy ===== *)
theory SimApp
  imports App
begin

text \<open>
  The constructor of the application and its remaining methods: \<open>simapp/app.go\<close>.  A call of
  \<open>NewSimApp\<close> runs on the calls made on the BaseApp so far and adds its own.
\<close>

subsection \<open>NewSimApp\<close>

text \<open>
  The application as the struct stands when the handlers are installed; the function
  values it hands out reach it through the pointer \<open>app\<close>.
\<close>

definition built_app ::
  "Sdk \<Rightarrow> ('w, 'b, 'n, 'v, 'r, 'm, 'o) AppLib \<Rightarrow> Names \<Rightarrow> string \<Rightarrow> WasmConfig \<Rightarrow> string \<Rightarrow> 'o list
     \<Rightarrow> ('w, 'b, 'n, 'v, 'r, 'm) SimApp res" where
  "built_app sdk lib names wasmDir wasmCfg wasmCapabilities wasmOpts =
     (let encCfg = MakeEncodingConfig lib;
          registry = InterfaceRegistry encCfg;
          c = ec_Codec encCfg registry;
          keys = NewKVStoreKeys lib [StoreKey, auth_StoreKey names, bank_StoreKey names,
            consensus_StoreKey names, wasm_StoreKey names];
          paramsKeeper = NewConsensusKeeper lib c (keys (consensus_StoreKey names)) Authority;
          accountKeeper = NewAccountKeeper lib c (keys (auth_StoreKey names)) (maccPerms names)
            (Bech32MainPrefix names) Authority;
          bankKeeper = NewBaseKeeper lib c (keys (bank_StoreKey names)) accountKeeper
            (blockedAddresses sdk lib names) Authority;
          wasmKeeper = NewWasmKeeper lib c (keys (wasm_StoreKey names)) accountKeeper bankKeeper
            wasmDir wasmCfg wasmCapabilities Authority wasmOpts
      in bindR (NewKeeper (BinaryCodec c) (Some accountKeeper)
             (Some (NewGovPermissionKeeper lib wasmKeeper)) Authority) (\<lambda>keeper.
           Ok \<lparr>app_amino = Amino encCfg, app_cdc = c, app_txConfig = ec_TxConfig encCfg registry,
              app_interfaceRegistry = registry, app_keys = keys,
              app_tkeys = NewTransientStoreKeys lib [], app_memKeys = NewMemoryStoreKeys lib [],
              app_AbstractAccountKeeper = keeper, app_AccountKeeper = accountKeeper,
              app_BankKeeper = bankKeeper, app_ConsensusParamsKeeper = paramsKeeper,
              app_WasmKeeper = wasmKeeper,
              app_ModuleManager = simapp_ModuleManager names c keeper accountKeeper bankKeeper
                paramsKeeper wasmKeeper\<rparr>))"

definition NewSimApp ::
  "Sdk \<Rightarrow> 'w CtxOps \<Rightarrow> ('w, 'b) AnteLib \<Rightarrow> ('w, 'b, 'n, 'v, 'r, 'm, 'o) AppLib \<Rightarrow> (error \<Rightarrow> string)
     \<Rightarrow> Names \<Rightarrow> handle \<Rightarrow> handle \<Rightarrow> handle option \<Rightarrow> bool \<Rightarrow> AppOptions \<Rightarrow> 'o list \<Rightarrow> handle list
     \<Rightarrow> ('w, 'b, 'n, 'v, 'r, ('w, 'b, 'n, 'v, 'r, 'm) SimApp) app_act" where
  "NewSimApp sdk co alib lib error_text names logger db traceStore loadLatest appOpts wasmOpts
       baseAppOptions =
     (let encCfg = MakeEncodingConfig lib;
          registry = InterfaceRegistry encCfg;
          txConfig = ec_TxConfig encCfg registry
      in
      bindM (base (NewBaseApp AppName logger db (TxDecoder txConfig) baseAppOptions)) (\<lambda>_.
      bindM (base (SetCommitMultiStoreTracer traceStore)) (\<lambda>_.
      bindM (base (SetVersion (Version names))) (\<lambda>_.
      bindM (base (SetInterfaceRegistry registry)) (\<lambda>_.
      bindM (base (SetTxEncoder (TxEncoder txConfig))) (\<lambda>_.
      bindM (base (SetParamStore (NewConsensusKeeper lib (ec_Codec encCfg registry)
        (NewKVStoreKeys lib [StoreKey, auth_StoreKey names, bank_StoreKey names,
           consensus_StoreKey names, wasm_StoreKey names] (consensus_StoreKey names)) Authority))) (\<lambda>_.
      bindM (liftM (wasmParams error_text appOpts)) (\<lambda>(wasmDir, wasmCfg, wasmCapabilities).
      bindM (liftM (built_app sdk lib names wasmDir wasmCfg wasmCapabilities wasmOpts)) (\<lambda>app.
      bindM (base (RegisterModuleServices (app_ModuleManager app))) (\<lambda>_.
      bindM (base (MountKVStores (app_keys app))) (\<lambda>_.
      bindM (base (MountTransientStores (app_tkeys app))) (\<lambda>_.
      bindM (base (MountMemoryStores (app_memKeys app))) (\<lambda>_.
      bindM (base (SetInitChainer (InitChainer lib app))) (\<lambda>_.
      bindM (base (SetBeginBlocker (BeginBlocker lib app))) (\<lambda>_.
      bindM (base (SetEndBlocker (EndBlocker lib app))) (\<lambda>_.
      bindM (setAnteHandler sdk co alib app txConfig wasmCfg (app_keys app (wasm_StoreKey names))) (\<lambda>_.
      bindM (setPostHandler co alib app) (\<lambda>_.
      bindM (register_snapshotter lib error_text (app_WasmKeeper app)) (\<lambda>_.
      bindM (if loadLatest then load_latest lib error_text (app_WasmKeeper app) else retM ()) (\<lambda>_.
      retM app))))))))))))))))))))"

subsection \<open>Methods\<close>

text \<open>\<open>runtime.AppI\<close>: the name is the one the BaseApp was made with.\<close>

fun base_name :: "('w, 'b, 'n, 'v, 'r) base_call list \<Rightarrow> string" where
  "base_name (NewBaseApp name logger db dec opts # calls) = name"
| "base_name calls = ''''"

definition app_Name :: "('w, 'b, 'n, 'v, 'r, string) app_act" where
  "app_Name = readM base_name"

definition LegacyAmino :: "('w, 'b, 'n, 'v, 'r, 'm) SimApp \<Rightarrow> 'm" where
  "LegacyAmino app = app_amino app"

definition LoadHeight ::
  "('w, 'b, 'n, 'v, 'r, 'm, 'o) AppLib \<Rightarrow> int \<Rightarrow> ('w, 'b, 'n, 'v, 'r, unit) app_act" where
  "LoadHeight lib height =
     bindM (readM (LoadVersion_result lib height)) (\<lambda>r.
     bindM (base (LoadVersion height)) (\<lambda>_. liftM r))"

definition ExportAppStateAndValidators ::
  "bool \<Rightarrow> string list \<Rightarrow> string list \<Rightarrow> ('w, 'b, 'n, 'v, 'r, 'e) app_act" where
  "ExportAppStateAndValidators forZeroHeight jailAllowed modulesToExport =
     liftM (Panic (PanicMsg ''UNIMPLEMENTED''))"

definition SimulationManager :: "('w, 'b, 'n, 'v, 'r, 'e) app_act" where
  "SimulationManager = liftM (Panic (PanicMsg ''UNIMPLEMENTED''))"

text \<open>
  \<open>servertypes.Application\<close>: routes and services registered on the API server, whose state
  has the type \<open>'y\<close>, and on the query router of the BaseApp, whose state has the type \<open>'q\<close>.
\<close>

record ('y, 'q, 'k, 'r) ApiLib =
  authtx_GatewayRoutes :: "'k \<Rightarrow> 'y \<Rightarrow> 'y"
  tmservice_GatewayRoutes :: "'k \<Rightarrow> 'y \<Rightarrow> 'y"
  nodeservice_GatewayRoutes :: "'k \<Rightarrow> 'y \<Rightarrow> 'y"
  basics_GatewayRoutes :: "BasicModule list \<Rightarrow> 'k \<Rightarrow> 'y \<Rightarrow> 'y"
  RegisterSwaggerAPI :: "'k \<Rightarrow> bool \<Rightarrow> ('y, unit) act"
  authtx_RegisterTxService :: "'k \<Rightarrow> 'r \<Rightarrow> 'q \<Rightarrow> 'q"
  tmservice_RegisterTendermintService :: "'k \<Rightarrow> 'r \<Rightarrow> 'q \<Rightarrow> 'q"
  nodeservice_RegisterNodeService :: "'k \<Rightarrow> 'q \<Rightarrow> 'q"

definition RegisterAPIRoutes :: "('y, 'q, 'k, 'r) ApiLib \<Rightarrow> 'k \<Rightarrow> bool \<Rightarrow> ('y, unit) act" where
  "RegisterAPIRoutes api clientCtx swagger =
     bindM (modifyM (authtx_GatewayRoutes api clientCtx)) (\<lambda>_.
     bindM (modifyM (tmservice_GatewayRoutes api clientCtx)) (\<lambda>_.
     bindM (modifyM (nodeservice_GatewayRoutes api clientCtx)) (\<lambda>_.
     bindM (modifyM (basics_GatewayRoutes api ModuleBasics clientCtx)) (\<lambda>_.
     mustM (RegisterSwaggerAPI api clientCtx swagger)))))"

definition RegisterTxService ::
  "('y, 'q, 'k, 'r) ApiLib \<Rightarrow> ('w, 'b, 'n, 'v, 'r, 'm) SimApp \<Rightarrow> 'k \<Rightarrow> 'q \<Rightarrow> 'q" where
  "RegisterTxService api app clientCtx router =
     authtx_RegisterTxService api clientCtx (app_interfaceRegistry app) router"

definition RegisterTendermintService ::
  "('y, 'q, 'k, 'r) ApiLib \<Rightarrow> ('w, 'b, 'n, 'v, 'r, 'm) SimApp \<Rightarrow> 'k \<Rightarrow> 'q \<Rightarrow> 'q" where
  "RegisterTendermintService api app clientCtx router =
     tmservice_RegisterTendermintService api clientCtx (app_interfaceRegistry app) router"

definition RegisterNodeService :: "('y, 'q, 'k, 'r) ApiLib \<Rightarrow> 'k \<Rightarrow> 'q \<Rightarrow> 'q" where
  "RegisterNodeService api clientCtx router = nodeservice_RegisterNodeService api clientCtx router"

definition app_Codec :: "('w, 'b, 'n, 'v, 'r, 'm) SimApp \<Rightarrow> AppCodec" where
  "app_Codec app = app_cdc app"

definition app_InterfaceRegistry :: "('w, 'b, 'n, 'v, 'r, 'm) SimApp \<Rightarrow> 'r" where
  "app_InterfaceRegistry app = app_interfaceRegistry app"

definition app_TxConfig :: "('w, 'b, 'n, 'v, 'r, 'm) SimApp \<Rightarrow> TxConfig" where
  "app_TxConfig app = app_txConfig app"

end
