(* ===== verification/AppSpec.thy ===== *)
theory AppSpec
  imports SimApp SimAppSpec ModuleSpec
begin

text \<open>
  The properties of the application as a whole: what \<open>NewSimApp\<close> installs and in which
  order, how it fails, what its ante handler lets through and what its genesis
  establishes.
\<close>

subsection \<open>The calls NewSimApp makes\<close>

lemma base_run [monad_simps]: "base c calls = (Ok (), calls @ [c])"
  by (simp add: base_def modifyM_def)

lemma bind_base [monad_simps]: "bindM (base c) f calls = f () (calls @ [c])"
  by (simp add: base_def monad_simps)

fun is_load :: "('w, 'b, 'n, 'v, 'r) base_call \<Rightarrow> bool" where
  "is_load LoadLatestVersion = True"
| "is_load c = False"

fun ante_handlers :: "('w, 'b, 'n, 'v, 'r) base_call list \<Rightarrow> 'w AnteHandler list" where
  "ante_handlers [] = []"
| "ante_handlers (SetAnteHandler h # calls) = h # ante_handlers calls"
| "ante_handlers (c # calls) = ante_handlers calls"

fun post_handlers :: "('w, 'b, 'n, 'v, 'r) base_call list \<Rightarrow> 'w PostHandler list" where
  "post_handlers [] = []"
| "post_handlers (SetPostHandler h # calls) = h # post_handlers calls"
| "post_handlers (c # calls) = post_handlers calls"

fun init_chainers :: "('w, 'b, 'n, 'v, 'r) base_call list
    \<Rightarrow> (bytes \<Rightarrow> ('w ctx, validator_update list) act) list" where
  "init_chainers [] = []"
| "init_chainers (SetInitChainer h # calls) = h # init_chainers calls"
| "init_chainers (c # calls) = init_chainers calls"

text \<open>The calls after the setters.\<close>

definition loading :: "('w, 'b, 'n, 'v, 'r) base_call list \<Rightarrow> bool" where
  "loading calls \<longleftrightarrow> calls \<in> {[], [LoadLatestVersion]} \<or> (\<exists>v. calls \<in>
     {[RegisterSnapshotter v], [LoadLatestVersion, NewUncachedContext True, InitializePinnedCodes v],
      [RegisterSnapshotter v, LoadLatestVersion, NewUncachedContext True, InitializePinnedCodes v]})"

lemma loading_handlers:
  assumes "loading calls"
  shows "ante_handlers calls = []" "post_handlers calls = []" "init_chainers calls = []"
  using assms by (auto simp: loading_def)

lemma register_snapshotter_Ok:
  "register_snapshotter lib txt v calls = (Ok (), calls') \<Longrightarrow>
   calls' = calls \<or> calls' = calls @ [RegisterSnapshotter v]"
  by (auto simp: register_snapshotter_def monad_simps split: if_splits res.splits)

lemma load_latest_Ok:
  "load_latest lib txt v calls = (Ok (), calls') \<Longrightarrow>
   calls' = calls @ [LoadLatestVersion, NewUncachedContext True, InitializePinnedCodes v]"
  by (auto simp: load_latest_def monad_simps split: res.splits)

lemma setAnteHandler_run:
  "setAnteHandler sdk co alib app tc w key calls =
    (case NewAnteHandler sdk co alib (app_ante_options alib app tc w key) of
       Ok h \<Rightarrow> (Ok (), calls @ [SetAnteHandler h])
     | Err e \<Rightarrow> (Panic (PanicError e), calls)
     | Panic p \<Rightarrow> (Panic p, calls))"
  by (auto simp: setAnteHandler_def bindM_def mustM_def liftM_def base_run split: res.splits)

lemma setPostHandler_run:
  "setPostHandler co alib app calls = (Ok (), calls @ [SetPostHandler (ChainPostDecorators alib
     [AfterTxDecorator_PostHandle co (NewAfterTxDecorator (app_AbstractAccountKeeper app))])])"
  by (simp add: setPostHandler_def NewPostHandler_def bindM_def mustM_def liftM_def base_run)

definition setup_calls where
  "setup_calls sdk co alib lib names logger db traceStore baseAppOptions app h =
     (let encCfg = MakeEncodingConfig lib; registry = InterfaceRegistry encCfg;
          tc = ec_TxConfig encCfg registry
      in [NewBaseApp AppName logger db (TxDecoder tc) baseAppOptions,
          SetCommitMultiStoreTracer traceStore, SetVersion (Version names),
          SetInterfaceRegistry registry, SetTxEncoder (TxEncoder tc),
          SetParamStore (app_ConsensusParamsKeeper app),
          RegisterModuleServices (app_ModuleManager app), MountKVStores (app_keys app),
          MountTransientStores (app_tkeys app), MountMemoryStores (app_memKeys app),
          SetInitChainer (InitChainer lib app), SetBeginBlocker (BeginBlocker lib app),
          SetEndBlocker (EndBlocker lib app), SetAnteHandler h,
          SetPostHandler (ChainPostDecorators alib
            [AfterTxDecorator_PostHandle co (NewAfterTxDecorator (app_AbstractAccountKeeper app))])])"

lemma built_app_fields:
  assumes "built_app sdk lib names dir w caps wo = Ok app"
  shows "authority (app_AbstractAccountKeeper app) = Authority"
    and "ak (app_AbstractAccountKeeper app) = app_AccountKeeper app"
    and "cdc (app_AbstractAccountKeeper app) = BinaryCodec (app_cdc app)"
    and "app_ModuleManager app = simapp_ModuleManager names (app_cdc app)
      (app_AbstractAccountKeeper app) (app_AccountKeeper app) (app_BankKeeper app)
      (app_ConsensusParamsKeeper app) (app_WasmKeeper app)"
    and "app_txConfig app = ec_TxConfig (MakeEncodingConfig lib) (InterfaceRegistry (MakeEncodingConfig lib))"
    and "app_cdc app = ec_Codec (MakeEncodingConfig lib) (InterfaceRegistry (MakeEncodingConfig lib))"
    and "app_keys app = NewKVStoreKeys lib [StoreKey, auth_StoreKey names, bank_StoreKey names,
      consensus_StoreKey names, wasm_StoreKey names]"
    and "app_ConsensusParamsKeeper app = NewConsensusKeeper lib (app_cdc app)
      (app_keys app (consensus_StoreKey names)) Authority"
  using assms by (auto simp: built_app_def Let_def NewKeeper_def)

lemma wasmParams_Ok:
  "wasmParams txt opts = Ok (dir, w, caps) \<Longrightarrow> opt_WasmConfig opts = Ok w"
  by (auto simp: wasmParams_def Let_def split: res.splits)

text \<open>The calls that read or write the stored state of the chain.\<close>

fun touches :: "('w, 'b, 'n, 'v, 'r) base_call \<Rightarrow> bool" where
  "touches LoadLatestVersion = True"
| "touches (LoadVersion h) = True"
| "touches (NewUncachedContext header) = True"
| "touches (InitializePinnedCodes v) = True"
| "touches c = False"

lemma built_app_Ok: "\<exists>app. built_app sdk lib names dir w caps wo = Ok app"
  by (simp add: built_app_def Let_def NewKeeper_def)

lemma NewSimApp_cases:
  obtains (config) "\<forall>w. opt_WasmConfig opts \<noteq> Ok w"
    and "\<exists>p calls. NewSimApp sdk co alib lib txt names logger db tr latest opts wo bo [] = (Panic p, calls)
      \<and> filter touches calls = []"
  | (no_key) w where "opt_WasmConfig opts = Ok w"
    and "NewKVStoreKeys lib [StoreKey, auth_StoreKey names, bank_StoreKey names,
      consensus_StoreKey names, wasm_StoreKey names] (wasm_StoreKey names) = None"
    and "\<exists>p calls. NewSimApp sdk co alib lib txt names logger db tr latest opts wo bo [] = (Panic p, calls)
      \<and> filter touches calls = []"
  | (set_up) dir w caps app h where "opt_WasmConfig opts = Ok w"
    and "built_app sdk lib names dir w caps wo = Ok app"
    and "NewAnteHandler sdk co alib (app_ante_options alib app (app_txConfig app) w
      (app_keys app (wasm_StoreKey names))) = Ok h"
    and "NewSimApp sdk co alib lib txt names logger db tr latest opts wo bo [] =
      bindM (register_snapshotter lib txt (app_WasmKeeper app)) (\<lambda>_.
      bindM (if latest then load_latest lib txt (app_WasmKeeper app) else retM ()) (\<lambda>_. retM app))
      (setup_calls sdk co alib lib names logger db tr bo app h)"
proof (cases "\<exists>w. opt_WasmConfig opts = Ok w")
  case False
  then have "\<exists>p. wasmParams txt opts = Panic p"
    by (cases "opt_WasmConfig opts") (auto simp: wasmParams_def Let_def)
  then show thesis
    using False by (intro config) (auto simp: NewSimApp_def Let_def bind_base bindM_simps run_simps)
next
  case True
  then obtain w where w: "opt_WasmConfig opts = Ok w" ..
  then obtain dir caps where wp: "wasmParams txt opts = Ok (dir, w, caps)" by (simp add: wasmParams_def Let_def)
  obtain app where ba: "built_app sdk lib names dir w caps wo = Ok app" using built_app_Ok by blast
  note f = built_app_fields [OF ba]
  let ?key = "app_keys app (wasm_StoreKey names)"
  show thesis
  proof (cases ?key)
    case None
    then have "\<exists>e. NewAnteHandler sdk co alib (app_ante_options alib app (app_txConfig app) w ?key) = Err e"
      by (simp add: NewAnteHandler_def app_ante_options_def)
    then show thesis
      using w wp ba None
      by (intro no_key [OF w]) (auto simp: NewSimApp_def Let_def bind_base bindM_simps setAnteHandler_run bindM_PanicI f)
  next
    case (Some key)
    then obtain h where h: "NewAnteHandler sdk co alib (app_ante_options alib app (app_txConfig app) w ?key) = Ok h"
      by (simp add: NewAnteHandler_def app_ante_options_def)
    have "NewSimApp sdk co alib lib txt names logger db tr latest opts wo bo [] =
      bindM (register_snapshotter lib txt (app_WasmKeeper app)) (\<lambda>_.
      bindM (if latest then load_latest lib txt (app_WasmKeeper app) else retM ()) (\<lambda>_. retM app))
      (setup_calls sdk co alib lib names logger db tr bo app h)"
      using wp ba h
      by (simp add: NewSimApp_def Let_def bind_base bindM_simps setAnteHandler_run setPostHandler_run
        bindM_OkI setup_calls_def f)
    with w ba h show thesis by (rule set_up)
  qed
qed

lemma NewSimApp_run:
  assumes "NewSimApp sdk co alib lib txt names logger db tr latest opts wo bo [] = (Ok app, calls)"
  obtains dir w caps h c1 where "opt_WasmConfig opts = Ok w"
    and "built_app sdk lib names dir w caps wo = Ok app"
    and "NewAnteHandler sdk co alib (app_ante_options alib app (app_txConfig app) w
      (app_keys app (wasm_StoreKey names))) = Ok h"
    and "register_snapshotter lib txt (app_WasmKeeper app)
      (setup_calls sdk co alib lib names logger db tr bo app h) = (Ok (), c1)"
    and "(if latest then load_latest lib txt (app_WasmKeeper app) else retM ()) c1 = (Ok (), calls)"
proof (rule NewSimApp_cases [where sdk = sdk and co = co and alib = alib and lib = lib and ?txt = "txt"
      and names = names and logger = logger and db = db and tr = tr and latest = latest and opts = opts
      and wo = wo and bo = bo])
  fix dir w caps app' h
  let ?installs = "setup_calls sdk co alib lib names logger db tr bo app' h"
  assume w: "opt_WasmConfig opts = Ok w" and ba: "built_app sdk lib names dir w caps wo = Ok app'"
    and h: "NewAnteHandler sdk co alib (app_ante_options alib app' (app_txConfig app') w
      (app_keys app' (wasm_StoreKey names))) = Ok h"
    and run: "NewSimApp sdk co alib lib txt names logger db tr latest opts wo bo [] =
      bindM (register_snapshotter lib txt (app_WasmKeeper app')) (\<lambda>_.
      bindM (if latest then load_latest lib txt (app_WasmKeeper app') else retM ()) (\<lambda>_. retM app')) ?installs"
  from assms obtain c1 where c1: "register_snapshotter lib txt (app_WasmKeeper app') ?installs = (Ok (), c1)"
    and c2: "(if latest then load_latest lib txt (app_WasmKeeper app') else retM ()) c1 = (Ok (), calls)"
    and app: "app' = app"
    unfolding run by (auto simp: bindM_Ok_iff retM_def)
  show thesis using that [OF w] ba h c1 c2 unfolding app by blast
qed (use assms in auto)

lemma NewSimApp_Ok:
  assumes "NewSimApp sdk co alib lib txt names logger db tr latest opts wo bo [] = (Ok app, calls)"
  obtains dir w caps h rest where "opt_WasmConfig opts = Ok w"
    and "built_app sdk lib names dir w caps wo = Ok app"
    and "NewAnteHandler sdk co alib (app_ante_options alib app (app_txConfig app) w
      (app_keys app (wasm_StoreKey names))) = Ok h"
    and "calls = setup_calls sdk co alib lib names logger db tr bo app h @ rest" and "loading rest"
  using assms
proof (rule NewSimApp_run)
  fix dir w caps h c1
  let ?installs = "setup_calls sdk co alib lib names logger db tr bo app h"
  assume w: "opt_WasmConfig opts = Ok w" and b: "built_app sdk lib names dir w caps wo = Ok app"
    and h: "NewAnteHandler sdk co alib (app_ante_options alib app (app_txConfig app) w
      (app_keys app (wasm_StoreKey names))) = Ok h"
    and c1: "register_snapshotter lib txt (app_WasmKeeper app) ?installs = (Ok (), c1)"
    and c2: "(if latest then load_latest lib txt (app_WasmKeeper app) else retM ()) c1 = (Ok (), calls)"
  have "calls = c1 \<or> calls = c1 @ [LoadLatestVersion, NewUncachedContext True,
      InitializePinnedCodes (app_WasmKeeper app)]"
    using c2 by (auto simp: retM_def split: if_splits dest: load_latest_Ok)
  then obtain rest where "calls = ?installs @ rest" "loading rest"
    using register_snapshotter_Ok [OF c1] by (auto simp: loading_def)
  then show thesis by (rule that [OF w b h])
qed

subsection \<open>What NewSimApp installs\<close>

lemma setup_handlers:
  "loading rest \<Longrightarrow> ante_handlers (setup_calls sdk co alib lib names logger db tr bo app h @ rest) = [h]"
  "loading rest \<Longrightarrow> post_handlers (setup_calls sdk co alib lib names logger db tr bo app h @ rest) =
    [ChainPostDecorators alib
      [AfterTxDecorator_PostHandle co (NewAfterTxDecorator (app_AbstractAccountKeeper app))]]"
  "loading rest \<Longrightarrow> init_chainers (setup_calls sdk co alib lib names logger db tr bo app h @ rest) =
    [InitChainer lib app]"
  by (simp_all add: setup_calls_def Let_def loading_handlers)

lemma setup_before_load:
  "takeWhile (\<lambda>c. \<not> is_load c) (setup_calls sdk co alib lib names logger db tr bo app h @ rest)
    = setup_calls sdk co alib lib names logger db tr bo app h @ takeWhile (\<lambda>c. \<not> is_load c) rest"
  by (simp add: setup_calls_def Let_def)

lemma loading_takeWhile: "loading rest \<Longrightarrow> loading (takeWhile (\<lambda>c. \<not> is_load c) rest)"
  by (auto simp: loading_def)

text \<open>What a started application runs transactions through.  When \<open>NewSimApp\<close> returns, exactly
  one ante handler and one post handler have been installed, both before the state was
  loaded (after which the BaseApp takes no more setters); the ante handler is one
  \<open>NewAnteHandler\<close> built, from the application's account keeper and module keeper and with the
  module's own signature gas consumer; the post handler ends the transactions of abstract
  accounts; and the module's keeper acts for \<open>Authority\<close> on the account keeper the rest of the
  application uses.\<close>

theorem sim_app_installs_handlers:
  assumes "NewSimApp sdk co alib lib txt names logger db tr latest opts wo bo [] = (Ok app, calls)"
  shows "\<exists>options m h. NewAnteHandler sdk co alib options = Ok h
    \<and> ho_AccountKeeper options = Some (app_AccountKeeper app) \<and> ho_SignModeHandler options = Some m
    \<and> m = tc_SignModeHandler (app_txConfig app)
    \<and> ho_SigGasConsumer options = Some (SigVerificationGasConsumer (auth_ante alib (app_AccountKeeper app) m))
    \<and> AbstractAccountKeeper options = app_AbstractAccountKeeper app
    \<and> ante_handlers calls = [h] \<and> ante_handlers (takeWhile (\<lambda>c. \<not> is_load c) calls) = [h]
    \<and> post_handlers calls = post_handlers (takeWhile (\<lambda>c. \<not> is_load c) calls)
    \<and> post_handlers calls = [ChainPostDecorators alib
        [AfterTxDecorator_PostHandle co (NewAfterTxDecorator (app_AbstractAccountKeeper app))]]
    \<and> authority (app_AbstractAccountKeeper app) = Authority
    \<and> ak (app_AbstractAccountKeeper app) = app_AccountKeeper app"
  using assms
proof (rule NewSimApp_Ok)
  fix dir w caps h rest
  let ?o = "app_ante_options alib app (app_txConfig app) w (app_keys app (wasm_StoreKey names))"
  assume b: "built_app sdk lib names dir w caps wo = Ok app"
    and h: "NewAnteHandler sdk co alib ?o = Ok h"
    and c: "calls = setup_calls sdk co alib lib names logger db tr bo app h @ rest" and l: "loading rest"
  show ?thesis
    by (rule exI [of _ ?o], rule exI [of _ "tc_SignModeHandler (app_txConfig app)"], rule exI [of _ h])
       (simp add: h c setup_before_load setup_handlers [OF l] setup_handlers [OF loading_takeWhile [OF l]]
         built_app_fields(1,2) [OF b], simp add: app_ante_options_def)
qed

text \<open>The installed ante handlers are ones \<open>NewAnteHandler\<close> built from the options of the
  application.\<close>

lemma installed_ante_handler:
  assumes "NewSimApp sdk co alib lib txt names logger db tr latest opts wo bo [] = (Ok app, calls)"
    and "h \<in> set (ante_handlers calls)"
  obtains w key where
    "NewAnteHandler sdk co alib (app_ante_options alib app (app_txConfig app) w key) = Ok h"
  using assms(1)
proof (rule NewSimApp_Ok)
  fix dir w caps h' rest
  assume h': "NewAnteHandler sdk co alib (app_ante_options alib app (app_txConfig app) w
      (app_keys app (wasm_StoreKey names))) = Ok h'"
    and c: "calls = setup_calls sdk co alib lib names logger db tr bo app h' @ rest" and l: "loading rest"
  have "h = h'" using assms(2) by (simp add: c setup_handlers [OF l])
  with h' show thesis using that by simp
qed

text \<open>C1: No transaction of an abstract account gets into the application without its contract.
  An ante handler that a started application installed accepts a transaction of an abstract
  account only if the contract was called and accepted: with the transaction's messages,
  the sign bytes for this chain and account, and the credential, under the gas limit of the
  stored parameters, on the state the transaction came with, with the account noted as
  signer and the twelve decorators in front of the module's own behind it; and the state
  the contract left is the one the handler goes on with to its end.  \<open>view\<close> is any part of
  the state that those decorators leave alone.\<close>

theorem sim_app_gate:
  assumes "NewSimApp sdk co alib lib txt names logger db tr latest opts wo bo [] = (Ok app, calls)"
    and "h \<in> set (ante_handlers calls)" and "chains_ok alib"
    and "\<And>w key. front_keeps sdk co alib (app_ante_options alib app (app_txConfig app) w key)
      (app_AccountKeeper app) (tc_SignModeHandler (app_txConfig app)) view tx"
    and "aa = auth_ante alib (app_AccountKeeper app) (tc_SignModeHandler (app_txConfig app))"
    and "k = app_AbstractAccountKeeper app"
    and "IsAbstractAccountTx aa s tx = Ok (Some (acc, sig))"
    and "h tx sim s = (Ok (), t)"
  shows "\<exists>addr s0 s1 anys mode signBytes cred p s2.
      gate_view sdk k aa tx s0 = gate_view sdk k aa tx s \<and> view s0 = view s
    \<and> GetAddress sdk acc = Some addr \<and> sig_Sequence sig = Sequence acc
    \<and> abs_state sdk k s1 = (abs_state sdk k s0)\<lparr>st_signer := Some addr\<rparr> \<and> same_outside s0 s1
    \<and> list_all2 (\<lambda>m a. NewAnyFromProtoMsg m = Ok a) (GetMsgs tx) anys
    \<and> sig_Data sig = SingleSignatureData mode cred
    \<and> smh_GetSignBytes (tc_SignModeHandler (app_txConfig app)) mode
        \<lparr>sd_Address = AccAddress_String sdk (Some addr),
         sd_ChainID = chain_id s, sd_AccountNumber = AccountNumber acc,
         sd_Sequence = Sequence acc, sd_PubKey = Some (NilPK \<lparr>AddressBytes = Some addr\<rparr>)\<rparr> tx
        = Ok signBytes
    \<and> st_params (abs_state sdk k s) = Some p
    \<and> sudoWithGasLimit co (ck k) (Some addr)
        (before_tx_msg anys signBytes cred sim) (MaxGasBefore p) s1 = (Ok (), s2)
    \<and> NewIncrementSequenceDecorator alib (app_AccountKeeper app) (\<lambda>tx sim. retM ()) tx sim s2 = (Ok (), t)"
proof -
  let ?m = "tc_SignModeHandler (app_txConfig app)" and ?a = "app_AccountKeeper app"
  obtain w key where h: "NewAnteHandler sdk co alib (app_ante_options alib app (app_txConfig app) w key) = Ok h"
    using installed_ante_handler [OF assms(1,2)] .
  have o: "ho_AccountKeeper (app_ante_options alib app (app_txConfig app) w key) = Some ?a"
    "ho_SignModeHandler (app_ante_options alib app (app_txConfig app) w key) = Some ?m"
    "k = AbstractAccountKeeper (app_ante_options alib app (app_txConfig app) w key)"
    by (simp_all add: app_ante_options_def assms(6))
  show ?thesis
    using ante_gate [OF assms(3) h o(1,2) assms(4) _ assms(8) o(3)] assms(7) unfolding assms(5) .
qed

subsection \<open>Starting the chain\<close>

text \<open>
  What is relied on about the module manager: an accepted \<open>InitGenesis\<close> has run the modules
  that have an entry in the genesis state, in the order set, each on its entry.
\<close>

fun run_genesis :: "(string \<Rightarrow> bytes \<Rightarrow> ('w ctx, validator_update list) act) \<Rightarrow> raw_genesis
    \<Rightarrow> string list \<Rightarrow> ('w ctx, unit) act" where
  "run_genesis init gs [] = retM ()"
| "run_genesis init gs (n # ns) =
     (case gs n of
        None \<Rightarrow> run_genesis init gs ns
      | Some data \<Rightarrow> bindM (init n data) (\<lambda>_. run_genesis init gs ns))"

definition module_init ::
  "Sdk \<Rightarrow> (error \<Rightarrow> string) \<Rightarrow> Names
     \<Rightarrow> (('w, 'b, 'n, 'v) ManagedModule \<Rightarrow> bytes \<Rightarrow> ('w ctx, validator_update list) act)
     \<Rightarrow> ('w, 'b, 'n, 'v) ModuleManager \<Rightarrow> JSONCodec \<Rightarrow> string \<Rightarrow> bytes
     \<Rightarrow> ('w ctx, validator_update list) act" where
  "module_init sdk txt names other mm j n data =
     (case find (\<lambda>m. managed_name names m = n) (mm_Modules mm) of
        Some (AbstractAccountModule am) \<Rightarrow> AppModule_InitGenesis sdk txt am j data
      | Some m \<Rightarrow> other m data
      | None \<Rightarrow> liftM (Panic NilDereference))"

definition manager_ok ::
  "Sdk \<Rightarrow> (error \<Rightarrow> string) \<Rightarrow> Names \<Rightarrow> ('w, 'b, 'n, 'v, 'r, 'm, 'o) AppLib \<Rightarrow> bool" where
  "manager_ok sdk txt names lib \<longleftrightarrow> (\<exists>other. \<forall>mm j gs s ups t.
     distinct (map (managed_name names) (mm_Modules mm)) \<and> mm_InitGenesis lib mm j gs s = (Ok ups, t)
     \<longrightarrow> run_genesis (module_init sdk txt names other mm j) gs (OrderInitGenesis mm) s = (Ok (), t))"

lemma manager_ok_run:
  assumes "manager_ok sdk txt names lib" and "mm_InitGenesis lib mm j gs s = (Ok ups, t)"
    and "distinct (map (managed_name names) (mm_Modules mm))"
  obtains other where
    "run_genesis (module_init sdk txt names other mm j) gs (OrderInitGenesis mm) s = (Ok (), t)"
proof -
  from assms(1) [unfolded manager_ok_def] obtain other where
    "\<forall>mm j gs s ups t. distinct (map (managed_name names) (mm_Modules mm))
      \<and> mm_InitGenesis lib mm j gs s = (Ok ups, t)
     \<longrightarrow> run_genesis (module_init sdk txt names other mm j) gs (OrderInitGenesis mm) s = (Ok (), t)" ..
  with assms(2,3) have
    "run_genesis (module_init sdk txt names other mm j) gs (OrderInitGenesis mm) s = (Ok (), t)" by simp
  then show thesis by (rule that)
qed

definition names_ok :: "Names \<Rightarrow> bool" where
  "names_ok names \<longleftrightarrow> distinct (genesisModuleOrder names)"

lemma run_genesis_last:
  assumes "run_genesis init gs (ns @ [n]) s = (Ok (), t)" and "gs n = Some data"
  obtains s1 ups where "init n data s1 = (Ok ups, t)"
  using assms(1)
proof (induction ns arbitrary: s)
  case Nil
  then show ?case using assms(2) that by (auto simp: bindM_Ok_iff retM_def)
next
  case (Cons m ns)
  then show ?case using that by (cases "gs m") (auto simp: bindM_Ok_iff)
qed

lemma module_init_own:
  "names_ok names \<Longrightarrow> module_init sdk txt names other (simapp_ModuleManager names c k a b n v) j ModuleName data
    = AppModule_InitGenesis sdk txt (NewAppModule k) j data"
  by (simp add: module_init_def simapp_ModuleManager_def NewAppModule_def AppModuleBasic_Name_def)

lemma managed_distinct:
  "names_ok names \<Longrightarrow>
   distinct (map (managed_name names) (mm_Modules (simapp_ModuleManager names c k a b n v)))"
  by (auto simp: names_ok_def genesisModuleOrder_def simapp_ModuleManager_def NewAppModule_def
      AppModuleBasic_Name_def)

lemma init_chainer_state:
  assumes "NewSimApp sdk co alib lib txt names logger db tr latest opts wo bo [] = (Ok app, calls)"
    and "ic \<in> set (init_chainers calls)" and "manager_ok sdk txt names lib" and "names_ok names"
    and "json_codec_ok (JSON (app_cdc app))" and "codec_ok (BinaryCodec (app_cdc app))"
    and "big_endian_ok sdk" and "json_small (JSON (app_cdc app)) data"
    and "json_Unmarshal_Genesis lib file = Ok gs" and "gs ModuleName = Some data"
    and "ic file s = (Ok ups, t)"
  shows "\<exists>st p. UnmarshalJSON (JSON (app_cdc app)) data = Ok st \<and> gs_Params st = Some p \<and> valid_params p \<and> small_params p
    \<and> GetParams (app_AbstractAccountKeeper app) t = (Ok p, t)
    \<and> GetNextAccountID sdk t = (Ok (NextAccountId st), t)"
  using assms(1)
proof (rule NewSimApp_Ok)
  fix dir w caps h rest
  let ?j = "JSON (app_cdc app)" and ?k = "app_AbstractAccountKeeper app" and ?mm = "app_ModuleManager app"
  assume b: "built_app sdk lib names dir w caps wo = Ok app"
    and c: "calls = setup_calls sdk co alib lib names logger db tr bo app h @ rest" and l: "loading rest"
  note f = built_app_fields [OF b]
  have "mm_InitGenesis lib ?mm ?j gs s = (Ok ups, t)"
    using assms(2,9,11) by (simp add: c setup_handlers [OF l] InitChainer_def)
  moreover have "distinct (map (managed_name names) (mm_Modules ?mm))"
    unfolding f(4) by (rule managed_distinct [OF assms(4)])
  ultimately obtain other where
    run: "run_genesis (module_init sdk txt names other ?mm ?j) gs (OrderInitGenesis ?mm) s = (Ok (), t)"
    using manager_ok_run [OF assms(3)] by metis
  have "OrderInitGenesis ?mm = butlast (genesisModuleOrder names) @ [ModuleName]"
    by (simp add: f(4) simapp_ModuleManager_def genesisModuleOrder_def)
  note genesis_run = run [unfolded this]
  obtain s1 ups1 where "module_init sdk txt names other ?mm ?j ModuleName data s1 = (Ok ups1, t)"
    by (rule run_genesis_last [where n = ModuleName and gs = gs and data = data, OF genesis_run assms(10)])
  then have init: "AppModule_InitGenesis sdk txt (NewAppModule ?k) ?j data s1 = (Ok ups1, t)"
    unfolding f(4) module_init_own [OF assms(4)] by simp
  have "ValidateGenesis AppModuleBasic ?j data = Ok ()"
    using AppModule_InitGenesis_invalid [OF assms(5), of AppModuleBasic data sdk "txt" "NewAppModule ?k" s1] init
    by fastforce
  then obtain st p where st: "UnmarshalJSON ?j data = Ok st" "gs_Params st = Some p" "valid_params p"
    by (auto simp: ValidateGenesis_Ok)
  have small: "small_params p" using assms(8) st by (auto simp: json_small_def)
  have "codec_ok (cdc ?k)" using assms(6) by (simp add: f(3))
  from init_genesis_bytes [OF assms(5) this assms(7) st(1,2,3) small, of "txt" s1] init
  have "abs_state sdk ?k t = (abs_state sdk ?k s1)\<lparr>st_params := Some p, st_next_id := NextAccountId st\<rparr>"
    by auto
  then have "GetParams ?k t = (Ok p, t)" "GetNextAccountID sdk t = (Ok (NextAccountId st), t)"
    by (simp_all add: GetParams_Ok_iff [of ?k t p t sdk] GetNextAccountID_run [of sdk t ?k])
  with st small show ?thesis by blast
qed

text \<open>A chain that starts has working parameters.  If the genesis file has an entry for the
  module and the \<open>InitChainer\<close> that \<open>NewSimApp\<close> installed accepts it, then that entry reads as a
  genesis state with valid parameters, and on the state the chain starts from, the module's
  parameters and its next account id are the ones of the entry, whatever the modules
  before it did.\<close>

theorem init_chain_starts_module:
  assumes "NewSimApp sdk co alib lib txt names logger db tr latest opts wo bo [] = (Ok app, calls)"
    and "ic \<in> set (init_chainers calls)" and "manager_ok sdk txt names lib" and "names_ok names"
    and "json_codec_ok (JSON (app_cdc app))" and "codec_ok (BinaryCodec (app_cdc app))"
    and "big_endian_ok sdk" and "json_small (JSON (app_cdc app)) data"
    and "json_Unmarshal_Genesis lib file = Ok gs" and "gs ModuleName = Some data"
    and "ic file s = (Ok ups, t)"
  shows "\<exists>st p. UnmarshalJSON (JSON (app_cdc app)) data = Ok st \<and> gs_Params st = Some p \<and> valid_params p
    \<and> GetParams (app_AbstractAccountKeeper app) t = (Ok p, t)
    \<and> GetNextAccountID sdk t = (Ok (NextAccountId st), t)"
  using init_chainer_state [OF assms] by blast

subsection \<open>Failing to start\<close>

text \<open>A call that returns or panics, but never returns an error.\<close>

definition no_err :: "('s, 'a) act \<Rightarrow> bool" where
  "no_err m \<longleftrightarrow> (\<forall>s e t. m s \<noteq> (Err e, t))"

lemma no_err_intros [intro]:
  "no_err (retM x)" "no_err (readM g)" "no_err (modifyM f)" "no_err (mustM m)" "no_err (base c)"
  "no_err (liftM (Panic p))"
  by (auto simp: no_err_def retM_def readM_def modifyM_def mustM_def base_def liftM_def
      split: prod.splits res.splits)

lemma no_err_bindM [intro]: "no_err m \<Longrightarrow> (\<And>x. no_err (f x)) \<Longrightarrow> no_err (bindM m f)"
  by (auto simp: no_err_def bindM_def split: prod.split res.split)

lemma no_err_parts:
  "no_err (liftM (wasmParams txt opts))"
  "no_err (liftM (built_app sdk lib names dir w caps wo))"
  "no_err (register_snapshotter lib txt v)"
  "no_err (load_latest lib txt v)"
  by (auto simp: no_err_def liftM_def wasmParams_def Let_def built_app_def NewKeeper_def
      register_snapshotter_def load_latest_def monad_simps split: res.splits if_splits)

lemma no_err_NewSimApp:
  "no_err (NewSimApp sdk co alib lib txt names logger db tr latest opts wo bo)"
  unfolding NewSimApp_def Let_def setAnteHandler_def setPostHandler_def
  by (auto intro!: no_err_bindM no_err_parts simp: split_beta)

text \<open>The snapshot extension: registered without an error if the application has a manager.\<close>

definition snapshot_step ::
  "('w, 'b, 'n, 'v, 'r, 'm, 'o) AppLib \<Rightarrow> 'v \<Rightarrow> ('w, 'b, 'n, 'v, 'r) base_call list
     \<Rightarrow> ('w, 'b, 'n, 'v, 'r) base_call list \<Rightarrow> bool" where
  "snapshot_step lib v before snap \<longleftrightarrow>
     (if has_SnapshotManager lib before
      then snap = [RegisterSnapshotter v] \<and> RegisterExtensions lib v = Ok () else snap = [])"

text \<open>How a start goes on from the calls \<open>before\<close>, when it succeeds and when it ends the process.\<close>

definition starts ::
  "('w, 'b, 'n, 'v, 'r, 'm, 'o) AppLib \<Rightarrow> 'v \<Rightarrow> bool \<Rightarrow> ('w, 'b, 'n, 'v, 'r) base_call list
     \<Rightarrow> ('w, 'b, 'n, 'v, 'r) base_call list \<Rightarrow> bool" where
  "starts lib v latest before calls \<longleftrightarrow>
     (\<exists>snap load. calls = before @ snap @ load \<and> snapshot_step lib v before snap
      \<and> (if latest
         then load = [LoadLatestVersion, NewUncachedContext True, InitializePinnedCodes v]
            \<and> LoadLatestVersion_result lib (before @ snap) = Ok ()
            \<and> InitializePinnedCodes_result lib v
                (before @ snap @ [LoadLatestVersion, NewUncachedContext True]) = Ok ()
         else load = []))"

definition stops ::
  "('w, 'b, 'n, 'v, 'r, 'm, 'o) AppLib \<Rightarrow> (error \<Rightarrow> string) \<Rightarrow> 'v \<Rightarrow> bool
     \<Rightarrow> ('w, 'b, 'n, 'v, 'r) base_call list \<Rightarrow> panic \<Rightarrow> ('w, 'b, 'n, 'v, 'r) base_call list \<Rightarrow> bool" where
  "stops lib txt v latest before p calls \<longleftrightarrow>
     has_SnapshotManager lib before \<and> RegisterExtensions lib v \<noteq> Ok ()
       \<and> calls = before @ [RegisterSnapshotter v]
   \<or> latest \<and> (\<exists>snap load. calls = before @ snap @ LoadLatestVersion # load \<and> snapshot_step lib v before snap
      \<and> (case LoadLatestVersion_result lib (before @ snap) of
           Err e \<Rightarrow> load = [LoggerError ''error on loading last version'' e] \<and> p = ProcessExit 1
         | Panic q \<Rightarrow> load = [] \<and> p = q
         | Ok _ \<Rightarrow> load = [NewUncachedContext True, InitializePinnedCodes v]
             \<and> (case InitializePinnedCodes_result lib v
                       (before @ snap @ [LoadLatestVersion, NewUncachedContext True]) of
                  Err e \<Rightarrow> p = tmos_Exit lib (''failed initialize pinned codes '' @ txt e)
                | Panic q \<Rightarrow> p = q
                | Ok _ \<Rightarrow> False)))"

lemma register_snapshotter_step:
  assumes "register_snapshotter lib txt v before = (Ok (), c)"
  obtains snap where "c = before @ snap" and "snapshot_step lib v before snap"
  using assms
  by (auto simp: snapshot_step_def register_snapshotter_def monad_simps split: if_splits res.splits)

lemma load_latest_starts:
  assumes "(if latest then load_latest lib txt v else retM ()) (before @ snap) = (Ok (), calls)"
    and "snapshot_step lib v before snap"
  shows "starts lib v latest before calls"
  unfolding starts_def
  by (rule exI [of _ snap])
     (use assms in \<open>auto simp: load_latest_def monad_simps split: res.splits if_splits\<close>)

lemma register_snapshotter_stops:
  assumes "register_snapshotter lib txt v before = (Panic p, calls)"
  shows "stops lib txt v latest before p calls"
  using assms by (auto simp: stops_def register_snapshotter_def monad_simps split: if_splits res.splits)

lemma load_latest_stops:
  assumes "(if latest then load_latest lib txt v else retM ()) (before @ snap) = (Panic p, calls)"
    and "snapshot_step lib v before snap"
  shows "stops lib txt v latest before p calls"
  unfolding stops_def
  by (rule disjI2, rule conjI, use assms in \<open>simp add: retM_def split: if_splits\<close>, rule exI [of _ snap])
     (use assms in \<open>auto simp: load_latest_def monad_simps split: res.splits if_splits\<close>)

text \<open>All setters have been called, with the handlers made from the options.\<close>

definition ready where
  "ready sdk co alib lib names logger db tr opts wo bo app before \<longleftrightarrow>
     (\<exists>dir w caps h. opt_WasmConfig opts = Ok w \<and> built_app sdk lib names dir w caps wo = Ok app
      \<and> NewAnteHandler sdk co alib (app_ante_options alib app (app_txConfig app) w
          (app_keys app (wasm_StoreKey names))) = Ok h
      \<and> before = setup_calls sdk co alib lib names logger db tr bo app h)"

text \<open>C37: Starting fails closed.  \<open>NewSimApp\<close> returns an application only if the configuration
  could be read, all setters had been called with the handlers made from it, the wasm
  snapshot extension was registered without an error where there is a snapshot manager, and,
  when asked to load the state, the last steps were to load it and then to initialise the
  pinned codes, both without an error; asked not to, it has not touched the stored state.
  Otherwise the process ends: before the stored state was touched, because of the
  configuration, the missing wasm store key or the snapshot extension; or at the load, after
  the error was logged; or at the pinned codes, with the text of the error.\<close>

theorem sim_app_fails_closed:
  "(case NewSimApp sdk co alib lib txt names logger db tr latest opts wo bo [] of
      (Ok app, calls) \<Rightarrow>
        \<exists>before. ready sdk co alib lib names logger db tr opts wo bo app before
          \<and> filter touches before = [] \<and> starts lib (app_WasmKeeper app) latest before calls
    | (Err e, calls) \<Rightarrow> False
    | (Panic p, calls) \<Rightarrow>
        filter touches calls = [] \<and> ((\<forall>w. opt_WasmConfig opts \<noteq> Ok w)
          \<or> NewKVStoreKeys lib [StoreKey, auth_StoreKey names, bank_StoreKey names,
              consensus_StoreKey names, wasm_StoreKey names] (wasm_StoreKey names) = None)
      \<or> (\<exists>app before. ready sdk co alib lib names logger db tr opts wo bo app before
          \<and> filter touches before = [] \<and> stops lib txt (app_WasmKeeper app) latest before p calls))"
proof (rule NewSimApp_cases [where sdk = sdk and co = co and alib = alib and lib = lib and ?txt = "txt"
      and names = names and logger = logger and db = db and tr = tr and latest = latest and opts = opts
      and wo = wo and bo = bo])
  fix dir w caps app h
  let ?before = "setup_calls sdk co alib lib names logger db tr bo app h" and ?v = "app_WasmKeeper app"
  assume w: "opt_WasmConfig opts = Ok w" and ba: "built_app sdk lib names dir w caps wo = Ok app"
    and h: "NewAnteHandler sdk co alib (app_ante_options alib app (app_txConfig app) w
      (app_keys app (wasm_StoreKey names))) = Ok h"
    and run: "NewSimApp sdk co alib lib txt names logger db tr latest opts wo bo [] =
      bindM (register_snapshotter lib txt ?v) (\<lambda>_.
      bindM (if latest then load_latest lib txt ?v else retM ()) (\<lambda>_. retM app)) ?before"
  have b: "ready sdk co alib lib names logger db tr opts wo bo app ?before" "filter touches ?before = []"
    using w ba h unfolding ready_def by (blast, simp add: setup_calls_def Let_def)
  show ?thesis
  proof (cases "register_snapshotter lib txt ?v ?before")
    case (Pair r c)
    show ?thesis
    proof (cases r)
      case (Ok u)
      obtain snap where c: "c = ?before @ snap" and snap: "snapshot_step lib ?v ?before snap"
        using register_snapshotter_step Pair [unfolded Ok] by (metis (full_types) unit.exhaust)
      let ?load = "if latest then load_latest lib txt ?v else retM ()"
      have eq: "NewSimApp sdk co alib lib txt names logger db tr latest opts wo bo [] =
          bindM ?load (\<lambda>_. retM app) (?before @ snap)"
        using run Pair Ok c by (simp add: bindM_OkI)
      obtain r2 calls where l: "?load (?before @ snap) = (r2, calls)" by fastforce
      have ne: "r2 \<noteq> Err e" for e
        using l no_err_parts(4) [of lib "txt" ?v] unfolding no_err_def by (cases latest) (auto simp: retM_def)
      show ?thesis
      proof (cases r2)
        case (Ok u)
        then show ?thesis
          using eq l b load_latest_starts [OF _ snap, of latest "txt" calls] by (auto simp: bindM_OkI retM_def)
      next
        case (Err e)
        then show ?thesis using ne by simp
      next
        case (Panic p)
        then show ?thesis
          using eq l b load_latest_stops [OF _ snap, of latest "txt" p calls] by (auto simp: bindM_PanicI)
      qed
    next
      case (Err e)
      then have False using Pair no_err_parts(3) [of lib "txt" ?v] unfolding no_err_def by simp
      then show ?thesis ..
    next
      case (Panic p)
      then show ?thesis using run Pair b register_snapshotter_stops [of lib "txt" ?v ?before p c latest]
        by (auto simp: bindM_PanicI)
    qed
  qed
qed fastforce+

subsection \<open>A sample application\<close>

definition sample_app_codec :: AppCodec where
  "sample_app_codec = \<lparr>BinaryCodec = sample_codec, JSON = sample_json\<rparr>"

definition sample_tx_config :: TxConfig where
  "sample_tx_config = \<lparr>TxEncoder = (\<lambda>tx. Ok []), TxDecoder = (\<lambda>bz. Err (External ''tx parse error'')),
     tc_SignModeHandler = sample_modes\<rparr>"

definition sample_names :: Names where
  "sample_names = \<lparr>auth_StoreKey = ''acc'', bank_StoreKey = ''bank'', consensus_StoreKey = ''Consensus'',
     wasm_StoreKey = ''wasm'', auth_ModuleName = ''auth'', bank_ModuleName = ''bank'',
     consensus_ModuleName = ''consensus'', poa_ModuleName = ''poa'', wasm_ModuleName = ''wasm'',
     FeeCollectorName = ''fee_collector'', Burner = ''burner'', Bech32MainPrefix = ''cosmos'',
     Version = ''1''\<rparr>"

definition sample_opts :: AppOptions where
  "sample_opts = \<lparr>FlagHome = ''/home/a'', opt_WasmConfig = Ok \<lparr>SimulationGasLimit = None\<rparr>\<rparr>"

definition sample_app_lib :: "(sample_world, unit, unit, unit, unit, unit, unit) AppLib" where
  "sample_app_lib =
     \<lparr>NewLegacyAmino = (), NewInterfaceRegistry = (), NewProtoCodec = (\<lambda>r. sample_app_codec),
      NewTxConfig = (\<lambda>c. sample_tx_config), std_RegisterLegacyAminoCodec = (\<lambda>m. m),
      std_RegisterInterfaces = (\<lambda>r. r), basics_RegisterLegacyAminoCodec = (\<lambda>ms m. m),
      basics_RegisterInterfaces = (\<lambda>ms r. r),
      basics_DefaultGenesis = (\<lambda>ms j. Ok [ModuleName \<mapsto> sample_data]),
      NewModuleAddress = (\<lambda>n. Some (string_bytes n)), UserHomeDir = Ok ''/home/a'',
      NewKVStoreKeys = (\<lambda>ns n. if n \<in> set ns then Some n else None),
      NewTransientStoreKeys = (\<lambda>ns n. None), NewMemoryStoreKeys = (\<lambda>ns n. None),
      NewConsensusKeeper = (\<lambda>c key a. ()), NewAccountKeeper = (\<lambda>c key perms prefix a. sample_ak),
      NewBaseKeeper = (\<lambda>c key a blocked auth. ()),
      NewWasmKeeper = (\<lambda>c key a b dir cfg caps auth opts. ()),
      NewGovPermissionKeeper = (\<lambda>v. sample_ck), has_SnapshotManager = (\<lambda>calls. True),
      RegisterExtensions = (\<lambda>v. Ok ()), LoadLatestVersion_result = (\<lambda>calls. Ok ()),
      LoadVersion_result = (\<lambda>h calls. Ok ()), InitializePinnedCodes_result = (\<lambda>v calls. Ok ()),
      tmos_Exit = (\<lambda>text. ProcessExit 1), json_Unmarshal_Genesis = (\<lambda>bz. Ok [ModuleName \<mapsto> bz]),
      mm_InitGenesis = (\<lambda>mm j gs. bindM (run_genesis (module_init sample_sdk (\<lambda>e. []) sample_names
        (\<lambda>m data. retM []) mm j) gs (OrderInitGenesis mm)) (\<lambda>u. retM [([1], 1)])),
      mm_BeginBlock = (\<lambda>mm req. retM ()), mm_EndBlock = (\<lambda>mm req. retM [])\<rparr>"

definition sample_app :: "(sample_world, unit, unit, unit, unit, unit) SimApp" where
  "sample_app =
     \<lparr>app_amino = (), app_cdc = sample_app_codec, app_txConfig = sample_tx_config,
      app_interfaceRegistry = (),
      app_keys = NewKVStoreKeys sample_app_lib [StoreKey, ''acc'', ''bank'', ''Consensus'', ''wasm''],
      app_tkeys = (\<lambda>n. None), app_memKeys = (\<lambda>n. None),
      app_AbstractAccountKeeper = sample_keeper\<lparr>authority := Authority\<rparr>, app_AccountKeeper = sample_ak,
      app_BankKeeper = (), app_ConsensusParamsKeeper = (), app_WasmKeeper = (),
      app_ModuleManager = simapp_ModuleManager sample_names sample_app_codec
        (sample_keeper\<lparr>authority := Authority\<rparr>) sample_ak () () ()\<rparr>"

lemma sample_built:
  "built_app sample_sdk sample_app_lib sample_names dir w caps [] = Ok sample_app"
  by (simp add: built_app_def Let_def MakeEncodingConfig_def MakeTestEncodingConfig_def NewKeeper_def
      sample_app_codec_def sample_keeper_def sample_app_def sample_app_lib_def sample_names_def)


definition sample_start where
  "sample_start = NewSimApp sample_sdk sample_co sample_ante_lib sample_app_lib (\<lambda>e. []) sample_names
     ''log'' ''db'' None True sample_opts [] [] []"

lemma sample_app_options:
  "app_ante_options sample_ante_lib sample_app (app_txConfig sample_app) w key =
    sample_options\<lparr>WasmCfg := Some w, TXCounterStoreKey := key,
      AbstractAccountKeeper := sample_keeper\<lparr>authority := Authority\<rparr>\<rparr>"
  by (simp add: app_ante_options_def sample_app_def sample_options_def sample_tx_config_def sample_auth_ante)


lemma sample_ante_ok: "\<exists>h. NewAnteHandler sample_sdk sample_co sample_ante_lib
    (app_ante_options sample_ante_lib sample_app (app_txConfig sample_app) \<lparr>SimulationGasLimit = None\<rparr>
      (app_keys sample_app ''wasm'')) = Ok h"
  by (simp add: NewAnteHandler_def app_ante_options_def sample_app_def sample_app_lib_def)

lemma sample_start_Ok: "\<exists>calls. sample_start = (Ok sample_app, calls)"
proof -
  obtain h where h: "NewAnteHandler sample_sdk sample_co sample_ante_lib
    (app_ante_options sample_ante_lib sample_app (app_txConfig sample_app) \<lparr>SimulationGasLimit = None\<rparr>
      (app_keys sample_app ''wasm'')) = Ok h" using sample_ante_ok by blast
  have "wasmParams (\<lambda>e. []) sample_opts = Ok (filepath_Join [''/home/a'', ''wasm''],
      \<lparr>SimulationGasLimit = None\<rparr>, ''iterator,staking,stargate,cosmwasm_1_1,cosmwasm_1_2'')"
    by (simp add: wasmParams_def sample_opts_def)
  moreover have "ec_TxConfig (MakeEncodingConfig sample_app_lib) r = app_txConfig sample_app"
    "wasm_StoreKey sample_names = ''wasm''" for r
    by (simp_all add: MakeEncodingConfig_def MakeTestEncodingConfig_def sample_app_def
        sample_app_lib_def sample_names_def)
  moreover have "register_snapshotter sample_app_lib txt v calls = (Ok (), calls @ [RegisterSnapshotter v])"
    "load_latest sample_app_lib txt v calls = (Ok (), calls @ [LoadLatestVersion, NewUncachedContext True,
       InitializePinnedCodes v])" for "txt" v calls
    by (simp_all add: register_snapshotter_def load_latest_def monad_simps sample_app_lib_def)
  ultimately show ?thesis
    using h by (simp add: sample_start_def NewSimApp_def Let_def bind_base bindM_simps sample_built
        setAnteHandler_run setPostHandler_run bindM_OkI retM_def)
qed

theorem sim_app_installs_handlers_witness:
  "\<exists>calls h. sample_start = (Ok sample_app, calls) \<and> ante_handlers calls = [h]"
proof -
  obtain calls where run: "sample_start = (Ok sample_app, calls)" using sample_start_Ok by blast
  with sim_app_installs_handlers [OF run [unfolded sample_start_def]] show ?thesis by blast
qed

lemma sample_Authority:
  "gate_view sdk (k\<lparr>authority := au\<rparr>) aa tx = gate_view sdk k aa tx"
  "BeforeTx_AnteHandle sdk co (k\<lparr>authority := au\<rparr>) = BeforeTx_AnteHandle sdk co k"
proof -
  show "gate_view sdk (k\<lparr>authority := au\<rparr>) aa tx = gate_view sdk k aa tx"
    by (simp add: fun_eq_iff gate_view_def abs_state_def)
  have c: "cdc (k\<lparr>authority := au\<rparr>) = cdc k" by simp
  have "GetParams (k\<lparr>authority := au\<rparr>) = GetParams k" by (simp only: GetParams_def c)
  moreover have "ContractKeeper (k\<lparr>authority := au\<rparr>) = ContractKeeper k" by (simp add: ContractKeeper_def)
  ultimately show "BeforeTx_AnteHandle sdk co (k\<lparr>authority := au\<rparr>) = BeforeTx_AnteHandle sdk co k"
    by (intro ext) (simp only: BeforeTx_AnteHandle_def)
qed

lemma sample_app_fields:
  "tc_SignModeHandler (app_txConfig sample_app) = sample_modes" "app_AccountKeeper sample_app = sample_ak"
  "app_AbstractAccountKeeper sample_app = sample_keeper\<lparr>authority := Authority\<rparr>"
  "AbstractAccountKeeper sample_options = sample_keeper"
  by (simp_all add: sample_app_def sample_tx_config_def sample_options_def)

lemma sample_app_front:
  "front_keeps sample_sdk sample_co sample_ante_lib
    (app_ante_options sample_ante_lib sample_app (app_txConfig sample_app) w key)
    (app_AccountKeeper sample_app) (tc_SignModeHandler (app_txConfig sample_app)) world tx"
proof -
  have "take 12 (ante_decorators sample_sdk sample_co sample_ante_lib (sample_options\<lparr>WasmCfg := Some w,
      TXCounterStoreKey := key, AbstractAccountKeeper := k\<rparr>) a b w' m key')
    = take 12 (ante_decorators sample_sdk sample_co sample_ante_lib sample_options a b w' m key')" for k a b w' m key'
    by (simp add: ante_decorators_def)
  then show ?thesis
    using sample_front_keeps [of tx]
    by (simp add: front_keeps_def sample_app_options sample_app_fields sample_Authority)
qed

lemma sample_app_handler:
  "NewAnteHandler sample_sdk sample_co sample_ante_lib
    (app_ante_options sample_ante_lib sample_app (app_txConfig sample_app) w (Some key)) =
    Ok (\<lambda>tx sim s. BeforeTx_AnteHandle sample_sdk sample_co sample_keeper sample_aa
      (\<lambda>tx sim. retM ()) tx sim (s\<lparr>meter := NewGasMeter 1000\<rparr>))"
  unfolding sample_app_options
  by (simp add: NewAnteHandler_def sample_options_def ante_decorators_def
      BeforeTxDecorator_AnteHandle_def NewBeforeTxDecorator_def sample_auth_ante)
     (simp add: sample_ante_lib_def pass_all_def sample_Authority)

theorem sim_app_gate_witness:
  "\<exists>calls h t s1 anys cred s2. sample_start = (Ok sample_app, calls) \<and> ante_handlers calls = [h]
    \<and> h (sample_tx 4) False sample_aa_ctx = (Ok (), t)
    \<and> world s1 = world sample_aa_ctx
    \<and> sudoWithGasLimit sample_co sample_ck sample_addr (before_tx_msg anys (Some [1, 2, 3]) cred False)
        2000000 s1 = (Ok (), s2) \<and> t = s2"
proof -
  let ?h = "\<lambda>tx sim s. BeforeTx_AnteHandle sample_sdk sample_co sample_keeper sample_aa
      (\<lambda>tx sim. retM ()) tx sim (s\<lparr>meter := NewGasMeter 1000\<rparr>)"
  obtain t where t: "?h (sample_tx 4) False sample_aa_ctx = (Ok (), t)"
    using sample_before_any_meter by blast
  obtain calls where run: "sample_start = (Ok sample_app, calls)" using sample_start_Ok by blast
  have key: "app_keys sample_app (wasm_StoreKey sample_names) = Some ''wasm''"
    by (simp add: sample_app_def sample_app_lib_def sample_names_def)
  have h: "ante_handlers calls = [?h]"
    using run [unfolded sample_start_def]
    by (rule NewSimApp_Ok) (simp add: key sample_app_handler setup_handlers)
  have p: "st_params (abs_state sample_sdk sample_keeper sample_aa_ctx) = Some DefaultParams"
    by (simp add: abs_state_def store_Get_def sample_aa_ctx_def sample_ctx_def sample_keeper_def sample_params)
  have aa: "sample_aa = auth_ante sample_ante_lib (app_AccountKeeper sample_app)
      (tc_SignModeHandler (app_txConfig sample_app))"
    unfolding sample_app_fields sample_auth_ante by (rule refl)
  have inc: "NewIncrementSequenceDecorator sample_ante_lib a nxt tx sim s = nxt tx sim s" for a nxt tx sim s
    by (simp add: sample_ante_lib_def pass_all_def)
  have "?h \<in> set (ante_handlers calls)" by (simp add: h)
  from sim_app_gate [OF run [unfolded sample_start_def] this sample_chains_ok sample_app_front aa refl
      sample_is_aa t]
  obtain addr s0 s1 anys signBytes cred p s2 where
    "GetAddress sample_sdk sample_acc = Some addr" "Ok (Some [1, 2, 3]) = Ok signBytes"
    "world s0 = world sample_aa_ctx" "same_outside s0 s1" "t = s2"
    "st_params (abs_state sample_sdk sample_keeper sample_aa_ctx) = Some p"
    "sudoWithGasLimit sample_co sample_ck (Some addr) (before_tx_msg anys signBytes cred False)
      (MaxGasBefore p) s1 = (Ok (), s2)"
    by (auto simp: sample_app_fields sample_modes_def sample_aa_def abs_state_def sample_keeper_def
        inc retM_def)
  then have "sudoWithGasLimit sample_co sample_ck sample_addr
      (before_tx_msg anys (Some [1, 2, 3]) cred False) 2000000 s1 = (Ok (), s2)"
    and "world s1 = world sample_aa_ctx"
    by (simp_all add: p DefaultParams_fields sample_address same_outside_def)
  then show ?thesis using run h t \<open>t = s2\<close> by blast
qed

lemma sample_names_ok: "names_ok sample_names"
  by (simp add: names_ok_def genesisModuleOrder_def sample_names_def ModuleName_def)

lemma run_genesis_own:
  assumes "names_ok names" and "init ModuleName data s = (Ok ups, t)"
  shows "run_genesis init [ModuleName \<mapsto> data] (genesisModuleOrder names) s = (Ok (), t)"
  using assms by (auto simp: names_ok_def genesisModuleOrder_def bindM_OkI retM_def)

lemma sample_manager_ok: "manager_ok sample_sdk (\<lambda>e. []) sample_names sample_app_lib"
  unfolding manager_ok_def
  by (rule exI [of _ "\<lambda>m data. retM []"]) (auto simp: sample_app_lib_def bindM_Ok_iff retM_def)

lemma sample_app_genesis:
  "app_cdc sample_app = sample_app_codec" "JSON sample_app_codec = sample_json"
  "BinaryCodec sample_app_codec = sample_codec" "cdc (app_AbstractAccountKeeper sample_app) = sample_codec"
  "json_Unmarshal_Genesis sample_app_lib sample_data = Ok [ModuleName \<mapsto> sample_data]"
  by (simp_all add: sample_app_def sample_app_codec_def sample_app_lib_def sample_keeper_def)

lemma sample_init_chain:
  "\<exists>t. InitChainer sample_app_lib sample_app sample_data sample_ctx = (Ok [([1], 1)], t)
    \<and> abs_state sample_sdk (app_AbstractAccountKeeper sample_app) t
      = (abs_state sample_sdk (app_AbstractAccountKeeper sample_app) sample_ctx)
        \<lparr>st_params := Some DefaultParams, st_next_id := 1\<rparr>"
proof -
  note j = sample_app_genesis
  have codec: "codec_ok (cdc (app_AbstractAccountKeeper sample_app))"
    using codec_sample by (simp add: j)
  have p: "gs_Params DefaultGenesisState = Some DefaultParams" "NextAccountId DefaultGenesisState = 1"
    by (simp_all add: DefaultGenesisState_def NewGenesisState_def)
  obtain t where init: "AppModule_InitGenesis sample_sdk (\<lambda>e. [])
      (NewAppModule (app_AbstractAccountKeeper sample_app)) sample_json sample_data sample_ctx = (Ok [], t)"
    and abs: "abs_state sample_sdk (app_AbstractAccountKeeper sample_app) t
      = (abs_state sample_sdk (app_AbstractAccountKeeper sample_app) sample_ctx)
        \<lparr>st_params := Some DefaultParams, st_next_id := 1\<rparr>"
    using init_genesis_bytes [OF sample_json_ok codec big_endian_sample sample_data_read p(1)
        valid_DefaultParams small_DefaultParams] p(2) by metis
  let ?mm = "app_ModuleManager sample_app"
  have mm: "?mm = simapp_ModuleManager sample_names sample_app_codec
      (app_AbstractAccountKeeper sample_app) sample_ak () () ()"
    by (simp add: sample_app_def)
  have order: "OrderInitGenesis ?mm = genesisModuleOrder sample_names"
    by (simp add: mm simapp_ModuleManager_def)
  have "run_genesis (module_init sample_sdk (\<lambda>e. []) sample_names (\<lambda>m data. retM []) ?mm sample_json)
      [ModuleName \<mapsto> sample_data] (OrderInitGenesis ?mm) sample_ctx = (Ok (), t)"
    unfolding order by (rule run_genesis_own [OF sample_names_ok])
      (simp add: mm module_init_own [OF sample_names_ok] init)
  then have "mm_InitGenesis sample_app_lib ?mm sample_json [ModuleName \<mapsto> sample_data] sample_ctx
      = (Ok [([1], 1)], t)"
    by (simp add: sample_app_lib_def bindM_OkI retM_def)
  then have "InitChainer sample_app_lib sample_app sample_data sample_ctx = (Ok [([1], 1)], t)"
    by (simp add: InitChainer_def j)
  with abs show ?thesis by blast
qed

theorem init_chain_starts_module_witness:
  "\<exists>ups t p. InitChainer sample_app_lib sample_app sample_data sample_ctx = (Ok ups, t)
    \<and> GetParams (app_AbstractAccountKeeper sample_app) t = (Ok p, t)
    \<and> GetNextAccountID sample_sdk t = (Ok 1, t)"
proof -
  obtain calls where run: "sample_start = (Ok sample_app, calls)" using sample_start_Ok by blast
  have ic: "InitChainer sample_app_lib sample_app \<in> set (init_chainers calls)"
    using run [unfolded sample_start_def] by (rule NewSimApp_Ok) (simp add: setup_handlers)
  obtain t where "InitChainer sample_app_lib sample_app sample_data sample_ctx = (Ok [([1], 1)], t)"
    using sample_init_chain by blast
  with init_chain_starts_module [OF run [unfolded sample_start_def] ic sample_manager_ok sample_names_ok,
      unfolded sample_app_genesis(1-3), OF sample_json_ok codec_sample big_endian_sample sample_data_ok(1)
        sample_app_genesis(5) _ this] sample_data_read
  show ?thesis by (auto simp: DefaultGenesisState_def NewGenesisState_def)
qed

end
