(* ===== verification/Cobra.thy ===== *)
theory Cobra
  imports Context
begin

text \<open>
  Command trees: what the code hands to the command line library.  A \<open>cobra.Command\<close>
  literal is the record of the fields the code sets; the commands given to \<open>AddCommand\<close>,
  in order, are its children; the flags it declares are kept as data.  Parsing of command
  lines is the library's.  \<open>strconv.ParseUint\<close> is Go's own.
\<close>

datatype PositionalArgs = ArbitraryArgs | NoArgs | ExactArgs nat

text \<open>A string flag with its default and its usage, or the flags the SDK adds to a command.\<close>

datatype Flag = StringFlag string string string | TxFlags

record 'run CommandFields =
  Use :: string
  Aliases :: "string list"
  Short :: string
  Args :: PositionalArgs
  DisableFlagParsing :: bool
  SuggestionsMinimumDistance :: nat
  PersistentPreRunE :: "'run option"
  RunE :: "'run option"
  SilenceUsage :: bool
  Flags :: "Flag list"

definition zero_Command :: "'run CommandFields" where
  "zero_Command =
     \<lparr>Use = [], Aliases = [], Short = [], Args = ArbitraryArgs, DisableFlagParsing = False,
      SuggestionsMinimumDistance = 0, PersistentPreRunE = None, RunE = None, SilenceUsage = False,
      Flags = []\<rparr>"

datatype 'run Command = Command (fields: "'run CommandFields") (commands: "'run Command list")

fun AddCommand :: "'run Command list \<Rightarrow> 'run Command \<Rightarrow> 'run Command" where
  "AddCommand cs (Command f ds) = Command f (ds @ cs)"

text \<open>What \<open>RunE\<close> is: a function of the positional arguments, over the outside world.\<close>

type_synonym 's runner = "string list \<Rightarrow> ('s, unit) act"

text \<open>\<open>args[i]\<close>.\<close>

definition arg_at :: "string list \<Rightarrow> nat \<Rightarrow> string res" where
  "arg_at args i = (if i < length args then Ok (args ! i) else Panic (PanicRuntime IndexOutOfRange))"

subsection \<open>ParseUint\<close>

definition is_digit :: "char \<Rightarrow> bool" where
  "is_digit c \<longleftrightarrow> 48 \<le> (of_char c :: nat) \<and> (of_char c :: nat) \<le> 57"

text \<open>
  The text of a \<open>*strconv.NumError\<close>; Go quotes the argument with escapes for characters
  that do not print, which are left as they are here.
\<close>

definition num_error :: "string \<Rightarrow> string \<Rightarrow> error" where
  "num_error s0 what = External (''strconv.ParseUint: parsing '' @ [CHR 0x22] @ s0 @ [CHR 0x22]
     @ '': '' @ what)"

text \<open>The loop of \<open>strconv.ParseUint(s, 10, 64)\<close>, with the number read so far.\<close>

fun parse_digits :: "string \<Rightarrow> nat \<Rightarrow> string \<Rightarrow> u64 res" where
  "parse_digits s0 n [] = Ok (of_nat n)"
| "parse_digits s0 n (c # cs) =
     (if \<not> is_digit c then Err (num_error s0 ''invalid syntax'')
      else if 2 ^ 64 \<le> 10 * n + (of_char c - 48) then Err (num_error s0 ''value out of range'')
      else parse_digits s0 (10 * n + (of_char c - 48)) cs)"

definition ParseUint :: "string \<Rightarrow> u64 res" where
  "ParseUint s = (if s = [] then Err (num_error s ''invalid syntax'') else parse_digits s 0 s)"

text \<open>Printing a number with \<open>%d\<close> and parsing it gives it back.\<close>

lemma of_char_digit: "(m :: nat) < 10 \<Longrightarrow> of_char (char_of (48 + m) :: char) = (48 + m :: nat)"
  by simp

lemma is_digit_digit: "(m :: nat) < 10 \<Longrightarrow> is_digit (char_of (48 + m))"
  by (simp add: is_digit_def)

lemma parse_digits_snoc:
  assumes "parse_digits s0 a ds = Ok (of_nat n)" and "n < 2 ^ 64"
    and "n = foldl (\<lambda>a c. 10 * a + (of_char c - 48)) a ds"
    and "m < 10" and "10 * n + m < 2 ^ 64"
  shows "parse_digits s0 a (ds @ [char_of (48 + m)]) = Ok (of_nat (10 * n + m))"
  using assms
proof (induction ds arbitrary: a)
  case Nil
  then show ?case by (simp add: is_digit_digit of_char_digit del: of_nat_add of_nat_mult)
next
  case (Cons c ds)
  then show ?case by (auto split: if_splits)
qed

lemma parse_digits_decimal: "n < 2 ^ 64 \<Longrightarrow> parse_digits s0 0 (decimal n) = Ok (of_nat n)"
proof (induction n rule: decimal.induct)
  case (1 n)
  show ?case
  proof (cases "n < 10")
    case True
    then show ?thesis by (subst decimal.simps) (simp add: is_digit_digit of_char_digit)
  next
    case False
    have "parse_digits s0 0 (decimal (n div 10) @ [char_of (48 + n mod 10)])
        = Ok (of_nat (10 * (n div 10) + n mod 10))"
    proof (rule parse_digits_snoc)
      show "parse_digits s0 0 (decimal (n div 10)) = Ok (of_nat (n div 10))"
        using 1 False by simp
      show "n div 10 = foldl (\<lambda>a c. 10 * a + (of_char c - 48)) 0 (decimal (n div 10))"
        using undecimal_decimal [of "n div 10"] by (simp add: undecimal_def)
    qed (use 1 in auto)
    then show ?thesis using False by (subst decimal.simps) simp
  qed
qed

lemma decimal_nonempty [simp]: "decimal n \<noteq> []"
  by (subst decimal.simps) simp

lemma ParseUint_decimal: "ParseUint (decimal (unat v)) = Ok v"
  using parse_digits_decimal [OF unat_u64_less [of v]] by (simp add: ParseUint_def)

end
