(* ===== verification/Cli.thy ===== *)
theory Cli
  imports Cobra Tx Services
begin

text \<open>
  The module's commands: \<open>x/abstractaccount/client/cli/tx.go\<close> and \<open>query.go\<close>.  The calls
  into the SDK's client are the fields of \<open>ClientLib\<close>; \<open>'s\<close> is the type of everything
  outside the process and \<open>'k\<close> that of client contexts.
\<close>

record ('s, 'k) ClientLib =
  GetClientTxContext :: "('s, 'k) act"
  GetFromAddress :: "'k \<Rightarrow> slice"
  client_conn :: "'k \<Rightarrow> 's ClientConn"
  PrintProto :: "'k \<Rightarrow> Params option \<Rightarrow> ('s, unit) act"
  Flags_GetString :: "string \<Rightarrow> string res"
  ParseCoinsNormalized :: "string \<Rightarrow> Coin list res"
  json_Unmarshal_Params :: "bytes \<Rightarrow> Params res"
  GenerateOrBroadcastTxCLI :: "'k \<Rightarrow> Message \<Rightarrow> ('s, unit) act"
  ValidateCmd :: "'s runner"

definition flagSalt :: string where "flagSalt = ''salt''"
definition flagFunds :: string where "flagFunds = ''funds''"

text \<open>\<open>if err != nil { return fmt.Errorf("prefix: %s", err) }\<close>.\<close>

fun wrapS :: "(error \<Rightarrow> string) \<Rightarrow> string \<Rightarrow> 'a res \<Rightarrow> 'a res" where
  "wrapS error_text prefix (Ok x) = Ok x"
| "wrapS error_text prefix (Err e) = Err (ErrNew (prefix @ error_text e))"
| "wrapS error_text prefix (Panic p) = Panic p"

subsection \<open>register\<close>

definition register_RunE :: "Sdk \<Rightarrow> Coin MsgLib \<Rightarrow> ('s, 'k) ClientLib \<Rightarrow> 's runner" where
  "register_RunE sdk lib cl args =
     bindM (GetClientTxContext cl) (\<lambda>clientCtx.
     bindM (liftM (bindR (arg_at args 0) ParseUint)) (\<lambda>codeID.
     bindM (liftM (wrapS (Error_text lib) ''salt: '' (Flags_GetString cl flagSalt))) (\<lambda>salt.
     bindM (liftM (wrapS (Error_text lib) ''amount: '' (Flags_GetString cl flagFunds))) (\<lambda>amountStr.
     bindM (liftM (wrapS (Error_text lib) ''amount: '' (ParseCoinsNormalized cl amountStr))) (\<lambda>amount.
     bindM (liftM (arg_at args 1)) (\<lambda>arg1.
     let msg = \<lparr>Sender = AccAddress_String sdk (GetFromAddress cl clientCtx), CodeID = codeID,
                Msg = Some (string_bytes arg1), Funds = amount, Salt = Some (string_bytes salt)\<rparr>
     in bindM (liftM (MsgRegisterAccount_ValidateBasic sdk lib msg)) (\<lambda>_.
        GenerateOrBroadcastTxCLI cl clientCtx (M_RegisterAccount msg))))))))"

definition registerCmd :: "Sdk \<Rightarrow> Coin MsgLib \<Rightarrow> ('s, 'k) ClientLib \<Rightarrow> 's runner Command" where
  "registerCmd sdk lib cl =
     Command (zero_Command\<lparr>
       Use := ''register [code-id] [msg] --salt [string] --funds [coins,optional]'',
       Short := ''Register an abstract account'',
       Args := ExactArgs 2,
       RunE := Some (register_RunE sdk lib cl),
       SilenceUsage := True,
       Flags := [TxFlags,
         StringFlag flagSalt '''' ''Salt value used in determining account address'',
         StringFlag flagFunds '''' ''Coins to send to the account during instantiation'']\<rparr>) []"

subsection \<open>update-params\<close>

definition updateParams_RunE :: "Sdk \<Rightarrow> ('s, 'k) ClientLib \<Rightarrow> 's runner" where
  "updateParams_RunE sdk cl args =
     bindM (GetClientTxContext cl) (\<lambda>clientCtx.
     bindM (liftM (bindR (arg_at args 0) (\<lambda>arg0. json_Unmarshal_Params cl (string_bytes arg0)))) (\<lambda>params.
     let msg = \<lparr>up_Sender = AccAddress_String sdk (GetFromAddress cl clientCtx), up_Params = Some params\<rparr>
     in bindM (liftM (MsgUpdateParams_ValidateBasic sdk msg)) (\<lambda>_.
        GenerateOrBroadcastTxCLI cl clientCtx (M_UpdateParams msg))))"

definition updateParamsCmd :: "Sdk \<Rightarrow> ('s, 'k) ClientLib \<Rightarrow> 's runner Command" where
  "updateParamsCmd sdk cl =
     Command (zero_Command\<lparr>
       Use := ''update-params [json-encoded-params]'',
       Short := ''Update the module's parameters'',
       Args := ExactArgs 1,
       RunE := Some (updateParams_RunE sdk cl),
       SilenceUsage := True,
       Flags := [TxFlags]\<rparr>) []"

definition GetTxCmd :: "Sdk \<Rightarrow> Coin MsgLib \<Rightarrow> ('s, 'k) ClientLib \<Rightarrow> 's runner Command" where
  "GetTxCmd sdk lib cl =
     AddCommand [registerCmd sdk lib cl, updateParamsCmd sdk cl]
       (Command (zero_Command\<lparr>
          Use := ''abstract-account'',
          Short := ''Abstract account transaction subcommands'',
          DisableFlagParsing := True,
          SuggestionsMinimumDistance := 2,
          RunE := Some (ValidateCmd cl),
          SilenceUsage := True\<rparr>) [])"

subsection \<open>query params\<close>

definition params_RunE :: "('s, 'k) ClientLib \<Rightarrow> 's runner" where
  "params_RunE cl args =
     bindM (GetClientTxContext cl) (\<lambda>clientCtx. \<lambda>s.
     case queryClient_Params (client_conn cl clientCtx) QueryParamsRequest s of
       (Err err, t) \<Rightarrow> (Ok (), t)
     | (Panic p, t) \<Rightarrow> (Panic p, t)
     | (Ok res, t) \<Rightarrow> PrintProto cl clientCtx (qr_Params res) t)"

definition paramsCmd :: "('s, 'k) ClientLib \<Rightarrow> 's runner Command" where
  "paramsCmd cl =
     Command (zero_Command\<lparr>
       Use := ''params'',
       Short := ''Query the module's parameters'',
       Args := NoArgs,
       RunE := Some (params_RunE cl)\<rparr>) []"

definition GetQueryCmd :: "('s, 'k) ClientLib \<Rightarrow> 's runner Command" where
  "GetQueryCmd cl =
     AddCommand [paramsCmd cl]
       (Command (zero_Command\<lparr>
          Use := ''abstract-account'',
          Short := ''Querying commands for the abstract-account module'',
          DisableFlagParsing := True,
          SuggestionsMinimumDistance := 2\<rparr>) [])"

subsection \<open>Properties of the commands\<close>

text \<open>C38: \<open>register\<close> sends what it was asked to, or nothing.  Given the printed form of a
  code id and a message, with readable flags and funds, the command broadcasts exactly the
  registration of that code id, message, funds and salt by the client's own address when
  the message passes \<open>ValidateBasic\<close>; when it does not, the command returns that error and
  nothing is sent.\<close>

theorem register_command_sends:
  assumes "GetClientTxContext cl s = (Ok k, s1)" and "Flags_GetString cl ''salt'' = Ok salt"
    and "Flags_GetString cl ''funds'' = Ok funds" and "ParseCoinsNormalized cl funds = Ok coins"
    and "msg = \<lparr>Sender = AccAddress_String sdk (GetFromAddress cl k), CodeID = codeID,
      Msg = Some (string_bytes text), Funds = coins, Salt = Some (string_bytes salt)\<rparr>"
  shows "register_RunE sdk lib cl [decimal (unat codeID), text] s =
    (case MsgRegisterAccount_ValidateBasic sdk lib msg of
       Ok _ \<Rightarrow> GenerateOrBroadcastTxCLI cl k (M_RegisterAccount msg) s1
     | Err e \<Rightarrow> (Err e, s1)
     | Panic p \<Rightarrow> (Panic p, s1))"
  using assms
  by (simp add: register_RunE_def monad_simps arg_at_def ParseUint_decimal flagSalt_def flagFunds_def
      Let_def split: res.split)

definition sample_client :: "(Message list, slice) ClientLib" where
  "sample_client =
     \<lparr>GetClientTxContext = retM (Some (string_bytes ''alice'')),
      GetFromAddress = (\<lambda>k. k),
      client_conn = (\<lambda>k. \<lparr>Invoke_UpdateParams = (\<lambda>full req out. retM out),
        Invoke_RegisterAccount = (\<lambda>full req out. retM out),
        Invoke_QueryParams = (\<lambda>full req out. liftM (Err (External ''connection refused'')))\<rparr>),
      PrintProto = (\<lambda>k p. retM ()),
      Flags_GetString = (\<lambda>f. Ok (if f = ''salt'' then ''s'' else '''')),
      ParseCoinsNormalized = (\<lambda>f. Ok []),
      json_Unmarshal_Params = (\<lambda>bz. Ok DefaultParams),
      GenerateOrBroadcastTxCLI = (\<lambda>k m s. (Ok (), s @ [m])),
      ValidateCmd = (\<lambda>args. retM ())\<rparr>"

definition open_lib :: "Coin MsgLib" where
  "open_lib = \<lparr>RawContractMessage_ValidateBasic = (\<lambda>m. Ok ()), Coins_IsValid = (\<lambda>cs. True),
     ValidateSalt = (\<lambda>b. Ok ()), Error_text = (\<lambda>e. ''error'')\<rparr>"

definition open_sdk :: Sdk where
  "open_sdk = \<lparr>AccAddressFromBech32 = (\<lambda>s. (Some (string_bytes s), None)),
     AccAddress_String = (\<lambda>a. bytes_string (slice_bytes a)), Uint64ToBigEndian = (\<lambda>n. []),
     BigEndianToUint64 = (\<lambda>b. 0), TypedEventToEvent = (\<lambda>ev. Ok ('''', []))\<rparr>"

theorem register_command_sends_witness:
  "register_RunE open_sdk open_lib sample_client [decimal (unat (7 :: u64)), ''{}''] [] =
    (Ok (), [M_RegisterAccount \<lparr>Sender = ''alice'', CodeID = 7, Msg = Some (string_bytes ''{}''),
       Funds = [], Salt = Some (string_bytes ''s'')\<rparr>])"
proof -
  let ?m = "\<lparr>Sender = ''alice'', CodeID = 7, Msg = Some (string_bytes ''{}''), Funds = [],
    Salt = Some (string_bytes ''s'')\<rparr>"
  have "MsgRegisterAccount_ValidateBasic open_sdk open_lib ?m = Ok ()"
    by (simp add: register_basic_Ok open_lib_def open_sdk_def)
  moreover have "register_RunE open_sdk open_lib sample_client [decimal (unat (7 :: u64)), ''{}''] [] =
    (case MsgRegisterAccount_ValidateBasic open_sdk open_lib ?m of
       Ok _ \<Rightarrow> GenerateOrBroadcastTxCLI sample_client (Some (string_bytes ''alice'')) (M_RegisterAccount ?m) []
     | Err e \<Rightarrow> (Err e, [])
     | Panic p \<Rightarrow> (Panic p, []))"
    by (rule register_command_sends)
       (simp_all add: sample_client_def retM_def open_sdk_def)
  ultimately show ?thesis by (simp add: sample_client_def)
qed

text \<open>\<open>query params\<close> hides its failures: when the query returns an error, because the node
  cannot be reached or holds no parameters, the command prints nothing and reports
  success.\<close>

theorem params_command_hides_errors:
  assumes "GetClientTxContext cl s = (Ok k, s1)"
    and "queryClient_Params (client_conn cl k) QueryParamsRequest s1 = (Err e, t)"
  shows "params_RunE cl args s = (Ok (), t)"
  using assms by (simp add: params_RunE_def monad_simps)

theorem params_command_hides_errors_witness:
  "params_RunE sample_client [] [] = (Ok (), [])"
  by (rule params_command_hides_errors [where e = "External ''connection refused''" and
        k = "Some (string_bytes ''alice'')"])
     (simp_all add: sample_client_def retM_def liftM_def queryClient_Params_def)

end
