(* ===== verification/Simd.thy ===== *)
theory Simd
  imports SimApp Cli
begin

text \<open>
  The node's executable: \<open>simapp/simd/main.go\<close>.  The SDK's functions are the fields of
  \<open>SimdLib\<close>, its commands values of \<open>SdkCommand\<close> that \<open>sdk_cmd\<close> makes into command trees.  \<open>'s\<close>
  is the type of everything outside the process and \<open>'t\<close> that of consensus engine
  configurations.
\<close>

subsection \<open>Types\<close>

record ('r, 'm) ClientContext =
  cc_Codec :: AppCodec
  cc_InterfaceRegistry :: 'r
  cc_TxConfig :: TxConfig
  cc_LegacyAmino :: 'm
  cc_Input :: handle
  cc_AccountRetriever :: string
  cc_HomeDir :: string
  cc_Viper :: string

record ServerConfig =
  MinGasPrices :: string
  ConfigRest :: bytes

record WASMConfig =
  wasm_QueryGasLimit :: u64
  wasm_LruSize :: u64

record CustomAppConfig =
  Config :: ServerConfig
  WASM :: WASMConfig

text \<open>The SDK's commands, by constructor and arguments; \<open>PruningCmd\<close> is the one over \<open>createApp\<close>.\<close>

datatype SdkCommand =
    ConfigCmd | DebugCmd | InitCmd "BasicModule list" string | KeysCommands string | PruningCmd
  | StatusCommand | ValidateGenesisCmd "BasicModule list" | AddGenesisAccountCmd string
  | GetAccountCmd | ValidatorCommand | BlockCommand | QueryTxsByEventsCmd | QueryTxCmd
  | GetSignCommand | GetSignBatchCommand | GetMultiSignCommand | GetMultiSignBatchCmd
  | GetValidateSignaturesCommand | GetBroadcastCommand | GetEncodeCommand | GetDecodeCommand
  | GetAuxToFeeCommand

text \<open>\<open>server.ErrorCode\<close>, or any other error.\<close>

datatype exec_error = ErrorCode int | OtherError error

type_synonym ('w, 'b, 'n, 'v, 'r, 'm) AppCreator =
  "handle \<Rightarrow> handle \<Rightarrow> handle option \<Rightarrow> AppOptions \<Rightarrow> ('w, 'b, 'n, 'v, 'r, ('w, 'b, 'n, 'v, 'r, 'm) SimApp) app_act"

type_synonym AppExporter =
  "handle \<Rightarrow> handle \<Rightarrow> handle option \<Rightarrow> int \<Rightarrow> bool \<Rightarrow> string list \<Rightarrow> AppOptions \<Rightarrow> string list \<Rightarrow> unit res"

record ('s, 't, 'w, 'b, 'n, 'v, 'r, 'm) SimdLib =
  Stdin :: handle
  ReadPersistentCommandFlags :: "('r, 'm) ClientContext \<Rightarrow> ('s, ('r, 'm) ClientContext) act"
  ReadFromClientConfig :: "('r, 'm) ClientContext \<Rightarrow> ('s, ('r, 'm) ClientContext) act"
  SetCmdClientContextHandler :: "('r, 'm) ClientContext \<Rightarrow> ('s, unit) act"
  SetOutAndErr :: "('s, unit) act"
  InterceptConfigsPreRunHandler :: "string \<Rightarrow> CustomAppConfig \<Rightarrow> 't \<Rightarrow> ('s, unit) act"
  server_DefaultConfig :: ServerConfig
  DefaultConfigTemplate :: string
  tm_DefaultConfig :: 't
  DefaultBaseappOptions :: "AppOptions \<Rightarrow> handle list"
  sdk_cmd :: "SdkCommand \<Rightarrow> 's runner Command"
  basics_AddQueryCommands :: "BasicModule list \<Rightarrow> 's runner Command \<Rightarrow> 's runner Command"
  basics_AddTxCommands :: "BasicModule list \<Rightarrow> 's runner Command \<Rightarrow> 's runner Command"
  server_AddCommands :: "string \<Rightarrow> ('w, 'b, 'n, 'v, 'r, 'm) AppCreator \<Rightarrow> AppExporter
    \<Rightarrow> 's runner Command \<Rightarrow> 's runner Command"
  Execute :: "'s runner Command \<Rightarrow> string \<Rightarrow> string \<Rightarrow> 's \<Rightarrow> exec_error option \<times> 's"

subsection \<open>Configuration\<close>

definition initTendermintConfig :: "('s, 't, 'w, 'b, 'n, 'v, 'r, 'm) SimdLib \<Rightarrow> 't" where
  "initTendermintConfig sl = tm_DefaultConfig sl"

definition newline :: string where "newline = [CHR 0x0A]"

definition wasm_template :: string where
  "wasm_template = newline @ ''[wasm]'' @ newline
     @ ''# This is the maximum sdk gas (wasm and storage) that we allow for any x/wasm ''
     @ [CHR 0x22] @ ''smart'' @ [CHR 0x22] @ '' queries'' @ newline
     @ ''query_gas_limit = 300000'' @ newline
     @ ''# This is the number of wasm vm instances we keep cached in memory for speed-up'' @ newline
     @ ''# Warning: this is currently unstable and may lead to crashes, best to keep for 0 unless testing locally''
     @ newline @ ''lru_size = 0''"

definition initAppConfig ::
  "('s, 't, 'w, 'b, 'n, 'v, 'r, 'm) SimdLib \<Rightarrow> string \<times> CustomAppConfig" where
  "initAppConfig sl =
     (let srvCfg = (server_DefaultConfig sl)\<lparr>MinGasPrices := ''0utoken''\<rparr>;
          customAppConfig = \<lparr>Config = srvCfg,
            WASM = \<lparr>wasm_QueryGasLimit = 300000, wasm_LruSize = 1\<rparr>\<rparr>
      in (DefaultConfigTemplate sl @ wasm_template, customAppConfig))"

subsection \<open>Applications for the server\<close>

definition createApp ::
  "Sdk \<Rightarrow> 'w CtxOps \<Rightarrow> ('w, 'b) AnteLib \<Rightarrow> ('w, 'b, 'n, 'v, 'r, 'm, 'o) AppLib \<Rightarrow> (error \<Rightarrow> string) \<Rightarrow> Names
     \<Rightarrow> ('s, 't, 'w, 'b, 'n, 'v, 'r, 'm) SimdLib \<Rightarrow> ('w, 'b, 'n, 'v, 'r, 'm) AppCreator" where
  "createApp sdk co alib lib error_text names sl logger db traceStore appOpts =
     NewSimApp sdk co alib lib error_text names logger db traceStore True appOpts []
       (DefaultBaseappOptions sl appOpts)"

definition exportApp :: AppExporter where
  "exportApp logger db traceStore height forZeroHeight jailAllowed appOpts modules =
     Panic (PanicMsg ''UNIMPLEMENTED'')"

subsection \<open>Commands\<close>

definition genesisCommand ::
  "('s, 'k) ClientLib \<Rightarrow> ('s, 't, 'w, 'b, 'n, 'v, 'r, 'm) SimdLib \<Rightarrow> string \<Rightarrow> 's runner Command" where
  "genesisCommand cl sl home =
     AddCommand [sdk_cmd sl (ValidateGenesisCmd ModuleBasics), sdk_cmd sl (AddGenesisAccountCmd home)]
       (Command (zero_Command\<lparr>
          Use := ''genesis'',
          Short := ''Application's genesis-related subcommands'',
          DisableFlagParsing := False,
          SuggestionsMinimumDistance := 2,
          RunE := Some (ValidateCmd cl)\<rparr>) [])"

definition queryCommand ::
  "('s, 'k) ClientLib \<Rightarrow> ('s, 't, 'w, 'b, 'n, 'v, 'r, 'm) SimdLib \<Rightarrow> 's runner Command" where
  "queryCommand cl sl =
     basics_AddQueryCommands sl ModuleBasics
       (AddCommand (map (sdk_cmd sl)
            [GetAccountCmd, ValidatorCommand, BlockCommand, QueryTxsByEventsCmd, QueryTxCmd])
          (Command (zero_Command\<lparr>
             Use := ''query'',
             Aliases := [''q''],
             Short := ''Querying subcommands'',
             DisableFlagParsing := False,
             SuggestionsMinimumDistance := 2,
             RunE := Some (ValidateCmd cl)\<rparr>) []))"

definition txCommand ::
  "('s, 'k) ClientLib \<Rightarrow> ('s, 't, 'w, 'b, 'n, 'v, 'r, 'm) SimdLib \<Rightarrow> 's runner Command" where
  "txCommand cl sl =
     basics_AddTxCommands sl ModuleBasics
       (AddCommand (map (sdk_cmd sl)
            [GetSignCommand, GetSignBatchCommand, GetMultiSignCommand, GetMultiSignBatchCmd,
             GetValidateSignaturesCommand, GetBroadcastCommand, GetEncodeCommand, GetDecodeCommand,
             GetAuxToFeeCommand])
          (Command (zero_Command\<lparr>
             Use := ''tx'',
             Short := ''Transactions subcommands'',
             DisableFlagParsing := False,
             SuggestionsMinimumDistance := 2,
             RunE := Some (ValidateCmd cl)\<rparr>) []))"

text \<open>The commands the module gives to \<open>AddTxCommands\<close> and \<open>AddQueryCommands\<close>: \<open>module.go\<close>.\<close>

definition AppModuleBasic_GetTxCmd ::
  "AppModuleBasic \<Rightarrow> Sdk \<Rightarrow> Coin MsgLib \<Rightarrow> ('s, 'k) ClientLib \<Rightarrow> 's runner Command" where
  "AppModuleBasic_GetTxCmd b sdk lib cl = GetTxCmd sdk lib cl"

definition AppModuleBasic_GetQueryCmd :: "AppModuleBasic \<Rightarrow> ('s, 'k) ClientLib \<Rightarrow> 's runner Command" where
  "AppModuleBasic_GetQueryCmd b cl = GetQueryCmd cl"

text \<open>What runs before every command of the tree.\<close>

definition root_PersistentPreRunE ::
  "('s, 't, 'w, 'b, 'n, 'v, 'r, 'm) SimdLib \<Rightarrow> ('r, 'm) ClientContext \<Rightarrow> 's runner" where
  "root_PersistentPreRunE sl initClientCtx args =
     bindM (SetOutAndErr sl) (\<lambda>_.
     bindM (ReadPersistentCommandFlags sl initClientCtx) (\<lambda>clientCtx.
     bindM (ReadFromClientConfig sl clientCtx) (\<lambda>clientCtx.
     bindM (SetCmdClientContextHandler sl clientCtx) (\<lambda>_.
     let (customAppTemplate, customAppConfig) = initAppConfig sl;
         customTMConfig = initTendermintConfig sl
     in InterceptConfigsPreRunHandler sl customAppTemplate customAppConfig customTMConfig))))"

definition NewRootCmd ::
  "Sdk \<Rightarrow> 'w CtxOps \<Rightarrow> ('w, 'b) AnteLib \<Rightarrow> ('w, 'b, 'n, 'v, 'r, 'm, 'o) AppLib \<Rightarrow> (error \<Rightarrow> string) \<Rightarrow> Names
     \<Rightarrow> ('s, 'k) ClientLib \<Rightarrow> ('s, 't, 'w, 'b, 'n, 'v, 'r, 'm) SimdLib \<Rightarrow> string \<Rightarrow> 's runner Command" where
  "NewRootCmd sdk co alib lib error_text names cl sl home =
     (let encCfg = MakeEncodingConfig lib;
          registry = InterfaceRegistry encCfg;
          initClientCtx = \<lparr>cc_Codec = ec_Codec encCfg registry, cc_InterfaceRegistry = registry,
            cc_TxConfig = ec_TxConfig encCfg registry, cc_LegacyAmino = Amino encCfg,
            cc_Input = Stdin sl, cc_AccountRetriever = ''types.AccountRetriever'',
            cc_HomeDir = home, cc_Viper = ''''\<rparr>;
          rootCmd = Command (zero_Command\<lparr>
            Use := ''simd'',
            Short := ''Simulation app'',
            PersistentPreRunE := Some (root_PersistentPreRunE sl initClientCtx)\<rparr>) [];
          rootCmd = server_AddCommands sl home
            (createApp sdk co alib lib error_text names sl) exportApp rootCmd
      in AddCommand [genesisCommand cl sl home, queryCommand cl sl, txCommand cl sl,
           sdk_cmd sl ConfigCmd, sdk_cmd sl DebugCmd, sdk_cmd sl (InitCmd ModuleBasics home),
           sdk_cmd sl (KeysCommands home), sdk_cmd sl PruningCmd, sdk_cmd sl StatusCommand] rootCmd)"

subsection \<open>main\<close>

text \<open>\<open>main\<close>, after the package initialisers: the end of the process.\<close>

definition main ::
  "Sdk \<Rightarrow> 'w CtxOps \<Rightarrow> ('w, 'b) AnteLib \<Rightarrow> ('w, 'b, 'n, 'v, 'r, 'm, 'o) AppLib \<Rightarrow> (error \<Rightarrow> string) \<Rightarrow> Names
     \<Rightarrow> ('s, 'k) ClientLib \<Rightarrow> ('s, 't, 'w, 'b, 'n, 'v, 'r, 'm) SimdLib \<Rightarrow> ('s, unit) act" where
  "main sdk co alib lib error_text names cl sl =
     bindM (liftM (DefaultNodeHome lib)) (\<lambda>home. \<lambda>s.
     case Execute sl (NewRootCmd sdk co alib lib error_text names cl sl home) '''' home s of
       (None, t) \<Rightarrow> (Ok (), t)
     | (Some (ErrorCode code), t) \<Rightarrow> (Panic (ProcessExit code), t)
     | (Some (OtherError err), t) \<Rightarrow> (Panic (ProcessExit 1), t))"

end
