(* ===== verification/Gateway.thy ===== *)
theory Gateway
  imports Services Sample
begin

text \<open>
  The HTTP gateway of the Query service, as generated: \<open>types/query.pb.gw.go\<close>.  The calls
  into gRPC and into the gateway runtime are fields of \<open>Runtime\<close>; \<open>'c\<close> is the type of
  contexts, \<open>'q\<close> of HTTP requests, \<open>'m\<close> of marshalers, \<open>'d\<close> of metadata.  What a handler
  writes to the response writer is its last call into the runtime, \<open>HTTPError\<close> or
  \<open>ForwardResponseMessage\<close>, kept as a value.
\<close>

subsection \<open>Types\<close>

record 'd ServerMetadata =
  HeaderMD :: 'd
  TrailerMD :: 'd

record ('c, 'q, 'm, 'd) Runtime =
  request_Context :: "'q \<Rightarrow> 'c"
  NewContextWithServerTransportStream :: "'c \<Rightarrow> 'c"
  MarshalerForRequest :: "'q \<Rightarrow> 'm \<times> 'm"
  AnnotateIncomingContext :: "'c \<Rightarrow> 'q \<Rightarrow> 'c res"
  AnnotateContext :: "'c \<Rightarrow> 'q \<Rightarrow> 'c res"
  NewServerMetadataContext :: "'c \<Rightarrow> 'd ServerMetadata \<Rightarrow> 'c"
  metadata_Join :: "'d \<Rightarrow> 'd \<Rightarrow> 'd"
  no_metadata :: 'd

text \<open>
  A query server called in process: its answer, and the header and the trailer it set on
  the server transport stream of its context.  A client returns the header and the
  trailer it received.
\<close>

type_synonym ('c, 'd) query_call =
  "'c \<Rightarrow> QueryParamsRequest \<Rightarrow> QueryParamsResponse res \<times> 'd \<times> 'd"

datatype ('c, 'm) reply =
    HTTPError 'c 'm error
  | ForwardResponseMessage 'c 'm QueryParamsResponse

subsection \<open>The two request functions\<close>

definition request_Query_Params_0 ::
  "('c, 'd) query_call \<Rightarrow> 'c \<Rightarrow> QueryParamsResponse res \<times> 'd ServerMetadata" where
  "request_Query_Params_0 client ctx =
     (case client ctx QueryParamsRequest of (msg, header, trailer) \<Rightarrow>
        (msg, \<lparr>HeaderMD = header, TrailerMD = trailer\<rparr>))"

text \<open>The local variant leaves the metadata empty; what the server set stays on the stream.\<close>

definition local_request_Query_Params_0 ::
  "('c, 'q, 'm, 'd) Runtime \<Rightarrow> ('c, 'd) query_call \<Rightarrow> 'c
     \<Rightarrow> (QueryParamsResponse res \<times> 'd ServerMetadata) \<times> 'd \<times> 'd" where
  "local_request_Query_Params_0 rt server ctx =
     (case server ctx QueryParamsRequest of (msg, header, trailer) \<Rightarrow>
        ((msg, \<lparr>HeaderMD = no_metadata rt, TrailerMD = no_metadata rt\<rparr>), header, trailer))"

subsection \<open>The HTTP handlers\<close>

definition query_params_server_handler ::
  "('c, 'q, 'm, 'd) Runtime \<Rightarrow> ('c, 'd) query_call \<Rightarrow> 'q \<Rightarrow> ('c, 'm) reply res" where
  "query_params_server_handler rt server req =
     (let ctx = NewContextWithServerTransportStream rt (request_Context rt req);
          (inboundMarshaler, outboundMarshaler) = MarshalerForRequest rt req
      in case AnnotateIncomingContext rt ctx req of
           Err err \<Rightarrow> Ok (HTTPError ctx outboundMarshaler err)
         | Panic p \<Rightarrow> Panic p
         | Ok rctx \<Rightarrow>
            (let ((resp, md), stream_header, stream_trailer) = local_request_Query_Params_0 rt server rctx;
                 md' = \<lparr>HeaderMD = metadata_Join rt (HeaderMD md) stream_header,
                        TrailerMD = metadata_Join rt (TrailerMD md) stream_trailer\<rparr>;
                 ctx' = NewServerMetadataContext rt ctx md'
             in case resp of
                  Err err \<Rightarrow> Ok (HTTPError ctx' outboundMarshaler err)
                | Panic p \<Rightarrow> Panic p
                | Ok msg \<Rightarrow> Ok (ForwardResponseMessage ctx' outboundMarshaler msg)))"

definition query_params_client_handler ::
  "('c, 'q, 'm, 'd) Runtime \<Rightarrow> ('c, 'd) query_call \<Rightarrow> 'q \<Rightarrow> ('c, 'm) reply res" where
  "query_params_client_handler rt client req =
     (let ctx = request_Context rt req;
          (inboundMarshaler, outboundMarshaler) = MarshalerForRequest rt req
      in case AnnotateContext rt ctx req of
           Err err \<Rightarrow> Ok (HTTPError ctx outboundMarshaler err)
         | Panic p \<Rightarrow> Panic p
         | Ok rctx \<Rightarrow>
            (let (resp, md) = request_Query_Params_0 client rctx;
                 ctx' = NewServerMetadataContext rt ctx md
             in case resp of
                  Err err \<Rightarrow> Ok (HTTPError ctx' outboundMarshaler err)
                | Panic p \<Rightarrow> Panic p
                | Ok msg \<Rightarrow> Ok (ForwardResponseMessage ctx' outboundMarshaler msg)))"

subsection \<open>Registration\<close>

text \<open>
  A pattern as \<open>runtime.NewPattern\<close> takes it: pairs of an opcode and its operand, the pool
  of literals and the verb.  Opcode 2 pushes a literal of the pool.
\<close>

record Pattern =
  pat_ops :: "(nat \<times> nat) list"
  pat_pool :: "string list"
  pat_verb :: string

definition pattern_Query_Params_0 :: Pattern where
  "pattern_Query_Params_0 =
     \<lparr>pat_ops = [(2, 0), (2, 1), (2, 2)], pat_pool = [''abstractaccount'', ''v1'', ''params''],
      pat_verb = ''''\<rparr>"

text \<open>The path an all-literal pattern matches.\<close>

definition pattern_path :: "Pattern \<Rightarrow> string" where
  "pattern_path p = concat (map (\<lambda>(opc, i). ''/'' @ pat_pool p ! i) (filter (\<lambda>(opc, i). opc = 2) (pat_ops p)))"

text \<open>\<open>mux.Handle\<close>, for a state type \<open>'x\<close> of the multiplexer.\<close>

type_synonym ('q, 'c, 'm, 'x) mux_Handle =
  "string \<Rightarrow> Pattern \<Rightarrow> ('q \<Rightarrow> ('c, 'm) reply res) \<Rightarrow> 'x \<Rightarrow> 'x"

definition RegisterQueryHandlerServer ::
  "('q, 'c, 'm, 'x) mux_Handle \<Rightarrow> ('c, 'q, 'm, 'd) Runtime \<Rightarrow> ('c, 'd) query_call \<Rightarrow> ('x, unit) act" where
  "RegisterQueryHandlerServer handle rt server =
     modifyM (handle ''GET'' pattern_Query_Params_0 (query_params_server_handler rt server))"

definition RegisterQueryHandlerClient ::
  "('q, 'c, 'm, 'x) mux_Handle \<Rightarrow> ('c, 'q, 'm, 'd) Runtime \<Rightarrow> ('c, 'd) query_call \<Rightarrow> ('x, unit) act" where
  "RegisterQueryHandlerClient handle rt client =
     modifyM (handle ''GET'' pattern_Query_Params_0 (query_params_client_handler rt client))"

text \<open>A connection, by its \<open>Invoke\<close>, and the client over it.\<close>

type_synonym ('c, 'd) conn = "'c \<Rightarrow> string \<Rightarrow> QueryParamsRequest \<Rightarrow> QueryParamsResponse
  \<Rightarrow> QueryParamsResponse res \<times> 'd \<times> 'd"

definition NewQueryClient :: "('c, 'd) conn \<Rightarrow> ('c, 'd) query_call" where
  "NewQueryClient cc ctx req = cc ctx ''/abstractaccount.v1.Query/Params'' req empty_QueryParamsResponse"

definition RegisterQueryHandler ::
  "('q, 'c, 'm, 'x) mux_Handle \<Rightarrow> ('c, 'q, 'm, 'd) Runtime \<Rightarrow> ('c, 'd) conn \<Rightarrow> ('x, unit) act" where
  "RegisterQueryHandler handle rt cc = RegisterQueryHandlerClient handle rt (NewQueryClient cc)"

text \<open>
  The deferred function of \<open>RegisterQueryHandlerFromEndpoint\<close>: after an error the
  connection is closed at once, otherwise it is closed when the context is done.  A panic
  in between runs it with \<open>err\<close> still nil.
\<close>

datatype conn_use = CloseNow | CloseWhenDone

definition RegisterQueryHandlerFromEndpoint ::
  "('q, 'c, 'm, 'x) mux_Handle \<Rightarrow> ('c, 'q, 'm, 'd) Runtime \<Rightarrow> (string \<Rightarrow> ('c, 'd) conn res) \<Rightarrow> string
     \<Rightarrow> 'x \<Rightarrow> unit res \<times> conn_use option \<times> 'x" where
  "RegisterQueryHandlerFromEndpoint handle rt dial endpoint mux =
     (case dial endpoint of
        Err err \<Rightarrow> (Err err, None, mux)
      | Panic p \<Rightarrow> (Panic p, None, mux)
      | Ok cc \<Rightarrow>
         (case RegisterQueryHandler handle rt cc mux of
            (Ok _, mux') \<Rightarrow> (Ok (), Some CloseWhenDone, mux')
          | (Err err, mux') \<Rightarrow> (Err err, Some CloseNow, mux')
          | (Panic p, mux') \<Rightarrow> (Panic p, Some CloseWhenDone, mux')))"

subsection \<open>What a request is answered\<close>

text \<open>The answer without the context and marshaler it is written with.\<close>

fun reply_body :: "('c, 'm) reply res \<Rightarrow> QueryParamsResponse res" where
  "reply_body (Ok (HTTPError c m e)) = Err e"
| "reply_body (Ok (ForwardResponseMessage c m r)) = Ok r"
| "reply_body (Err e) = Err e"
| "reply_body (Panic p) = Panic p"

lemma server_handler_body:
  "reply_body (query_params_server_handler rt server req) =
   bindR (AnnotateIncomingContext rt (NewContextWithServerTransportStream rt (request_Context rt req)) req)
     (\<lambda>rctx. fst (server rctx QueryParamsRequest))"
  by (auto simp: query_params_server_handler_def local_request_Query_Params_0_def Let_def
      split: res.split prod.split)

lemma client_handler_body:
  "reply_body (query_params_client_handler rt client req) =
   bindR (AnnotateContext rt (request_Context rt req) req) (\<lambda>rctx. fst (client rctx QueryParamsRequest))"
  by (auto simp: query_params_client_handler_def request_Query_Params_0_def Let_def
      split: res.split prod.split)

subsection \<open>The gateway over gRPC\<close>

text \<open>
  A gRPC server to which the Query service was registered: it looks the full name of a
  call up among the methods of the service descriptor and refuses a name that is not there;
  the handler found gets the decoded request and runs on the context \<open>incoming c\<close> it makes
  for a call that was sent under the context \<open>c\<close>; an error comes back as a status made from
  it.
\<close>

fun query_response :: "Message \<Rightarrow> QueryParamsResponse res" where
  "query_response (M_QueryParamsResponse r) = Ok r"
| "query_response m = Err (External ''grpc: error while marshaling'')"

definition grpc_answer ::
  "(error \<Rightarrow> error) \<Rightarrow> ('w, 'w QueryServer) ServiceDesc \<Rightarrow> 'w QueryServer \<Rightarrow> Decoder
     \<Rightarrow> 'w interceptor option \<Rightarrow> 'w ctx \<Rightarrow> string \<Rightarrow> QueryParamsResponse res" where
  "grpc_answer status desc srv dec i s full =
     (case find (\<lambda>(m, h). full = ''/'' @ ServiceName desc @ ''/'' @ m) (Methods desc) of
        None \<Rightarrow> Err (External (''unknown method '' @ full))
      | Some (m, h) \<Rightarrow>
         (case fst (h srv dec i s) of
            Ok msg \<Rightarrow> query_response msg
          | Err e \<Rightarrow> Err (status e)
          | Panic p \<Rightarrow> Panic p))"

text \<open>The decoder of a call fills in the request that was sent; an interceptor, if there is one,
  calls the handler.\<close>

definition decodes :: "(QueryParamsRequest \<Rightarrow> Decoder) \<Rightarrow> bool" where
  "decodes wire \<longleftrightarrow> (\<forall>req m. dec_QueryParams (wire req) m = Ok req)"

definition calls_handler :: "'w interceptor option \<Rightarrow> bool" where
  "calls_handler i \<longleftrightarrow> (\<forall>f m full h. i = Some f \<longrightarrow> f m full h = h m)"

definition grpc_connection ::
  "(error \<Rightarrow> error) \<Rightarrow> 'w QueryServer \<Rightarrow> (QueryParamsRequest \<Rightarrow> Decoder) \<Rightarrow> 'w interceptor option
     \<Rightarrow> ('c \<Rightarrow> 'w ctx) \<Rightarrow> ('c, 'd) conn \<Rightarrow> bool" where
  "grpc_connection status srv wire i incoming cc \<longleftrightarrow>
     (\<forall>c full req out. fst (cc c full req out)
        = grpc_answer status Query_serviceDesc srv (wire req) i (incoming c) full)"

fun as_status :: "(error \<Rightarrow> error) \<Rightarrow> 'a res \<Rightarrow> 'a res" where
  "as_status status (Ok x) = Ok x"
| "as_status status (Err e) = Err (status e)"
| "as_status status (Panic p) = Panic p"

lemma query_client_answer:
  assumes "grpc_connection status srv wire i incoming cc" and "decodes wire" and "calls_handler i"
  shows "fst (NewQueryClient cc c req) = as_status status (fst (srv_Params srv req (incoming c)))"
  using assms
  by (cases "srv_Params srv req (incoming c)"; cases "fst (srv_Params srv req (incoming c))"; cases i)
     (auto simp: grpc_connection_def NewQueryClient_def grpc_answer_def Query_serviceDesc_def
       Query_Params_Handler_def decodes_def calls_handler_def monad_simps)

text \<open>C40: A \<open>GET\<close> on the gateway is answered with the stored parameters.  The route is the path
  the service definition declares; a gateway registered over an endpoint that can be dialled
  installs one handler, returns no error, and keeps its connection open until the context is
  done.  When the other end serves the module's Query service by its descriptor, that handler
  answers with the parameters of the state the server runs the call on; if they cannot be
  read, with the status of the error of \<open>GetParams\<close>; and if the request's metadata is bad,
  with the error of the gateway runtime, without a call.\<close>

theorem gateway_forwards:
  assumes "dial endpoint = Ok cc"
    and "grpc_connection status (NewQueryServerImpl k) wire i incoming cc"
    and "decodes wire" and "calls_handler i"
  shows "pattern_path pattern_Query_Params_0 = ''/abstractaccount/v1/params''
    \<and> (\<exists>h. RegisterQueryHandlerFromEndpoint handle rt dial endpoint mux
          = (Ok (), Some CloseWhenDone, handle ''GET'' pattern_Query_Params_0 h mux)
        \<and> (\<forall>req. reply_body (h req) =
            bindR (AnnotateContext rt (request_Context rt req) req) (\<lambda>rctx.
            bindR (as_status status (fst (GetParams k (incoming rctx)))) (\<lambda>p. Ok \<lparr>qr_Params = Some p\<rparr>))))"
proof -
  let ?h = "query_params_client_handler rt (NewQueryClient cc)"
  have "fst (NewQueryClient cc c req) =
      bindR (as_status status (fst (GetParams k (incoming c)))) (\<lambda>p. Ok \<lparr>qr_Params = Some p\<rparr>)" for c req
    unfolding query_client_answer [OF assms(2-4)]
    by (cases "GetParams k (incoming c)"; cases "fst (GetParams k (incoming c))")
       (auto simp: NewQueryServerImpl_def Query_Params_def monad_simps)
  then have "reply_body (?h req) = bindR (AnnotateContext rt (request_Context rt req) req) (\<lambda>rctx.
      bindR (as_status status (fst (GetParams k (incoming rctx)))) (\<lambda>p. Ok \<lparr>qr_Params = Some p\<rparr>))" for req
    by (simp add: client_handler_body)
  moreover have "RegisterQueryHandlerFromEndpoint handle rt dial endpoint mux
      = (Ok (), Some CloseWhenDone, handle ''GET'' pattern_Query_Params_0 ?h mux)"
    using assms(1)
    by (simp add: RegisterQueryHandlerFromEndpoint_def RegisterQueryHandler_def
        RegisterQueryHandlerClient_def modifyM_def)
  ultimately show ?thesis by (auto simp: pattern_path_def pattern_Query_Params_0_def)
qed

text \<open>A sample: a server over one state of the chain, and a runtime that refuses an empty request.\<close>

definition sample_runtime :: "(unit, string, unit, string list) Runtime" where
  "sample_runtime =
     \<lparr>request_Context = (\<lambda>q. ()), NewContextWithServerTransportStream = (\<lambda>c. c),
      MarshalerForRequest = (\<lambda>q. ((), ())),
      AnnotateIncomingContext = (\<lambda>c q. if q = '''' then Err (External ''bad request'') else Ok c),
      AnnotateContext = (\<lambda>c q. if q = '''' then Err (External ''bad request'') else Ok c),
      NewServerMetadataContext = (\<lambda>c d. c), metadata_Join = (@), no_metadata = []\<rparr>"

definition sample_wire :: "QueryParamsRequest \<Rightarrow> Decoder" where
  "sample_wire req = \<lparr>dec_UpdateParams = (\<lambda>m. Ok m), dec_RegisterAccount = (\<lambda>m. Ok m),
     dec_QueryParams = (\<lambda>m. Ok req)\<rparr>"

theorem gateway_forwards_witness:
  "\<exists>cc h. RegisterQueryHandlerFromEndpoint (\<lambda>method pattern h mux. mux @ [(method, pattern, h)])
      sample_runtime (\<lambda>e. Ok cc) ''localhost'' []
    = (Ok (), Some CloseWhenDone, [(''GET'', pattern_Query_Params_0, h)])
    \<and> reply_body (h ''q'') = Ok \<lparr>qr_Params = Some DefaultParams\<rparr>
    \<and> reply_body (h '''') = Err (External ''bad request'')"
proof -
  let ?srv = "NewQueryServerImpl sample_keeper"
  let ?cc = "\<lambda>c full req out. (grpc_answer id Query_serviceDesc ?srv (sample_wire req) None sample_ctx full,
    [] :: string list, [] :: string list)"
  have conn: "grpc_connection id ?srv sample_wire None (\<lambda>c. sample_ctx) ?cc"
    by (simp add: grpc_connection_def)
  have rt: "request_Context sample_runtime q = ()"
    "AnnotateContext sample_runtime () q = (if q = '''' then Err (External ''bad request'') else Ok ())" for q
    by (simp_all add: sample_runtime_def)
  have wire: "decodes sample_wire" and calls: "calls_handler None"
    by (simp_all add: decodes_def sample_wire_def calls_handler_def)
  obtain h where h: "RegisterQueryHandlerFromEndpoint (\<lambda>method pattern h mux. mux @ [(method, pattern, h)])
      sample_runtime (\<lambda>e. Ok ?cc) ''localhost'' []
      = (Ok (), Some CloseWhenDone, [] @ [(''GET'', pattern_Query_Params_0, h)])"
    and r: "\<And>req. reply_body (h req) = bindR (AnnotateContext sample_runtime (request_Context sample_runtime req) req)
      (\<lambda>rctx. bindR (as_status id (fst (GetParams sample_keeper sample_ctx))) (\<lambda>p. Ok \<lparr>qr_Params = Some p\<rparr>))"
    using gateway_forwards [where dial = "\<lambda>e. Ok ?cc" and endpoint = "''localhost''"
      and handle = "\<lambda>method pattern h mux. mux @ [(method, pattern, h)]" and mux = "[]"
      and rt = sample_runtime, OF refl conn wire calls] by blast
  have "reply_body (h ''q'') = Ok \<lparr>qr_Params = Some DefaultParams\<rparr>"
    and "reply_body (h '''') = Err (External ''bad request'')"
    unfolding r by (simp_all add: rt sample_GetParams)
  then show ?thesis using h by auto
qed

end
