(* ===== verification/SimdSpec.thy ===== *)
theory SimdSpec
  imports Simd AppSpec Gateway
begin

text \<open>
  The properties of the executable: the module's commands are where a user finds them, and
  what the API server serves for the module.
\<close>

subsection \<open>The command tree\<close>

text \<open>A command is called by the first word of its usage line.\<close>

definition command_name :: "'run Command \<Rightarrow> string" where
  "command_name c = takeWhile (\<lambda>x. x \<noteq> CHR '' '') (Use (Command.fields c))"

fun find_cmd :: "'run Command \<Rightarrow> string list \<Rightarrow> 'run Command option" where
  "find_cmd c [] = Some c"
| "find_cmd c (w # ws) =
     (case find (\<lambda>d. command_name d = w) (commands c) of
        None \<Rightarrow> None
      | Some d \<Rightarrow> find_cmd d ws)"

text \<open>
  What is relied on: the functions of the SDK that add commands add them below the given
  one and keep the others; the ones for modules add the module's own command; and no
  command of the SDK has one of the names looked up here.
\<close>

definition adds_cmds :: "('run Command \<Rightarrow> 'run Command) \<Rightarrow> string \<Rightarrow> 'run Command option \<Rightarrow> bool" where
  "adds_cmds add name own \<longleftrightarrow>
     (\<forall>c. \<exists>cs. add c = AddCommand cs c \<and> find (\<lambda>d. command_name d = name) cs = own)"

definition simd_lib_ok ::
  "Sdk \<Rightarrow> Coin MsgLib \<Rightarrow> ('s, 'k) ClientLib \<Rightarrow> ('s, 't, 'w, 'b, 'n, 'v, 'r, 'm) SimdLib \<Rightarrow> bool" where
  "simd_lib_ok sdk ml cl sl \<longleftrightarrow>
     adds_cmds (basics_AddTxCommands sl ModuleBasics) ''abstract-account''
       (Some (AppModuleBasic_GetTxCmd AppModuleBasic sdk ml cl))
   \<and> adds_cmds (basics_AddQueryCommands sl ModuleBasics) ''abstract-account''
       (Some (AppModuleBasic_GetQueryCmd AppModuleBasic cl))
   \<and> (\<forall>home create export. adds_cmds (server_AddCommands sl home create export) ''tx'' None
        \<and> adds_cmds (server_AddCommands sl home create export) ''query'' None)
   \<and> (\<forall>x. command_name (sdk_cmd sl x) \<noteq> ''abstract-account'')"

lemma find_append: "find P (xs @ ys) = (case find P xs of None \<Rightarrow> find P ys | Some x \<Rightarrow> Some x)"
  by (induction xs) auto

lemma find_cmd_added:
  assumes "adds_cmds add name (Some d)" and "\<And>e. e \<in> set (commands c) \<Longrightarrow> command_name e \<noteq> name"
  shows "find (\<lambda>d. command_name d = name) (commands (add c)) = Some d"
proof -
  obtain cs where "add c = AddCommand cs c" "find (\<lambda>d. command_name d = name) cs = Some d"
    using assms(1) unfolding adds_cmds_def by blast
  moreover have "find (\<lambda>d. command_name d = name) (commands c) = None"
    using assms(2) by (simp add: find_None_iff)
  ultimately show ?thesis by (cases c) (simp add: find_append)
qed

lemma fields_added: "adds_cmds add name own \<Longrightarrow> Command.fields (add c) = Command.fields c"
  unfolding adds_cmds_def by (cases c) (metis AddCommand.simps Command.sel(1))

lemma command_names:
  "command_name (GetTxCmd sdk ml cl) = ''abstract-account''"
  "command_name (GetQueryCmd cl) = ''abstract-account''"
  "command_name (registerCmd sdk ml cl) = ''register''"
  "command_name (updateParamsCmd sdk cl) = ''update-params''"
  "command_name (paramsCmd cl) = ''params''"
  "command_name (genesisCommand cl sl home) = ''genesis''"
  by (simp_all add: command_name_def GetTxCmd_def GetQueryCmd_def registerCmd_def updateParamsCmd_def
      paramsCmd_def genesisCommand_def)

lemma root_query_tx_names:
  assumes "simd_lib_ok sdk ml cl sl"
  shows "command_name (queryCommand cl sl) = ''query''" "command_name (txCommand cl sl) = ''tx''"
proof -
  have "Command.fields (basics_AddQueryCommands sl ModuleBasics c) = Command.fields c"
    "Command.fields (basics_AddTxCommands sl ModuleBasics c) = Command.fields c" for c
    using assms fields_added unfolding simd_lib_ok_def by blast+
  then show "command_name (queryCommand cl sl) = ''query''" "command_name (txCommand cl sl) = ''tx''"
    by (simp_all add: command_name_def queryCommand_def txCommand_def)
qed

lemma root_finds:
  assumes "simd_lib_ok sdk ml cl sl"
  shows "find_cmd (NewRootCmd app_sdk co alib lib error_text names cl sl home) (''query'' # ws) = find_cmd (queryCommand cl sl) ws"
    and "find_cmd (NewRootCmd app_sdk co alib lib error_text names cl sl home) (''tx'' # ws) = find_cmd (txCommand cl sl) ws"
proof -
  let ?create = "createApp app_sdk co alib lib error_text names sl"
  obtain cs where a: "server_AddCommands sl home ?create exportApp c = AddCommand (cs c) c"
    "find (\<lambda>d. command_name d = ''tx'') (cs c) = None" for c
    using assms unfolding simd_lib_ok_def adds_cmds_def by metis
  obtain cs' where b: "server_AddCommands sl home ?create exportApp c = AddCommand (cs' c) c"
    "find (\<lambda>d. command_name d = ''query'') (cs' c) = None" for c
    using assms unfolding simd_lib_ok_def adds_cmds_def by metis
  note n = command_names(6) root_query_tx_names [OF assms]
  show "find_cmd (NewRootCmd app_sdk co alib lib error_text names cl sl home) (''query'' # ws) = find_cmd (queryCommand cl sl) ws"
    by (simp add: NewRootCmd_def Let_def b find_append n)
  show "find_cmd (NewRootCmd app_sdk co alib lib error_text names cl sl home) (''tx'' # ws) = find_cmd (txCommand cl sl) ws"
    by (simp add: NewRootCmd_def Let_def a find_append n)
qed

text \<open>The module's three commands are in the node's command tree, at \<open>tx abstract-account
  register\<close>, \<open>tx abstract-account update-params\<close> and \<open>query abstract-account params\<close>, with
  the module's own runners and the arguments these expect.\<close>

theorem module_commands_reachable:
  assumes "simd_lib_ok sdk ml cl sl"
  shows "map (find_cmd (NewRootCmd app_sdk co alib lib error_text names cl sl home))
      [[''tx'', ''abstract-account'', ''register''], [''tx'', ''abstract-account'', ''update-params''],
       [''query'', ''abstract-account'', ''params'']]
    = [Some (registerCmd sdk ml cl), Some (updateParamsCmd sdk cl), Some (paramsCmd cl)]"
proof -
  have q: "find (\<lambda>d. command_name d = ''abstract-account'') (commands (queryCommand cl sl)) = Some (GetQueryCmd cl)"
    unfolding queryCommand_def using assms unfolding simd_lib_ok_def
    by (intro find_cmd_added) (auto simp: AppModuleBasic_GetTxCmd_def AppModuleBasic_GetQueryCmd_def)
  have t: "find (\<lambda>d. command_name d = ''abstract-account'') (commands (txCommand cl sl)) = Some (GetTxCmd sdk ml cl)"
    unfolding txCommand_def using assms unfolding simd_lib_ok_def
    by (intro find_cmd_added) (auto simp: AppModuleBasic_GetTxCmd_def AppModuleBasic_GetQueryCmd_def)
  have "find_cmd (queryCommand cl sl) (''abstract-account'' # ws) = find_cmd (GetQueryCmd cl) ws"
    "find_cmd (txCommand cl sl) (''abstract-account'' # ws) = find_cmd (GetTxCmd sdk ml cl) ws" for ws
    by (simp_all add: q t)
  moreover have "find_cmd (GetTxCmd sdk ml cl) [''register''] = Some (registerCmd sdk ml cl)"
    "find_cmd (GetTxCmd sdk ml cl) [''update-params''] = Some (updateParamsCmd sdk cl)"
    "find_cmd (GetQueryCmd cl) [''params''] = Some (paramsCmd cl)"
    unfolding GetTxCmd_def GetQueryCmd_def by (simp_all add: command_names)
  ultimately show ?thesis by (simp only: list.map root_finds [OF assms])
qed

definition sample_simd :: "(Message list, unit, sample_world, unit, unit, unit, unit, unit) SimdLib" where
  "sample_simd =
     \<lparr>Stdin = ''stdin'', ReadPersistentCommandFlags = retM, ReadFromClientConfig = retM,
      SetCmdClientContextHandler = (\<lambda>c. retM ()), SetOutAndErr = retM (),
      InterceptConfigsPreRunHandler = (\<lambda>template cfg tm. retM ()),
      server_DefaultConfig = \<lparr>MinGasPrices = [], ConfigRest = []\<rparr>, DefaultConfigTemplate = [],
      tm_DefaultConfig = (), DefaultBaseappOptions = (\<lambda>opts. []),
      sdk_cmd = (\<lambda>x. Command (zero_Command\<lparr>Use := ''sdk''\<rparr>) []),
      basics_AddQueryCommands = (\<lambda>ms. AddCommand [GetQueryCmd sample_client]),
      basics_AddTxCommands = (\<lambda>ms. AddCommand [GetTxCmd open_sdk open_lib sample_client]),
      server_AddCommands = (\<lambda>home create export. AddCommand [Command (zero_Command\<lparr>Use := ''start''\<rparr>) []]),
      Execute = (\<lambda>c prefix home s. (None, s))\<rparr>"

lemma sample_simd_ok: "simd_lib_ok open_sdk open_lib sample_client sample_simd"
proof -
  have "adds_cmds (AddCommand [c]) name (if command_name c = name then Some c else None)"
    for c :: "Message list runner Command" and name
    unfolding adds_cmds_def by (auto intro!: exI [of _ "[c]"])
  from this [of "GetTxCmd open_sdk open_lib sample_client" "''abstract-account''"]
    this [of "GetQueryCmd sample_client" "''abstract-account''"]
    this [of "Command (zero_Command\<lparr>Use := ''start''\<rparr>) []" "''tx''"]
    this [of "Command (zero_Command\<lparr>Use := ''start''\<rparr>) []" "''query''"]
  show ?thesis
    by (simp add: simd_lib_ok_def sample_simd_def command_names AppModuleBasic_GetTxCmd_def
        AppModuleBasic_GetQueryCmd_def) (simp add: command_name_def)
qed

theorem module_commands_reachable_witness:
  "find_cmd (NewRootCmd sample_sdk sample_co sample_ante_lib sample_app_lib (\<lambda>e. []) sample_names
     sample_client sample_simd ''/home/a/.simapp'') [''tx'', ''abstract-account'', ''register'']
   = Some (registerCmd open_sdk open_lib sample_client)"
  using module_commands_reachable [OF sample_simd_ok, where app_sdk = sample_sdk and co = sample_co
      and alib = sample_ante_lib and lib = sample_app_lib and error_text = "\<lambda>e. []"
      and names = sample_names and home = "''/home/a/.simapp''"]
  by (simp only: list.map list.inject)

subsection \<open>The REST routes\<close>

text \<open>
  The basic manager calls \<open>RegisterGRPCGatewayRoutes\<close> of every module, in no fixed order;
  \<open>other\<close> is what the modules of the SDK do.
\<close>

definition gateway_ok ::
  "('y, 'q, 'k, 'r) ApiLib \<Rightarrow> (string \<Rightarrow> 'k \<Rightarrow> 'y \<Rightarrow> 'y) \<Rightarrow> bool" where
  "gateway_ok api other \<longleftrightarrow> (\<forall>k. \<exists>ms. set ms = set ModuleBasics
     \<and> basics_GatewayRoutes api ModuleBasics k = fold (\<lambda>m. case m of
          AbstractAccountBasic b \<Rightarrow> RegisterGRPCGatewayRoutes b k
        | SDKBasic n \<Rightarrow> other n k) ms)"

lemma keeps_fold:
  assumes "\<And>x y. x \<in> set xs \<Longrightarrow> P y \<Longrightarrow> P (f x y)" and "P y"
  shows "P (fold f xs y)"
  using assms by (induction xs arbitrary: y) auto

text \<open>The API server does not serve the module's REST route.  The generated gateway declares
  \<open>GET /abstractaccount/v1/params\<close>, but the module's \<open>RegisterGRPCGatewayRoutes\<close> registers
  nothing: if no other module and no service of the SDK serves that path, then after
  \<open>RegisterAPIRoutes\<close> nothing serves it.\<close>

theorem rest_route_not_served:
  assumes "gateway_ok api other" and "path = pattern_path pattern_Query_Params_0"
    and "\<And>y. path \<notin> paths y \<Longrightarrow> path \<notin> paths (authtx_GatewayRoutes api k y)"
    and "\<And>y. path \<notin> paths y \<Longrightarrow> path \<notin> paths (tmservice_GatewayRoutes api k y)"
    and "\<And>y. path \<notin> paths y \<Longrightarrow> path \<notin> paths (nodeservice_GatewayRoutes api k y)"
    and "\<And>n y. path \<notin> paths y \<Longrightarrow> path \<notin> paths (other n k y)"
    and "keeps (\<lambda>y. path \<notin> paths y) (RegisterSwaggerAPI api k swagger)"
    and "path \<notin> paths mux"
  shows "path = ''/abstractaccount/v1/params''
    \<and> path \<notin> paths (snd (RegisterAPIRoutes api k swagger mux))"
proof
  show "path = ''/abstractaccount/v1/params''"
    by (simp add: assms(2) pattern_path_def pattern_Query_Params_0_def)
  obtain ms where ms: "basics_GatewayRoutes api ModuleBasics k = fold (\<lambda>m. case m of
      AbstractAccountBasic b \<Rightarrow> RegisterGRPCGatewayRoutes b k | SDKBasic n \<Rightarrow> other n k) ms"
    using assms(1) unfolding gateway_ok_def by blast
  have b: "path \<notin> paths (basics_GatewayRoutes api ModuleBasics k y)" if "path \<notin> paths y" for y
    unfolding ms
    by (rule keeps_fold) (use that assms(6) in \<open>auto simp: RegisterGRPCGatewayRoutes_def split: BasicModule.split\<close>)
  have "keeps (\<lambda>y. path \<notin> paths y) (RegisterAPIRoutes api k swagger)"
    unfolding RegisterAPIRoutes_def
    by (intro keeps_bindM keeps_mustM) (auto simp: keeps_modifyM assms(3-5,7) b)
  then show "path \<notin> paths (snd (RegisterAPIRoutes api k swagger mux))"
    using assms(8) unfolding keeps_def by blast
qed

text \<open>A sample API server, whose state is the list of the paths it serves.\<close>

definition sample_api :: "(string list, unit, unit, unit) ApiLib" where
  "sample_api =
     \<lparr>authtx_GatewayRoutes = (\<lambda>k y. ''/cosmos/tx/v1beta1/txs'' # y),
      tmservice_GatewayRoutes = (\<lambda>k y. y), nodeservice_GatewayRoutes = (\<lambda>k y. y),
      basics_GatewayRoutes = (\<lambda>ms k. fold (\<lambda>m. case m of
          AbstractAccountBasic b \<Rightarrow> RegisterGRPCGatewayRoutes b k
        | SDKBasic n \<Rightarrow> (\<lambda>y. (''/cosmos/'' @ n) # y)) ms),
      RegisterSwaggerAPI = (\<lambda>k swagger. retM ()), authtx_RegisterTxService = (\<lambda>k r q. q),
      tmservice_RegisterTendermintService = (\<lambda>k r q. q), nodeservice_RegisterNodeService = (\<lambda>k q. q)\<rparr>"

theorem rest_route_not_served_witness:
  "''/abstractaccount/v1/params'' \<notin> set (snd (RegisterAPIRoutes sample_api () True []))"
proof -
  have "gateway_ok sample_api (\<lambda>n k y. (''/cosmos/'' @ n) # y)"
    unfolding gateway_ok_def by (intro allI exI [of _ ModuleBasics]) (simp add: sample_api_def)
  then have "pattern_path pattern_Query_Params_0 \<notin> set (snd (RegisterAPIRoutes sample_api () True []))"
    by (rule rest_route_not_served [OF _ refl, THEN conjunct2])
       (simp_all add: sample_api_def pattern_path_def pattern_Query_Params_0_def keeps_retM)
  then show ?thesis by (simp add: pattern_path_def pattern_Query_Params_0_def)
qed

end
