(* ===== verification/Dispatch.thy ===== *)
theory Dispatch
  imports Lifecycle
begin

text \<open>
  What messages do to the module, wherever they come from.  A contract can send messages of
  its own, those of the module among them
  (\<open>cosmwasm/packages/absacc/src/proto.rs\<close> has their types), and the chain
  runs them while it runs the contract; so an account can be registered inside the
  registration of another one, inside a call of \<open>BeforeTx\<close> or \<open>AfterTx\<close>, or inside a
  message of the wasm module.  A trace lists all of them, in the order they took effect.
\<close>

subsection \<open>Registrations, taken apart\<close>

text \<open>Parameters set by a message, and an account registered under a label.\<close>

datatype effect =
    ParamsSet MsgUpdateParams
  | Registered "Coin MsgRegisterAccount" string

text \<open>
  The label is the one the code passes to \<open>Instantiate2\<close>: \<open>RegisterAccount\<close> run with a contract
  keeper that stops there tells it, and the state it got to.
\<close>

definition stop_instantiate :: "'w Keeper \<Rightarrow> 'w Keeper" where
  "stop_instantiate k = k\<lparr>ck := (ck k)\<lparr>ck_Instantiate2 :=
     \<lambda>code creator admin msg label funds salt fix_msg s. (Err (External label), s)\<rparr>\<rparr>"

definition stop_admin :: "'w Keeper \<Rightarrow> 'w Keeper" where
  "stop_admin k = k\<lparr>ck := (ck k)\<lparr>ck_UpdateContractAdmin :=
     \<lambda>contract caller admin s. (Err (External ''stopped''), s)\<rparr>\<rparr>"

text \<open>
  A registration that succeeds from \<open>s\<close> to \<open>t\<close> calls \<open>Instantiate2\<close> with the label \<open>l\<close> on \<open>s1\<close>,
  which leads to \<open>s2\<close>.
\<close>

definition registration ::
  "Sdk \<Rightarrow> 'w Keeper \<Rightarrow> Coin MsgRegisterAccount \<Rightarrow> 'w ctx \<Rightarrow> string \<Rightarrow> 'w ctx \<Rightarrow> 'w ctx \<Rightarrow> 'w ctx \<Rightarrow> bool" where
  "registration sdk k m s l s1 s2 t \<longleftrightarrow>
     (\<exists>resp. RegisterAccount sdk k m s = (Ok resp, t))
   \<and> RegisterAccount sdk (stop_instantiate k) m s = (Err (External l), s1)
   \<and> RegisterAccount sdk (stop_admin k) m s = (Err (External ''stopped''), s2)"

lemma stop_GetParams [simp]:
  "GetParams (stop_instantiate k) = GetParams k" "GetParams (stop_admin k) = GetParams k"
proof -
  have "cdc (stop_instantiate k) = cdc k" "cdc (stop_admin k) = cdc k"
    by (simp_all add: stop_instantiate_def stop_admin_def)
  then show "GetParams (stop_instantiate k) = GetParams k" "GetParams (stop_admin k) = GetParams k"
    by (simp_all only: GetParams_def)
qed

lemma stop_ck [simp]:
  "ck_Instantiate2 (ck (stop_instantiate k)) code cr ad msg l f sa fx s = (Err (External l), s)"
  "ck_Instantiate2 (ck (stop_admin k)) = ck_Instantiate2 (ck k)"
  "register_tail sdk (stop_admin k) m a c d s = (Err (External ''stopped''), s)"
  by (simp_all add: stop_instantiate_def stop_admin_def register_tail_def bindM_def)

lemma register_stopped:
  assumes "GetParams k s = (Ok p, s)" and "IsAllowed p (CodeID m)"
    and "AccAddressFromBech32 sdk (Sender m) = (a, None)"
    and "GetAndIncrementNextAccountID sdk s = (Ok n, s1)"
    and "ck_Instantiate2 (ck k) (CodeID m) a a (Msg m) (account_label n) (Funds m) (Salt m) False s1
      = (Ok (c, d), s2)"
  shows "RegisterAccount sdk (stop_instantiate k) m s = (Err (External (account_label n)), s1)"
    and "RegisterAccount sdk (stop_admin k) m s = (Err (External ''stopped''), s2)"
proof -
  have p: "GetParams (stop_instantiate k) s = (Ok p, s)" "GetParams (stop_admin k) s = (Ok p, s)"
    using assms(1) by simp_all
  show "RegisterAccount sdk (stop_instantiate k) m s = (Err (External (account_label n)), s1)"
    unfolding RegisterAccount_run [OF p(1) assms(2-4)] by (simp add: bindM_ErrI)
  show "RegisterAccount sdk (stop_admin k) m s = (Err (External ''stopped''), s2)"
    unfolding RegisterAccount_run [OF p(2) assms(2-4)] using assms(5) by (simp add: bindM_OkI)
qed

lemma registration_Ok:
  assumes "RegisterAccount sdk k m s = (Ok resp, t)"
  obtains l s1 s2 where "registration sdk k m s l s1 s2 t"
  using assms RegisterAccount_Ok [OF assms] register_stopped unfolding registration_def by metis

lemma registration_parts:
  assumes "registration sdk k m s l s1 s2 t"
  obtains p a n c d s3 w e where "GetParams k s = (Ok p, s)" and "IsAllowed p (CodeID m)"
    and "GetAndIncrementNextAccountID sdk s = (Ok n, s1)" and "l = account_label n"
    and "ck_Instantiate2 (ck k) (CodeID m) a a (Msg m) l (Funds m) (Salt m) False s1 = (Ok (c, d), s2)"
    and "ck_UpdateContractAdmin (ck k) c a c s2 = (Ok (), s3)"
    and "t = s3\<lparr>world := w, events := e\<rparr>"
proof -
  obtain resp where run: "RegisterAccount sdk k m s = (Ok resp, t)"
    using assms by (auto simp: registration_def)
  obtain p a n s1' c d s2' where r: "GetParams k s = (Ok p, s)" "IsAllowed p (CodeID m)"
    "AccAddressFromBech32 sdk (Sender m) = (a, None)" "GetAndIncrementNextAccountID sdk s = (Ok n, s1')"
    "ck_Instantiate2 (ck k) (CodeID m) a a (Msg m) (account_label n) (Funds m) (Salt m) False s1' = (Ok (c, d), s2')"
    and tail: "register_tail sdk k m a c d s2' = (Ok resp, t)"
    using RegisterAccount_Ok [OF run] by metis
  have eq: "l = account_label n" "s1 = s1'" "s2 = s2'"
    using assms register_stopped [OF r] by (auto simp: registration_def)
  obtain s3 v e where "ck_UpdateContractAdmin (ck k) c a c s2' = (Ok (), s3)"
    and "t = s3\<lparr>world := ak_SetAccount (ak k)
        (AbstractAcc (NewAbstractAccountFromAccount sdk (BaseAccount v))) (world s3), events := events s3 @ [e]\<rparr>"
    using register_tail_Ok [OF tail] by metis
  then show thesis using r that unfolding eq by blast
qed

subsection \<open>Traces\<close>

text \<open>
  \<open>moves sdk k s es t\<close>: something that leaves the module's store alone except by messages of
  the module leads from \<open>s\<close> to \<open>t\<close>, and these messages have the effects \<open>es\<close>.
\<close>

inductive moves :: "Sdk \<Rightarrow> 'w Keeper \<Rightarrow> 'w ctx \<Rightarrow> effect list \<Rightarrow> 'w ctx \<Rightarrow> bool" for sdk k where
  aside: "module_store t = module_store s \<Longrightarrow> moves sdk k s [] t"
| update: "UpdateParams k m s = (Ok r, t) \<Longrightarrow> (\<And>p. up_Params m = Some p \<Longrightarrow> small_params p) \<Longrightarrow>
    moves sdk k s [ParamsSet m] t"
| register: "registration sdk k m s l s1 s2 t \<Longrightarrow> moves sdk k s1 es s2 \<Longrightarrow>
    moves sdk k s (Registered m l # es) t"
| seq: "moves sdk k s es t \<Longrightarrow> moves sdk k t fs u \<Longrightarrow> moves sdk k s (es @ fs) u"

text \<open>A call that succeeds is one.\<close>

definition dispatches :: "Sdk \<Rightarrow> 'w Keeper \<Rightarrow> ('w ctx, 'a) act \<Rightarrow> bool" where
  "dispatches sdk k a \<longleftrightarrow> (\<forall>s r t. a s = (Ok r, t) \<longrightarrow> (\<exists>es. moves sdk k s es t))"

lemma dispatchesE:
  assumes "dispatches sdk k a" and "a s = (Ok r, t)"
  obtains es where "moves sdk k s es t"
  using assms unfolding dispatches_def by blast

text \<open>
  What is relied on about wasmd: a contract reaches the module's store only through messages
  of the module that it sends, and the change of an admin runs no contract.
\<close>

definition contracts_dispatch :: "Sdk \<Rightarrow> 'w Keeper \<Rightarrow> bool" where
  "contracts_dispatch sdk k \<longleftrightarrow>
     (\<forall>code cr ad m l f sa fx. dispatches sdk k (ck_Instantiate2 (ck k) code cr ad m l f sa fx))
   \<and> (\<forall>a m. dispatches sdk k (ck_Sudo (ck k) a m))
   \<and> (\<forall>a b c s t. ck_UpdateContractAdmin (ck k) a b c s = (Ok (), t) \<longrightarrow> module_store t = module_store s)"

text \<open>The same of the modules messages are routed to; parameters in a message have bounded size.\<close>

fun routed :: "Sdk \<Rightarrow> 'w Keeper \<Rightarrow> 'w item \<Rightarrow> bool" where
  "routed sdk k (Update m) \<longleftrightarrow> (\<forall>p. up_Params m = Some p \<longrightarrow> small_params p)"
| "routed sdk k (Register m) \<longleftrightarrow> True"
| "routed sdk k (Foreign a) \<longleftrightarrow> dispatches sdk k a"

text \<open>So a contract may send the messages of the module, in any order.\<close>

lemma dispatches_UpdateParams:
  "(\<And>p. up_Params m = Some p \<Longrightarrow> small_params p) \<Longrightarrow> dispatches sdk k (UpdateParams k m)"
  unfolding dispatches_def by (blast intro: moves.update)

lemma dispatches_RegisterAccount:
  assumes "contracts_dispatch sdk k"
  shows "dispatches sdk k (RegisterAccount sdk k m)"
  unfolding dispatches_def
proof (intro allI impI)
  fix s r t
  assume "RegisterAccount sdk k m s = (Ok r, t)"
  then obtain l s1 s2 where reg: "registration sdk k m s l s1 s2 t" by (rule registration_Ok)
  then obtain a c d where inst:
    "ck_Instantiate2 (ck k) (CodeID m) a a (Msg m) l (Funds m) (Salt m) False s1 = (Ok (c, d), s2)"
    by (rule registration_parts)
  have "dispatches sdk k (ck_Instantiate2 (ck k) (CodeID m) a a (Msg m) l (Funds m) (Salt m) False)"
    using assms by (simp add: contracts_dispatch_def)
  then obtain es where "moves sdk k s1 es s2" using inst by (rule dispatchesE)
  with reg show "\<exists>es. moves sdk k s es t" by (blast intro: moves.register)
qed

lemma dispatches_bindM:
  assumes "dispatches sdk k a" and "\<And>x. dispatches sdk k (f x)"
  shows "dispatches sdk k (bindM a f)"
  unfolding dispatches_def bindM_Ok_iff by (metis assms dispatchesE moves.seq)

lemma dispatches_store: "(\<And>s r t. a s = (Ok r, t) \<Longrightarrow> module_store t = module_store s) \<Longrightarrow> dispatches sdk k a"
  unfolding dispatches_def by (blast intro: moves.aside)

subsection \<open>Messages of a transaction\<close>

inductive item_effects :: "Sdk \<Rightarrow> 'w Keeper \<Rightarrow> 'w item \<Rightarrow> 'w ctx \<Rightarrow> effect list \<Rightarrow> 'w ctx \<Rightarrow> bool"
  for sdk k where
  set_params: "UpdateParams k m s = (Ok r, t) \<Longrightarrow> item_effects sdk k (Update m) s [ParamsSet m] t"
| register_account: "registration sdk k m s l s1 s2 t \<Longrightarrow> moves sdk k s1 es s2 \<Longrightarrow>
    item_effects sdk k (Register m) s (Registered m l # es) t"
| elsewhere: "a s = (Ok (), t) \<Longrightarrow> moves sdk k s es t \<Longrightarrow> item_effects sdk k (Foreign a) s es t"

inductive items_effects :: "Sdk \<Rightarrow> 'w Keeper \<Rightarrow> 'w item list \<Rightarrow> 'w ctx \<Rightarrow> effect list \<Rightarrow> 'w ctx \<Rightarrow> bool"
  for sdk k where
  none: "items_effects sdk k [] s [] s"
| first: "item_effects sdk k it s es t \<Longrightarrow> items_effects sdk k its t fs u \<Longrightarrow>
    items_effects sdk k (it # its) s (es @ fs) u"

lemma run_item_effects:
  assumes "run_item sdk k it s = (Ok (), t)" and "routed sdk k it" and "contracts_dispatch sdk k"
  obtains es where "item_effects sdk k it s es t"
proof (cases it)
  case (Update m)
  then obtain r where "UpdateParams k m s = (Ok r, t)" using assms(1) by (auto simp: bindM_Ok_iff retM_def)
  then show thesis using that Update by (blast intro: item_effects.set_params)
next
  case (Register m)
  then obtain r where "RegisterAccount sdk k m s = (Ok r, t)" using assms(1) by (auto simp: bindM_Ok_iff retM_def)
  then obtain l s1 s2 where reg: "registration sdk k m s l s1 s2 t" by (rule registration_Ok)
  then obtain a c d where inst:
    "ck_Instantiate2 (ck k) (CodeID m) a a (Msg m) l (Funds m) (Salt m) False s1 = (Ok (c, d), s2)"
    by (rule registration_parts)
  have "dispatches sdk k (ck_Instantiate2 (ck k) (CodeID m) a a (Msg m) l (Funds m) (Salt m) False)"
    using assms(3) by (simp add: contracts_dispatch_def)
  then obtain es where "moves sdk k s1 es s2" using inst by (rule dispatchesE)
  then show thesis using that reg Register by (blast intro: item_effects.register_account)
next
  case (Foreign a)
  then have "dispatches sdk k a" and a: "a s = (Ok (), t)" using assms by simp_all
  then obtain es where "moves sdk k s es t" by (rule dispatchesE)
  then show thesis using that a Foreign by (blast intro: item_effects.elsewhere)
qed

lemma run_items_effects:
  assumes "run_items sdk k its s = (Ok (), t)" and "\<And>it. it \<in> set its \<Longrightarrow> routed sdk k it"
    and "contracts_dispatch sdk k"
  shows "\<exists>es. items_effects sdk k its s es t"
  using assms(1,2)
proof (induction its arbitrary: s)
  case Nil
  then show ?case using items_effects.none by (auto simp: retM_def)
next
  case (Cons it its)
  then obtain s1 where s1: "run_item sdk k it s = (Ok (), s1)" and rest: "run_items sdk k its s1 = (Ok (), t)"
    by (auto simp: bindM_Ok_iff)
  obtain es where "item_effects sdk k it s es s1"
    using run_item_effects [OF s1 _ assms(3)] Cons.prems(2) by auto
  moreover obtain fs where "items_effects sdk k its s1 fs t"
    using Cons.IH [OF rest] Cons.prems(2) by auto
  ultimately show ?case by (blast intro: items_effects.first)
qed

lemma item_effects_moves:
  assumes "item_effects sdk k it s es t" and "routed sdk k it"
  shows "moves sdk k s es t"
  using assms by (cases rule: item_effects.cases) (auto intro: moves.update moves.register)

lemma items_effects_moves:
  assumes "items_effects sdk k its s es t" and "\<And>it. it \<in> set its \<Longrightarrow> routed sdk k it"
  shows "moves sdk k s es t"
  using assms
proof (induction rule: items_effects.induct)
  case (none s)
  show ?case by (rule moves.aside) simp
next
  case (first it s es t its fs u)
  have "moves sdk k s es t" by (rule item_effects_moves [OF first.hyps(1)]) (simp add: first.prems)
  moreover have "moves sdk k t fs u" by (rule first.IH) (simp add: first.prems)
  ultimately show ?case by (rule moves.seq)
qed

end
