(* ===== verification/Simulation.thy ===== *)
theory Simulation
  imports Main
begin

text \<open>
  Runs of labelled steps, and forward simulation: when every step of a system is, seen
  through an abstraction function, a step of its specification, then every run is a run of
  the specification, and what the specification never breaks, the system never breaks.
\<close>

inductive runs :: "('s \<Rightarrow> 'l \<Rightarrow> 's \<Rightarrow> bool) \<Rightarrow> 's \<Rightarrow> 'l list \<Rightarrow> 's \<Rightarrow> bool" for step where
  Nil: "runs step s [] s"
| Snoc: "runs step s ls t \<Longrightarrow> step t l u \<Longrightarrow> runs step s (ls @ [l]) u"

inductive_cases runs_NilE: "runs step s [] t"

lemma runs_NilD: "runs step s [] t \<Longrightarrow> t = s"
  by (auto elim: runs_NilE)

lemma runs_one:
  assumes "step s a t"
  shows "runs step s [a] t"
proof -
  have "runs step s ([] @ [a]) t" using runs.Nil assms by (rule runs.Snoc)
  then show ?thesis by simp
qed

lemma runs_two:
  assumes "step s a t" and "step t b u"
  shows "runs step s [a, b] u"
proof -
  have "runs step s ([a] @ [b]) u" using runs_one [of step, OF assms(1)] assms(2) by (rule runs.Snoc)
  then show ?thesis by simp
qed

lemma runs_invariant:
  assumes "runs step s ls t" and "I s" and "\<And>s l t. I s \<Longrightarrow> step s l t \<Longrightarrow> I t"
  shows "I t"
  using assms
proof (induction rule: runs.induct)
  case (Nil s)
  then show ?case by blast
next
  case (Snoc s ls t l u)
  then have "I t" by blast
  then show ?case using Snoc.hyps(2) by (rule Snoc.prems(2))
qed

text \<open>
  \<open>env\<close> is what is assumed of the surroundings of the system, \<open>inv\<close> an invariant of its
  states that the simulation may rest on.
\<close>

locale simulation =
  fixes env :: bool
    and inv :: "'s \<Rightarrow> bool"
    and step :: "'s \<Rightarrow> 'l \<Rightarrow> 's \<Rightarrow> bool"
    and spec :: "'a \<Rightarrow> 'l \<Rightarrow> 'a \<Rightarrow> bool"
    and abs :: "'s \<Rightarrow> 'a"
  assumes step_inv: "env \<Longrightarrow> inv s \<Longrightarrow> step s l t \<Longrightarrow> inv t"
    and step_spec: "env \<Longrightarrow> inv s \<Longrightarrow> step s l t \<Longrightarrow> spec (abs s) l (abs t)"
begin

lemma runs_inv: "env \<Longrightarrow> runs step s ls t \<Longrightarrow> inv s \<Longrightarrow> inv t"
  by (erule runs_invariant [where I = inv]) (blast intro: step_inv)+

lemma runs_spec:
  assumes "env" and "runs step s ls t" and "inv s"
  shows "runs spec (abs s) ls (abs t)"
  using assms(2,3)
proof (induction rule: runs.induct)
  case (Nil s)
  show ?case by (rule runs.Nil)
next
  case (Snoc s ls t l u)
  then have "inv t" using runs_inv [OF assms(1)] by blast
  with Snoc step_spec [OF assms(1)] show ?case by (blast intro: runs.Snoc)
qed

text \<open>An invariant of the specification, on the states the system reaches.\<close>

lemma spec_invariant:
  assumes "env" and "runs step s ls t" and "inv s" and "I (abs s)"
    and "\<And>a l b. I a \<Longrightarrow> spec a l b \<Longrightarrow> I b"
  shows "I (abs t)"
  using runs_invariant [where I = I, OF runs_spec [OF assms(1-3)] assms(4)] assms(5) by blast

end

end
