(* ===== verification/ChainSpec.thy ===== *)
theory ChainSpec
  imports LifecycleSpec Dispatch Simulation
begin

text \<open>
  What the module promises a chain, as a machine over its abstract state, and the proof
  that the chain, with the handlers of the application and the message servers, is a
  refinement of it.  Contracts may send messages of the module whenever they run; that they
  and the other modules do not write the module's store in any other way is assumed.
\<close>

subsection \<open>The specification\<close>

text \<open>
  An effect is allowed or not by the abstract state alone: new parameters have to be valid
  and sent by the authority; an account is registered under the label of the next id, which
  it takes, with a code id that the parameters in force allow.
\<close>

fun spec_effect :: "string \<Rightarrow> effect \<Rightarrow> module_state \<Rightarrow> module_state option" where
  "spec_effect auth (ParamsSet m) a =
     (case up_Params m of
        None \<Rightarrow> None
      | Some p \<Rightarrow> if up_Sender m = auth \<and> valid_params p then Some (a\<lparr>st_params := Some p\<rparr>) else None)"
| "spec_effect auth (Registered m l) a =
     (case st_params a of
        None \<Rightarrow> None
      | Some p \<Rightarrow> if (AllowAllCodeIDs p \<or> CodeID m \<in> set (AllowedCodeIDs p)) \<and> l = account_label (st_next_id a)
          then Some (a\<lparr>st_next_id := st_next_id a + 1\<rparr>) else None)"

fun spec_effects :: "string \<Rightarrow> effect list \<Rightarrow> module_state \<Rightarrow> module_state option" where
  "spec_effects auth [] a = Some a"
| "spec_effects auth (e # es) a = Option.bind (spec_effect auth e a) (spec_effects auth es)"

text \<open>
  A step of the chain: what is refused, and what happens elsewhere, leaves the module
  alone; a transaction that fails after the ante handler has the effects of the ante
  handler and may leave a signer; one that is accepted leaves none.
\<close>

inductive spec_step ::
  "string \<Rightarrow> module_state \<Rightarrow> outcome \<times> effect list \<Rightarrow> module_state \<Rightarrow> bool" for auth where
  idle: "out \<in> {Refused, Elsewhere} \<Longrightarrow> spec_step auth a (out, []) a"
| noted: "out \<in> {Failed, PostFailed} \<Longrightarrow> spec_effects auth es a = Some b \<Longrightarrow>
    spec_step auth a (out, es) (b\<lparr>st_signer := x\<rparr>)"
| effect: "spec_effects auth es a = Some b \<Longrightarrow> spec_step auth a (Done, es) (b\<lparr>st_signer := None\<rparr>)"

inductive_cases spec_stepE: "spec_step auth a l b"

lemma spec_effects_append:
  "spec_effects auth (es @ fs) a = Option.bind (spec_effects auth es a) (spec_effects auth fs)"
proof (induction es arbitrary: a)
  case (Cons e es)
  then show ?case by (cases "spec_effect auth e a") simp_all
qed simp

lemma spec_effect_signer:
  "spec_effect auth e (a\<lparr>st_signer := x\<rparr>) = map_option (\<lambda>b. b\<lparr>st_signer := x\<rparr>) (spec_effect auth e a)"
  by (cases e) (auto split: option.split)

lemma spec_effects_signer:
  "spec_effects auth es (a\<lparr>st_signer := x\<rparr>) = map_option (\<lambda>b. b\<lparr>st_signer := x\<rparr>) (spec_effects auth es a)"
proof (induction es arbitrary: a)
  case (Cons e es)
  then show ?case by (cases "spec_effect auth e a") (simp_all add: spec_effect_signer)
qed simp

subsection \<open>Traces have the effects they list\<close>

lemma update_exact:
  assumes "codec_ok (cdc k)" and "\<And>p. up_Params m = Some p \<Longrightarrow> small_params p"
    and "UpdateParams k m s = (Ok resp, t)"
  shows "spec_effect (authority k) (ParamsSet m) (abs_state sdk k s) = Some (abs_state sdk k t)"
proof -
  have set: "SetParams k (up_Params m) s = (Ok (), t)" and auth: "up_Sender m = authority k"
    using assms(3) by (auto simp: UpdateParams_def bindM_Ok_iff liftM_Ok_iff run_simps split: if_splits)
  then obtain p where p: "up_Params m = Some p" by (cases "up_Params m") (auto simp: SetParams_nil)
  then have v: "valid_params p" using set SetParams_invalid [of p k s] by fastforce
  then show ?thesis
    using SetParams_Ok [OF assms(1) v assms(2) [OF p], of s sdk] set p auth by auto
qed

lemma register_exact:
  assumes "big_endian_ok sdk" and "contracts_dispatch sdk k" and "registration sdk k m s l s1 s2 t"
  shows "spec_effect (authority k) (Registered m l) (abs_state sdk k s) = Some (abs_state sdk k s1)"
    and "abs_state sdk k t = abs_state sdk k s2"
proof -
  obtain p a n c d s3 w e where r: "GetParams k s = (Ok p, s)" "IsAllowed p (CodeID m)"
    "GetAndIncrementNextAccountID sdk s = (Ok n, s1)" "l = account_label n"
    and upd: "ck_UpdateContractAdmin (ck k) c a c s2 = (Ok (), s3)" and t: "t = s3\<lparr>world := w, events := e\<rparr>"
    using registration_parts [OF assms(3)] by metis
  have "module_store s3 = module_store s2" using upd assms(2) unfolding contracts_dispatch_def by blast
  then show "abs_state sdk k t = abs_state sdk k s2" by (intro abs_state_cong) (simp add: t)
  show "spec_effect (authority k) (Registered m l) (abs_state sdk k s) = Some (abs_state sdk k s1)"
    using r GetAndIncrement_run [OF assms(1), of s k]
    by (auto simp: GetParams_Ok_iff [of k _ _ _ sdk] IsAllowed_def code_id_listed_iff split: if_splits)
qed

lemma moves_exact:
  assumes "codec_ok (cdc k)" and "big_endian_ok sdk" and "contracts_dispatch sdk k" and "moves sdk k s es t"
  shows "spec_effects (authority k) es (abs_state sdk k s) = Some (abs_state sdk k t)"
  using assms(4)
proof (induction rule: moves.induct)
  case (aside t s)
  then show ?case using abs_state_cong [of t s sdk k] by simp
next
  case (update m s r t)
  then show ?case using update_exact [OF assms(1), of m s r t sdk] by simp
next
  case (register m s l s1 s2 t es)
  then show ?case using register_exact [OF assms(2,3) register.hyps(1)] by simp
next
  case (seq s es t fs u)
  then show ?case by (simp add: spec_effects_append)
qed

subsection \<open>Transactions and their traces\<close>

text \<open>The state with another signer noted.\<close>

definition signer_set :: "slice \<Rightarrow> 'w ctx \<Rightarrow> 'w ctx" where
  "signer_set x s = s\<lparr>module_store := (module_store s)(KeySignerAddress := x)\<rparr>"

lemma signer_set_abs [simp]: "abs_state sdk k (signer_set x s) = (abs_state sdk k s)\<lparr>st_signer := x\<rparr>"
  by (simp add: abs_state_def signer_set_def store_Get_def)

text \<open>
  A step of the chain with its effects: those of the ante handler, those of the messages,
  one after the other, and those of the post handler.  A transaction that fails after the
  ante handler keeps only the first.
\<close>

inductive traced ::
  "Sdk \<Rightarrow> 'w Keeper \<Rightarrow> 'w AnteHandler \<Rightarrow> 'w PostHandler \<Rightarrow> (SdkMsg \<Rightarrow> 'w item)
     \<Rightarrow> 'w ctx \<Rightarrow> outcome \<times> effect list \<Rightarrow> 'w ctx \<Rightarrow> bool"
  for sdk k ante post route where
  refused: "ante tx False s = (r, s1) \<Longrightarrow> \<not> is_Ok r \<Longrightarrow> traced sdk k ante post route s (Refused, []) s"
| failed: "ante tx False s = (Ok (), s1) \<Longrightarrow> moves sdk k (signer_set x s) es s1 \<Longrightarrow>
    run_msgs sdk k route tx s1 = (r, s2) \<Longrightarrow> \<not> is_Ok r \<Longrightarrow> traced sdk k ante post route s (Failed, es) s1"
| post_failed: "ante tx False s = (Ok (), s1) \<Longrightarrow> moves sdk k (signer_set x s) es s1 \<Longrightarrow>
    run_msgs sdk k route tx s1 = (Ok (), s2) \<Longrightarrow> post tx False True s2 = (r, s3) \<Longrightarrow> \<not> is_Ok r \<Longrightarrow>
    traced sdk k ante post route s (PostFailed, es) s1"
| accepted: "ante tx False s = (Ok (), s1) \<Longrightarrow> moves sdk k (signer_set x s) es s1 \<Longrightarrow>
    run_msgs sdk k route tx s1 = (Ok (), s2) \<Longrightarrow>
    items_effects sdk k (map route (GetMsgs tx)) s1 fs s2 \<Longrightarrow>
    post tx False True s2 = (Ok (), s3) \<Longrightarrow> moves sdk k (signer_set None s2) gs s3 \<Longrightarrow>
    traced sdk k ante post route s (Done, es @ fs @ gs) s3"
| elsewhere: "module_store t = module_store s \<Longrightarrow> traced sdk k ante post route s (Elsewhere, []) t"

text \<open>
  What is assumed of the surroundings of the module: the decorators of the SDK hand
  transactions on and leave the module's store alone, and contracts and other modules reach
  it only through messages of the module.
\<close>

definition sdk_decorators_ok ::
  "Sdk \<Rightarrow> 'w CtxOps \<Rightarrow> ('w, 'b) AnteLib \<Rightarrow> ('w, 'b) AnteHandlerOptions \<Rightarrow> bool" where
  "sdk_decorators_ok sdk co lib options \<longleftrightarrow>
     (\<forall>a b w m key. \<forall>d \<in> set (take 12 (ante_decorators sdk co lib options a b w m key)). hands_on module_store d)
   \<and> (\<forall>a m. hands_on module_store (NewSigVerificationDecorator lib a m))
   \<and> (\<forall>a. hands_on module_store (NewIncrementSequenceDecorator lib a))"

definition chain_env ::
  "Sdk \<Rightarrow> 'w CtxOps \<Rightarrow> ('w, 'b) AnteLib \<Rightarrow> ('w, 'b) AnteHandlerOptions \<Rightarrow> 'w PostHandlerOptions
     \<Rightarrow> 'w Keeper \<Rightarrow> 'w AnteHandler \<Rightarrow> 'w PostHandler \<Rightarrow> (SdkMsg \<Rightarrow> 'w item) \<Rightarrow> bool" where
  "chain_env sdk co lib options poptions k ante post route \<longleftrightarrow>
     handlers sdk co lib options poptions k ante post \<and> ctx_ops_ok co \<and> chains_ok lib
   \<and> big_endian_ok sdk \<and> codec_ok (cdc k) \<and> sdk_decorators_ok sdk co lib options
   \<and> contracts_dispatch sdk k \<and> (\<forall>m. routed sdk k (route m))"

lemma sudo_moves:
  assumes "contracts_dispatch sdk k" and "ctx_ops_ok co"
    and "sudoWithGasLimit co (ck k) addr msg g s = (Ok (), t)"
  obtains es where "moves sdk k s es t"
proof -
  let ?c = "(ctx_Cache co s)\<lparr>meter := NewGasMeter g\<rparr>"
  obtain d u where u: "ck_Sudo (ck k) addr msg ?c = (Ok d, u)"
    and t: "t = (ctx_write co s u)\<lparr>events := events (ctx_write co s u) @ events u\<rparr>"
    using assms(3) unfolding sudo_Ok by blast
  have "dispatches sdk k (ck_Sudo (ck k) addr msg)" using assms(1) by (simp add: contracts_dispatch_def)
  then obtain es where es: "moves sdk k ?c es u" using u by (rule dispatchesE)
  have "moves sdk k s [] ?c" by (rule moves.aside) (use assms(2) in \<open>simp add: ctx_ops_ok_def\<close>)
  then have "moves sdk k s ([] @ es) u" using es by (rule moves.seq)
  moreover have "moves sdk k u [] t" by (rule moves.aside) (use assms(2) in \<open>simp add: t ctx_ops_ok_def\<close>)
  ultimately have "moves sdk k s (([] @ es) @ []) t" by (rule moves.seq)
  then show thesis by (rule that)
qed

lemma moves_store: "moves sdk k s es t \<Longrightarrow> module_store s' = module_store s \<Longrightarrow> moves sdk k s' es t"
  using moves.seq [OF moves.aside, of s s' sdk k es t] by simp

lemma moves_to_store: "moves sdk k s es t \<Longrightarrow> module_store t' = module_store t \<Longrightarrow> moves sdk k s es t'"
  using moves.seq [OF _ moves.aside, of sdk k s es t t'] by simp

lemma signer_store:
  assumes "SetSignerAddress (Some addr) s = (Ok (), t)"
  shows "module_store t = module_store (signer_set (Some addr) s)"
  using assms by (auto simp: SetSignerAddress_def store_Set_def signer_set_def run_simps)

lemma BeforeTx_sudo:
  assumes "IsAbstractAccountTx aa s tx = Ok (Some (acc, sig))"
    and "BeforeTx_AnteHandle sdk co k aa nxt tx sim s = (Ok (), t)"
  obtains addr s1 msg g u where "SetSignerAddress (Some addr) s = (Ok (), s1)"
    and "sudoWithGasLimit co (ck k) (Some addr) msg g s1 = (Ok (), u)" and "nxt tx sim u = (Ok (), t)"
proof -
  obtain addr where addr: "GetAddress sdk acc = Some addr"
    using assms BeforeTx_no_address [OF assms(1), of sdk co k nxt sim]
    by (cases "GetAddress sdk acc") auto
  obtain s1 where s1: "SetSignerAddress (Some addr) s = (Ok (), s1)"
    using SetSignerAddress_Some [of addr s sdk k] by blast
  note run = assms(2) [unfolded BeforeTx_AA [OF assms(1), of sdk s1 co k nxt sim, unfolded addr, OF s1]]
  have "\<exists>msg g u. sudoWithGasLimit co (ck k) (Some addr) msg g s1 = (Ok (), u) \<and> nxt tx sim u = (Ok (), t)"
    using run by (auto simp: bindM_Ok_iff liftM_Ok_iff split: if_splits prod.splits dest!: GetParams_pure)
  then show thesis using s1 that by blast
qed

lemma ante_moves:
  assumes "chain_env sdk co lib options poptions k ante post route" and "ante tx sim s = (Ok (), t)"
  obtains x es where "moves sdk k (signer_set x s) es t"
proof -
  have h: "NewAnteHandler sdk co lib options = Ok ante" "AbstractAccountKeeper options = k"
    and env: "chains_ok lib" "ctx_ops_ok co" "contracts_dispatch sdk k" "sdk_decorators_ok sdk co lib options"
    using assms(1) by (auto simp: chain_env_def handlers_def)
  obtain a m where o: "ho_AccountKeeper options = Some a" "ho_SignModeHandler options = Some m"
    using h(1) by (auto simp: NewAnteHandler_Ok)
  let ?aa = "auth_ante lib a m" and ?nxt = "NewIncrementSequenceDecorator lib a (\<lambda>tx sim. retM ())"
  have d: "hands_on module_store d" if "d \<in> set (take 12 (ante_decorators sdk co lib options a b w m key))" for b w key d
    using env(4) that unfolding sdk_decorators_ok_def by blast
  obtain s0 where s0: "module_store s0 = module_store s"
    and run: "BeforeTx_AnteHandle sdk co k ?aa ?nxt tx sim s0 = (Ok (), t)"
    using ante_handler_reaches_view [OF env(1) h(1) o d assms(2)] unfolding h(2) .
  have inc: "module_store t = module_store u" if "?nxt tx sim u = (Ok (), t)" for u
    using that env(4) unfolding sdk_decorators_ok_def by (auto elim!: hands_onE simp: retM_def)
  show thesis
  proof (cases "IsAbstractAccountTx ?aa s0 tx")
    case (Ok r)
    show thesis
    proof (cases r)
      case None
      then have "NewSigVerificationDecorator lib a m ?nxt tx sim s0 = (Ok (), t)"
        using run Ok by (simp add: BeforeTx_not_AA auth_ante_def)
      then obtain u where "module_store u = module_store s0" "?nxt tx sim u = (Ok (), t)"
        using env(4) unfolding sdk_decorators_ok_def by (metis hands_onE)
      then have "module_store t = module_store (signer_set (store_Get KeySignerAddress s) s)"
        using inc s0 by (simp add: signer_set_def store_Get_def)
      then show thesis by (rule that [OF moves.aside])
    next
      case (Some p)
      then obtain acc sig where aa: "IsAbstractAccountTx ?aa s0 tx = Ok (Some (acc, sig))"
        using Ok by (cases p) simp
      obtain addr s1 msg g u where s1: "SetSignerAddress (Some addr) s0 = (Ok (), s1)"
        and u: "sudoWithGasLimit co (ck k) (Some addr) msg g s1 = (Ok (), u)" and t: "?nxt tx sim u = (Ok (), t)"
        by (rule BeforeTx_sudo [OF aa run])
      obtain es where "moves sdk k s1 es u" by (rule sudo_moves [OF env(3,2) u])
      then have "moves sdk k s1 es t" using inc [OF t] by (rule moves_to_store)
      moreover have "module_store (signer_set (Some addr) s) = module_store s1"
        using signer_store [OF s1] s0 by (simp add: signer_set_def)
      ultimately show thesis by (rule that [OF moves_store])
    qed
  qed (use run BeforeTx_error in \<open>auto simp: BeforeTx_AnteHandle_def bindM_def\<close>)
qed

lemma post_moves:
  assumes "chain_env sdk co lib options poptions k ante post route" and "post tx sim success s = (Ok (), t)"
  obtains es where "moves sdk k (signer_set None s) es t"
proof -
  have env: "contracts_dispatch sdk k" "ctx_ops_ok co"
    and post: "post = AfterTx_PostHandle co k (\<lambda>tx sim success. retM ())"
    using assms(1) NewPostHandler_run [of lib co poptions post] by (auto simp: chain_env_def handlers_def)
  note run = assms(2) [unfolded post AfterTx_run [where sdk = sdk]]
  show thesis
  proof (cases "st_signer (abs_state sdk k s)")
    case None
    then have "module_store s KeySignerAddress = None" by (simp add: abs_state_def store_Get_def)
    then have "module_store t = module_store (signer_set None s)"
      using run None by (auto simp: retM_def signer_set_def fun_eq_iff)
    then show thesis by (rule that [OF moves.aside])
  next
    case (Some a)
    let ?d = "snd (DeleteSignerAddress s)"
    obtain msg g where "sudoWithGasLimit co (ck k) (Some a) msg g ?d = (Ok (), t)"
      using run Some by (auto simp: bindM_Ok_iff retM_def dest!: GetParams_pure)
    then obtain es where "moves sdk k ?d es t" by (rule sudo_moves [OF env])
    moreover have "module_store (signer_set None s) = module_store ?d"
      by (simp add: DeleteSignerAddress_def store_Delete_def signer_set_def run_simps)
    ultimately show thesis by (rule that [OF moves_store])
  qed
qed

lemma msgs_effects:
  assumes "chain_env sdk co lib options poptions k ante post route" and "run_msgs sdk k route tx s = (Ok (), t)"
  obtains es where "items_effects sdk k (map route (GetMsgs tx)) s es t"
  using assms run_items_effects [of sdk k "map route (GetMsgs tx)" s t]
  by (auto simp: chain_env_def run_msgs_def)

lemma deliver_traced:
  assumes "chain_env sdk co lib options poptions k ante post route"
    and "deliver sdk k ante post route s out t"
  obtains es where "traced sdk k ante post route s (out, es) t"
  using assms(2)
proof (cases rule: deliver.cases)
  case (refused tx r s1)
  then show thesis using that traced.refused by blast
next
  case (failed tx r s2)
  then show thesis using that ante_moves [OF assms(1)] traced.failed by metis
next
  case (post_failed tx s2 r s3)
  then show thesis using that ante_moves [OF assms(1)] traced.post_failed by metis
next
  case (accepted tx s1 s2)
  obtain x es where "moves sdk k (signer_set x s) es s1" by (rule ante_moves [OF assms(1) accepted(2)])
  moreover obtain fs where "items_effects sdk k (map route (GetMsgs tx)) s1 fs s2"
    by (rule msgs_effects [OF assms(1) accepted(3)])
  moreover obtain gs where "moves sdk k (signer_set None s2) gs t" by (rule post_moves [OF assms(1) accepted(4)])
  ultimately show thesis
    using that accepted traced.accepted [of ante tx s s1 sdk k x es route s2 fs post t gs] by simp
next
  case elsewhere
  then show thesis using that traced.elsewhere by blast
qed

lemma run_traced:
  assumes "chain_env sdk co lib options poptions k ante post route" and "run sdk k ante post route s os t"
  obtains ls where "os = map fst ls" and "runs (traced sdk k ante post route) s ls t"
  using assms(2)
proof (induction arbitrary: thesis rule: run.induct)
  case (start s)
  then show ?case using runs.Nil by force
next
  case (step s os t out u)
  obtain ls where "os = map fst ls" and "runs (traced sdk k ante post route) s ls t" using step.IH .
  moreover obtain es where "traced sdk k ante post route t (out, es) u"
    by (rule deliver_traced [OF assms(1) step.hyps(2)])
  ultimately show ?case by (intro step.prems [of "ls @ [(out, es)]"] runs.Snoc) simp_all
qed

subsection \<open>Refinement\<close>

lemma traced_exact:
  assumes "chain_env sdk co lib options poptions k ante post route"
    and "traced sdk k ante post route s l t"
  shows "spec_step (authority k) (abs_state sdk k s) l (abs_state sdk k t)"
  using assms(2)
proof (cases rule: traced.cases)
  case (refused tx r s1)
  then show ?thesis by (auto intro: spec_step.idle)
next
  case elsewhere
  then show ?thesis using abs_state_cong [of t s sdk k] by (auto intro: spec_step.idle)
next
  let ?a = "abs_state sdk k"
  have exact: "moves sdk k u es v \<Longrightarrow> spec_effects (authority k) es (?a u) = Some (?a v)" for u es v
    using assms(1) moves_exact by (auto simp: chain_env_def)
  have noted: "\<exists>b. spec_effects (authority k) es (?a u) = Some b \<and> ?a v = b\<lparr>st_signer := x\<rparr>"
    if "moves sdk k (signer_set x u) es v" for x u es v
    using exact [OF that] by (auto simp: spec_effects_signer)
  {
    case (failed tx x es r s2)
    then show ?thesis using noted [OF failed(3)] by (auto intro: spec_step.noted)
  next
    case (post_failed tx x es s2 r s3)
    then show ?thesis using noted [OF post_failed(3)] by (auto intro: spec_step.noted)
  next
    case (accepted tx s1 x es s2 fs gs)
    have "moves sdk k s1 fs s2"
      using items_effects_moves [OF accepted(5)] assms(1) by (auto simp: chain_env_def)
    note fs = exact [OF this]
    obtain b where b: "spec_effects (authority k) es (?a s) = Some b" "?a s1 = b\<lparr>st_signer := x\<rparr>"
      using noted [OF accepted(3)] by blast
    obtain c where c: "spec_effects (authority k) fs b = Some c" "?a s2 = c\<lparr>st_signer := x\<rparr>"
      using fs by (auto simp: b(2) spec_effects_signer)
    obtain d where d: "spec_effects (authority k) gs (?a s2) = Some d" "?a t = d\<lparr>st_signer := None\<rparr>"
      using noted [OF accepted(7)] by blast
    obtain e where e: "spec_effects (authority k) gs c = Some e" "d = e\<lparr>st_signer := x\<rparr>"
      using d(1) by (auto simp: c(2) spec_effects_signer)
    have "spec_effects (authority k) (es @ fs @ gs) (?a s) = Some e"
      using b(1) c(1) e(1) by (simp add: spec_effects_append)
    moreover have "?a t = e\<lparr>st_signer := None\<rparr>" using d(2) e(2) by simp
    ultimately show ?thesis using accepted(1) by (simp add: spec_step.effect)
  }
qed

interpretation chain: simulation
  "chain_env sdk co lib options poptions k ante post route" "\<lambda>s. True"
  "traced sdk k ante post route" "spec_step (authority k)" "abs_state sdk k"
  for sdk co lib options poptions k ante post route
  by unfold_locales (auto intro: traced_exact)

text \<open>C3: The chain refines the specification.  Every run of a chain with the application's
  handlers has a trace, in which the messages of the module are listed in the order they took
  effect, those that contracts sent from inside ante handlers, post handlers, registrations
  and other messages among them; and seen through the abstract state the run is a run of the
  machine above with the same outcomes and effects.  So nothing but these messages changes
  the parameters and the next account id, each had passed its guard in the state it ran in,
  every account was registered under the label of the next id then, and what refused
  transactions and the messages of failed ones did is gone.\<close>

theorem chain_refines_spec:
  assumes "chain_env sdk co lib options poptions k ante post route"
    and "run sdk k ante post route s os t"
  shows "\<exists>ls. os = map fst ls \<and> runs (traced sdk k ante post route) s ls t
    \<and> runs (spec_step (authority k)) (abs_state sdk k s) ls (abs_state sdk k t)"
proof -
  obtain ls where "os = map fst ls" and "runs (traced sdk k ante post route) s ls t"
    by (rule run_traced [OF assms])
  then show ?thesis using chain.runs_spec [OF assms(1)] by blast
qed

subsection \<open>What follows from the specification\<close>

text \<open>The messages that set parameters, and the labels of the accounts registered.\<close>

fun sent :: "effect list \<Rightarrow> MsgUpdateParams list" where
  "sent [] = []"
| "sent (ParamsSet m # es) = m # sent es"
| "sent (Registered m l # es) = sent es"

fun labels :: "effect list \<Rightarrow> string list" where
  "labels [] = []"
| "labels (ParamsSet m # es) = labels es"
| "labels (Registered m l # es) = l # labels es"

abbreviation all_effects :: "(outcome \<times> effect list) list \<Rightarrow> effect list" where
  "all_effects ls \<equiv> concat (map snd ls)"

lemma sent_append [simp]: "sent (es @ fs) = sent es @ sent fs"
  by (induction es rule: sent.induct) simp_all

lemma labels_append [simp]: "labels (es @ fs) = labels es @ labels fs"
  by (induction es rule: labels.induct) simp_all

definition authorised :: "string \<Rightarrow> MsgUpdateParams list \<Rightarrow> bool" where
  "authorised auth ms \<longleftrightarrow>
     (\<forall>m \<in> set ms. up_Sender m = auth \<and> (\<exists>p. up_Params m = Some p \<and> valid_params p))"

lemma spec_effects_params:
  "spec_effects auth es a = Some b \<Longrightarrow>
   authorised auth (sent es) \<and> st_params b = last (st_params a # map up_Params (sent es))"
proof (induction es arbitrary: a)
  case Nil
  then show ?case by (simp add: authorised_def)
next
  case (Cons e es)
  obtain c where e: "spec_effect auth e a = Some c" and es: "spec_effects auth es c = Some b"
    using Cons.prems by (cases "spec_effect auth e a") simp_all
  note ih = Cons.IH [OF es]
  from e show ?case
    by (cases e) (use ih in \<open>auto simp: authorised_def split: option.splits if_splits\<close>)
qed

lemma runs_spec_params:
  "runs (spec_step auth) a ls b \<Longrightarrow>
   authorised auth (sent (all_effects ls)) \<and> st_params b = last (st_params a # map up_Params (sent (all_effects ls)))"
proof (induction rule: runs.induct)
  case (Nil a)
  then show ?case by (simp add: authorised_def)
next
  case (Snoc a ls b l c)
  from Snoc.hyps(2)
  have "authorised auth (sent (snd l)) \<and> st_params c = last (st_params b # map up_Params (sent (snd l)))"
    by (cases rule: spec_step.cases) (auto simp: authorised_def dest: spec_effects_params)
  with Snoc.IH show ?case by (auto simp: authorised_def)
qed

text \<open>The labels of the ids from \<open>n\<close> on.\<close>

definition labels_from :: "u64 \<Rightarrow> nat \<Rightarrow> string list" where
  "labels_from n c = map (\<lambda>i. account_label (n + of_nat i)) [0..<c]"

lemma labels_from_Suc: "labels_from n (Suc c) = account_label n # labels_from (n + 1) c"
proof -
  have "[0..<Suc c] = 0 # map Suc [0..<c]" by (simp add: upt_conv_Cons map_Suc_upt del: upt_Suc)
  then show ?thesis by (simp add: labels_from_def comp_def add.assoc del: upt_Suc)
qed

lemma labels_from_append: "labels_from n c @ labels_from (n + of_nat c) d = labels_from n (c + d)"
proof (induction c arbitrary: n)
  case 0
  then show ?case by (simp add: labels_from_def)
next
  case (Suc c)
  have "n + of_nat (Suc c) = n + 1 + of_nat c" by simp
  then show ?case using Suc.IH [of "n + 1"] by (simp only: labels_from_Suc append_Cons add_Suc)
qed

lemma labels_from_distinct:
  assumes "c \<le> 2 ^ 64"
  shows "distinct (labels_from n c)"
proof -
  have "inj_on (\<lambda>i. account_label (n + of_nat i)) {0..<c}"
  proof (rule inj_onI)
    fix i j
    assume i: "i \<in> {0..<c}" and j: "j \<in> {0..<c}"
      and eq: "account_label (n + of_nat i) = account_label (n + of_nat j)"
    have "n + of_nat i = n + of_nat j"
      using eq by (simp add: account_label_def decimal_inject word_unat_eq_iff)
    then have "unat (of_nat i :: u64) = unat (of_nat j :: u64)" by simp
    moreover have "i < 2 ^ 64" "j < 2 ^ 64" using i j assms by simp_all
    ultimately show "i = j" by (simp only: unat_of_nat) simp
  qed
  then show ?thesis by (simp add: labels_from_def distinct_map)
qed

lemma spec_effects_labels:
  "spec_effects auth es a = Some b \<Longrightarrow>
   labels es = labels_from (st_next_id a) (length (labels es))
   \<and> st_next_id b = st_next_id a + of_nat (length (labels es))"
proof (induction es arbitrary: a)
  case Nil
  then show ?case by (simp add: labels_from_def)
next
  case (Cons e es)
  obtain c where e: "spec_effect auth e a = Some c" and es: "spec_effects auth es c = Some b"
    using Cons.prems by (cases "spec_effect auth e a") simp_all
  note ih = Cons.IH [OF es]
  from e show ?case
    by (cases e) (use ih in \<open>auto simp: labels_from_Suc add.assoc split: option.splits if_splits\<close>)
qed

lemma runs_spec_labels:
  "runs (spec_step auth) a ls b \<Longrightarrow>
   labels (all_effects ls) = labels_from (st_next_id a) (length (labels (all_effects ls)))
   \<and> st_next_id b = st_next_id a + of_nat (length (labels (all_effects ls)))"
proof (induction rule: runs.induct)
  case (Nil a)
  then show ?case by (simp add: labels_from_def)
next
  case (Snoc a ls b l c)
  from Snoc.hyps(2)
  have "labels (snd l) = labels_from (st_next_id b) (length (labels (snd l)))
      \<and> st_next_id c = st_next_id b + of_nat (length (labels (snd l)))"
    by (cases rule: spec_step.cases) (auto simp: labels_from_def dest: spec_effects_labels)
  with Snoc.IH show ?case by (auto simp: labels_from_append [symmetric])
qed

text \<open>C11: Nobody but the authority changes the parameters.  Take any trace of any run of a
  chain: every message that set parameters, also one that a contract sent, came from the
  authority and carried valid parameters, and the stored parameters are those of the last
  one, or those the run started with if there was none.\<close>

theorem params_only_by_authority:
  assumes "chain_env sdk co lib options poptions k ante post route"
    and "run sdk k ante post route s os t"
  shows "(\<exists>ls. os = map fst ls \<and> runs (traced sdk k ante post route) s ls t)
    \<and> (\<forall>ls. runs (traced sdk k ante post route) s ls t \<longrightarrow>
        (\<forall>m \<in> set (sent (all_effects ls)). up_Sender m = authority k
          \<and> (\<exists>p. up_Params m = Some p \<and> valid_params p))
      \<and> st_params (abs_state sdk k t)
        = last (st_params (abs_state sdk k s) # map up_Params (sent (all_effects ls))))"
proof -
  obtain ls where "os = map fst ls" and "runs (traced sdk k ante post route) s ls t"
    by (rule run_traced [OF assms])
  moreover have "authorised (authority k) (sent (all_effects ls)) \<and> st_params (abs_state sdk k t)
      = last (st_params (abs_state sdk k s) # map up_Params (sent (all_effects ls)))"
    if "runs (traced sdk k ante post route) s ls t" for ls
    using chain.runs_spec [OF assms(1) that] by (intro runs_spec_params) simp
  ultimately show ?thesis unfolding authorised_def by blast
qed

text \<open>C15: Account ids are given out in order and without gaps, and labels identify accounts.
  Take any trace of any run of a chain: the labels under which accounts were registered, by
  transactions or by contracts, are those of the next ids in order, one each; the ids of what
  was refused or failed are given out again; the next id has moved by exactly the number of
  accounts registered; and up to the \<open>2^64\<close>th registration, after which the counter starts
  over, no label is given twice.\<close>

theorem account_ids_without_gaps:
  assumes "chain_env sdk co lib options poptions k ante post route"
    and "run sdk k ante post route s os t"
  shows "(\<exists>ls. os = map fst ls \<and> runs (traced sdk k ante post route) s ls t)
    \<and> (\<forall>ls c. runs (traced sdk k ante post route) s ls t \<and> c = length (labels (all_effects ls)) \<longrightarrow>
        labels (all_effects ls)
          = map (\<lambda>i. account_label (st_next_id (abs_state sdk k s) + of_nat i)) [0..<c]
      \<and> st_next_id (abs_state sdk k t) = st_next_id (abs_state sdk k s) + of_nat c
      \<and> (c \<le> 2 ^ 64 \<longrightarrow> distinct (labels (all_effects ls))))"
proof -
  obtain ls where "os = map fst ls" and "runs (traced sdk k ante post route) s ls t"
    by (rule run_traced [OF assms])
  moreover have "labels (all_effects ls) = labels_from (st_next_id (abs_state sdk k s)) (length (labels (all_effects ls)))
      \<and> st_next_id (abs_state sdk k t) = st_next_id (abs_state sdk k s) + of_nat (length (labels (all_effects ls)))"
    if "runs (traced sdk k ante post route) s ls t" for ls
    using chain.runs_spec [OF assms(1) that] by (intro runs_spec_labels) simp
  ultimately show ?thesis using labels_from_distinct unfolding labels_from_def by metis
qed

subsection \<open>The sample chain\<close>

lemma sample_dispatch: "contracts_dispatch sample_sdk sample_keeper"
  unfolding contracts_dispatch_def
  by (auto intro!: dispatches_store) (auto simp: sample_keeper_def sample_ck_def)

lemma sample_routed: "routed sample_sdk sample_keeper (sample_route m)"
proof -
  have "dispatches sample_sdk sample_keeper sample_exec"
    unfolding sample_exec_def
    by (intro dispatches_bindM dispatches_RegisterAccount sample_dispatch dispatches_store) (simp add: retM_def)
  moreover have "dispatches sample_sdk sample_keeper (retM ())" by (rule dispatches_store) (simp add: retM_def)
  ultimately show ?thesis by (simp add: sample_route_def)
qed

lemma sample_env:
  "chain_env sample_sdk sample_co sample_ante_lib sample_options sample_poptions sample_keeper
     sample_ante sample_post sample_route"
proof -
  have "sdk_decorators_ok sample_sdk sample_co sample_ante_lib sample_options"
    unfolding sdk_decorators_ok_def
  proof (intro conjI allI ballI)
    show "hands_on module_store d"
      if "d \<in> set (take 12 (ante_decorators sample_sdk sample_co sample_ante_lib sample_options a b w m key))"
      for d a b w m key by (rule sample_front [OF _ that]) simp
    show "hands_on module_store (NewSigVerificationDecorator sample_ante_lib a m)"
      "hands_on module_store (NewIncrementSequenceDecorator sample_ante_lib a)" for a m
      by (auto simp: sample_ante_lib_def sample_aa_def pass_all_def hands_on_def)
  qed
  then show ?thesis
    using sample_handlers sample_co_ok(1) sample_chains_ok big_endian_sample sample_keeper_ok(1)
      sample_dispatch sample_routed by (simp add: chain_env_def)
qed

text \<open>The transaction of the sample block, with its effects: one registration by a message and
  two by a contract.\<close>

lemma sample_instantiates:
  "ck_Instantiate2 (ck sample_keeper) code cr ad m l f sa fx s = (Ok r, t) \<Longrightarrow> module_store t = module_store s"
  by (auto simp: sample_keeper_def sample_ck_def)

lemma sample_registers:
  assumes "RegisterAccount sample_sdk sample_keeper sample_register s = (Ok r, t)"
  obtains l where "item_effects sample_sdk sample_keeper (Register sample_register) s [Registered sample_register l] t"
    and "moves sample_sdk sample_keeper s [Registered sample_register l] t"
proof -
  obtain l s1 s2 where reg: "registration sample_sdk sample_keeper sample_register s l s1 s2 t"
    by (rule registration_Ok [OF assms])
  then obtain a c d where "ck_Instantiate2 (ck sample_keeper) (CodeID sample_register) a a
      (Msg sample_register) l (Funds sample_register) (Salt sample_register) False s1 = (Ok (c, d), s2)"
    by (rule registration_parts)
  then have "moves sample_sdk sample_keeper s1 [] s2" by (intro moves.aside sample_instantiates)
  then show thesis using that reg by (blast intro: moves.register item_effects.register_account)
qed

lemma sample_trace:
  "\<exists>t l l1 l2. run sample_sdk sample_keeper sample_ante sample_post sample_route sample_ctx [Done] t
    \<and> runs (traced sample_sdk sample_keeper sample_ante sample_post sample_route) sample_ctx
        [(Done, [Registered sample_register l, Registered sample_register l1, Registered sample_register l2])] t"
proof -
  let ?R = "RegisterAccount sample_sdk sample_keeper sample_register"
  obtain s1 r1 t1 r2 t2 r3 t3 where ante: "sample_ante sample_block_tx False sample_ctx = (Ok (), s1)"
    and store: "module_store s1 = module_store sample_ctx"
    and reg: "?R s1 = (Ok r1, t1)" "?R t1 = (Ok r2, t2)" "?R t2 = (Ok r3, t3)"
    and post: "sample_post sample_block_tx False True t3 = (Ok (), t3)" and none: "signer_is None t3"
    using sample_block_run [of sample_ctx]
    by (force simp: store_Get_def sample_ctx_def signer_is_def)
  let ?m = "Registered sample_register"
  have msgs: "run_msgs sample_sdk sample_keeper sample_route sample_block_tx s1 = (Ok (), t3)"
    using reg by (simp add: sample_block_msgs sample_exec_def bindM_OkI retM_def)
  obtain l where l: "item_effects sample_sdk sample_keeper (Register sample_register) s1 [?m l] t1"
    by (rule sample_registers [OF reg(1)])
  obtain l1 where l1: "moves sample_sdk sample_keeper t1 [?m l1] t2" by (rule sample_registers [OF reg(2)])
  obtain l2 where l2: "moves sample_sdk sample_keeper t2 [?m l2] t3" by (rule sample_registers [OF reg(3)])
  have "sample_exec t1 = (Ok (), t3)" using reg by (simp add: sample_exec_def bindM_OkI retM_def)
  then have "item_effects sample_sdk sample_keeper (Foreign sample_exec) t1 ([?m l1] @ [?m l2]) t3"
    using moves.seq [OF l1 l2] by (rule item_effects.elsewhere)
  from items_effects.first [OF l items_effects.first [OF this items_effects.none]]
  have items: "items_effects sample_sdk sample_keeper (map sample_route (GetMsgs sample_block_tx)) s1
      ([?m l] @ ([?m l1] @ [?m l2]) @ []) t3"
    by (simp add: sample_block_tx_def sample_route_def)
  have a: "moves sample_sdk sample_keeper (signer_set (store_Get KeySignerAddress sample_ctx) sample_ctx) [] s1"
    by (rule moves.aside) (simp add: store signer_set_def store_Get_def)
  have p: "moves sample_sdk sample_keeper (signer_set None t3) [] t3"
    by (rule moves.aside) (use none in \<open>auto simp: signer_set_def signer_is_def store_Get_def fun_eq_iff\<close>)
  from traced.accepted [where ante = sample_ante and post = sample_post, OF ante a msgs items post p]
  have "traced sample_sdk sample_keeper sample_ante sample_post sample_route sample_ctx
      (Done, [?m l, ?m l1, ?m l2]) t3" by simp
  then have "runs (traced sample_sdk sample_keeper sample_ante sample_post sample_route) sample_ctx
      [(Done, [?m l, ?m l1, ?m l2])] t3" by (rule runs_one)
  moreover have "deliver sample_sdk sample_keeper sample_ante sample_post sample_route sample_ctx Done t3"
    by (rule deliver.accepted [where ante = sample_ante and post = sample_post, OF ante msgs post])
  from run.step [OF run.start this]
  have "run sample_sdk sample_keeper sample_ante sample_post sample_route sample_ctx [Done] t3" by simp
  ultimately show ?thesis by blast
qed

theorem chain_refines_spec_witness:
  "\<exists>t es. runs (spec_step ''gov'') (abs_state sample_sdk sample_keeper sample_ctx)
     [(Done, es)] (abs_state sample_sdk sample_keeper t)"
proof -
  obtain t where t: "run sample_sdk sample_keeper sample_ante sample_post sample_route sample_ctx [Done] t"
    using sample_trace by blast
  have gov: "authority sample_keeper = ''gov''" by (simp add: sample_keeper_def)
  obtain ls where os: "[Done] = map fst ls"
    and ls: "runs (spec_step ''gov'') (abs_state sample_sdk sample_keeper sample_ctx)
      ls (abs_state sample_sdk sample_keeper t)"
    using chain_refines_spec [OF sample_env t] unfolding gov by (elim exE conjE)
  obtain es where "ls = [(Done, es)]" using os by (cases ls) auto
  then show ?thesis using ls by blast
qed

theorem params_only_by_authority_witness:
  "\<exists>t. run sample_sdk sample_keeper sample_ante sample_post sample_route sample_ctx [Done] t
    \<and> st_params (abs_state sample_sdk sample_keeper t) = Some DefaultParams"
proof -
  obtain t l l1 l2 where t: "run sample_sdk sample_keeper sample_ante sample_post sample_route sample_ctx [Done] t"
    and ls: "runs (traced sample_sdk sample_keeper sample_ante sample_post sample_route) sample_ctx
        [(Done, [Registered sample_register l, Registered sample_register l1, Registered sample_register l2])] t"
    using sample_trace by blast
  have "st_params (abs_state sample_sdk sample_keeper sample_ctx) = Some DefaultParams"
    using sample_params by (simp add: abs_state_def store_Get_def sample_ctx_def sample_keeper_def)
  then show ?thesis using params_only_by_authority [OF sample_env t] ls t by fastforce
qed

theorem account_ids_without_gaps_witness:
  "\<exists>t ls. runs (traced sample_sdk sample_keeper sample_ante sample_post sample_route) sample_ctx ls t
    \<and> labels (all_effects ls) = [''abstractaccount/0'', ''abstractaccount/1'', ''abstractaccount/2'']
    \<and> st_next_id (abs_state sample_sdk sample_keeper t) = 3"
proof -
  obtain t l l1 l2 where t: "run sample_sdk sample_keeper sample_ante sample_post sample_route sample_ctx [Done] t"
    and ls: "runs (traced sample_sdk sample_keeper sample_ante sample_post sample_route) sample_ctx
        [(Done, [Registered sample_register l, Registered sample_register l1, Registered sample_register l2])] t"
    using sample_trace by blast
  have ids: "[0..<3] = [0, 1, 2 :: nat]" by (simp add: upt_rec)
  have digits: "char_of (48 :: nat) = CHR ''0''" "char_of (49 :: nat) = CHR ''1''" "char_of (50 :: nat) = CHR ''2''"
    by code_simp+
  have "[l, l1, l2] = [account_label 0, account_label 1, account_label 2]"
    and "st_next_id (abs_state sample_sdk sample_keeper t) = 3"
    using account_ids_without_gaps [OF sample_env t] ls sample_next_id ids by fastforce+
  then show ?thesis
    using ls by (intro exI [of _ t] exI [of _ "[(Done, [Registered sample_register l, Registered sample_register l1,
      Registered sample_register l2])]"] conjI) (simp_all add: account_label_def ModuleName_def decimal.simps digits)
qed

end
