(* ===== verification/ReplaySpec.thy ===== *)
theory ReplaySpec
  imports LifecycleSpec
begin

text \<open>
  Replay: a transaction of an abstract account that was accepted is not accepted again.
  There is no signature to check, so everything rests on the sequence number that the
  module compares and the decorator after it increments.
\<close>

subsection \<open>The sequence of the signer\<close>

text \<open>The sequence number of the abstract account that signs a transaction.\<close>

definition signer_sequence :: "'w AuthAnte \<Rightarrow> Tx \<Rightarrow> 'w ctx \<Rightarrow> u64 option" where
  "signer_sequence aa tx s =
     (case IsAbstractAccountTx aa s tx of
        Ok (Some (acc, sig)) \<Rightarrow> Some (Sequence acc)
      | Ok None \<Rightarrow> None | Err e \<Rightarrow> None | Panic p \<Rightarrow> None)"

lemma signer_sequence_Some:
  "signer_sequence aa tx s = Some n \<longleftrightarrow>
   (\<exists>acc sig. IsAbstractAccountTx aa s tx = Ok (Some (acc, sig)) \<and> Sequence acc = n)"
  by (auto simp: signer_sequence_def split: res.splits option.splits)

text \<open>The signature a transaction is judged by does not depend on the state.\<close>

lemma IsAbstractAccountTx_sig:
  assumes "IsAbstractAccountTx aa s tx = Ok (Some (acc, sig))"
    and "IsAbstractAccountTx aa t tx = Ok (Some (acc', sig'))"
  shows "sig' = sig"
  using assms by (auto simp: IsAbstractAccountTx_iff)

text \<open>
  What is relied on: the account of a signer is read from the stores of the other modules,
  and the decorator that increments sequences increments that of the signer, before it
  hands the transaction on.
\<close>

definition reads_world :: "'w AuthAnte \<Rightarrow> bool" where
  "reads_world aa \<longleftrightarrow> (\<forall>s t. world s = world t \<longrightarrow> GetSignerAcc aa s = GetSignerAcc aa t)"

definition increments :: "'w AuthAnte \<Rightarrow> Tx \<Rightarrow> 'w AnteDecorator \<Rightarrow> bool" where
  "increments aa tx d \<longleftrightarrow> (\<forall>nxt sim s t n. d nxt tx sim s = (Ok (), t) \<and> signer_sequence aa tx s = Some n
     \<longrightarrow> (\<exists>s1. signer_sequence aa tx s1 = Some (n + 1) \<and> nxt tx sim s1 = (Ok (), t)))"

lemma signer_sequence_world:
  assumes "reads_world aa" and "world s = world t"
  shows "signer_sequence aa tx s = signer_sequence aa tx t"
proof -
  have "GetSignerAcc aa s = GetSignerAcc aa t" using assms unfolding reads_world_def by blast
  then have "IsAbstractAccountTx aa s tx = IsAbstractAccountTx aa t tx"
    unfolding IsAbstractAccountTx_def by (simp only:)
  then show ?thesis by (simp add: signer_sequence_def)
qed

lemma sudo_sequence:
  assumes "ctx_ops_ok co" and "reads_world aa"
    and "keeps (\<lambda>s. signer_sequence aa tx s = q) (ck_Sudo c addr msg)"
    and "signer_sequence aa tx s = q" and "sudoWithGasLimit co c addr msg g s = (Ok (), t)"
  shows "signer_sequence aa tx t = q"
proof -
  obtain d u where run: "ck_Sudo c addr msg ((ctx_Cache co s)\<lparr>meter := NewGasMeter g\<rparr>) = (Ok d, u)"
    and t: "t = (ctx_write co s u)\<lparr>events := events (ctx_write co s u) @ events u\<rparr>"
    using assms(5) by (auto simp: sudo_Ok)
  have "world ((ctx_Cache co s)\<lparr>meter := NewGasMeter g\<rparr>) = world s" and w: "world t = world u"
    using assms(1) by (simp_all add: t ctx_ops_ok_def)
  then have "signer_sequence aa tx ((ctx_Cache co s)\<lparr>meter := NewGasMeter g\<rparr>) = q"
    using signer_sequence_world [OF assms(2)] assms(4) by metis
  then have "signer_sequence aa tx u = q" by (rule keepsD [OF assms(3) _ run])
  then show ?thesis using signer_sequence_world [OF assms(2) w] by simp
qed

subsection \<open>No replay\<close>

text \<open>C4: An accepted transaction of an abstract account cannot be accepted again: the ante
  handler leaves the account with the next sequence number, and in every state where the
  account's sequence is another one than it was when the transaction was accepted, the
  transaction is refused, whatever the contract would say.\<close>

theorem accepted_tx_not_replayed:
  assumes "chains_ok lib" and "NewAnteHandler sdk co lib options = Ok h"
    and "ho_AccountKeeper options = Some a" and "ho_SignModeHandler options = Some m"
    and "front_hands_on sdk co lib options a m tx" and "aa = auth_ante lib a m"
    and "ctx_ops_ok co" and "reads_world aa" and "increments aa tx (NewIncrementSequenceDecorator lib a)"
    and "\<And>addr msg q. keeps (\<lambda>s. signer_sequence aa tx s = q)
      (ck_Sudo (ck (AbstractAccountKeeper options)) addr msg)"
    and "signer_sequence aa tx s = Some n" and "h tx False s = (Ok (), s1)"
  shows "signer_sequence aa tx s1 = Some (n + 1)
    \<and> (\<forall>t n' sim. signer_sequence aa tx t = Some n' \<and> n' \<noteq> n \<longrightarrow> \<not> is_Ok (fst (h tx sim t)))"
proof
  let ?k = "AbstractAccountKeeper options" and ?incr = "NewIncrementSequenceDecorator lib a (\<lambda>tx sim. retM ())"
  obtain acc sig where aa: "IsAbstractAccountTx aa s tx = Ok (Some (acc, sig))" and n: "Sequence acc = n"
    using assms(11) by (auto simp: signer_sequence_Some)
  note reaches = ante_handler_reaches [OF assms(1-5), folded assms(6)]
  have seq: "sig_Sequence sig' = Sequence acc'"
    if "IsAbstractAccountTx aa t tx = Ok (Some (acc', sig'))" and "h tx sim t = (Ok (), t')" for t acc' sig' sim t'
    using ante_gate [OF assms(1-4) assms(5) [folded front_keeps_nothing] that(1) [unfolded assms(6)] that(2) refl]
    by blast
  obtain s0 where view: "gate_view sdk ?k aa tx s0 = gate_view sdk ?k aa tx s"
    and run: "BeforeTx_AnteHandle sdk co ?k aa ?incr tx False s0 = (Ok (), s1)"
    using reaches [OF assms(12)] .
  have aa0: "IsAbstractAccountTx aa s0 tx = Ok (Some (acc, sig))" using view aa by (simp add: gate_view_def)
  obtain addr u1 u2 and msg :: bytes and g where out: "same_outside s0 u1"
    and sudo: "sudoWithGasLimit co (ck ?k) (Some addr) msg g u1 = (Ok (), u2)"
    and incr: "?incr tx False u2 = (Ok (), s1)"
    using BeforeTx_gate [OF aa0 run] by blast
  have "signer_sequence aa tx u1 = Some n"
    using signer_sequence_world [OF assms(8), of s0 u1 tx] out aa0 n
    by (simp add: same_outside_def signer_sequence_def)
  then have "signer_sequence aa tx u2 = Some n" by (rule sudo_sequence [OF assms(7,8,10) _ sudo])
  then show "signer_sequence aa tx s1 = Some (n + 1)"
    using assms(9) incr unfolding increments_def by (fastforce simp: retM_def)
  show "\<forall>t n' sim. signer_sequence aa tx t = Some n' \<and> n' \<noteq> n \<longrightarrow> \<not> is_Ok (fst (h tx sim t))"
  proof (intro allI impI notI)
    fix t n' sim
    assume t: "signer_sequence aa tx t = Some n' \<and> n' \<noteq> n" and ok: "is_Ok (fst (h tx sim t))"
    then obtain acc' sig' where aa': "IsAbstractAccountTx aa t tx = Ok (Some (acc', sig'))"
      and n': "Sequence acc' = n'" by (auto simp: signer_sequence_Some)
    have "h tx sim t = (Ok (), snd (h tx sim t))" using ok by (cases "h tx sim t"; cases "fst (h tx sim t)") auto
    then show False
      using seq [OF aa assms(12)] seq [OF aa'] IsAbstractAccountTx_sig [OF aa aa'] n n' t by simp
  qed
qed

subsection \<open>A sample\<close>

text \<open>The SDK's decorators as before, with one that increments the sequence of the signer.\<close>

definition bump :: "Tx \<Rightarrow> sample_world ctx \<Rightarrow> sample_world ctx" where
  "bump tx s =
     (case as_SigVerifiableTx tx of
        None \<Rightarrow> s
      | Some st \<Rightarrow> s\<lparr>world := (\<lambda>a. case world s a of
          Some (AbstractAcc acc) \<Rightarrow>
            Some (AbstractAcc (if a \<in> set (GetSigners st) then snd (SetSequence (Sequence acc + 1) acc) else acc))
        | Some (BaseAccount v) \<Rightarrow> Some (BaseAccount v)
        | Some (OtherAccount v) \<Rightarrow> Some (OtherAccount v)
        | None \<Rightarrow> None)\<rparr>)"

definition sample_seq_lib :: "(sample_world, unit) AnteLib" where
  "sample_seq_lib = sample_ante_lib\<lparr>NewIncrementSequenceDecorator := (\<lambda>a nxt tx sim s. nxt tx sim (bump tx s))\<rparr>"

lemma sample_bump:
  assumes "signer_sequence sample_aa tx s = Some n"
  shows "signer_sequence sample_aa tx (bump tx s) = Some (n + 1)"
proof -
  obtain acc sig where "IsAbstractAccountTx sample_aa s tx = Ok (Some (acc, sig))" and n: "Sequence acc = n"
    using assms by (auto simp: signer_sequence_Some)
  then obtain st a where "as_SigVerifiableTx tx = Some st" "GetSignaturesV2 st = Ok [sig]" "GetSigners st = [a]"
    and "GetSignerAcc sample_aa s a = Ok (AbstractAcc acc)"
    unfolding IsAbstractAccountTx_iff by blast
  then show ?thesis
    using n by (auto simp: signer_sequence_def IsAbstractAccountTx_def bump_def sample_aa_def SetSequence_def
        split: option.splits)
qed

lemma sample_seq_chains: "chains_ok sample_seq_lib"
  using sample_chains_ok by (simp add: chains_ok_def sample_seq_lib_def)

lemma sample_seq_front:
  "front_hands_on sample_sdk sample_co sample_seq_lib sample_options sample_ak sample_modes tx"
proof -
  have "take 12 (ante_decorators sample_sdk sample_co sample_seq_lib options a b w m key)
      = take 12 (ante_decorators sample_sdk sample_co sample_ante_lib options a b w m key)" for options a b w m key
    by (simp add: ante_decorators_def sample_seq_lib_def)
  moreover have "auth_ante sample_seq_lib a m = auth_ante sample_ante_lib a m" for a m
    by (simp add: auth_ante_def sample_seq_lib_def)
  ultimately show ?thesis using sample_front_hands_on by (simp add: front_hands_on_def)
qed

lemma sample_seq_auth: "auth_ante sample_seq_lib a sample_modes = sample_aa"
  using sample_auth_ante by (simp add: auth_ante_def sample_seq_lib_def)

lemma sample_increments: "increments sample_aa tx (NewIncrementSequenceDecorator sample_seq_lib a)"
  unfolding increments_def by (auto simp: sample_seq_lib_def intro: sample_bump)

lemma sample_reads_world: "reads_world sample_aa"
  by (simp add: reads_world_def sample_aa_def)

lemma sample_sudo_sequence:
  "keeps (\<lambda>s. signer_sequence sample_aa tx s = q) (ck_Sudo (ck sample_keeper) addr msg)"
  unfolding keeps_def
proof (intro allI impI)
  fix s
  assume q: "signer_sequence sample_aa tx s = q"
  let ?t = "snd (ck_Sudo (ck sample_keeper) addr msg s)"
  have "world ?t = world s" by (simp add: sample_sudo)
  with signer_sequence_world [OF sample_reads_world, of ?t s tx] q
  show "signer_sequence sample_aa tx ?t = q" by simp
qed

lemma BeforeTx_next:
  assumes "IsAbstractAccountTx aa s tx = Ok (Some (acc, sig))"
    and "BeforeTx_AnteHandle sdk co k aa (\<lambda>tx sim. retM ()) tx sim s = (Ok (), t)"
  shows "BeforeTx_AnteHandle sdk co k aa nxt tx sim s = nxt tx sim t"
proof -
  have "GetAddress sdk acc \<noteq> None" using assms BeforeTx_no_address [OF assms(1), of sdk co k _ sim] by fastforce
  then obtain s1 where s1: "SetSignerAddress (GetAddress sdk acc) s = (Ok (), s1)"
    using SetSignerAddress_Some [of _ s undefined undefined] by fastforce
  show ?thesis
    using assms(2) unfolding BeforeTx_AA [OF assms(1) s1]
    by (auto simp: bindM_Ok_iff liftM_Ok_iff bindM_OkI retM_def split: if_splits)
qed

theorem accepted_tx_not_replayed_witness:
  "\<exists>h s1. NewAnteHandler sample_sdk sample_co sample_seq_lib sample_options = Ok h
    \<and> h (sample_tx 4) False sample_aa_ctx = (Ok (), s1) \<and> signer_sequence sample_aa (sample_tx 4) s1 = Some 5
    \<and> \<not> is_Ok (fst (h (sample_tx 4) False s1))"
proof -
  let ?incr = "\<lambda>tx sim s. (Ok (), bump tx s)"
  let ?h = "\<lambda>tx sim s. BeforeTx_AnteHandle sample_sdk sample_co sample_keeper sample_aa
      ?incr tx sim (s\<lparr>meter := NewGasMeter 1000\<rparr>)"
  let ?s = "sample_aa_ctx\<lparr>meter := NewGasMeter 1000\<rparr>"
  have h: "NewAnteHandler sample_sdk sample_co sample_seq_lib sample_options = Ok ?h"
    by (simp add: NewAnteHandler_def sample_options_def ante_decorators_def
        BeforeTxDecorator_AnteHandle_def NewBeforeTxDecorator_def sample_seq_auth)
       (simp add: sample_seq_lib_def sample_ante_lib_def pass_all_def retM_def)
  have aa: "IsAbstractAccountTx sample_aa ?s (sample_tx 4) = Ok (Some (sample_acc, sample_sig 4))"
    by (simp only: sample_meter sample_is_aa)
  obtain u where "BeforeTx_AnteHandle sample_sdk sample_co sample_keeper sample_aa (\<lambda>tx sim. retM ())
      (sample_tx 4) False ?s = (Ok (), u)"
    using sample_before_any_meter by blast
  then have run: "?h (sample_tx 4) False sample_aa_ctx = (Ok (), bump (sample_tx 4) u)"
    using BeforeTx_next [OF aa] by metis
  have seq: "signer_sequence sample_aa (sample_tx 4) sample_aa_ctx = Some 4"
    by (simp add: signer_sequence_def sample_is_aa sample_acc_def)
  have k: "ho_AccountKeeper sample_options = Some sample_ak" "ho_SignModeHandler sample_options = Some sample_modes"
    "AbstractAccountKeeper sample_options = sample_keeper" by (simp_all add: sample_options_def)
  show ?thesis
    using accepted_tx_not_replayed [OF sample_seq_chains h k(1,2) sample_seq_front sample_seq_auth [symmetric]
        sample_co_ok(1) sample_reads_world sample_increments _ seq run, unfolded k(3)] sample_sudo_sequence h run
    by fastforce
qed

end
