(* ===== verification/WasmbindingSpec.thy ===== *)
theory WasmbindingSpec
  imports Wasmbinding
begin

text \<open>
  The JSON text of a sudo message determines the message: what an account contract reads
  is what the handlers sent.  Every rendering ends where it can be seen to end, so
  renderings are a prefix code.
\<close>

subsection \<open>Strings\<close>

definition hex_value :: "char \<Rightarrow> nat" where
  "hex_value c = (if of_char c < (58 :: nat) then of_char c - 48 else of_char c - 87)"

lemma hex_value_digit: "n < 16 \<Longrightarrow> hex_value (hex_digit n) = n"
  by (auto simp: hex_value_def hex_digit_def)

text \<open>The first character of an escaped text, and the rest.\<close>

fun unescape :: "string \<Rightarrow> char \<times> string" where
  "unescape (b # c # r) =
     (if b \<noteq> CHR 0x5C then (b, c # r)
      else if c = CHR ''n'' then (char_of (10 :: nat), r)
      else if c = CHR ''r'' then (char_of (13 :: nat), r)
      else if c = CHR ''t'' then (char_of (9 :: nat), r)
      else if c = CHR ''u'' then (char_of (16 * hex_value (r ! 2) + hex_value (r ! 3)), drop 4 r)
      else (c, r))"
| "unescape s = (hd s, tl s)"

lemma of_char_eq_iff: "(of_char c :: nat) = n \<Longrightarrow> c = char_of n"
  by auto

lemma char_of_quotes: "char_of (34 :: nat) = CHR 0x22" "char_of (92 :: nat) = CHR 0x5C"
  using char_of_char [of "CHR 0x22"] char_of_char [of "CHR 0x5C"] by simp_all

lemma unescape_plain: "b \<noteq> CHR 0x5C \<Longrightarrow> unescape (b # r) = (b, r)"
  by (cases r) auto

lemma unescape_escape: "unescape (json_escape c @ r) = (c, r)"
proof -
  let ?n = "of_char c :: nat"
  have lt: "?n < 256" by (rule nat_of_char_less_256)
  have c: "c = char_of ?n" by simp
  consider "?n = 34 \<or> ?n = 92" | "?n = 10" | "?n = 13" | "?n = 9"
    | "?n \<notin> {34, 92, 10, 13, 9}" "?n < 32 \<or> ?n = 60 \<or> ?n = 62 \<or> ?n = 38"
    | "?n \<notin> {34, 92, 10, 13, 9}" "\<not> (?n < 32 \<or> ?n = 60 \<or> ?n = 62 \<or> ?n = 38)"
    by blast
  then show ?thesis
  proof cases
    case 1
    then have "c = CHR 0x22 \<or> c = CHR 0x5C" by (auto simp: char_of_quotes dest!: of_char_eq_iff)
    then show ?thesis by (auto simp: json_escape_def)
  next
    case 2
    then show ?thesis using of_char_eq_iff [OF 2] by (simp add: json_escape_def)
  next
    case 3
    then show ?thesis using of_char_eq_iff [OF 3] by (simp add: json_escape_def)
  next
    case 4
    then show ?thesis using of_char_eq_iff [OF 4] by (simp add: json_escape_def)
  next
    case 5
    then have e: "json_escape c = CHR 0x5C # ''u00'' @ [hex_digit (?n div 16), hex_digit (?n mod 16)]"
      by (simp add: json_escape_def Let_def)
    have "16 * hex_value (hex_digit (?n div 16)) + hex_value (hex_digit (?n mod 16)) = ?n"
      using lt by (simp add: hex_value_digit less_mult_imp_div_less)
    then show ?thesis unfolding e by simp
  next
    case 6
    then have e: "json_escape c = [c]" by (simp add: json_escape_def Let_def)
    have "c \<noteq> CHR 0x5C" using 6(1) by auto
    then show ?thesis unfolding e by (simp add: unescape_plain)
  qed
qed

lemma escape_prefix: "json_escape c @ u = json_escape d @ v \<Longrightarrow> c = d \<and> u = v"
  by (metis unescape_escape prod.inject)

lemma escape_head: "\<exists>b r. json_escape c = b # r \<and> b \<noteq> CHR 0x22"
proof (cases "c = CHR 0x22")
  case True
  then show ?thesis by (simp add: json_escape_def)
next
  case False
  then show ?thesis by (auto simp: json_escape_def Let_def)
qed

lemma quote_body:
  "concat (map json_escape s) @ CHR 0x22 # u = concat (map json_escape t) @ CHR 0x22 # v
   \<Longrightarrow> s = t \<and> u = v"
proof (induction s arbitrary: t)
  case Nil
  then show ?case using escape_head by (cases t) (auto, metis list.inject append_Cons)
next
  case (Cons c s)
  show ?case
  proof (cases t)
    case Nil
    then show ?thesis using Cons.prems escape_head [of c] by auto
  next
    case (Cons d t')
    have "c = d \<and> concat (map json_escape s) @ CHR 0x22 # u = concat (map json_escape t') @ CHR 0x22 # v"
      by (rule escape_prefix) (use Cons.prems Cons in simp)
    then show ?thesis using Cons.IH Cons by blast
  qed
qed

lemma quote_prefix: "json_quote s @ u = json_quote t @ v \<Longrightarrow> s = t \<and> u = v"
  by (rule quote_body) (simp add: json_quote_def)

subsection \<open>Lists\<close>

lemma join_Cons: "join sep (x # xs) = x @ (if xs = [] then [] else sep @ join sep xs)"
  by (cases xs) simp_all

text \<open>
  Elements whose encodings are a prefix code, and do not start with the closing
  character, give lists whose encodings are.
\<close>

lemma join_prefix:
  assumes "\<And>x y u v. x \<in> set xs \<Longrightarrow> e x @ u = e y @ v \<Longrightarrow> x = y \<and> u = v"
    and "\<And>y. \<exists>b r. e y = b # r \<and> b \<noteq> c" and "c \<noteq> CHR '',''"
    and "join '','' (map e xs) @ c # u = join '','' (map e ys) @ c # v"
  shows "xs = ys \<and> u = v"
  using assms(1,4)
proof (induction xs arbitrary: ys)
  case Nil
  then show ?case using assms(2) [of "hd ys"] by (cases ys) (auto simp: join_Cons)
next
  case (Cons x xs)
  show ?case
  proof (cases ys)
    case Nil
    then show ?thesis using Cons.prems(2) assms(2) [of x] by (auto simp: join_Cons)
  next
    case (Cons y ys')
    let ?tail = "\<lambda>zs w. (if zs = [] then [] else '','' @ join '','' (map e zs)) @ c # w"
    have "x = y \<and> ?tail xs u = ?tail ys' v"
      by (rule Cons.prems(1)) (use Cons.prems(2) Cons in \<open>simp_all add: join_Cons\<close>)
    moreover have "xs = ys' \<and> u = v" if "?tail xs u = ?tail ys' v"
    proof (cases "xs = [] \<or> ys' = []")
      case True
      then show ?thesis using that assms(3) by (auto split: if_splits)
    next
      case False
      then have "join '','' (map e xs) @ c # u = join '','' (map e ys') @ c # v" using that by simp
      then show ?thesis by (intro Cons.IH Cons.prems(1)) simp_all
    qed
    ultimately show ?thesis using Cons by blast
  qed
qed

subsection \<open>Values\<close>

lemma render_head: "\<exists>b r. render j = b # r \<and> b \<noteq> CHR '']''"
  by (cases j) (auto simp: json_quote_def)

lemma quote_head: "json_quote k = CHR 0x22 # tl (json_quote k)"
  by (simp add: json_quote_def)

lemma render_prefix: "render x @ u = render y @ v \<Longrightarrow> x = y \<and> u = v"
proof (induction x arbitrary: y u v)
  case JNull
  then show ?case by (cases y) (auto simp: json_quote_def split: if_splits)
next
  case (JBool b)
  then show ?case by (cases y) (auto simp: json_quote_def split: if_splits)
next
  case (JString s)
  then obtain t where y: "y = JString t" by (cases y) (auto simp: json_quote_def split: if_splits)
  then show ?case using JString quote_prefix [of s u t v] by simp
next
  case (JArray xs)
  then obtain ys where y: "y = JArray ys" by (cases y) (auto simp: json_quote_def split: if_splits)
  have "xs = ys \<and> u = v"
    by (rule join_prefix [where e = render, OF JArray.IH render_head]) (use JArray.prems y in simp_all)
  then show ?case using y by simp
next
  case (JObject fs)
  then obtain gs where y: "y = JObject gs" by (cases y) (auto simp: json_quote_def split: if_splits)
  let ?e = "\<lambda>(k, v). json_quote k @ '':'' @ render v"
  have elem: "f = g \<and> u = v" if f: "f \<in> set fs" and e: "?e f @ u = ?e g @ v" for f g u v
  proof -
    obtain k a l b where fg: "f = (k, a)" "g = (l, b)" by (cases f, cases g) blast
    then have "k = l \<and> '':'' @ render a @ u = '':'' @ render b @ v"
      by (intro quote_prefix) (use e in simp)
    moreover have "a = b \<and> u = v" if "render a @ u = render b @ v"
      by (rule JObject.IH [OF f _ that]) (simp add: fg)
    ultimately show ?thesis using fg by simp
  qed
  have head: "\<exists>b r. ?e f = b # r \<and> b \<noteq> CHR ''}''" for f by (cases f) (auto simp: json_quote_def)
  have run: "join '','' (map ?e fs) @ CHR ''}'' # u = join '','' (map ?e gs) @ CHR ''}'' # v"
    using JObject.prems y by simp
  have "fs = gs \<and> u = v"
    by (rule join_prefix [where e = ?e, OF elem head _ run]) simp_all
  then show ?case using y by simp
qed

lemma render_inject: "render x = render y \<longleftrightarrow> x = y"
  using render_prefix [of x "[]" y "[]"] by auto

subsection \<open>Sudo messages\<close>

definition norm_sudo :: "AccountSudoMsg \<Rightarrow> AccountSudoMsg" where
  "norm_sudo m = m\<lparr>sudo_BeforeTx := map_option norm_BeforeTx (sudo_BeforeTx m)\<rparr>"

lemma AfterTx_json_inject: "AfterTx_json a = AfterTx_json b \<longleftrightarrow> a = b"
  by (cases a; cases b) (simp add: AfterTx_json_def)

lemma AccountSudoMsg_json_inject:
  "AccountSudoMsg_json a = AccountSudoMsg_json b \<longleftrightarrow> norm_sudo a = norm_sudo b"
  by (cases a; cases b)
     (auto simp: AccountSudoMsg_json_def norm_sudo_def BeforeTx_json_inject AfterTx_json_inject
       split: option.splits)

text \<open>The type URLs of a message are ASCII, as those of protobuf messages are.\<close>

definition ascii_urls :: "AccountSudoMsg \<Rightarrow> bool" where
  "ascii_urls m \<longleftrightarrow> (\<forall>b a. sudo_BeforeTx m = Some b \<and> a \<in> set (Msgs b) \<longrightarrow>
     list_all (\<lambda>c. of_char c < (128 :: nat)) (TypeURL a))"

text \<open>C18: An account contract cannot be shown one thing and asked another.  Two sudo messages that
  \<open>json.Marshal\<close> writes as the same bytes are the same message: the same kind, the same
  transaction messages in the same order with the same type URLs and values, the same sign
  bytes, the same credential (where no credential and an empty one are not told apart) and
  the same simulate flag; and only such messages are written as the same bytes.\<close>

theorem sudo_json_unambiguous:
  assumes "ascii_urls a" and "ascii_urls b"
  shows "json_Marshal a = json_Marshal b \<longleftrightarrow> norm_sudo a = norm_sudo b"
  by (simp add: json_Marshal_def render_inject AccountSudoMsg_json_inject)

definition sample_sudo_msg :: "slice \<Rightarrow> AccountSudoMsg" where
  "sample_sudo_msg cred = \<lparr>sudo_BeforeTx = Some \<lparr>Msgs = [\<lparr>TypeURL = ''/cosmos.bank.v1beta1.MsgSend'',
       Value = Some [8, 1]\<rparr>], TxBytes = Some [1, 2], CredBytes = cred, Simulate = False\<rparr>,
     sudo_AfterTx = None\<rparr>"

theorem sudo_json_unambiguous_witness:
  "json_Marshal (sample_sudo_msg (Some [])) = json_Marshal (sample_sudo_msg None)
   \<and> json_Marshal (sample_sudo_msg (Some [9])) \<noteq> json_Marshal (sample_sudo_msg None)"
proof -
  have ascii: "ascii_urls (sample_sudo_msg cred)" for cred
    by (simp add: ascii_urls_def sample_sudo_msg_def)
  show ?thesis
    unfolding sudo_json_unambiguous [OF ascii ascii]
    by (simp add: norm_sudo_def norm_BeforeTx_def sample_sudo_msg_def)
qed

end
