(* ===== verification/AppRun.thy ===== *)
theory AppRun
  imports AppSpec LifecycleSpec
begin

text \<open>
  The application from its start on: the handlers \<open>NewSimApp\<close> installed, on the states a
  chain reaches from the genesis its \<open>InitChainer\<close> accepted.
\<close>

subsection \<open>The installed handlers\<close>

lemma app_handlers:
  assumes "NewSimApp sdk co alib lib txt names logger db tr latest opts wo bo [] = (Ok app, calls)"
    and "ante \<in> set (ante_handlers calls)" and "post \<in> set (post_handlers calls)"
  obtains options poptions where
    "handlers sdk co alib options poptions (app_AbstractAccountKeeper app) ante post"
    and "ho_AccountKeeper options = Some (app_AccountKeeper app)"
    and "ho_SignModeHandler options = Some (tc_SignModeHandler (app_txConfig app))"
  using assms(1)
proof (rule NewSimApp_Ok)
  fix dir w caps h rest
  let ?o = "app_ante_options alib app (app_txConfig app) w (app_keys app (wasm_StoreKey names))"
  let ?k = "app_AbstractAccountKeeper app"
  let ?p = "\<lparr>ph_AccountKeeper = Some (app_AccountKeeper app), ph_AbstractAccountKeeper = ?k\<rparr>"
  assume h: "NewAnteHandler sdk co alib ?o = Ok h"
    and c: "calls = setup_calls sdk co alib lib names logger db tr bo app h @ rest" and l: "loading rest"
  have "ante = h" and post: "post = ChainPostDecorators alib [AfterTxDecorator_PostHandle co (NewAfterTxDecorator ?k)]"
    using assms(2,3) by (simp_all add: c setup_handlers [OF l])
  then have "handlers sdk co alib ?o ?p ?k ante post"
    using h by (simp add: handlers_def NewPostHandler_Ok) (simp add: app_ante_options_def)
  then show thesis by (rule that) (simp_all add: app_ante_options_def)
qed

subsection \<open>Running and restarting\<close>

lemma export_restarts:
  assumes "json_codec_ok j" and "codec_ok (cdc k)" and "big_endian_ok sdk" and "params_set k t"
  shows "\<exists>p bz. Query_Params k QueryParamsRequest t = (Ok \<lparr>qr_Params = Some p\<rparr>, t) \<and> valid_params p
    \<and> AppModule_ExportGenesis sdk (NewAppModule k) j t = (Ok bz, t)
    \<and> ValidateGenesis AppModuleBasic j bz = Ok ()
    \<and> (\<forall>s1. \<exists>u. AppModule_InitGenesis sdk txt (NewAppModule k) j bz s1 = (Ok [], u)
        \<and> GetParams k u = (Ok p, u)
        \<and> st_next_id (abs_state sdk k u) = st_next_id (abs_state sdk k t))"
proof -
  obtain p where p: "GetParams k t = (Ok p, t)" "valid_params p" "small_params p"
    and q: "Query_Params k QueryParamsRequest t = (Ok \<lparr>qr_Params = Some p\<rparr>, t)"
    by (rule params_set_query [OF assms(4)])
  let ?gs = "\<lparr>gs_Params = Some p, NextAccountId = st_next_id (abs_state sdk k t)\<rparr>"
  have gp: "gs_Params ?gs = Some p" by simp
  obtain bz where bz: "MustMarshalJSON j ?gs = Ok bz" "UnmarshalJSON j bz = Ok ?gs"
    using json_codec_roundtrip [OF assms(1) gp p(3)] .
  have "ExportGenesis sdk k t = (Ok ?gs, t)" using p(1) by (simp add: ExportGenesis_run)
  then have "AppModule_ExportGenesis sdk (NewAppModule k) j t = (Ok bz, t)"
    using bz(1) by (simp add: AppModule_ExportGenesis_def NewAppModule_def monad_simps)
  moreover have "ValidateGenesis AppModuleBasic j bz = Ok ()" using bz(2) p(2) by (simp add: ValidateGenesis_Ok)
  moreover have "\<exists>u. AppModule_InitGenesis sdk txt (NewAppModule k) j bz s1 = (Ok [], u)
      \<and> GetParams k u = (Ok p, u)
      \<and> st_next_id (abs_state sdk k u) = st_next_id (abs_state sdk k t)" for s1
    using init_genesis_bytes [OF assms(1-3) bz(2) _ p(2,3), of "txt" s1]
    by (auto simp: GetParams_Ok_iff [of k _ _ _ sdk])
  ultimately show ?thesis using q p(2) by blast
qed

text \<open>C10: An application that starts keeps working and can always be restarted.  Take the
  \<open>InitChainer\<close>, the ante handler and the post handler \<open>NewSimApp\<close> installed, a genesis file
  with an entry for the module that the \<open>InitChainer\<close> accepts, and any run from there, with
  parameter updates, registrations, refused and failed transactions in any order.  Then the
  \<open>Params\<close> query answers, with valid parameters; the module's \<open>ExportGenesis\<close> returns a genesis
  state that \<open>ValidateGenesis\<close> accepts; and a chain that starts from it, whatever is in its
  store, has the same parameters and hands out the same next account id.\<close>

theorem started_chain_restarts:
  assumes "NewSimApp sdk co alib lib txt names logger db tr latest opts wo bo [] = (Ok app, calls)"
    and "ic \<in> set (init_chainers calls)" and "ante \<in> set (ante_handlers calls)"
    and "post \<in> set (post_handlers calls)"
    and "k = app_AbstractAccountKeeper app" and "j = JSON (app_cdc app)"
    and "manager_ok sdk txt names lib" and "names_ok names"
    and "json_codec_ok j" and "codec_ok (BinaryCodec (app_cdc app))"
    and "big_endian_ok sdk" and "json_small j data"
    and "surroundings (params_set k) co k alib (range route)"
    and "json_Unmarshal_Genesis lib file = Ok gs" and "gs ModuleName = Some data"
    and "ic file s0 = (Ok ups, s)" and "run sdk k ante post route s os t"
  shows "\<exists>p bz. Query_Params k QueryParamsRequest t = (Ok \<lparr>qr_Params = Some p\<rparr>, t) \<and> valid_params p
    \<and> AppModule_ExportGenesis sdk (NewAppModule k) j t = (Ok bz, t)
    \<and> ValidateGenesis AppModuleBasic j bz = Ok ()
    \<and> (\<forall>s1. \<exists>u. AppModule_InitGenesis sdk txt (NewAppModule k) j bz s1 = (Ok [], u)
        \<and> GetParams k u = (Ok p, u)
        \<and> st_next_id (abs_state sdk k u) = st_next_id (abs_state sdk k t))"
proof -
  have codec: "codec_ok (cdc k)"
    using assms(1) by (rule NewSimApp_Ok) (simp add: assms(5,10) built_app_fields(3))
  obtain options poptions where h: "handlers sdk co alib options poptions k ante post"
    using app_handlers [OF assms(1,3,4)] unfolding assms(5) .
  obtain p where "GetParams k s = (Ok p, s)" "valid_params p" "small_params p"
    using init_chainer_state [OF assms(1,2,7,8) _ assms(10,11) _ assms(14-16)] assms(9,12)
    unfolding assms(5,6) by blast
  then have "params_set k s" by (auto simp: params_set_abs [of k _ sdk] GetParams_Ok_iff [of k _ _ _ sdk])
  then have "params_set k t" by (rule run_params_set [OF h assms(13) codec _ assms(17)])
  then show ?thesis by (rule export_restarts [OF assms(9) codec assms(11)])
qed

subsection \<open>The sample application\<close>

lemma sample_surroundings_authority:
  "surroundings (params_set (sample_keeper\<lparr>authority := au\<rparr>)) sample_co (sample_keeper\<lparr>authority := au\<rparr>)
     sample_ante_lib (range sample_route)"
  using sample_surroundings_key by (simp add: surroundings_def params_set_def)

text \<open>A transaction without messages, not of an abstract account, is accepted.\<close>

lemma sample_empty_tx:
  assumes "h = (\<lambda>tx sim s. BeforeTx_AnteHandle sample_sdk sample_co sample_keeper sample_aa
      (\<lambda>tx sim. retM ()) tx sim (s\<lparr>meter := NewGasMeter 1000\<rparr>))"
    and "post = AfterTx_PostHandle sample_co k (\<lambda>tx sim success. retM ())"
    and "st_signer (abs_state sample_sdk k s) = None"
  shows "\<exists>t. run sample_sdk k h post route s [Done] t"
proof -
  let ?s1 = "s\<lparr>meter := NewGasMeter 1000\<rparr>"
  have ante: "h sample_other_tx False s = (Ok (), ?s1)"
    by (simp add: assms(1) BeforeTx_not_AA IsAbstractAccountTx_def sample_other_tx_def)
       (simp add: sample_aa_def retM_def)
  have msgs: "run_msgs sample_sdk k route sample_other_tx ?s1 = (Ok (), ?s1)"
    by (simp add: run_msgs_def sample_other_tx_def retM_def)
  have none: "st_signer (abs_state sample_sdk k ?s1) = None"
    using assms(3) by (simp add: abs_state_def store_Get_def)
  have post: "post sample_other_tx False True ?s1 = (Ok (), ?s1)"
    unfolding assms(2) AfterTx_run [where sdk = sample_sdk] none by (simp add: run_simps)
  have "deliver sample_sdk k h post route s Done ?s1"
    by (rule deliver.accepted [where ante = h and post = post, OF ante msgs post])
  from run.step [OF run.start this] show ?thesis by auto
qed

theorem started_chain_restarts_witness:
  "\<exists>s t p bz. InitChainer sample_app_lib sample_app sample_data sample_ctx = (Ok [([1], 1)], s)
    \<and> Query_Params (app_AbstractAccountKeeper sample_app) QueryParamsRequest t
        = (Ok \<lparr>qr_Params = Some p\<rparr>, t)
    \<and> AppModule_ExportGenesis sample_sdk (NewAppModule (app_AbstractAccountKeeper sample_app))
        sample_json t = (Ok bz, t)
    \<and> ValidateGenesis AppModuleBasic sample_json bz = Ok ()"
proof -
  let ?k = "app_AbstractAccountKeeper sample_app"
  obtain calls where start: "sample_start = (Ok sample_app, calls)" using sample_start_Ok by blast
  have key: "app_keys sample_app (wasm_StoreKey sample_names) = Some ''wasm''"
    by (simp add: sample_app_def sample_app_lib_def sample_names_def)
  let ?h = "\<lambda>tx sim s. BeforeTx_AnteHandle sample_sdk sample_co sample_keeper sample_aa
      (\<lambda>tx sim. retM ()) tx sim (s\<lparr>meter := NewGasMeter 1000\<rparr>)"
  let ?post = "AfterTx_PostHandle sample_co ?k (\<lambda>tx sim success. retM ())"
  have calls: "InitChainer sample_app_lib sample_app \<in> set (init_chainers calls)
      \<and> ?h \<in> set (ante_handlers calls) \<and> ?post \<in> set (post_handlers calls)"
    using start [unfolded sample_start_def]
    by (rule NewSimApp_Ok) (simp add: key sample_app_handler setup_handlers post_chain_single [OF sample_chains_ok]
      AfterTxDecorator_PostHandle_def NewAfterTxDecorator_def)
  obtain s where s: "InitChainer sample_app_lib sample_app sample_data sample_ctx = (Ok [([1], 1)], s)"
    and abs: "abs_state sample_sdk ?k s = (abs_state sample_sdk ?k sample_ctx)
        \<lparr>st_params := Some DefaultParams, st_next_id := 1\<rparr>"
    using sample_init_chain by blast
  have "st_signer (abs_state sample_sdk ?k s) = None"
    unfolding abs by (simp add: abs_state_def store_Get_def sample_ctx_def)
  then obtain t where t: "run sample_sdk ?k ?h ?post sample_route s [Done] t"
    using sample_empty_tx [OF refl refl] by blast
  have sur: "surroundings (params_set ?k) sample_co ?k sample_ante_lib (range sample_route)"
    unfolding sample_app_fields by (rule sample_surroundings_authority)
  have j: "sample_json = JSON (app_cdc sample_app)" and codec: "codec_ok (BinaryCodec (app_cdc sample_app))"
    by (simp_all add: sample_app_genesis codec_sample)
  show ?thesis
    using started_chain_restarts [OF start [unfolded sample_start_def] conjunct1 [OF calls] _ _ refl j
        sample_manager_ok sample_names_ok sample_json_ok codec big_endian_sample sample_data_ok(1) sur
        sample_app_genesis(5) _ s t] calls s by fastforce
qed

end
