(* ===== verification/AppRoutes.thy ===== *)
theory AppRoutes
  imports AppSpec "HOL-Library.Multiset"
begin

text \<open>
  Where the messages and queries that reach the application end up.  The SDK's routers are
  not part of this repository; what they do with a service the application registers is
  stated here as they document it, and the generated handlers do the rest.
\<close>

subsection \<open>The routers of the SDK\<close>

text \<open>
  The message router knows a handler by the type URL of its request, which it finds out by
  running the generated handler with an interceptor that notes the request it is given.
  To route a message it runs the generated handler again, with a decoder that does nothing
  and an interceptor that passes the message on instead of the empty request.
\<close>

definition noop_decoder :: Decoder where
  "noop_decoder = \<lparr>dec_UpdateParams = Ok, dec_RegisterAccount = Ok, dec_QueryParams = Ok\<rparr>"

definition noting :: "'w interceptor" where
  "noting = (\<lambda>req full_method handler. retM req)"

definition passing :: "Message \<Rightarrow> 'w interceptor" where
  "passing m = (\<lambda>req full_method handler. handler m)"

definition request_url :: "('w, 'w MsgServer) method_handler \<Rightarrow> string \<Rightarrow> bool" where
  "request_url h url \<longleftrightarrow>
     (\<exists>req. h UnimplementedMsgServer noop_decoder (Some noting) = retM req \<and> url = ''/'' @ message_name req)"

text \<open>The query router knows a handler by its path, and fills the request from the query.\<close>

definition query_decoder :: "Message \<Rightarrow> Decoder" where
  "query_decoder m = noop_decoder\<lparr>dec_QueryParams := (\<lambda>_. case m of
     M_QueryParams q \<Rightarrow> Ok q | _ \<Rightarrow> Err (External ''proto: wrong wireType''))\<rparr>"

record ('g, 'w) Routes =
  rt_msg :: "'g \<Rightarrow> string \<Rightarrow> 'w unary_handler option"
  rt_query :: "'g \<Rightarrow> string \<Rightarrow> 'w unary_handler option"

definition routers_ok :: "('g, 'w) Configurator \<Rightarrow> ('g, 'w) Routes \<Rightarrow> bool" where
  "routers_ok cfg rt \<longleftrightarrow>
     (\<forall>srv g name h url. (name, h) \<in> set (Methods Msg_serviceDesc) \<and> request_url h url \<longrightarrow>
        rt_msg rt (RegisterService_Msg (cfg_MsgServer cfg) Msg_serviceDesc srv g) url
          = Some (\<lambda>m. h srv noop_decoder (Some (passing m))))
   \<and> (\<forall>srv g url h. rt_msg rt g url = Some h \<longrightarrow>
        rt_msg rt (RegisterService_Query (cfg_QueryServer cfg) Query_serviceDesc srv g) url = Some h)
   \<and> (\<forall>srv g name h. (name, h) \<in> set (Methods Query_serviceDesc) \<longrightarrow>
        rt_query rt (RegisterService_Query (cfg_QueryServer cfg) Query_serviceDesc srv g)
          (''/'' @ ServiceName (Query_serviceDesc :: ('w, 'w QueryServer) ServiceDesc) @ ''/'' @ name)
          = Some (\<lambda>m. h srv (query_decoder m) None))"

lemma Query_path: "''/'' @ ServiceName Query_serviceDesc @ ''/'' @ name = ''/abstractaccount.v1.Query/'' @ name"
  by (simp add: Query_serviceDesc_def)

lemma routers_okD:
  assumes "routers_ok cfg rt"
  shows "(name, h) \<in> set (Methods Msg_serviceDesc) \<Longrightarrow> request_url h url \<Longrightarrow>
      rt_msg rt (RegisterService_Msg (cfg_MsgServer cfg) Msg_serviceDesc srv g) url
        = Some (\<lambda>m. h srv noop_decoder (Some (passing m)))"
    and "rt_msg rt g url = Some f \<Longrightarrow>
      rt_msg rt (RegisterService_Query (cfg_QueryServer cfg) Query_serviceDesc qsrv g) url = Some f"
    and "rt_query rt (RegisterService_Query (cfg_QueryServer cfg) Query_serviceDesc qsrv g)
        ''/abstractaccount.v1.Query/Params'' = Some (\<lambda>m. Query_Params_Handler qsrv (query_decoder m) None)"
proof -
  have q: "(''Params'', Query_Params_Handler) \<in> set (Methods Query_serviceDesc)"
    by (simp add: Query_serviceDesc_def)
  have p: "rt_query rt (RegisterService_Query (cfg_QueryServer cfg) Query_serviceDesc qsrv g)
      (''/abstractaccount.v1.Query/'' @ ''Params'')
      = Some (\<lambda>m. Query_Params_Handler qsrv (query_decoder m) None)"
    using assms q unfolding routers_ok_def Query_path by blast
  show "(name, h) \<in> set (Methods Msg_serviceDesc) \<Longrightarrow> request_url h url \<Longrightarrow>
      rt_msg rt (RegisterService_Msg (cfg_MsgServer cfg) Msg_serviceDesc srv g) url
        = Some (\<lambda>m. h srv noop_decoder (Some (passing m)))"
    "rt_msg rt g url = Some f \<Longrightarrow>
      rt_msg rt (RegisterService_Query (cfg_QueryServer cfg) Query_serviceDesc qsrv g) url = Some f"
    using assms unfolding routers_ok_def by blast+
  show "rt_query rt (RegisterService_Query (cfg_QueryServer cfg) Query_serviceDesc qsrv g)
        ''/abstractaccount.v1.Query/Params'' = Some (\<lambda>m. Query_Params_Handler qsrv (query_decoder m) None)"
    using p by simp
qed

text \<open>
  The module manager has every module register its services, in no particular order; the
  other modules of the application leave the routes there are alone.
\<close>

definition module_services ::
  "Sdk \<Rightarrow> ('g, 'w) Configurator \<Rightarrow> (('w, 'b, 'n, 'v) ManagedModule \<Rightarrow> 'g \<Rightarrow> 'g)
     \<Rightarrow> ('w, 'b, 'n, 'v) ManagedModule \<Rightarrow> 'g \<Rightarrow> 'g" where
  "module_services sdk cfg other m g =
     (case m of AbstractAccountModule am \<Rightarrow> RegisterServices sdk am cfg g | _ \<Rightarrow> other m g)"

definition others_keep :: "('g, 'w) Routes \<Rightarrow> (('w, 'b, 'n, 'v) ManagedModule \<Rightarrow> 'g \<Rightarrow> 'g) \<Rightarrow> bool" where
  "others_keep rt other \<longleftrightarrow> (\<forall>m g url h.
     (rt_msg rt g url = Some h \<longrightarrow> rt_msg rt (other m g) url = Some h)
   \<and> (rt_query rt g url = Some h \<longrightarrow> rt_query rt (other m g) url = Some h))"

subsection \<open>The routes of the module\<close>

lemma request_urls:
  "request_url Msg_UpdateParams_Handler url \<longleftrightarrow> url = ''/abstractaccount.v1.MsgUpdateParams''"
  "request_url Msg_RegisterAccount_Handler url \<longleftrightarrow> url = ''/abstractaccount.v1.MsgRegisterAccount''"
proof -
  have inj: "retM x = retM y \<longleftrightarrow> x = y" for x y :: Message
    by (auto simp: retM_def fun_eq_iff)
  show "request_url Msg_UpdateParams_Handler url \<longleftrightarrow> url = ''/abstractaccount.v1.MsgUpdateParams''"
    unfolding request_url_def noop_decoder_def Msg_UpdateParams_Handler_def Decoder.select_convs bindM_simps
      option.case noting_def inj by auto
  show "request_url Msg_RegisterAccount_Handler url \<longleftrightarrow> url = ''/abstractaccount.v1.MsgRegisterAccount''"
    unfolding request_url_def noop_decoder_def Msg_RegisterAccount_Handler_def Decoder.select_convs bindM_simps
      option.case noting_def inj by auto
qed

text \<open>What the generated handlers do with a message of their own type.\<close>

lemma handlers_pass:
  "Msg_UpdateParams_Handler srv noop_decoder (Some (passing (M_UpdateParams u)))
    = bindM (srv_UpdateParams srv u) (\<lambda>r. retM (M_UpdateParamsResponse r))"
  "Msg_RegisterAccount_Handler srv noop_decoder (Some (passing (M_RegisterAccount m)))
    = bindM (srv_RegisterAccount srv m) (\<lambda>r. retM (M_RegisterAccountResponse r))"
  "Query_Params_Handler qsrv (query_decoder (M_QueryParams q)) None
    = bindM (srv_Params qsrv q) (\<lambda>r. retM (M_QueryParamsResponse r))"
  by (simp_all add: Msg_UpdateParams_Handler_def Msg_RegisterAccount_Handler_def
      Query_Params_Handler_def noop_decoder_def query_decoder_def passing_def monad_simps)

definition routed :: "Sdk \<Rightarrow> 'w Keeper \<Rightarrow> ('g, 'w) Routes \<Rightarrow> 'g \<Rightarrow> bool" where
  "routed sdk k rt g \<longleftrightarrow>
     rt_msg rt g ''/abstractaccount.v1.MsgUpdateParams''
       = Some (\<lambda>m. Msg_UpdateParams_Handler (NewMsgServerImpl sdk k) noop_decoder (Some (passing m)))
   \<and> rt_msg rt g ''/abstractaccount.v1.MsgRegisterAccount''
       = Some (\<lambda>m. Msg_RegisterAccount_Handler (NewMsgServerImpl sdk k) noop_decoder (Some (passing m)))
   \<and> rt_query rt g ''/abstractaccount.v1.Query/Params''
       = Some (\<lambda>m. Query_Params_Handler (NewQueryServerImpl k) (query_decoder m) None)"

lemma RegisterServices_routed:
  assumes "routers_ok cfg rt"
  shows "routed sdk k rt (RegisterServices sdk (NewAppModule k) cfg g)"
proof -
  let ?srv = "NewMsgServerImpl sdk k"
  let ?g1 = "RegisterService_Msg (cfg_MsgServer cfg) Msg_serviceDesc ?srv g"
  have m: "(''UpdateParams'', Msg_UpdateParams_Handler) \<in> set (Methods Msg_serviceDesc)"
    "(''RegisterAccount'', Msg_RegisterAccount_Handler) \<in> set (Methods Msg_serviceDesc)"
    by (simp_all add: Msg_serviceDesc_def)
  have "rt_msg rt ?g1 ''/abstractaccount.v1.MsgUpdateParams''
      = Some (\<lambda>m. Msg_UpdateParams_Handler ?srv noop_decoder (Some (passing m)))"
    and "rt_msg rt ?g1 ''/abstractaccount.v1.MsgRegisterAccount''
      = Some (\<lambda>m. Msg_RegisterAccount_Handler ?srv noop_decoder (Some (passing m)))"
    by (rule routers_okD(1) [OF assms m(1)], simp only: request_urls,
        rule routers_okD(1) [OF assms m(2)], simp only: request_urls)
  from this [THEN routers_okD(2) [OF assms]] routers_okD(3) [OF assms] show ?thesis
    by (simp add: routed_def RegisterServices_def RegisterMsgServer_def RegisterQueryServer_def
        NewAppModule_def Let_def)
qed

lemma module_services_routed:
  assumes "routers_ok cfg rt" and "others_keep rt other"
    and "\<And>am. m = AbstractAccountModule am \<Longrightarrow> am = NewAppModule k"
    and "routed sdk k rt g \<or> (\<exists>am. m = AbstractAccountModule am)"
  shows "routed sdk k rt (module_services sdk cfg other m g)"
proof (cases "\<exists>am. m = AbstractAccountModule am")
  case True
  then show ?thesis
    using RegisterServices_routed [OF assms(1)] assms(3) by (auto simp: module_services_def)
next
  case False
  then have "module_services sdk cfg other m g = other m g"
    by (cases m) (auto simp: module_services_def)
  then show ?thesis using assms(2,4) False by (auto simp: routed_def others_keep_def)
qed

lemma services_routed:
  assumes "routers_ok cfg rt" and "others_keep rt other"
    and "\<And>am. AbstractAccountModule am \<in> set ms \<Longrightarrow> am = NewAppModule k"
    and "routed sdk k rt g \<or> AbstractAccountModule (NewAppModule k) \<in> set ms"
  shows "routed sdk k rt (fold (module_services sdk cfg other) ms g)"
  using assms(3,4)
proof (induction ms arbitrary: g)
  case Nil
  then show ?case by simp
next
  case (Cons m ms)
  let ?g = "module_services sdk cfg other m g"
  have "routed sdk k rt ?g \<or> AbstractAccountModule (NewAppModule k) \<in> set ms"
  proof (cases "routed sdk k rt g \<or> (\<exists>am. m = AbstractAccountModule am)")
    case True
    then show ?thesis
      using Cons.prems(1) by (auto intro: module_services_routed [OF assms(1,2)])
  next
    case False
    then show ?thesis using Cons.prems(2) by auto
  qed
  then have "routed sdk k rt (fold (module_services sdk cfg other) ms ?g)"
    by (intro Cons.IH Cons.prems(1)) simp_all
  then show ?case by simp
qed

text \<open>C16: The messages and queries of the module reach the keeper of the application.  However
  the module manager orders the modules when it registers their services, the message
  router then has a handler for the type URLs of \<open>MsgUpdateParams\<close> and \<open>MsgRegisterAccount\<close>, and
  the query router one for the path of \<open>Params\<close>; routed to them, a message is handled by
  \<open>UpdateParams\<close> or \<open>RegisterAccount\<close>, a query by \<open>Params\<close>, on the keeper \<open>NewSimApp\<close> made, whose
  authority is \<open>Authority\<close>.\<close>

theorem app_routes_messages:
  assumes "NewSimApp sdk co alib lib txt names logger db tr latest opts wo bo [] = (Ok app, calls)"
    and "RegisterModuleServices mm \<in> set calls" and "mset ms = mset (mm_Modules mm)"
    and "routers_ok cfg rt" and "others_keep rt other"
    and "g = fold (module_services sdk cfg other) ms g0" and "k = app_AbstractAccountKeeper app"
  shows "\<exists>upd reg qry. rt_msg rt g ''/abstractaccount.v1.MsgUpdateParams'' = Some upd
    \<and> rt_msg rt g ''/abstractaccount.v1.MsgRegisterAccount'' = Some reg
    \<and> rt_query rt g ''/abstractaccount.v1.Query/Params'' = Some qry
    \<and> (\<forall>m. upd (M_UpdateParams m) = bindM (UpdateParams k m) (\<lambda>r. retM (M_UpdateParamsResponse r)))
    \<and> (\<forall>m. reg (M_RegisterAccount m)
        = bindM (RegisterAccount sdk k m) (\<lambda>r. retM (M_RegisterAccountResponse r)))
    \<and> (\<forall>q. qry (M_QueryParams q) = bindM (Query_Params k q) (\<lambda>r. retM (M_QueryParamsResponse r)))
    \<and> authority k = Authority"
  using assms(1)
proof (rule NewSimApp_Ok)
  fix dir w caps h rest
  assume b: "built_app sdk lib names dir w caps wo = Ok app"
    and c: "calls = setup_calls sdk co alib lib names logger db tr bo app h @ rest" and l: "loading rest"
  note f = built_app_fields [OF b]
  have "mm = app_ModuleManager app"
    using assms(2) l by (auto simp: c setup_calls_def Let_def loading_def)
  then have "set ms = set (mm_Modules (app_ModuleManager app))" using assms(3) by (metis set_mset_mset)
  then have own: "AbstractAccountModule am \<in> set ms \<longleftrightarrow> am = NewAppModule k" for am
    by (auto simp: f(4) assms(7) simapp_ModuleManager_def)
  then have "routed sdk k rt g"
    unfolding assms(6) by (intro services_routed [OF assms(4,5)]) (simp_all add: own)
  then show ?thesis
    unfolding routed_def
    by (simp add: handlers_pass NewMsgServerImpl_def NewQueryServerImpl_def assms(7) f(1))
qed

subsection \<open>Sample routers\<close>

type_synonym sample_routes =
  "(string \<rightharpoonup> sample_world unary_handler) \<times> (string \<rightharpoonup> sample_world unary_handler)"

definition sample_cfg :: "(sample_routes, sample_world) Configurator" where
  "sample_cfg =
     \<lparr>cfg_MsgServer = \<lparr>RegisterService_Msg = (\<lambda>desc srv (msgs, qs).
          (msgs(''/abstractaccount.v1.MsgUpdateParams''
               \<mapsto> (\<lambda>m. snd (Methods desc ! 0) srv noop_decoder (Some (passing m))),
             ''/abstractaccount.v1.MsgRegisterAccount''
               \<mapsto> (\<lambda>m. snd (Methods desc ! 1) srv noop_decoder (Some (passing m)))), qs)),
        RegisterService_Query = (\<lambda>desc srv g. g)\<rparr>,
      cfg_QueryServer = \<lparr>RegisterService_Msg = (\<lambda>desc srv g. g),
        RegisterService_Query = (\<lambda>desc srv (msgs, qs).
          (msgs, qs(''/'' @ ServiceName desc @ ''/Params''
            \<mapsto> (\<lambda>m. snd (Methods desc ! 0) srv (query_decoder m) None))))\<rparr>\<rparr>"

definition sample_rt :: "(sample_routes, sample_world) Routes" where
  "sample_rt = \<lparr>rt_msg = fst, rt_query = snd\<rparr>"

lemma sample_routers_ok: "routers_ok sample_cfg sample_rt"
  unfolding routers_ok_def
  by (auto simp: sample_cfg_def sample_rt_def Msg_serviceDesc_def Query_serviceDesc_def request_urls
      split: prod.split)

theorem app_routes_messages_witness:
  "\<exists>calls upd. sample_start = (Ok sample_app, calls)
    \<and> RegisterModuleServices (app_ModuleManager sample_app) \<in> set calls
    \<and> fst (fold (module_services sample_sdk sample_cfg (\<lambda>m g. g)) (mm_Modules (app_ModuleManager sample_app))
        (Map.empty, Map.empty)) ''/abstractaccount.v1.MsgUpdateParams'' = Some upd
    \<and> fst (upd (M_UpdateParams \<lparr>up_Sender = ''mallory'', up_Params = Some DefaultParams\<rparr>) sample_ctx)
        = Err (ErrUnauthorized Authority ''mallory'')"
proof -
  obtain calls where run: "sample_start = (Ok sample_app, calls)" using sample_start_Ok by blast
  have mm: "RegisterModuleServices (app_ModuleManager sample_app) \<in> set calls"
    using run [unfolded sample_start_def] by (rule NewSimApp_Ok) (simp add: setup_calls_def Let_def)
  have keep: "others_keep sample_rt (\<lambda>m g. g)" by (simp add: others_keep_def)
  obtain upd where upd: "rt_msg sample_rt (fold (module_services sample_sdk sample_cfg (\<lambda>m g. g))
        (mm_Modules (app_ModuleManager sample_app)) (Map.empty, Map.empty))
        ''/abstractaccount.v1.MsgUpdateParams'' = Some upd"
    and run_upd: "\<And>m. upd (M_UpdateParams m) = bindM (UpdateParams (app_AbstractAccountKeeper sample_app) m)
        (\<lambda>r. retM (M_UpdateParamsResponse r))"
    and auth: "authority (app_AbstractAccountKeeper sample_app) = Authority"
    using app_routes_messages [OF run [unfolded sample_start_def] mm refl sample_routers_ok keep refl refl]
    by blast
  have "upd (M_UpdateParams \<lparr>up_Sender = ''mallory'', up_Params = Some DefaultParams\<rparr>) sample_ctx
      = (Err (ErrUnauthorized Authority ''mallory''), sample_ctx)"
    unfolding run_upd by (simp add: UpdateParams_def auth Authority_def monad_simps)
  then show ?thesis using run mm upd by (auto simp: sample_rt_def)
qed

end
