(* ===== verification/Contract.thy ===== *)
theory Contract
  imports WasmbindingSpec
begin

text \<open>
  What the account contracts under \<open>cosmwasm/contracts\<close> share: how a call of a Rust contract
  ends, what it is given, and the sudo message as \<open>cosmwasm/packages/absacc\<close> declares it.
  The crates the contracts use (\<open>cosmwasm_std\<close>, \<open>sha2\<close>, \<open>hex\<close>, \<open>tiny_keccak\<close>) are fields of \<open>Api\<close>;
  a storage item holds the last value saved under its key, if any.
\<close>

subsection \<open>How a call ends\<close>

text \<open>
  With a value, with an error of the contract's own type, or with a panic, which aborts
  the virtual machine.  The host drops the writes of a call that does not return a value.
\<close>

datatype ('e, 'a) cres = COk 'a | CErr 'e | CTrap string

fun bindC :: "('e, 'a) cres \<Rightarrow> ('a \<Rightarrow> ('e, 'b) cres) \<Rightarrow> ('e, 'b) cres" where
  "bindC (COk x) f = f x"
| "bindC (CErr e) f = CErr e"
| "bindC (CTrap p) f = CTrap p"

text \<open>The conversion of errors that \<open>?\<close> and \<open>map_err(Into::into)\<close> make.\<close>

fun into_err :: "('e \<Rightarrow> 'f) \<Rightarrow> ('e, 'a) cres \<Rightarrow> ('f, 'a) cres" where
  "into_err f (COk x) = COk x"
| "into_err f (CErr e) = CErr (f e)"
| "into_err f (CTrap p) = CTrap p"

text \<open>\<open>ok_or\<close>.\<close>

fun ok_or :: "'e \<Rightarrow> 'a option \<Rightarrow> ('e, 'a) cres" where
  "ok_or e None = CErr e"
| "ok_or e (Some x) = COk x"

lemma bindC_COk: "bindC m f = COk y \<longleftrightarrow> (\<exists>x. m = COk x \<and> f x = COk y)"
  by (cases m) auto

lemma into_err_COk: "into_err f m = COk y \<longleftrightarrow> m = COk y"
  by (cases m) auto

lemma ok_or_COk: "ok_or e m = COk y \<longleftrightarrow> m = Some y"
  by (cases m) auto

lemma guard_COk: "(if b then CErr e else m) = COk y \<longleftrightarrow> \<not> b \<and> m = COk y"
  by simp

lemmas cres_iffs = bindC_COk into_err_COk ok_or_COk guard_COk

subsection \<open>What a contract is given\<close>

text \<open>Times are in nanoseconds since the epoch.\<close>

record BlockInfo =
  block_height :: u64
  block_time :: u64
  block_chain_id :: string

record Env =
  env_block :: BlockInfo
  env_contract :: string

definition seconds :: "u64 \<Rightarrow> u64" where
  "seconds nanos = nanos div 1000000000"

datatype std_error = StdNotFound string | StdParseErr

text \<open>\<open>secp256k1_verify\<close> gets a hash, a signature and a public key.\<close>

record Api =
  secp256k1_verify :: "bytes \<Rightarrow> bytes \<Rightarrow> bytes \<Rightarrow> (string, bool) cres"
  secp256k1_recover_pubkey :: "bytes \<Rightarrow> bytes \<Rightarrow> byte \<Rightarrow> (string, bytes) cres"
  sha256 :: "bytes \<Rightarrow> bytes"
  keccak256 :: "bytes \<Rightarrow> bytes"
  hex_decode :: "string \<Rightarrow> (string, bytes) cres"
  parse_json :: "bytes \<Rightarrow> json option"

text \<open>A response, by its attributes; these contracts send no messages.\<close>

type_synonym Response = "(string \<times> string) list"

text \<open>\<open>Item::load\<close>.\<close>

definition load :: "string \<Rightarrow> 'a option \<Rightarrow> (std_error, 'a) cres" where
  "load type_name item = ok_or (StdNotFound type_name) item"

lemma load_COk: "load n item = COk x \<longleftrightarrow> item = Some x"
  by (simp add: load_def ok_or_COk)

subsection \<open>The sudo message\<close>

record CAny =
  type_url :: string
  any_value :: bytes

datatype ContractSudoMsg =
    SudoBeforeTx "CAny list" bytes "bytes option" bool
  | SudoAfterTx bool

text \<open>
  How the declarations are read from JSON: fields are found by name, each at most once,
  and no others are allowed; an \<open>Option\<close> may be left out or \<open>null\<close>; a variant of an enum is an
  object with the name of the variant as its only field; a \<open>Binary\<close> is a base64 string.
\<close>

fun de_string :: "json \<Rightarrow> string option" where
  "de_string (JString s) = Some s"
| "de_string _ = None"

fun de_bool :: "json \<Rightarrow> bool option" where
  "de_bool (JBool b) = Some b"
| "de_bool _ = None"

fun de_Binary :: "json \<Rightarrow> bytes option" where
  "de_Binary (JString s) = (if base64 (unbase64 s) = s then Some (unbase64 s) else None)"
| "de_Binary _ = None"

fun de_Vec :: "(json \<Rightarrow> 'a option) \<Rightarrow> json \<Rightarrow> 'a list option" where
  "de_Vec d (JArray xs) = those (map d xs)"
| "de_Vec d _ = None"

fun de_Option :: "(json \<Rightarrow> 'a option) \<Rightarrow> json \<Rightarrow> 'a option option" where
  "de_Option d JNull = Some None"
| "de_Option d j = map_option Some (d j)"

fun struct_fields :: "string list \<Rightarrow> json \<Rightarrow> (string \<times> json) list option" where
  "struct_fields names (JObject fs) =
     (if distinct (map fst fs) \<and> set (map fst fs) \<subseteq> set names then Some fs else None)"
| "struct_fields names _ = None"

definition de_field :: "string \<Rightarrow> (json \<Rightarrow> 'a option) \<Rightarrow> (string \<times> json) list \<Rightarrow> 'a option" where
  "de_field name d fs = Option.bind (map_of fs name) d"

definition de_optional :: "string \<Rightarrow> (json \<Rightarrow> 'a option) \<Rightarrow> (string \<times> json) list \<Rightarrow> 'a option option" where
  "de_optional name d fs = (case map_of fs name of None \<Rightarrow> Some None | Some j \<Rightarrow> de_Option d j)"

definition de_Any :: "json \<Rightarrow> CAny option" where
  "de_Any j =
     Option.bind (struct_fields [''type_url'', ''value''] j) (\<lambda>fs.
     Option.bind (de_field ''type_url'' de_string fs) (\<lambda>u.
     Option.bind (de_field ''value'' de_Binary fs) (\<lambda>v.
     Some \<lparr>type_url = u, any_value = v\<rparr>)))"

fun de_AccountSudoMsg :: "json \<Rightarrow> ContractSudoMsg option" where
  "de_AccountSudoMsg (JObject [(variant, body)]) =
     (if variant = ''before_tx'' then
        Option.bind (struct_fields [''msgs'', ''tx_bytes'', ''cred_bytes'', ''simulate''] body) (\<lambda>fs.
        Option.bind (de_field ''msgs'' (de_Vec de_Any) fs) (\<lambda>msgs.
        Option.bind (de_field ''tx_bytes'' de_Binary fs) (\<lambda>tx_bytes.
        Option.bind (de_optional ''cred_bytes'' de_Binary fs) (\<lambda>cred_bytes.
        Option.bind (de_field ''simulate'' de_bool fs) (\<lambda>simulate.
        Some (SudoBeforeTx msgs tx_bytes cred_bytes simulate))))))
      else if variant = ''after_tx'' then
        Option.bind (struct_fields [''simulate''] body) (\<lambda>fs.
        Option.bind (de_field ''simulate'' de_bool fs) (\<lambda>simulate.
        Some (SudoAfterTx simulate)))
      else None)"
| "de_AccountSudoMsg _ = None"

text \<open>\<open>from_binary\<close>.\<close>

definition from_binary :: "Api \<Rightarrow> (json \<Rightarrow> 'a option) \<Rightarrow> bytes \<Rightarrow> (std_error, 'a) cres" where
  "from_binary api d b = ok_or StdParseErr (Option.bind (parse_json api b) d)"

lemma from_binary_COk: "from_binary api d b = COk x \<longleftrightarrow> (\<exists>j. parse_json api b = Some j \<and> d j = Some x)"
  by (auto simp: from_binary_def ok_or_COk bind_eq_Some_conv)

subsection \<open>The two sides agree\<close>

text \<open>What the message the Go code sends is to the contract: nil bytes cannot be read, and
  no credential and an empty one are the same.\<close>

definition contract_any :: "Any \<Rightarrow> CAny option" where
  "contract_any a = map_option (\<lambda>v. \<lparr>type_url = TypeURL a, any_value = v\<rparr>) (Value a)"

definition contract_before :: "BeforeTx \<Rightarrow> ContractSudoMsg option" where
  "contract_before b =
     Option.bind (those (map contract_any (Msgs b))) (\<lambda>msgs.
     Option.bind (TxBytes b) (\<lambda>tx_bytes.
     Some (SudoBeforeTx msgs tx_bytes (norm_slice (CredBytes b)) (Simulate b))))"

lemma de_Binary_bytes: "de_Binary (json_bytes s) = s"
  by (cases s) (simp_all add: json_bytes_def unbase64_base64)

lemma de_Any_json: "de_Any (Any_json a) = contract_any a"
  by (cases "Value a")
     (simp_all add: de_Any_def Any_json_def de_field_def contract_any_def de_Binary_bytes del: de_Binary.simps)

lemma de_Any_map: "map (de_Any \<circ> Any_json) xs = map contract_any xs"
  by (simp add: de_Any_json)

lemma de_BeforeTx_json:
  "de_AccountSudoMsg (JObject [(''before_tx'', BeforeTx_json b)]) = contract_before b"
proof (cases "slice_bytes (CredBytes b) = []")
  case True
  then show ?thesis
    by (simp add: BeforeTx_json_def de_field_def de_optional_def contract_before_def de_Binary_bytes
        de_Any_map norm_slice_def2)
next
  case False
  then obtain c where c: "CredBytes b = Some c" "c \<noteq> []" by (cases "CredBytes b") auto
  have "de_Option de_Binary (json_bytes (Some c)) = Some (Some c)"
    using de_Binary_bytes [of "Some c"] by (simp add: json_bytes_def)
  then show ?thesis
    using c by (simp add: BeforeTx_json_def de_field_def de_optional_def contract_before_def de_Binary_bytes
        de_Any_map)
qed

lemma de_AfterTx_json:
  "de_AccountSudoMsg (JObject [(''after_tx'', AfterTx_json a)]) = Some (SudoAfterTx (after_Simulate a))"
  by (simp add: AfterTx_json_def de_field_def)

definition contract_sudo :: "AccountSudoMsg \<Rightarrow> ContractSudoMsg option" where
  "contract_sudo m =
     (case (sudo_BeforeTx m, sudo_AfterTx m) of
        (Some b, None) \<Rightarrow> contract_before b
      | (None, Some a) \<Rightarrow> Some (SudoAfterTx (after_Simulate a))
      | (None, None) \<Rightarrow> None
      | (Some b, Some a) \<Rightarrow> None)"

lemma de_AccountSudoMsg_json: "de_AccountSudoMsg (AccountSudoMsg_json m) = contract_sudo m"
  by (cases "sudo_BeforeTx m"; cases "sudo_AfterTx m")
     (simp_all add: AccountSudoMsg_json_def contract_sudo_def de_BeforeTx_json de_AfterTx_json
       del: de_AccountSudoMsg.simps, simp_all)

text \<open>C17: The Go module and the Rust contracts agree on the sudo message: whatever JSON
  text the module sends, the contract's declarations read from it the message that was sent,
  with an absent and an empty credential identified, and they refuse it exactly when the
  message has not one of the two variants or has nil bytes where the contract wants a value.\<close>

theorem contracts_read_sudo_msg:
  assumes "json_Marshal m = Ok b" and "b = string_bytes (render j)"
  shows "de_AccountSudoMsg j = contract_sudo m"
proof -
  have "j = AccountSudoMsg_json m" using assms by (simp add: json_Marshal_def string_bytes_inject render_inject)
  then show ?thesis by (simp only: de_AccountSudoMsg_json)
qed

definition sample_before :: AccountSudoMsg where
  "sample_before = \<lparr>sudo_BeforeTx = Some \<lparr>Msgs = [\<lparr>TypeURL = ''/m'', Value = Some [1]\<rparr>],
     TxBytes = Some [2], CredBytes = Some [], Simulate = False\<rparr>, sudo_AfterTx = None\<rparr>"

theorem contracts_read_sudo_msg_witness:
  "de_AccountSudoMsg (AccountSudoMsg_json sample_before)
   = Some (SudoBeforeTx [\<lparr>type_url = ''/m'', any_value = [1]\<rparr>] [2] None False)"
  by (subst contracts_read_sudo_msg [OF json_Marshal_def refl])
     (simp add: sample_before_def contract_sudo_def contract_before_def contract_any_def norm_slice_def2)

end
