(* ===== verification/ContractBase.thy ===== *)
theory ContractBase
  imports Contract Simulation
begin

text \<open>
  The contracts \<open>base\<close> and \<open>updatable\<close>: an account that is controlled by one secp256k1 key,
  and one whose key the account itself can change.  Both live on the same storage, which
  \<open>granter\<close> extends.
\<close>

subsection \<open>Storage, errors and messages\<close>

text \<open>What \<open>cw2::set_contract_version\<close> saves is part of the storage of every contract.\<close>

record contract_store =
  contract_info :: "(string \<times> string) option"

definition set_contract_version ::
  "'x contract_store_scheme \<Rightarrow> string \<Rightarrow> string \<Rightarrow> (std_error, 'x contract_store_scheme) cres" where
  "set_contract_version store name version = COk (store\<lparr>contract_info := Some (name, version)\<rparr>)"

definition CONTRACT_VERSION :: string where
  "CONTRACT_VERSION = ''0.0.0''"

record base_store = contract_store +
  PUBKEY :: "bytes option"

datatype BaseError =
    BaseStd std_error
  | BaseVerification string
  | InvalidSignature
  | SignatureNotFound
  | Unauthorized

record BaseInstantiateMsg =
  bi_pubkey :: bytes

datatype BaseQueryMsg = QueryPubkey

record MessageInfo =
  info_sender :: string

subsection \<open>\<open>base/src/execute.rs\<close> and \<open>base/src/query.rs\<close>\<close>

definition base_init ::
  "'x base_store_scheme \<Rightarrow> bytes \<Rightarrow> (BaseError, Response \<times> 'x base_store_scheme) cres" where
  "base_init store pubkey =
     COk ([(''method'', ''init''), (''pubkey'', base64 pubkey)], store\<lparr>PUBKEY := Some pubkey\<rparr>)"

definition base_before_tx ::
  "Api \<Rightarrow> 'x base_store_scheme \<Rightarrow> bytes \<Rightarrow> bytes option \<Rightarrow> bool \<Rightarrow> (BaseError, Response) cres" where
  "base_before_tx api store tx_bytes signature simulate =
     (let tx_bytes_hash = sha256 api tx_bytes
      in bindC (into_err BaseStd (load ''Binary'' (PUBKEY store))) (\<lambda>pubkey.
         bindC (if \<not> simulate
                then case signature of
                       None \<Rightarrow> CErr SignatureNotFound
                     | Some sig_bytes \<Rightarrow>
                         bindC (into_err BaseVerification (secp256k1_verify api tx_bytes_hash sig_bytes pubkey))
                           (\<lambda>valid. if \<not> valid then CErr InvalidSignature else COk ())
                else COk ()) (\<lambda>_.
         COk [(''method'', ''before_tx'')])))"

definition base_after_tx :: "(BaseError, Response) cres" where
  "base_after_tx = COk [(''method'', ''after_tx'')]"

definition assert_self :: "string \<Rightarrow> string \<Rightarrow> (BaseError, unit) cres" where
  "assert_self sender contract = (if sender \<noteq> contract then CErr Unauthorized else COk ())"

definition base_pubkey :: "'x base_store_scheme \<Rightarrow> (std_error, bytes) cres" where
  "base_pubkey store = load ''Binary'' (PUBKEY store)"

subsection \<open>\<open>base/src/contract.rs\<close>\<close>

definition base_instantiate ::
  "base_store \<Rightarrow> Env \<Rightarrow> MessageInfo \<Rightarrow> BaseInstantiateMsg \<Rightarrow> (BaseError, Response \<times> base_store) cres" where
  "base_instantiate store env info msg =
     bindC (into_err BaseStd (set_contract_version store ''account-base'' CONTRACT_VERSION)) (\<lambda>store.
     base_init store (bi_pubkey msg))"

definition base_sudo ::
  "Api \<Rightarrow> Env \<Rightarrow> base_store \<Rightarrow> ContractSudoMsg \<Rightarrow> (BaseError, Response \<times> base_store) cres" where
  "base_sudo api env store msg =
     (case msg of
        SudoBeforeTx msgs tx_bytes cred_bytes simulate \<Rightarrow>
          bindC (base_before_tx api store tx_bytes cred_bytes simulate) (\<lambda>r. COk (r, store))
      | SudoAfterTx simulate \<Rightarrow> bindC base_after_tx (\<lambda>r. COk (r, store)))"

definition base_execute ::
  "base_store \<Rightarrow> Env \<Rightarrow> MessageInfo \<Rightarrow> unit \<Rightarrow> (BaseError, Response \<times> base_store) cres" where
  "base_execute store env info msg = CTrap ''this contract does not have any execute method''"

text \<open>The answer to a query, before \<open>to_binary\<close> encodes it.\<close>

definition base_query :: "'x base_store_scheme \<Rightarrow> Env \<Rightarrow> BaseQueryMsg \<Rightarrow> (std_error, bytes) cres" where
  "base_query store env msg = (case msg of QueryPubkey \<Rightarrow> base_pubkey store)"

subsection \<open>\<open>updatable\<close>\<close>

datatype UpdatableExecuteMsg = UpdatePubkey bytes

definition update_pubkey ::
  "'x base_store_scheme \<Rightarrow> string \<Rightarrow> string \<Rightarrow> bytes \<Rightarrow> (BaseError, Response \<times> 'x base_store_scheme) cres" where
  "update_pubkey store sender contract new_pubkey =
     bindC (assert_self sender contract) (\<lambda>_.
     COk ([(''method'', ''update_pubkey''), (''new_pubkey'', base64 new_pubkey)],
          store\<lparr>PUBKEY := Some new_pubkey\<rparr>))"

definition updatable_instantiate ::
  "base_store \<Rightarrow> Env \<Rightarrow> MessageInfo \<Rightarrow> BaseInstantiateMsg \<Rightarrow> (BaseError, Response \<times> base_store) cres" where
  "updatable_instantiate store env info msg =
     bindC (into_err BaseStd (set_contract_version store ''account-key-rotation'' CONTRACT_VERSION)) (\<lambda>store.
     base_init store (bi_pubkey msg))"

definition updatable_sudo ::
  "Api \<Rightarrow> Env \<Rightarrow> base_store \<Rightarrow> ContractSudoMsg \<Rightarrow> (BaseError, Response \<times> base_store) cres" where
  "updatable_sudo api env store msg =
     (case msg of
        SudoBeforeTx msgs tx_bytes cred_bytes simulate \<Rightarrow>
          bindC (base_before_tx api store tx_bytes cred_bytes simulate) (\<lambda>r. COk (r, store))
      | SudoAfterTx simulate \<Rightarrow> bindC base_after_tx (\<lambda>r. COk (r, store)))"

definition updatable_execute ::
  "base_store \<Rightarrow> Env \<Rightarrow> MessageInfo \<Rightarrow> UpdatableExecuteMsg \<Rightarrow> (BaseError, Response \<times> base_store) cres" where
  "updatable_execute store env info msg =
     (case msg of UpdatePubkey new_pubkey \<Rightarrow>
        update_pubkey store (info_sender info) (env_contract env) new_pubkey)"

definition updatable_query :: "base_store \<Rightarrow> Env \<Rightarrow> BaseQueryMsg \<Rightarrow> (std_error, bytes) cres" where
  "updatable_query store env msg = (case msg of QueryPubkey \<Rightarrow> base_pubkey store)"

subsection \<open>How they run\<close>

lemma assert_self_COk: "assert_self a b = COk u \<longleftrightarrow> a = b"
  by (simp add: assert_self_def)

text \<open>A transaction is accepted exactly when it is simulated or signed with the stored key.\<close>

lemma base_before_tx_COk:
  "base_before_tx api store tx sig sim = COk r \<longleftrightarrow>
   r = [(''method'', ''before_tx'')] \<and> (\<exists>pk. PUBKEY store = Some pk \<and>
     (sim \<or> (\<exists>s. sig = Some s \<and> secp256k1_verify api (sha256 api tx) s pk = COk True)))"
  by (cases sim; cases sig)
     (auto simp: base_before_tx_def cres_iffs load_COk split: if_splits)

lemma base_sudo_store: "base_sudo api env store m = COk (r, store') \<Longrightarrow> store' = store"
  by (cases m) (auto simp: base_sudo_def cres_iffs)

lemma updatable_sudo_base: "updatable_sudo = base_sudo"
  by (simp add: fun_eq_iff updatable_sudo_def base_sudo_def)

lemma update_pubkey_COk:
  "update_pubkey store sender contract pk = COk (r, store') \<longleftrightarrow>
   sender = contract \<and> store' = store\<lparr>PUBKEY := Some pk\<rparr>
   \<and> r = [(''method'', ''update_pubkey''), (''new_pubkey'', base64 pk)]"
  by (auto simp: update_pubkey_def cres_iffs assert_self_COk)

subsection \<open>The life of an updatable account\<close>

text \<open>What can be asked of the contract, and what is kept of its store when it is granted.\<close>

datatype updatable_call =
    UpdSudo Env ContractSudoMsg
  | UpdExecute Env MessageInfo UpdatableExecuteMsg

fun updatable_step :: "Api \<Rightarrow> base_store \<Rightarrow> updatable_call \<Rightarrow> base_store \<Rightarrow> bool" where
  "updatable_step api st (UpdSudo env m) st' = (\<exists>r. updatable_sudo api env st m = COk (r, st'))"
| "updatable_step api st (UpdExecute env info m) st' = (\<exists>r. updatable_execute st env info m = COk (r, st'))"

text \<open>The keys that calls install, and that the account itself made them.\<close>

fun installs :: "updatable_call \<Rightarrow> bytes list" where
  "installs (UpdSudo env m) = []"
| "installs (UpdExecute env info (UpdatePubkey pk)) = [pk]"

fun own_call :: "updatable_call \<Rightarrow> bool" where
  "own_call (UpdSudo env m) = True"
| "own_call (UpdExecute env info m) = (info_sender info = env_contract env)"

lemma updatable_step_key:
  assumes "updatable_step api st l st'"
  shows "own_call l \<and> PUBKEY st' = (if installs l = [] then PUBKEY st else Some (last (installs l)))"
  using assms
  by (cases l rule: installs.cases)
     (auto simp: updatable_sudo_base updatable_execute_def update_pubkey_COk dest: base_sudo_store)

text \<open>C20: Over the whole life of an account with key rotation, from its instantiation through
  any sequence of accepted calls, the key that signs for it is the last one the account
  installed itself, or the one it was created with; and every accepted call that changes the
  key was made by the account itself.\<close>

theorem key_rotation_by_self:
  assumes "updatable_instantiate st0 env info \<lparr>bi_pubkey = pk\<rparr> = COk (r, st)"
    and "runs (updatable_step api) st ls st'"
  shows "PUBKEY st' = Some (last (pk # concat (map installs ls))) \<and> list_all own_call ls"
proof -
  have pk: "PUBKEY st = Some pk"
    using assms(1) by (auto simp: updatable_instantiate_def set_contract_version_def base_init_def)
  show ?thesis
    using assms(2) pk
  proof (induction rule: runs.induct)
    case (Nil s)
    then show ?case by simp
  next
    case (Snoc s ls t l u)
    then show ?case using updatable_step_key [OF Snoc.hyps(2)] by (auto simp: list_all_iff)
  qed
qed

definition open_api :: Api where
  "open_api = \<lparr>secp256k1_verify = (\<lambda>h s pk. COk (s = pk)),
     secp256k1_recover_pubkey = (\<lambda>h s i. COk (0 # s)), sha256 = id, keccak256 = id,
     hex_decode = (\<lambda>s. COk (string_bytes s)), parse_json = (\<lambda>b. None)\<rparr>"

definition sample_env :: "u64 \<Rightarrow> Env" where
  "sample_env t = \<lparr>env_block = \<lparr>block_height = 1, block_time = t, block_chain_id = ''c''\<rparr>, env_contract = ''aa''\<rparr>"

theorem key_rotation_by_self_witness:
  "\<exists>st st'. updatable_instantiate \<lparr>contract_info = None, PUBKEY = None\<rparr> (sample_env 0) \<lparr>info_sender = ''x''\<rparr>
      \<lparr>bi_pubkey = [1]\<rparr> = COk ([(''method'', ''init''), (''pubkey'', base64 [1])], st)
    \<and> runs (updatable_step open_api) st
        [UpdSudo (sample_env 0) (SudoBeforeTx [] [9] (Some [1]) False),
         UpdExecute (sample_env 0) \<lparr>info_sender = ''aa''\<rparr> (UpdatePubkey [2])] st'
    \<and> PUBKEY st' = Some [2]"
proof -
  let ?st = "\<lparr>contract_info = Some (''account-key-rotation'', ''0.0.0''), PUBKEY = Some [1 :: byte]\<rparr>"
  have i: "updatable_instantiate \<lparr>contract_info = None, PUBKEY = None\<rparr> (sample_env 0) \<lparr>info_sender = ''x''\<rparr>
      \<lparr>bi_pubkey = [1]\<rparr> = COk ([(''method'', ''init''), (''pubkey'', base64 [1])], ?st)"
    by (simp add: updatable_instantiate_def set_contract_version_def base_init_def CONTRACT_VERSION_def)
  have "updatable_step open_api ?st (UpdSudo (sample_env 0) (SudoBeforeTx [] [9] (Some [1]) False)) ?st"
    by (simp add: updatable_sudo_def base_before_tx_def open_api_def load_def)
  moreover have "updatable_step open_api ?st
      (UpdExecute (sample_env 0) \<lparr>info_sender = ''aa''\<rparr> (UpdatePubkey [2])) (?st\<lparr>PUBKEY := Some [2]\<rparr>)"
    by (simp add: updatable_execute_def update_pubkey_COk sample_env_def)
  ultimately have run: "runs (updatable_step open_api) ?st
        [UpdSudo (sample_env 0) (SudoBeforeTx [] [9] (Some [1]) False),
         UpdExecute (sample_env 0) \<lparr>info_sender = ''aa''\<rparr> (UpdatePubkey [2])] (?st\<lparr>PUBKEY := Some [2]\<rparr>)"
    by (rule runs_two)
  then show ?thesis using key_rotation_by_self [OF i run] i by fastforce
qed

end
