(* ===== verification/ContractEth.thy ===== *)
theory ContractEth
  imports ContractBase
begin

text \<open>
  The contract \<open>eth\<close>: an account that is controlled by an Ethereum wallet.  Its signatures
  have 65 bytes, the last of which is the recovery id; the signer is recovered from the
  signature and compared with the address the account was created with.
\<close>

subsection \<open>Slices\<close>

text \<open>Indexing and slicing outside of a value panics; a string is its UTF-8 bytes, and is not
  cut inside a character.\<close>

definition range_to :: "nat \<Rightarrow> 'a list \<Rightarrow> ('e, 'a list) cres" where
  "range_to n xs = (if n \<le> length xs then COk (take n xs) else CTrap ''range end index out of range'')"

definition range_from :: "nat \<Rightarrow> 'a list \<Rightarrow> ('e, 'a list) cres" where
  "range_from n xs = (if n \<le> length xs then COk (drop n xs) else CTrap ''range start index out of range'')"

definition elem_at :: "nat \<Rightarrow> 'a list \<Rightarrow> ('e, 'a) cres" where
  "elem_at n xs = (if n < length xs then COk (xs ! n) else CTrap ''index out of bounds'')"

definition is_char_boundary :: "nat \<Rightarrow> string \<Rightarrow> bool" where
  "is_char_boundary n s \<longleftrightarrow> n = 0 \<or> n = length s
     \<or> n < length s \<and> (of_char (s ! n) < (128 :: nat) \<or> 192 \<le> (of_char (s ! n) :: nat))"

definition str_from :: "nat \<Rightarrow> string \<Rightarrow> ('e, string) cres" where
  "str_from n s = (if is_char_boundary n s then COk (drop n s) else CTrap ''byte index is not a char boundary'')"

subsection \<open>Storage, errors and messages\<close>

record eth_store = contract_store +
  ETHEREUM_ADDRESS :: "string option"

datatype EthError =
    EthBase BaseError
  | FromHex string
  | EthStd std_error
  | RecoverPubkey string
  | InvalidRecoveryId
  | RecoveredPubkeyMismatch

record EthInstantiateMsg =
  ethereum_address :: string

datatype EthQueryMsg = QueryEthereumAddress

subsection \<open>\<open>eth/src/crypto.rs\<close>\<close>

definition hash_message :: "Api \<Rightarrow> bytes \<Rightarrow> bytes" where
  "hash_message api msg = keccak256 api
     ((0x19 # string_bytes ''Ethereum Signed Message:'' @ [0x0a]) @ string_bytes (decimal (length msg)) @ msg)"

definition normalize_recovery_id :: "byte \<Rightarrow> (EthError, byte) cres" where
  "normalize_recovery_id i =
     (if i = 0 \<or> i = 1 then COk i
      else if i = 27 then COk 0
      else if i = 28 then COk 1
      else CErr InvalidRecoveryId)"

definition eth_verify :: "Api \<Rightarrow> bytes \<Rightarrow> bytes \<Rightarrow> bytes \<Rightarrow> (EthError, unit) cres" where
  "eth_verify api msg_bytes sig_bytes addr_bytes =
     (let msg_hash_bytes = hash_message api msg_bytes
      in bindC (range_to 64 sig_bytes) (\<lambda>recoverable_sig.
         bindC (elem_at 64 sig_bytes) (\<lambda>v.
         bindC (normalize_recovery_id v) (\<lambda>recovery_id.
         bindC (into_err RecoverPubkey
                  (secp256k1_recover_pubkey api msg_hash_bytes recoverable_sig recovery_id)) (\<lambda>pk_bytes.
         bindC (range_from 1 pk_bytes) (\<lambda>key.
         bindC (range_from 12 (keccak256 api key)) (\<lambda>recovered_addr.
         if addr_bytes = recovered_addr then COk () else CErr RecoveredPubkeyMismatch)))))))"

subsection \<open>\<open>eth/src/execute.rs\<close> and \<open>eth/src/query.rs\<close>\<close>

definition eth_init :: "eth_store \<Rightarrow> string \<Rightarrow> (EthError, Response \<times> eth_store) cres" where
  "eth_init store addr_str =
     COk ([(''method'', ''init''), (''ethereum_address'', addr_str)], store\<lparr>ETHEREUM_ADDRESS := Some addr_str\<rparr>)"

definition eth_before_tx ::
  "Api \<Rightarrow> eth_store \<Rightarrow> bytes \<Rightarrow> bytes option \<Rightarrow> bool \<Rightarrow> (EthError, Response) cres" where
  "eth_before_tx api store tx_bytes sig_bytes simulate =
     bindC (into_err EthStd (load ''String'' (ETHEREUM_ADDRESS store))) (\<lambda>addr_str.
     bindC (str_from 2 addr_str) (\<lambda>digits.
     bindC (into_err FromHex (hex_decode api digits)) (\<lambda>addr_bytes.
     bindC (if \<not> simulate
            then bindC (into_err EthBase (ok_or SignatureNotFound sig_bytes)) (\<lambda>sig_bytes.
                 eth_verify api tx_bytes sig_bytes addr_bytes)
            else COk ()) (\<lambda>_.
     COk [(''method'', ''before_tx'')]))))"

definition eth_ethereum_address :: "eth_store \<Rightarrow> (std_error, string) cres" where
  "eth_ethereum_address store = load ''String'' (ETHEREUM_ADDRESS store)"

subsection \<open>\<open>eth/src/contract.rs\<close>\<close>

definition eth_instantiate ::
  "eth_store \<Rightarrow> Env \<Rightarrow> MessageInfo \<Rightarrow> EthInstantiateMsg \<Rightarrow> (EthError, Response \<times> eth_store) cres" where
  "eth_instantiate store env info msg =
     bindC (into_err EthStd (set_contract_version store ''account-eth'' CONTRACT_VERSION)) (\<lambda>store.
     eth_init store (ethereum_address msg))"

definition eth_sudo ::
  "Api \<Rightarrow> Env \<Rightarrow> eth_store \<Rightarrow> ContractSudoMsg \<Rightarrow> (EthError, Response \<times> eth_store) cres" where
  "eth_sudo api env store msg =
     (case msg of
        SudoBeforeTx msgs tx_bytes cred_bytes simulate \<Rightarrow>
          bindC (eth_before_tx api store tx_bytes cred_bytes simulate) (\<lambda>r. COk (r, store))
      | SudoAfterTx simulate \<Rightarrow> bindC (into_err EthBase base_after_tx) (\<lambda>r. COk (r, store)))"

definition eth_execute ::
  "eth_store \<Rightarrow> Env \<Rightarrow> MessageInfo \<Rightarrow> unit \<Rightarrow> (EthError, Response \<times> eth_store) cres" where
  "eth_execute store env info msg = CTrap ''this contract does not have any execute method''"

definition eth_query :: "eth_store \<Rightarrow> Env \<Rightarrow> EthQueryMsg \<Rightarrow> (std_error, string) cres" where
  "eth_query store env msg = (case msg of QueryEthereumAddress \<Rightarrow> eth_ethereum_address store)"

subsection \<open>How they run\<close>

lemma range_COk:
  "range_to n xs = COk ys \<longleftrightarrow> n \<le> length xs \<and> ys = take n xs"
  "range_from n xs = COk ys \<longleftrightarrow> n \<le> length xs \<and> ys = drop n xs"
  "elem_at n xs = COk x \<longleftrightarrow> n < length xs \<and> x = xs ! n"
  by (auto simp: range_to_def range_from_def elem_at_def)

lemma normalize_recovery_id_COk:
  "normalize_recovery_id i = COk v \<longleftrightarrow> i \<in> {0, 1, 27, 28} \<and> v = i mod 27"
  by (auto simp: normalize_recovery_id_def)

text \<open>The wallet that signed, as the contract recovers it.\<close>

definition recovered :: "Api \<Rightarrow> bytes \<Rightarrow> bytes \<Rightarrow> bytes \<Rightarrow> bool" where
  "recovered api tx s addr \<longleftrightarrow> 65 \<le> length s \<and> s ! 64 \<in> {0, 1, 27, 28}
     \<and> (\<exists>tag pk. secp256k1_recover_pubkey api (hash_message api tx) (take 64 s) (s ! 64 mod 27) = COk (tag # pk)
        \<and> 12 \<le> length (keccak256 api pk) \<and> addr = drop 12 (keccak256 api pk))"

lemma eth_verify_COk: "eth_verify api tx s addr = COk () \<longleftrightarrow> recovered api tx s addr"
proof
  assume "eth_verify api tx s addr = COk ()"
  then obtain pk where l: "64 < length s" "s ! 64 \<in> {0, 1, 27, 28}"
    and r: "secp256k1_recover_pubkey api (hash_message api tx) (take 64 s) (s ! 64 mod 27) = COk pk"
    and k: "1 \<le> length pk" "12 \<le> length (keccak256 api (drop 1 pk))" "addr = drop 12 (keccak256 api (drop 1 pk))"
    by (auto simp: eth_verify_def Let_def cres_iffs range_COk normalize_recovery_id_COk split: if_splits)
  then show "recovered api tx s addr" by (cases pk) (auto simp: recovered_def)
next
  assume "recovered api tx s addr"
  then obtain tag pk where "65 \<le> length s" "s ! 64 \<in> {0, 1, 27, 28}"
    and "secp256k1_recover_pubkey api (hash_message api tx) (take 64 s) (s ! 64 mod 27) = COk (tag # pk)"
    and "12 \<le> length (keccak256 api pk)" "addr = drop 12 (keccak256 api pk)"
    unfolding recovered_def by blast
  then show "eth_verify api tx s addr = COk ()"
    by (simp add: eth_verify_def Let_def cres_iffs range_COk normalize_recovery_id_COk)
qed

lemma eth_before_tx_COk:
  "eth_before_tx api store tx sig sim = COk r \<longleftrightarrow> r = [(''method'', ''before_tx'')] \<and>
   (\<exists>a d addr. ETHEREUM_ADDRESS store = Some a \<and> (str_from 2 a :: (EthError, string) cres) = COk d
      \<and> hex_decode api d = COk addr
      \<and> (sim \<or> (\<exists>s. sig = Some s \<and> recovered api tx s addr)))"
  by (cases sim) (auto simp: eth_before_tx_def cres_iffs load_COk eth_verify_COk)

text \<open>C22: The contract accepts any text as the Ethereum address of a new account, but with a
  text that is not two characters and the hexadecimal form of twenty bytes the account is
  lost: no signature whatsoever authenticates a transaction of it.\<close>

theorem eth_bad_address_locks_account:
  assumes "\<And>b. length (keccak256 api b) = 32"
    and "\<not> (\<exists>d b. (str_from 2 a :: (EthError, string) cres) = COk d \<and> hex_decode api d = COk b \<and> length b = 20)"
  shows "\<exists>r st. eth_instantiate st0 env0 info \<lparr>ethereum_address = a\<rparr> = COk (r, st)
    \<and> (\<forall>env msgs tx cred. \<nexists>res. eth_sudo api env st (SudoBeforeTx msgs tx cred False) = COk res)"
proof (intro exI conjI allI notI)
  let ?st = "st0\<lparr>contract_info := Some (''account-eth'', CONTRACT_VERSION), ETHEREUM_ADDRESS := Some a\<rparr>"
  show "eth_instantiate st0 env0 info \<lparr>ethereum_address = a\<rparr>
      = COk ([(''method'', ''init''), (''ethereum_address'', a)], ?st)"
    by (simp add: eth_instantiate_def set_contract_version_def eth_init_def)
  fix env msgs tx cred
  assume "\<exists>res. eth_sudo api env ?st (SudoBeforeTx msgs tx cred False) = COk res"
  then obtain d addr s where "(str_from 2 a :: (EthError, string) cres) = COk d" "hex_decode api d = COk addr"
    and "recovered api tx s addr"
    by (auto simp: eth_sudo_def cres_iffs eth_before_tx_COk)
  then show False using assms by (auto simp: recovered_def)
qed

definition word_api :: Api where
  "word_api = open_api\<lparr>keccak256 := (\<lambda>b. take 32 (b @ replicate 32 0))\<rparr>"

theorem eth_bad_address_locks_account_witness:
  "\<exists>r st. eth_instantiate \<lparr>contract_info = None, ETHEREUM_ADDRESS = None\<rparr> (sample_env 0) \<lparr>info_sender = ''x''\<rparr>
      \<lparr>ethereum_address = ''0x123''\<rparr> = COk (r, st)
    \<and> (\<forall>env msgs tx cred. \<nexists>res. eth_sudo word_api env st (SudoBeforeTx msgs tx cred False) = COk res)"
  by (rule eth_bad_address_locks_account)
     (auto simp: word_api_def open_api_def str_from_def split: if_splits)

text \<open>A wallet's signature is accepted.\<close>

lemma eth_accepts:
  assumes "ETHEREUM_ADDRESS st = Some a" and "(str_from 2 a :: (EthError, string) cres) = COk d"
    and "hex_decode api d = COk addr" and "recovered api tx s addr"
  shows "eth_sudo api env st (SudoBeforeTx msgs tx (Some s) sim) = COk ([(''method'', ''before_tx'')], st)"
  using assms by (auto simp: eth_sudo_def cres_iffs eth_before_tx_COk)

end
