(* ===== verification/ContractTotp.thy ===== *)
theory ContractTotp
  imports ContractBase
begin

text \<open>
  The contract \<open>asym-totp\<close>: a transaction needs a signature of the account's key and a
  one-time password, which is a signature of another key over the number of the current
  time window.  \<open>sd\<close> stands for \<open>to_binary\<close> on the document that the password signs.
\<close>

subsection \<open>Storage, errors and messages\<close>

record TotpConfig =
  cfg_pubkey :: bytes
  cfg_otp_pubkey :: bytes
  duration_secs :: u64

record SignDoc =
  doc_chain_id :: string
  doc_account :: string
  doc_count :: u64

record TotpCredential =
  cred_signature :: bytes
  cred_otp :: bytes

record totp_store = contract_store +
  CONFIG :: "TotpConfig option"
  PREV_COUNT :: "u64 option"

datatype TotpError =
    TotpBase BaseError
  | TotpStd std_error
  | TotpVerification string
  | InvalidOTP
  | ReusedOTP

datatype TotpQueryMsg = QueryConfig | QueryPreviousCount

datatype TotpAnswer = ConfigAnswer TotpConfig | CountAnswer u64

definition de_TotpCredential :: "json \<Rightarrow> TotpCredential option" where
  "de_TotpCredential j =
     Option.bind (struct_fields [''signature'', ''otp''] j) (\<lambda>fs.
     Option.bind (de_field ''signature'' de_Binary fs) (\<lambda>s.
     Option.bind (de_field ''otp'' de_Binary fs) (\<lambda>p.
     Some \<lparr>cred_signature = s, cred_otp = p\<rparr>)))"

text \<open>Arithmetic, with the overflow checks the release profile turns on.\<close>

definition div_u64 :: "u64 \<Rightarrow> u64 \<Rightarrow> ('e, u64) cres" where
  "div_u64 a b = (if b = 0 then CTrap ''attempt to divide by zero'' else COk (a div b))"

definition sub_u64 :: "u64 \<Rightarrow> u64 \<Rightarrow> ('e, u64) cres" where
  "sub_u64 a b = (if a < b then CTrap ''attempt to subtract with overflow'' else COk (a - b))"

subsection \<open>\<open>asym-totp/src/execute.rs\<close> and \<open>asym-totp/src/query.rs\<close>\<close>

definition totp_init ::
  "totp_store \<Rightarrow> Env \<Rightarrow> TotpConfig \<Rightarrow> (TotpError, Response \<times> totp_store) cres" where
  "totp_init store env cfg =
     bindC (div_u64 (seconds (block_time (env_block env))) (duration_secs cfg)) (\<lambda>now.
     bindC (sub_u64 now 1) (\<lambda>prev_count.
     COk ([(''method'', ''init''), (''pubkey'', base64 (cfg_pubkey cfg)),
           (''otp_pubkey'', base64 (cfg_otp_pubkey cfg)),
           (''duration_secs'', decimal (unat (duration_secs cfg))),
           (''previous_count'', decimal (unat prev_count))],
          store\<lparr>CONFIG := Some cfg, PREV_COUNT := Some prev_count\<rparr>)))"

definition totp_before_tx ::
  "(SignDoc \<Rightarrow> bytes) \<Rightarrow> Api \<Rightarrow> totp_store \<Rightarrow> Env \<Rightarrow> bytes \<Rightarrow> bytes option \<Rightarrow> bool
   \<Rightarrow> (TotpError, Response \<times> totp_store) cres" where
  "totp_before_tx sd api store env tx_bytes cred_bytes simulate =
     bindC (into_err TotpStd (load ''Config'' (CONFIG store))) (\<lambda>cfg.
     let tx_bytes_hash = sha256 api tx_bytes in
     bindC (div_u64 (seconds (block_time (env_block env))) (duration_secs cfg)) (\<lambda>count.
     let sign_doc = \<lparr>doc_chain_id = block_chain_id (env_block env), doc_account = env_contract env,
           doc_count = count\<rparr>;
         sign_bytes_hash = sha256 api (sd sign_doc) in
     bindC (if \<not> simulate
            then bindC (into_err TotpBase (ok_or SignatureNotFound cred_bytes)) (\<lambda>cred_bytes.
                 bindC (into_err TotpStd (from_binary api de_TotpCredential cred_bytes)) (\<lambda>cred.
                 bindC (into_err TotpVerification
                          (secp256k1_verify api tx_bytes_hash (cred_signature cred) (cfg_pubkey cfg))) (\<lambda>valid.
                 if \<not> valid then CErr (TotpBase InvalidSignature)
                 else
                 bindC (into_err TotpVerification
                          (secp256k1_verify api sign_bytes_hash (cred_otp cred) (cfg_otp_pubkey cfg))) (\<lambda>valid.
                 if \<not> valid then CErr InvalidOTP else COk ()))))
            else COk ()) (\<lambda>_.
     bindC (into_err TotpStd (load ''u64'' (PREV_COUNT store))) (\<lambda>prev_count.
     if prev_count \<ge> count then CErr ReusedOTP
     else COk ([(''method'', ''before_tx''), (''count'', decimal (unat count))],
               store\<lparr>PREV_COUNT := Some count\<rparr>)))))"

definition totp_config :: "totp_store \<Rightarrow> (std_error, TotpConfig) cres" where
  "totp_config store = load ''Config'' (CONFIG store)"

definition totp_previous_count :: "totp_store \<Rightarrow> (std_error, u64) cres" where
  "totp_previous_count store = load ''u64'' (PREV_COUNT store)"

subsection \<open>\<open>asym-totp/src/contract.rs\<close>\<close>

definition totp_instantiate ::
  "totp_store \<Rightarrow> Env \<Rightarrow> MessageInfo \<Rightarrow> TotpConfig \<Rightarrow> (TotpError, Response \<times> totp_store) cres" where
  "totp_instantiate store env info msg =
     bindC (into_err TotpStd (set_contract_version store ''account-asym-totp'' CONTRACT_VERSION)) (\<lambda>store.
     totp_init store env msg)"

definition totp_sudo ::
  "(SignDoc \<Rightarrow> bytes) \<Rightarrow> Api \<Rightarrow> Env \<Rightarrow> totp_store \<Rightarrow> ContractSudoMsg
   \<Rightarrow> (TotpError, Response \<times> totp_store) cres" where
  "totp_sudo sd api env store msg =
     (case msg of
        SudoBeforeTx msgs tx_bytes cred_bytes simulate \<Rightarrow>
          totp_before_tx sd api store env tx_bytes cred_bytes simulate
      | SudoAfterTx simulate \<Rightarrow> bindC (into_err TotpBase base_after_tx) (\<lambda>r. COk (r, store)))"

definition totp_execute ::
  "totp_store \<Rightarrow> Env \<Rightarrow> MessageInfo \<Rightarrow> unit \<Rightarrow> (TotpError, Response \<times> totp_store) cres" where
  "totp_execute store env info msg = CTrap ''this contract does not have any execute method''"

definition totp_query :: "totp_store \<Rightarrow> Env \<Rightarrow> TotpQueryMsg \<Rightarrow> (std_error, TotpAnswer) cres" where
  "totp_query store env msg =
     (case msg of
        QueryConfig \<Rightarrow> bindC (totp_config store) (\<lambda>c. COk (ConfigAnswer c))
      | QueryPreviousCount \<Rightarrow> bindC (totp_previous_count store) (\<lambda>n. COk (CountAnswer n)))"

subsection \<open>How they run\<close>

text \<open>The window a block lies in, and what the password of that window signs.\<close>

definition otp_window :: "TotpConfig \<Rightarrow> Env \<Rightarrow> u64" where
  "otp_window cfg env = seconds (block_time (env_block env)) div duration_secs cfg"

definition otp_doc :: "TotpConfig \<Rightarrow> Env \<Rightarrow> SignDoc" where
  "otp_doc cfg env = \<lparr>doc_chain_id = block_chain_id (env_block env), doc_account = env_contract env,
     doc_count = otp_window cfg env\<rparr>"

text \<open>Two signatures: one of the transaction, one of the window.\<close>

definition both_signed ::
  "(SignDoc \<Rightarrow> bytes) \<Rightarrow> Api \<Rightarrow> TotpConfig \<Rightarrow> Env \<Rightarrow> bytes \<Rightarrow> bytes option \<Rightarrow> bool" where
  "both_signed sd api cfg env tx cred \<longleftrightarrow> (\<exists>b j c. cred = Some b \<and> parse_json api b = Some j
     \<and> de_TotpCredential j = Some c
     \<and> secp256k1_verify api (sha256 api tx) (cred_signature c) (cfg_pubkey cfg) = COk True
     \<and> secp256k1_verify api (sha256 api (sd (otp_doc cfg env))) (cred_otp c) (cfg_otp_pubkey cfg) = COk True)"

lemma arith_COk:
  "div_u64 a b = COk n \<longleftrightarrow> b \<noteq> 0 \<and> n = a div b"
  "sub_u64 a b = COk n \<longleftrightarrow> b \<le> a \<and> n = a - b"
  by (auto simp: div_u64_def sub_u64_def)

lemma totp_before_tx_COk:
  "totp_before_tx sd api store env tx cred sim = COk (r, store') \<longleftrightarrow>
   (\<exists>cfg n. CONFIG store = Some cfg \<and> duration_secs cfg \<noteq> 0
      \<and> (sim \<or> both_signed sd api cfg env tx cred) \<and> PREV_COUNT store = Some n \<and> n < otp_window cfg env
      \<and> r = [(''method'', ''before_tx''), (''count'', decimal (unat (otp_window cfg env)))]
      \<and> store' = store\<lparr>PREV_COUNT := Some (otp_window cfg env)\<rparr>)"
  by (cases sim)
     (auto simp: totp_before_tx_def Let_def cres_iffs load_COk arith_COk from_binary_COk both_signed_def not_le
       simp flip: otp_window_def otp_doc_def)

lemma totp_init_COk:
  "totp_init store env cfg = COk (r, store') \<Longrightarrow>
   duration_secs cfg \<noteq> 0 \<and> 1 \<le> otp_window cfg env \<and> CONFIG store' = Some cfg
   \<and> PREV_COUNT store' = Some (otp_window cfg env - 1)"
  by (auto simp: totp_init_def cres_iffs arith_COk simp flip: otp_window_def)

subsection \<open>The life of an account\<close>

text \<open>The account is only ever called by the transaction handlers: its \<open>execute\<close> panics.\<close>

definition totp_step ::
  "(SignDoc \<Rightarrow> bytes) \<Rightarrow> Api \<Rightarrow> totp_store \<Rightarrow> Env \<times> ContractSudoMsg \<Rightarrow> totp_store \<Rightarrow> bool" where
  "totp_step sd api st l st' \<longleftrightarrow> (\<exists>r. totp_sudo sd api (fst l) st (snd l) = COk (r, st'))"

text \<open>The windows of the transactions among the accepted calls.\<close>

fun tx_window :: "TotpConfig \<Rightarrow> Env \<times> ContractSudoMsg \<Rightarrow> u64 list" where
  "tx_window cfg (env, SudoBeforeTx msgs tx cred sim) = [otp_window cfg env]"
| "tx_window cfg (env, SudoAfterTx sim) = []"

lemma totp_step_count:
  assumes "totp_step sd api st l st'" and "CONFIG st = Some cfg" and "PREV_COUNT st = Some n"
  shows "CONFIG st' = Some cfg \<and> PREV_COUNT st' = Some (last (n # tx_window cfg l))
    \<and> sorted_wrt (<) (n # tx_window cfg l)"
  using assms
  by (cases "(cfg, l)" rule: tx_window.cases)
     (auto simp: totp_step_def totp_sudo_def totp_before_tx_COk cres_iffs)

lemma sorted_snoc:
  assumes "sorted_wrt (<) (x # xs)" and "last (x # xs) < (y :: u64)"
  shows "sorted_wrt (<) (x # xs @ [y])"
proof -
  obtain zs z where e: "x # xs = zs @ [z]" by (cases "x # xs" rule: rev_cases) auto
  then have "sorted_wrt (<) ((zs @ [z]) @ [y])"
    using assms unfolding e by (auto simp: sorted_wrt_append intro: less_trans)
  then show ?thesis unfolding e [symmetric] by simp
qed

text \<open>C13: A one-time password authenticates at most one transaction: from the creation of an
  account through any sequence of accepted calls, the windows of its transactions are
  strictly increasing, starting no earlier than the window the account was created in, and
  the configuration it was created with never changes.\<close>

theorem totp_one_tx_per_window:
  assumes "totp_instantiate st0 env info cfg = COk (r, st)" and "runs (totp_step sd api) st ls st'"
  shows "CONFIG st' = Some cfg
    \<and> sorted_wrt (<) ((otp_window cfg env - 1) # concat (map (tx_window cfg) ls))
    \<and> PREV_COUNT st' = Some (last ((otp_window cfg env - 1) # concat (map (tx_window cfg) ls)))"
proof -
  have start: "CONFIG st = Some cfg" "PREV_COUNT st = Some (otp_window cfg env - 1)"
    using assms(1) totp_init_COk by (fastforce simp: totp_instantiate_def set_contract_version_def)+
  show ?thesis
    using assms(2) start
  proof (induction rule: runs.induct)
    case (Nil s)
    then show ?case by simp
  next
    case (Snoc s ls t l u)
    let ?xs = "concat (map (tx_window cfg) ls)"
    have IH: "CONFIG t = Some cfg" "sorted_wrt (<) ((otp_window cfg env - 1) # ?xs)"
      "PREV_COUNT t = Some (last ((otp_window cfg env - 1) # ?xs))"
      using Snoc.IH Snoc.prems by blast+
    note step = totp_step_count [OF Snoc.hyps(2) IH(1,3)]
    then show ?case
    proof (cases "tx_window cfg l")
      case Nil
      then show ?thesis using step IH(2) by simp
    next
      case (Cons w ws)
      then have "ws = []" by (cases "(cfg, l)" rule: tx_window.cases) simp_all
      then show ?thesis using step Cons sorted_snoc [OF IH(2), of w] by simp
    qed
  qed
qed

definition sample_cfg :: TotpConfig where
  "sample_cfg = \<lparr>cfg_pubkey = [1], cfg_otp_pubkey = [2], duration_secs = 30\<rparr>"

theorem totp_one_tx_per_window_witness:
  "\<exists>r st st'. totp_instantiate \<lparr>contract_info = None, CONFIG = None, PREV_COUNT = None\<rparr> (sample_env 60000000000)
      \<lparr>info_sender = ''x''\<rparr> sample_cfg = COk (r, st)
    \<and> runs (totp_step (\<lambda>d. []) open_api) st
        [(sample_env 70000000000, SudoBeforeTx [] [] None True), (sample_env 90000000000, SudoBeforeTx [] [] None True)] st'
    \<and> PREV_COUNT st' = Some 3"
proof -
  let ?st = "\<lparr>contract_info = Some (''account-asym-totp'', CONTRACT_VERSION), CONFIG = Some sample_cfg,
      PREV_COUNT = Some (1 :: u64)\<rparr>"
  let ?r = "[(''method'', ''init''), (''pubkey'', base64 [1]), (''otp_pubkey'', base64 [2]),
      (''duration_secs'', decimal 30), (''previous_count'', decimal 1)]"
  have d: "duration_secs sample_cfg \<noteq> 0" by (simp add: sample_cfg_def)
  have w: "otp_window sample_cfg (sample_env 70000000000) = 2" "otp_window sample_cfg (sample_env 90000000000) = 3"
    "otp_window sample_cfg (sample_env 60000000000) = 2"
    by (simp_all add: otp_window_def sample_cfg_def sample_env_def seconds_def)
  have i: "totp_instantiate \<lparr>contract_info = None, CONFIG = None, PREV_COUNT = None\<rparr> (sample_env 60000000000)
      \<lparr>info_sender = ''x''\<rparr> sample_cfg = COk (?r, ?st)"
    by (simp add: totp_instantiate_def set_contract_version_def totp_init_def div_u64_def sub_u64_def sample_cfg_def
        sample_env_def seconds_def)
  have "totp_step (\<lambda>d. []) open_api ?st (sample_env 70000000000, SudoBeforeTx [] [] None True)
      (?st\<lparr>PREV_COUNT := Some 2\<rparr>)"
    by (simp add: totp_step_def totp_sudo_def totp_before_tx_COk w d)
  moreover have "totp_step (\<lambda>d. []) open_api (?st\<lparr>PREV_COUNT := Some 2\<rparr>)
      (sample_env 90000000000, SudoBeforeTx [] [] None True) (?st\<lparr>PREV_COUNT := Some 3\<rparr>)"
    by (simp add: totp_step_def totp_sudo_def totp_before_tx_COk w d)
  ultimately have run: "runs (totp_step (\<lambda>d. []) open_api) ?st
      [(sample_env 70000000000, SudoBeforeTx [] [] None True), (sample_env 90000000000, SudoBeforeTx [] [] None True)]
      (?st\<lparr>PREV_COUNT := Some 3\<rparr>)"
    by (rule runs_two)
  show ?thesis using totp_one_tx_per_window [OF i run] i run by fastforce
qed

end
