(* ===== verification/ContractGranter.thy ===== *)
theory ContractGranter
  imports ContractBase
begin

text \<open>
  The contract \<open>granter\<close>: an account that lets other keys sign for it, each for the messages
  of the types it was granted, until the grant expires or is revoked.  Of \<open>cw_utils\<close> it
  uses when an expiration has passed, and of \<open>cw_storage_plus\<close> an ordered map; what an
  expiration is and the order of keys are parameters.
\<close>

record 'x GrantLib =
  is_expired :: "'x \<Rightarrow> BlockInfo \<Rightarrow> bool"
  key_less :: "string \<times> bytes \<Rightarrow> string \<times> bytes \<Rightarrow> bool"

text \<open>Keys are compared by a strict total order.\<close>

definition key_order :: "'x GrantLib \<Rightarrow> bool" where
  "key_order lib \<longleftrightarrow> (\<forall>a. \<not> key_less lib a a)
     \<and> (\<forall>a b c. key_less lib a b \<and> key_less lib b c \<longrightarrow> key_less lib a c)
     \<and> (\<forall>a b. a = b \<or> key_less lib a b \<or> key_less lib b a)"

subsection \<open>Ordered maps\<close>

text \<open>The entries of a map in the order of their keys, and its operations \<open>save\<close>, \<open>remove\<close>,
  \<open>may_load\<close> and \<open>range\<close> from an exclusive bound upwards.\<close>

fun map_save :: "('k \<Rightarrow> 'k \<Rightarrow> bool) \<Rightarrow> 'k \<Rightarrow> 'v \<Rightarrow> ('k \<times> 'v) list \<Rightarrow> ('k \<times> 'v) list" where
  "map_save lt k v [] = [(k, v)]"
| "map_save lt k v ((a, b) # xs) =
     (if k = a then (k, v) # xs
      else if lt k a then (k, v) # (a, b) # xs
      else (a, b) # map_save lt k v xs)"

definition map_remove :: "'k \<Rightarrow> ('k \<times> 'v) list \<Rightarrow> ('k \<times> 'v) list" where
  "map_remove k xs = filter (\<lambda>(a, b). a \<noteq> k) xs"

definition map_range :: "('k \<Rightarrow> 'k \<Rightarrow> bool) \<Rightarrow> 'k option \<Rightarrow> ('k \<times> 'v) list \<Rightarrow> ('k \<times> 'v) list" where
  "map_range lt start xs =
     (case start of None \<Rightarrow> xs | Some s \<Rightarrow> filter (\<lambda>(a, b). lt s a) xs)"

lemma map_of_save: "map_of (map_save lt k v xs) = (map_of xs)(k \<mapsto> v)"
  by (induction xs) auto

lemma map_of_remove: "map_of (map_remove k xs) = (map_of xs)(k := None)"
  by (induction xs) (auto simp: map_remove_def)

subsection \<open>Storage, errors and messages\<close>

record 'x Grant =
  expiry :: "'x option"

record 'x granter_store = base_store +
  GRANTS :: "((string \<times> bytes) \<times> 'x Grant) list"

datatype GranterError =
    GranterBase BaseError
  | GranterStd std_error
  | GranterVerification string
  | CredentialNotFound
  | GrantExpired string string
  | GrantNotFound string string
  | NewGrantExpired

record GranterCredential =
  gc_pubkey :: bytes
  gc_signature :: "bytes option"

datatype 'x GranterExecuteMsg =
    MsgGrant string bytes "'x option"
  | MsgRevoke string bytes

record GrantPaginationParam =
  gp_type_url :: string
  gp_grantee :: bytes

record 'x GrantResponse =
  gr_type_url :: string
  gr_grantee :: bytes
  gr_expiry :: "'x option"

datatype GranterQueryMsg =
    GQueryPubkey
  | GQueryGrant string bytes
  | GQueryGrants "GrantPaginationParam option" "32 word option"

datatype 'x GranterAnswer =
    PubkeyAnswer bytes
  | GrantAnswer "'x GrantResponse"
  | GrantsAnswer "'x GrantResponse list"

definition de_GranterCredential :: "json \<Rightarrow> GranterCredential option" where
  "de_GranterCredential j =
     Option.bind (struct_fields [''pubkey'', ''signature''] j) (\<lambda>fs.
     Option.bind (de_field ''pubkey'' de_Binary fs) (\<lambda>k.
     Option.bind (de_optional ''signature'' de_Binary fs) (\<lambda>s.
     Some \<lparr>gc_pubkey = k, gc_signature = s\<rparr>)))"

subsection \<open>\<open>granter/src/execute.rs\<close>\<close>

fun assert_has_grant ::
  "'x GrantLib \<Rightarrow> 'x granter_store \<Rightarrow> BlockInfo \<Rightarrow> CAny list \<Rightarrow> bytes \<Rightarrow> (GranterError, unit) cres" where
  "assert_has_grant lib store block [] grantee = COk ()"
| "assert_has_grant lib store block (msg # msgs) grantee =
     (case map_of (GRANTS store) (type_url msg, grantee) of
        None \<Rightarrow> CErr (GrantNotFound (type_url msg) (base64 grantee))
      | Some grant \<Rightarrow>
          (case expiry grant of
             None \<Rightarrow> assert_has_grant lib store block msgs grantee
           | Some e \<Rightarrow>
               if is_expired lib e block then CErr (GrantExpired (type_url msg) (base64 grantee))
               else assert_has_grant lib store block msgs grantee))"

definition granter_before_tx ::
  "'x GrantLib \<Rightarrow> Api \<Rightarrow> 'x granter_store \<Rightarrow> BlockInfo \<Rightarrow> CAny list \<Rightarrow> bytes \<Rightarrow> bytes option \<Rightarrow> bool
   \<Rightarrow> (GranterError, Response) cres" where
  "granter_before_tx lib api store block msgs tx_bytes cred_bytes simulate =
     (let tx_bytes_hash = sha256 api tx_bytes in
      bindC (into_err GranterStd (load ''Binary'' (PUBKEY store))) (\<lambda>pubkey.
      bindC (ok_or CredentialNotFound cred_bytes) (\<lambda>cred_bytes.
      bindC (into_err GranterStd (from_binary api de_GranterCredential cred_bytes)) (\<lambda>credential.
      let signer_is_self = (gc_pubkey credential = pubkey) in
      bindC (if \<not> signer_is_self
             then assert_has_grant lib store block msgs (gc_pubkey credential)
             else COk ()) (\<lambda>_.
      bindC (if \<not> simulate
             then case gc_signature credential of
                    None \<Rightarrow> CErr (GranterBase SignatureNotFound)
                  | Some sig_bytes \<Rightarrow>
                      bindC (into_err GranterVerification
                               (secp256k1_verify api tx_bytes_hash sig_bytes (gc_pubkey credential)))
                        (\<lambda>valid. if \<not> valid then CErr (GranterBase InvalidSignature) else COk ())
             else COk ()) (\<lambda>_.
      COk [(''method'', ''before_tx''),
           (''signer_is_self'', if signer_is_self then ''true'' else ''false''),
           (''signer'', base64 (gc_pubkey credential))]))))))"

definition granter_grant ::
  "'x GrantLib \<Rightarrow> 'x granter_store \<Rightarrow> Env \<Rightarrow> MessageInfo \<Rightarrow> string \<Rightarrow> bytes \<Rightarrow> 'x option
   \<Rightarrow> (GranterError, Response \<times> 'x granter_store) cres" where
  "granter_grant lib store env info url grantee e =
     bindC (into_err GranterBase (assert_self (info_sender info) (env_contract env))) (\<lambda>_.
     bindC (case e of
              None \<Rightarrow> COk ()
            | Some e \<Rightarrow> if is_expired lib e (env_block env) then CErr NewGrantExpired else COk ()) (\<lambda>_.
     COk ([(''method'', ''grant''), (''granter'', env_contract env), (''grantee'', base64 grantee),
           (''type_url'', url)],
          store\<lparr>GRANTS := map_save (key_less lib) (url, grantee) \<lparr>expiry = e\<rparr> (GRANTS store)\<rparr>)))"

definition granter_revoke ::
  "'x granter_store \<Rightarrow> Env \<Rightarrow> MessageInfo \<Rightarrow> string \<Rightarrow> bytes
   \<Rightarrow> (GranterError, Response \<times> 'x granter_store) cres" where
  "granter_revoke store env info url grantee =
     bindC (into_err GranterBase (assert_self (info_sender info) (env_contract env))) (\<lambda>_.
     COk ([(''method'', ''revoke''), (''granter'', env_contract env), (''grantee'', base64 grantee),
           (''type_url'', url)],
          store\<lparr>GRANTS := map_remove (url, grantee) (GRANTS store)\<rparr>))"

subsection \<open>\<open>granter/src/query.rs\<close>\<close>

definition DEFAULT_LIMIT :: "32 word" where
  "DEFAULT_LIMIT = 10"

definition MAX_LIMIT :: "32 word" where
  "MAX_LIMIT = 30"

definition granter_grant_query ::
  "'x granter_store \<Rightarrow> string \<Rightarrow> bytes \<Rightarrow> (std_error, 'x GrantResponse) cres" where
  "granter_grant_query store url grantee =
     bindC (load ''Grant'' (map_of (GRANTS store) (url, grantee))) (\<lambda>grant.
     COk \<lparr>gr_type_url = url, gr_grantee = grantee, gr_expiry = expiry grant\<rparr>)"

definition grant_response :: "(string \<times> bytes) \<times> 'x Grant \<Rightarrow> 'x GrantResponse" where
  "grant_response item = \<lparr>gr_type_url = fst (fst item), gr_grantee = snd (fst item), gr_expiry = expiry (snd item)\<rparr>"

definition granter_grants ::
  "'x GrantLib \<Rightarrow> 'x granter_store \<Rightarrow> GrantPaginationParam option \<Rightarrow> 32 word option
   \<Rightarrow> (std_error, 'x GrantResponse list) cres" where
  "granter_grants lib store start_after limit =
     (let start = map_option (\<lambda>p. (gp_type_url p, gp_grantee p)) start_after;
          n = unat (min (case limit of None \<Rightarrow> DEFAULT_LIMIT | Some l \<Rightarrow> l) MAX_LIMIT)
      in COk (map grant_response (take n (map_range (key_less lib) start (GRANTS store)))))"

subsection \<open>\<open>granter/src/contract.rs\<close>\<close>

definition granter_instantiate ::
  "'x granter_store \<Rightarrow> Env \<Rightarrow> MessageInfo \<Rightarrow> BaseInstantiateMsg
   \<Rightarrow> (GranterError, Response \<times> 'x granter_store) cres" where
  "granter_instantiate store env info msg =
     bindC (into_err GranterStd (set_contract_version store ''account-grant'' CONTRACT_VERSION)) (\<lambda>store.
     into_err GranterBase (base_init store (bi_pubkey msg)))"

definition granter_sudo ::
  "'x GrantLib \<Rightarrow> Api \<Rightarrow> Env \<Rightarrow> 'x granter_store \<Rightarrow> ContractSudoMsg
   \<Rightarrow> (GranterError, Response \<times> 'x granter_store) cres" where
  "granter_sudo lib api env store msg =
     (case msg of
        SudoBeforeTx msgs tx_bytes cred_bytes simulate \<Rightarrow>
          bindC (granter_before_tx lib api store (env_block env) msgs tx_bytes cred_bytes simulate)
            (\<lambda>r. COk (r, store))
      | SudoAfterTx simulate \<Rightarrow> bindC (into_err GranterBase base_after_tx) (\<lambda>r. COk (r, store)))"

definition granter_execute ::
  "'x GrantLib \<Rightarrow> 'x granter_store \<Rightarrow> Env \<Rightarrow> MessageInfo \<Rightarrow> 'x GranterExecuteMsg
   \<Rightarrow> (GranterError, Response \<times> 'x granter_store) cres" where
  "granter_execute lib store env info msg =
     (case msg of
        MsgGrant url grantee e \<Rightarrow> granter_grant lib store env info url grantee e
      | MsgRevoke url grantee \<Rightarrow> granter_revoke store env info url grantee)"

definition granter_query ::
  "'x GrantLib \<Rightarrow> 'x granter_store \<Rightarrow> Env \<Rightarrow> GranterQueryMsg \<Rightarrow> (std_error, 'x GranterAnswer) cres" where
  "granter_query lib store env msg =
     (case msg of
        GQueryPubkey \<Rightarrow> bindC (base_pubkey store) (\<lambda>k. COk (PubkeyAnswer k))
      | GQueryGrant url grantee \<Rightarrow> bindC (granter_grant_query store url grantee) (\<lambda>g. COk (GrantAnswer g))
      | GQueryGrants start_after limit \<Rightarrow>
          bindC (granter_grants lib store start_after limit) (\<lambda>gs. COk (GrantsAnswer gs)))"

subsection \<open>How they run\<close>

definition unexpired :: "'x GrantLib \<Rightarrow> BlockInfo \<Rightarrow> 'x Grant \<Rightarrow> bool" where
  "unexpired lib block g \<longleftrightarrow> (case expiry g of None \<Rightarrow> True | Some e \<Rightarrow> \<not> is_expired lib e block)"

lemma assert_has_grant_COk:
  "assert_has_grant lib store block msgs k = COk () \<longleftrightarrow>
   (\<forall>m \<in> set msgs. \<exists>g. map_of (GRANTS store) (type_url m, k) = Some g \<and> unexpired lib block g)"
  by (induction msgs) (auto simp: unexpired_def split: option.splits)

text \<open>Who signed, given a map of grants.\<close>

definition key_signed :: "Api \<Rightarrow> bytes \<Rightarrow> bytes option \<Rightarrow> bytes \<Rightarrow> bool" where
  "key_signed api tx cred k \<longleftrightarrow> (\<exists>b j c s. cred = Some b \<and> parse_json api b = Some j
     \<and> de_GranterCredential j = Some c \<and> gc_pubkey c = k \<and> gc_signature c = Some s
     \<and> secp256k1_verify api (sha256 api tx) s k = COk True)"

definition may_sign ::
  "'x GrantLib \<Rightarrow> BlockInfo \<Rightarrow> bytes option \<Rightarrow> (string \<times> bytes \<Rightarrow> 'x Grant option) \<Rightarrow> CAny list \<Rightarrow> bytes \<Rightarrow> bool" where
  "may_sign lib block own grants msgs k \<longleftrightarrow> own = Some k
     \<or> own \<noteq> None \<and> (\<forall>m \<in> set msgs. \<exists>g. grants (type_url m, k) = Some g \<and> unexpired lib block g)"

lemma granter_before_tx_COk:
  assumes "granter_before_tx lib api store block msgs tx cred False = COk r"
  shows "\<exists>k. key_signed api tx cred k \<and> may_sign lib block (PUBKEY store) (map_of (GRANTS store)) msgs k"
  using assms
  by (auto simp: granter_before_tx_def Let_def cres_iffs load_COk from_binary_COk assert_has_grant_COk
      key_signed_def may_sign_def split: if_splits option.splits) 

subsection \<open>The life of an account\<close>

datatype 'x granter_call =
    GrSudo Env ContractSudoMsg
  | GrExecute Env MessageInfo "'x GranterExecuteMsg"

fun granter_step ::
  "'x GrantLib \<Rightarrow> Api \<Rightarrow> 'x granter_store \<Rightarrow> 'x granter_call \<Rightarrow> 'x granter_store \<Rightarrow> bool" where
  "granter_step lib api st (GrSudo env m) st' = (\<exists>r. granter_sudo lib api env st m = COk (r, st'))"
| "granter_step lib api st (GrExecute env info m) st' = (\<exists>r. granter_execute lib st env info m = COk (r, st'))"

text \<open>What the account has granted, as its calls say, without any storage; and which calls
  only the account itself may make.\<close>

fun granted :: "'x granter_call list \<Rightarrow> string \<times> bytes \<Rightarrow> 'x Grant option" where
  "granted [] = Map.empty"
| "granted (GrSudo env m # ls) = granted ls"
| "granted (GrExecute env info (MsgGrant u k e) # ls) = (granted ls)((u, k) \<mapsto> \<lparr>expiry = e\<rparr>)"
| "granted (GrExecute env info (MsgRevoke u k) # ls) = (granted ls)((u, k) := None)"

fun account_call :: "'x granter_call \<Rightarrow> bool" where
  "account_call (GrSudo env m) = True"
| "account_call (GrExecute env info m) = (info_sender info = env_contract env)"

text \<open>The storage after a run: the key of the beginning, and what was granted, latest first.\<close>

definition granter_state :: "bytes \<Rightarrow> 'x granter_call list \<Rightarrow> 'x granter_store \<Rightarrow> bool" where
  "granter_state pk ls st \<longleftrightarrow> PUBKEY st = Some pk \<and> map_of (GRANTS st) = granted ls"

lemma granter_step_state:
  assumes "granter_step lib api st l st'" and "granter_state pk ls st"
  shows "granter_state pk (l # ls) st' \<and> account_call l"
proof (cases l)
  case (GrSudo env m)
  then have "st' = st" using assms(1) by (cases m) (auto simp: granter_sudo_def cres_iffs)
  then show ?thesis using assms(2) GrSudo by (simp add: granter_state_def)
next
  case (GrExecute env info m)
  then show ?thesis
    using assms
    by (cases m)
       (auto simp: granter_state_def granter_execute_def granter_grant_def granter_revoke_def cres_iffs
         assert_self_COk map_of_save map_of_remove)
qed

lemma granter_start:
  assumes "granter_instantiate st0 env info \<lparr>bi_pubkey = pk\<rparr> = COk (r, st)" and "GRANTS st0 = []"
  shows "granter_state pk [] st" and "GRANTS st = []"
  using assms
  by (auto simp: granter_instantiate_def set_contract_version_def base_init_def granter_state_def)

lemma granter_run_state:
  assumes "runs (granter_step lib api) st ls st'" and "granter_state pk [] st"
  shows "granter_state pk (rev ls) st' \<and> list_all account_call ls"
  using assms
proof (induction rule: runs.induct)
  case (Nil s)
  then show ?case by simp
next
  case (Snoc s ls t l u)
  then show ?case using granter_step_state [OF Snoc.hyps(2), of pk "rev ls"] by simp
qed

text \<open>C12: Whatever has happened in the life of an account with grants, a transaction it
  accepts outside simulation carries a valid signature, either of the key the account was
  created with, or of a key to which the account itself granted the type of every message in
  the transaction, by a call it has not superseded or revoked since, with no expiration that
  has passed in the block of the transaction.\<close>

theorem granter_signer_authorised:
  assumes "granter_instantiate st0 env0 info \<lparr>bi_pubkey = pk\<rparr> = COk (r0, st)" and "GRANTS st0 = []"
    and "runs (granter_step lib api) st ls st'"
    and "granter_sudo lib api env st' (SudoBeforeTx msgs tx cred False) = COk res"
  shows "list_all account_call ls
    \<and> (\<exists>k. key_signed api tx cred k \<and> may_sign lib (env_block env) (Some pk) (granted (rev ls)) msgs k)"
proof -
  note st = granter_run_state [OF assms(3) granter_start(1) [OF assms(1,2)]]
  obtain r where "granter_before_tx lib api st' (env_block env) msgs tx cred False = COk r"
    using assms(4) by (auto simp: granter_sudo_def bindC_COk)
  then show ?thesis using granter_before_tx_COk [of lib api st' "env_block env" msgs tx cred r] st
    by (auto simp: granter_state_def)
qed

subsection \<open>Reading all grants\<close>

definition sorted_grants :: "'x GrantLib \<Rightarrow> ((string \<times> bytes) \<times> 'x Grant) list \<Rightarrow> bool" where
  "sorted_grants lib xs \<longleftrightarrow> sorted_wrt (key_less lib) (map fst xs)"

lemma keys_map_save: "set (map fst (map_save lt k v xs)) = insert k (set (map fst xs))"
proof (induction xs)
  case Nil
  then show ?case by simp
next
  case (Cons x xs)
  then show ?case by (cases x) (simp add: insert_commute)
qed

lemma sorted_map_save:
  assumes "key_order lib" and "sorted_grants lib xs"
  shows "sorted_grants lib (map_save (key_less lib) k v xs)"
  using assms(2)
proof (induction xs)
  case Nil
  then show ?case by (simp add: sorted_grants_def)
next
  case (Cons x xs)
  obtain a b where x: "x = (a, b)" by (cases x)
  have t: "key_less lib k c" if "key_less lib k a" "key_less lib a c" for c
    using assms(1) that unfolding key_order_def by blast
  have l: "key_less lib a k" if "k \<noteq> a" "\<not> key_less lib k a"
    using assms(1) that unfolding key_order_def by blast
  have s: "sorted_grants lib (map_save (key_less lib) k v xs)"
    by (rule Cons.IH) (use Cons.prems in \<open>simp add: sorted_grants_def\<close>)
  show ?case
    using Cons.prems s l unfolding x
    by (simp add: sorted_grants_def keys_map_save del: set_map) (blast intro: t)
qed

lemma sorted_distinct:
  assumes "\<And>a. \<not> lt a a"
  shows "sorted_wrt lt ks \<Longrightarrow> distinct ks"
  using assms by (induction ks) auto

lemma sorted_map_remove: "sorted_grants lib xs \<Longrightarrow> sorted_grants lib (map_remove k xs)"
  by (induction xs) (auto simp: sorted_grants_def map_remove_def)

lemma granter_step_sorted:
  assumes "key_order lib" and "granter_step lib api st l st'" and "sorted_grants lib (GRANTS st)"
  shows "sorted_grants lib (GRANTS st')"
proof (cases l)
  case (GrSudo env m)
  then have "st' = st" using assms(2) by (cases m) (auto simp: granter_sudo_def cres_iffs)
  then show ?thesis using assms(3) by simp
next
  case (GrExecute env info m)
  then show ?thesis
    using assms sorted_map_save [OF assms(1,3)] sorted_map_remove [OF assms(3)]
    by (cases m) (auto simp: granter_execute_def granter_grant_def granter_revoke_def cres_iffs)
qed

text \<open>How a client reads them: one page after the other, each beginning after the last grant of
  the page before, until a page is empty.\<close>

fun read_grants ::
  "nat \<Rightarrow> 'x GrantLib \<Rightarrow> 'x granter_store \<Rightarrow> 32 word option \<Rightarrow> GrantPaginationParam option
   \<Rightarrow> 'x GrantResponse list" where
  "read_grants 0 lib st limit start = []"
| "read_grants (Suc fuel) lib st limit start =
     (case granter_grants lib st start limit of
        COk page \<Rightarrow>
          (if page = [] then []
           else page @ read_grants fuel lib st limit
             (Some \<lparr>gp_type_url = gr_type_url (last page), gp_grantee = gr_grantee (last page)\<rparr>))
      | CErr e \<Rightarrow> []
      | CTrap p \<Rightarrow> [])"

definition page_size :: "32 word option \<Rightarrow> nat" where
  "page_size limit = unat (min (case limit of None \<Rightarrow> DEFAULT_LIMIT | Some l \<Rightarrow> l) MAX_LIMIT)"

lemma page_size_bounds: "page_size limit \<le> 30" "limit \<noteq> Some 0 \<Longrightarrow> 0 < page_size limit"
proof -
  have "min x 30 \<le> (30 :: 32 word)" for x by simp
  then have "unat (min x 30) \<le> 30" for x :: "32 word" using word_le_nat_alt [of "min x 30" 30] by simp
  then show "page_size limit \<le> 30" by (simp add: page_size_def MAX_LIMIT_def)
  show "0 < page_size limit" if "limit \<noteq> Some 0"
    using that by (auto simp: page_size_def MAX_LIMIT_def DEFAULT_LIMIT_def unat_gt_0 min_def split: option.splits)
qed

lemma granter_grants_page:
  "granter_grants lib st start limit = COk (map grant_response (take (page_size limit)
     (map_range (key_less lib) (map_option (\<lambda>p. (gp_type_url p, gp_grantee p)) start) (GRANTS st))))"
  by (simp add: granter_grants_def page_size_def Let_def)

text \<open>After the last key of a prefix comes the rest.\<close>

lemma range_after:
  assumes "key_order lib" and "sorted_grants lib (xs @ (k, v) # ys)"
  shows "map_range (key_less lib) (Some k) (xs @ (k, v) # ys) = ys"
proof -
  have irr: "\<not> key_less lib k k" using assms(1) unfolding key_order_def by blast
  have asym: "\<not> key_less lib k a" if "key_less lib a k" for a
    using assms(1) that unfolding key_order_def by blast
  have "filter (\<lambda>(a, b). key_less lib k a) xs = []"
    using assms(2) asym by (auto simp: sorted_grants_def sorted_wrt_append filter_empty_conv)
  moreover have "filter (\<lambda>(a, b). key_less lib k a) ys = ys"
    using assms(2) by (auto simp: sorted_grants_def sorted_wrt_append filter_id_conv)
  ultimately show ?thesis using irr by (simp add: map_range_def)
qed

lemma read_grants_rest:
  assumes "key_order lib" and "limit \<noteq> Some 0" and "sorted_grants lib (GRANTS st)"
    and "GRANTS st = xs @ ys" and "length ys < fuel"
    and "map_range (key_less lib) (map_option (\<lambda>p. (gp_type_url p, gp_grantee p)) start) (GRANTS st) = ys"
  shows "read_grants fuel lib st limit start = map grant_response ys"
  using assms(4-6)
proof (induction fuel arbitrary: xs ys start)
  case 0
  then show ?case by simp
next
  case (Suc fuel)
  define n where "n = page_size limit"
  have n: "0 < n" unfolding n_def by (rule page_size_bounds(2) [OF assms(2)])
  show ?case
  proof (cases "ys = []")
    case True
    then show ?thesis using Suc.prems(3) by (simp add: granter_grants_page)
  next
    case False
    then have p: "take n ys \<noteq> []" using n by simp
    obtain k v where kv: "last (take n ys) = (k, v)" by (cases "last (take n ys)")
    have split: "GRANTS st = (xs @ butlast (take n ys)) @ (k, v) # drop n ys"
      using Suc.prems(1) append_butlast_last_id [OF p] kv by (simp flip: append_assoc)
         (metis append.assoc append_Cons append_Nil append_take_drop_id)
    let ?start = "Some \<lparr>gp_type_url = fst k, gp_grantee = snd k\<rparr>"
    have "read_grants fuel lib st limit ?start = map grant_response (drop n ys)"
    proof (rule Suc.IH)
      show "GRANTS st = (xs @ take n ys) @ drop n ys" using Suc.prems(1) by simp
      show "length (drop n ys) < fuel" using Suc.prems(2) False n by (cases ys) auto
      show "map_range (key_less lib) (map_option (\<lambda>p. (gp_type_url p, gp_grantee p)) ?start) (GRANTS st) = drop n ys"
        using range_after [OF assms(1) assms(3) [unfolded split]] by (simp add: split)
    qed
    then have "read_grants (Suc fuel) lib st limit start = map grant_response (take n ys) @ map grant_response (drop n ys)"
      using Suc.prems(3) p kv False n
      by (simp add: granter_grants_page last_map grant_response_def flip: n_def)
    then show ?thesis by (simp flip: map_append)
  qed
qed

text \<open>C23: A client that reads the grants of an account page by page, with any limit but zero
  and whatever the order of the keys in the store, gets after at most one page per grant,
  exactly once each, the grants that were made and neither replaced by a later one nor
  revoked, and nothing else; no page is longer than thirty.  Grants that have expired are
  among them, with their expiry: the contract does not remove them, and its query does not
  leave them out.\<close>

theorem reading_pages_gives_all_grants:
  assumes "key_order lib" and "granter_instantiate st0 env0 info \<lparr>bi_pubkey = pk\<rparr> = COk (r0, st)"
    and "GRANTS st0 = []" and "runs (granter_step lib api) st ls st'"
    and "limit \<noteq> Some 0" and "length (GRANTS st') < fuel"
  shows "distinct (read_grants fuel lib st' limit None)
    \<and> set (read_grants fuel lib st' limit None)
      = {\<lparr>gr_type_url = u, gr_grantee = k, gr_expiry = expiry g\<rparr> | u k g. granted (rev ls) (u, k) = Some g}
    \<and> (\<exists>page. granter_grants lib st' start limit = COk page \<and> length page \<le> 30)"
proof -
  have "sorted_grants lib (GRANTS st)" using granter_start(2) [OF assms(2,3)] by (simp add: sorted_grants_def)
  then have sorted: "sorted_grants lib (GRANTS st')"
    by (rule runs_invariant [OF assms(4), where I = "\<lambda>s. sorted_grants lib (GRANTS s)"])
       (rule granter_step_sorted [OF assms(1)])
  have state: "map_of (GRANTS st') = granted (rev ls)"
    using granter_run_state [OF assms(4) granter_start(1) [OF assms(2,3)]] by (simp add: granter_state_def)
  have all: "read_grants fuel lib st' limit None = map grant_response (GRANTS st')"
    by (rule read_grants_rest [OF assms(1,5) sorted append_Nil [symmetric] assms(6)]) (simp add: map_range_def)
  have keys: "distinct (map fst (GRANTS st'))"
    by (rule sorted_distinct [where lt = "key_less lib"])
       (use sorted assms(1) in \<open>unfold sorted_grants_def key_order_def, blast+\<close>)
  have inj: "map fst (GRANTS st') = map (\<lambda>g. (gr_type_url g, gr_grantee g)) (map grant_response (GRANTS st'))"
    by (simp add: grant_response_def)
  have "distinct (map grant_response (GRANTS st'))" using keys unfolding inj by (simp only: distinct_map)
  moreover have "set (map grant_response (GRANTS st'))
      = {\<lparr>gr_type_url = u, gr_grantee = k, gr_expiry = expiry g\<rparr> | u k g. granted (rev ls) (u, k) = Some g}"
    using keys unfolding state [symmetric] by (auto simp: grant_response_def image_iff) force+
  ultimately show ?thesis using page_size_bounds(1) [of limit] unfolding all by (simp add: granter_grants_page)
qed

subsection \<open>A sample\<close>

text \<open>Expirations are heights; keys are compared as numbers.\<close>

definition key_number :: "string \<times> bytes \<Rightarrow> nat list" where
  "key_number k = length (fst k) # map of_char (fst k) @ map unat (snd k)"

fun number_less :: "nat list \<Rightarrow> nat list \<Rightarrow> bool" where
  "number_less xs [] = False"
| "number_less [] (y # ys) = True"
| "number_less (x # xs) (y # ys) = (x < y \<or> x = y \<and> number_less xs ys)"

lemma number_less_irr: "\<not> number_less xs xs"
  by (induction xs) auto

lemma number_less_trans: "number_less xs ys \<Longrightarrow> number_less ys zs \<Longrightarrow> number_less xs zs"
proof (induction xs ys arbitrary: zs rule: number_less.induct)
  case (3 x xs y ys)
  then show ?case by (cases zs) auto
next
  case (2 y ys)
  then show ?case by (cases zs) auto
qed simp

lemma number_less_total: "xs = ys \<or> number_less xs ys \<or> number_less ys xs"
  by (induction xs ys rule: number_less.induct) (auto, metis list.exhaust number_less.simps(2))

definition sample_lib :: "u64 GrantLib" where
  "sample_lib = \<lparr>is_expired = (\<lambda>h b. h \<le> block_height b), key_less = (\<lambda>a b. number_less (key_number a) (key_number b))\<rparr>"

lemma key_number_inject: "key_number a = key_number b \<longleftrightarrow> a = b"
proof -
  have c: "map of_char s = (map of_char t :: nat list) \<longleftrightarrow> s = t" for s t :: string
    by (rule inj_map_eq_map) (simp add: inj_def)
  have w: "map unat s = map unat t \<longleftrightarrow> s = t" for s t :: bytes
    by (rule inj_map_eq_map, rule injI) (simp add: word_unat_eq_iff)
  show ?thesis by (cases a; cases b) (auto simp: key_number_def c w)
qed

lemma sample_lib_ok: "key_order sample_lib"
  unfolding key_order_def sample_lib_def GrantLib.simps
  using number_less_irr number_less_trans number_less_total key_number_inject by metis

definition sample_granter :: "((string \<times> bytes) \<times> u64 Grant) list \<Rightarrow> u64 granter_store" where
  "sample_granter gs = \<lparr>contract_info = Some (''account-grant'', CONTRACT_VERSION), PUBKEY = Some [1], GRANTS = gs\<rparr>"

definition granter_calls :: "u64 granter_call list" where
  "granter_calls =
     [GrExecute (sample_env 0) \<lparr>info_sender = ''aa''\<rparr> (MsgGrant ''/m'' [2] (Some 5)),
      GrExecute (sample_env 0) \<lparr>info_sender = ''aa''\<rparr> (MsgGrant ''/a'' [3] None)]"

text \<open>Every credential is read as the key \<open>[2]\<close> and a signature of it.\<close>

definition granter_api :: Api where
  "granter_api = open_api\<lparr>parse_json := (\<lambda>b. Some (JObject
     [(''pubkey'', json_bytes (Some [2])), (''signature'', json_bytes (Some [2]))]))\<rparr>"

lemma sample_granter_instantiate:
  "granter_instantiate \<lparr>contract_info = None, PUBKEY = None, GRANTS = []\<rparr> (sample_env 0) \<lparr>info_sender = ''x''\<rparr>
     \<lparr>bi_pubkey = [1]\<rparr> = COk ([(''method'', ''init''), (''pubkey'', base64 [1])], sample_granter [])"
  by (simp add: granter_instantiate_def set_contract_version_def base_init_def sample_granter_def)

lemma sample_granter_run:
  "runs (granter_step sample_lib granter_api) (sample_granter []) granter_calls
     (sample_granter [((''/a'', [3]), \<lparr>expiry = None\<rparr>), ((''/m'', [2]), \<lparr>expiry = Some 5\<rparr>)])"
  unfolding granter_calls_def
proof (rule runs_two)
  show "granter_step sample_lib granter_api (sample_granter [])
      (GrExecute (sample_env 0) \<lparr>info_sender = ''aa''\<rparr> (MsgGrant ''/m'' [2] (Some 5)))
      (sample_granter [((''/m'', [2]), \<lparr>expiry = Some 5\<rparr>)])"
    by (simp add: granter_execute_def granter_grant_def assert_self_def sample_env_def sample_granter_def sample_lib_def
        word_le_nat_alt)
  show "granter_step sample_lib granter_api (sample_granter [((''/m'', [2]), \<lparr>expiry = Some 5\<rparr>)])
      (GrExecute (sample_env 0) \<lparr>info_sender = ''aa''\<rparr> (MsgGrant ''/a'' [3] None))
      (sample_granter [((''/a'', [3]), \<lparr>expiry = None\<rparr>), ((''/m'', [2]), \<lparr>expiry = Some 5\<rparr>)])"
    by (simp add: granter_execute_def granter_grant_def assert_self_def sample_env_def sample_granter_def sample_lib_def
        key_number_def)
qed

theorem granter_signer_authorised_witness:
  "\<exists>st' res. granter_sudo sample_lib granter_api (sample_env 0) st'
      (SudoBeforeTx [\<lparr>type_url = ''/m'', any_value = []\<rparr>] [7] (Some [8]) False) = COk res
    \<and> (\<exists>k. key_signed granter_api [7] (Some [8]) k
        \<and> may_sign sample_lib (env_block (sample_env 0)) (Some [1]) (granted (rev granter_calls))
            [\<lparr>type_url = ''/m'', any_value = []\<rparr>] k)"
proof -
  let ?st = "sample_granter [((''/a'', [3]), \<lparr>expiry = None\<rparr>), ((''/m'', [2]), \<lparr>expiry = Some 5\<rparr>)]"
  have b: "de_Binary (json_bytes s) = s" for s by (rule de_Binary_bytes)
  have "de_GranterCredential (JObject [(''pubkey'', json_bytes (Some [2])), (''signature'', json_bytes (Some [2]))])
      = Some \<lparr>gc_pubkey = [2], gc_signature = Some [2]\<rparr>"
    using b [of "Some [2]"] by (simp add: de_GranterCredential_def de_field_def de_optional_def json_bytes_def)
  then obtain res where res: "granter_sudo sample_lib granter_api (sample_env 0) ?st
      (SudoBeforeTx [\<lparr>type_url = ''/m'', any_value = []\<rparr>] [7] (Some [8]) False) = COk res"
    by (simp add: granter_sudo_def granter_before_tx_def sample_granter_def granter_api_def open_api_def load_def
        from_binary_def sample_lib_def sample_env_def word_le_nat_alt)
  show ?thesis
  proof (intro exI [where x = ?st] exI [where x = res] conjI)
    show "\<exists>k. key_signed granter_api [7] (Some [8]) k
        \<and> may_sign sample_lib (env_block (sample_env 0)) (Some [1]) (granted (rev granter_calls))
            [\<lparr>type_url = ''/m'', any_value = []\<rparr>] k"
      using granter_signer_authorised [OF sample_granter_instantiate _ sample_granter_run res] by simp
  qed (rule res)
qed

theorem reading_pages_gives_all_grants_witness:
  "read_grants 3 sample_lib (sample_granter [((''/a'', [3]), \<lparr>expiry = None\<rparr>), ((''/m'', [2]), \<lparr>expiry = Some 5\<rparr>)])
     (Some 1) None
   = [\<lparr>gr_type_url = ''/a'', gr_grantee = [3], gr_expiry = None\<rparr>, \<lparr>gr_type_url = ''/m'', gr_grantee = [2], gr_expiry = Some 5\<rparr>]
   \<and> distinct (read_grants 3 sample_lib
       (sample_granter [((''/a'', [3]), \<lparr>expiry = None\<rparr>), ((''/m'', [2]), \<lparr>expiry = Some 5\<rparr>)]) (Some 1) None)"
proof
  let ?st = "sample_granter [((''/a'', [3]), \<lparr>expiry = None\<rparr>), ((''/m'', [2]), \<lparr>expiry = Some 5\<rparr>)]"
  show "distinct (read_grants 3 sample_lib ?st (Some 1) None)"
    using reading_pages_gives_all_grants [OF sample_lib_ok sample_granter_instantiate _ sample_granter_run, of "Some 1" 3]
    by (simp add: sample_granter_def)
  show "read_grants 3 sample_lib ?st (Some 1) None
   = [\<lparr>gr_type_url = ''/a'', gr_grantee = [3], gr_expiry = None\<rparr>, \<lparr>gr_type_url = ''/m'', gr_grantee = [2], gr_expiry = Some 5\<rparr>]"
    by (simp add: numeral_3_eq_3 granter_grants_page page_size_def MAX_LIMIT_def map_range_def sample_granter_def
        grant_response_def sample_lib_def key_number_def)
qed

end
