(* ===== verification/ContractHost.thy ===== *)
theory ContractHost
  imports LifecycleSpec ContractEth ContractTotp ContractGranter
begin

text \<open>
  The module and the contracts together.  The wasm module runs the sudo entry point of the
  contract at the signer's address; what it is trusted for is the predicate \<open>hosts\<close>.  What
  the ante handler wants of a contract is the locale \<open>account_contract\<close>; every account
  contract of the repository is an instance of it.
\<close>

subsection \<open>The wasm module\<close>

text \<open>
  A call of \<open>Sudo\<close> that returns no error ran the contract at the address, on the storage of
  that contract and in the block's environment; the contract could read the message, returned
  a response, and its storage was kept.  \<open>contract w a\<close> is the storage of the contract at
  the address \<open>a\<close>, when the code there is the one in question.
\<close>

definition hosts ::
  "('w \<Rightarrow> bytes \<Rightarrow> 'st option) \<Rightarrow> (bytes \<Rightarrow> Env)
   \<Rightarrow> (Env \<Rightarrow> 'st \<Rightarrow> ContractSudoMsg \<Rightarrow> ('e, Response \<times> 'st) cres) \<Rightarrow> 'w ContractOpsKeeper \<Rightarrow> bool" where
  "hosts contract env sudo c \<longleftrightarrow> (\<forall>addr st j s d u.
     contract (world s) addr = Some st \<and> ck_Sudo c (Some addr) (string_bytes (render j)) s = (Ok d, u)
     \<longrightarrow> (\<exists>m r st'. de_AccountSudoMsg j = Some m \<and> sudo (env addr) st m = COk (r, st')
            \<and> contract (world u) addr = Some st'))"

lemma hostsD:
  assumes "hosts contract env sudo c" and "contract (world s) addr = Some st"
    and "ck_Sudo c (Some addr) (string_bytes (render (AccountSudoMsg_json m))) s = (Ok d, u)"
  shows "\<exists>m' r st'. contract_sudo m = Some m' \<and> sudo (env addr) st m' = COk (r, st')
    \<and> contract (world u) addr = Some st'"
  using assms unfolding hosts_def de_AccountSudoMsg_json [symmetric] by blast

lemma hosts_sudo:
  assumes "hosts contract env sudo c" and "ctx_ops_ok co" and "contract (world s) addr = Some st"
    and "sudoWithGasLimit co c (Some addr) (string_bytes (render (AccountSudoMsg_json m))) g s = (Ok (), t)"
  shows "\<exists>m' r st'. contract_sudo m = Some m' \<and> sudo (env addr) st m' = COk (r, st')
    \<and> contract (world t) addr = Some st'"
proof -
  let ?c = "(ctx_Cache co s)\<lparr>meter := NewGasMeter g\<rparr>"
  obtain d u where run: "ck_Sudo c (Some addr) (string_bytes (render (AccountSudoMsg_json m))) ?c = (Ok d, u)"
    and t: "t = (ctx_write co s u)\<lparr>events := events (ctx_write co s u) @ events u\<rparr>"
    using assms(4) by (auto simp: sudo_Ok)
  have w: "world ?c = world s" "world t = world u" using assms(2) by (simp_all add: t ctx_ops_ok_def)
  show ?thesis using hostsD [OF assms(1) _ run] assms(3) unfolding w by blast
qed

text \<open>
  A transaction of a hosted account that passes has been shown to its contract, and the
  contract accepted: the messages and the sign bytes are those of the transaction, the
  credential is the one in its signature, and what the contract stored is there when the
  next decorator runs.
\<close>

lemma BeforeTx_hosted:
  assumes "hosts contract env sudo (ck k)" and "ctx_ops_ok co"
    and "IsAbstractAccountTx aa s tx = Ok (Some (acc, sig))"
    and "BeforeTx_AnteHandle sdk co k aa nxt tx sim s = (Ok (), t)"
    and "GetAddress sdk acc = Some addr" and "contract (world s) addr = Some st"
  shows "\<exists>anys msgs mode signBytes cred r st' s2. sig_Sequence sig = Sequence acc
    \<and> list_all2 (\<lambda>m a. NewAnyFromProtoMsg m = Ok a) (GetMsgs tx) anys
    \<and> those (map contract_any anys) = Some msgs
    \<and> sig_Data sig = SingleSignatureData mode cred
    \<and> GetSignBytes aa mode \<lparr>sd_Address = AccAddress_String sdk (Some addr),
        sd_ChainID = chain_id s, sd_AccountNumber = AccountNumber acc,
        sd_Sequence = Sequence acc, sd_PubKey = Some (NilPK \<lparr>AddressBytes = Some addr\<rparr>)\<rparr> tx
        = Ok (Some signBytes)
    \<and> sudo (env addr) st (SudoBeforeTx msgs signBytes (norm_slice cred) sim) = COk (r, st')
    \<and> contract (world s2) addr = Some st' \<and> nxt tx sim s2 = (Ok (), t)"
proof -
  obtain s1 anys mode signBytes cred g s2 where out: "same_outside s s1"
    and seq: "sig_Sequence sig = Sequence acc"
    and anys: "list_all2 (\<lambda>m a. NewAnyFromProtoMsg m = Ok a) (GetMsgs tx) anys"
    and sig: "sig_Data sig = SingleSignatureData mode cred"
    and bytes: "GetSignBytes aa mode \<lparr>sd_Address = AccAddress_String sdk (Some addr),
        sd_ChainID = chain_id s, sd_AccountNumber = AccountNumber acc,
        sd_Sequence = Sequence acc, sd_PubKey = Some (NilPK \<lparr>AddressBytes = Some addr\<rparr>)\<rparr> tx = Ok signBytes"
    and run: "sudoWithGasLimit co (ck k) (Some addr) (before_tx_msg anys signBytes cred sim) g s1 = (Ok (), s2)"
    and nxt: "nxt tx sim s2 = (Ok (), t)"
    using BeforeTx_gate [OF assms(3,4)] unfolding assms(5) by blast
  have "contract (world s1) addr = Some st" using assms(6) out by (simp add: same_outside_def)
  from hosts_sudo [OF assms(1,2) this run [unfolded before_tx_msg_def]]
  obtain m r st' where m: "contract_before \<lparr>Msgs = anys, TxBytes = signBytes, CredBytes = cred, Simulate = sim\<rparr> = Some m"
    and sudo: "sudo (env addr) st m = COk (r, st')" and st': "contract (world s2) addr = Some st'"
    by (auto simp: contract_sudo_def)
  obtain msgs tx_bytes where "those (map contract_any anys) = Some msgs" "signBytes = Some tx_bytes"
    and "m = SudoBeforeTx msgs tx_bytes (norm_slice cred) sim"
    using m by (auto simp: contract_before_def bind_eq_Some_conv)
  then show ?thesis using seq anys sig bytes sudo st' nxt by blast
qed

subsection \<open>What an account contract must do\<close>

text \<open>
  Outside simulation a transaction is accepted only when it is authorised, which is for each
  contract to say; and the call after the transaction never fails and changes nothing.
\<close>

locale account_contract =
  fixes sudo :: "Env \<Rightarrow> 'st \<Rightarrow> ContractSudoMsg \<Rightarrow> ('e, Response \<times> 'st) cres"
    and authorised :: "Env \<Rightarrow> 'st \<Rightarrow> CAny list \<Rightarrow> bytes \<Rightarrow> bytes option \<Rightarrow> bool"
  assumes before_authorised:
      "sudo env st (SudoBeforeTx msgs tx cred False) = COk (r, st') \<Longrightarrow> authorised env st msgs tx cred"
    and after_keeps: "\<exists>r. sudo env st (SudoAfterTx sim) = COk (r, st)"
begin

text \<open>The ante handler lets a transaction of such an account pass only when it is authorised
  in the storage the contract had before: the messages and the sign bytes the contract judges
  are those of the transaction, and the credential is the one in its signature.\<close>

lemma gate:
  assumes "hosts contract env sudo (ck k)" and "ctx_ops_ok co"
    and "IsAbstractAccountTx aa s tx = Ok (Some (acc, sig))"
    and "BeforeTx_AnteHandle sdk co k aa nxt tx False s = (Ok (), t)"
    and "GetAddress sdk acc = Some addr" and "contract (world s) addr = Some st"
  shows "\<exists>anys msgs mode signBytes cred. sig_Sequence sig = Sequence acc
    \<and> list_all2 (\<lambda>m a. NewAnyFromProtoMsg m = Ok a) (GetMsgs tx) anys
    \<and> those (map contract_any anys) = Some msgs
    \<and> sig_Data sig = SingleSignatureData mode cred
    \<and> GetSignBytes aa mode \<lparr>sd_Address = AccAddress_String sdk (Some addr),
        sd_ChainID = chain_id s, sd_AccountNumber = AccountNumber acc,
        sd_Sequence = Sequence acc, sd_PubKey = Some (NilPK \<lparr>AddressBytes = Some addr\<rparr>)\<rparr> tx
        = Ok (Some signBytes)
    \<and> authorised (env addr) st msgs signBytes (norm_slice cred)"
  using BeforeTx_hosted [OF assms] before_authorised by blast

text \<open>The call after the transaction leaves the contract as it was.\<close>

lemma after_call:
  assumes "hosts contract env sudo c" and "ctx_ops_ok co" and "contract (world s) addr = Some st"
    and "sudoWithGasLimit co c (Some addr) (after_tx_msg sim) g s = (Ok (), t)"
  shows "contract (world t) addr = Some st"
proof -
  obtain r' where "sudo (env addr) st (SudoAfterTx sim) = COk (r', st)" using after_keeps by blast
  then show ?thesis
    using hosts_sudo [OF assms(1-3) assms(4) [unfolded after_tx_msg_def]] by (auto simp: contract_sudo_def)
qed

end

subsection \<open>The five contracts\<close>

definition base_authorised ::
  "Api \<Rightarrow> Env \<Rightarrow> base_store \<Rightarrow> CAny list \<Rightarrow> bytes \<Rightarrow> bytes option \<Rightarrow> bool" where
  "base_authorised api env st msgs tx cred \<longleftrightarrow> (\<exists>pk s. PUBKEY st = Some pk \<and> cred = Some s
     \<and> secp256k1_verify api (sha256 api tx) s pk = COk True)"

definition eth_authorised ::
  "Api \<Rightarrow> Env \<Rightarrow> eth_store \<Rightarrow> CAny list \<Rightarrow> bytes \<Rightarrow> bytes option \<Rightarrow> bool" where
  "eth_authorised api env st msgs tx cred \<longleftrightarrow> (\<exists>a d addr s. ETHEREUM_ADDRESS st = Some a
     \<and> (str_from 2 a :: (EthError, string) cres) = COk d \<and> hex_decode api d = COk addr
     \<and> cred = Some s \<and> recovered api tx s addr)"

definition totp_authorised ::
  "(SignDoc \<Rightarrow> bytes) \<Rightarrow> Api \<Rightarrow> Env \<Rightarrow> totp_store \<Rightarrow> CAny list \<Rightarrow> bytes \<Rightarrow> bytes option \<Rightarrow> bool" where
  "totp_authorised sd api env st msgs tx cred \<longleftrightarrow> (\<exists>cfg n. CONFIG st = Some cfg \<and> PREV_COUNT st = Some n
     \<and> n < otp_window cfg env \<and> both_signed sd api cfg env tx cred)"

definition granter_authorised ::
  "'x GrantLib \<Rightarrow> Api \<Rightarrow> Env \<Rightarrow> 'x granter_store \<Rightarrow> CAny list \<Rightarrow> bytes \<Rightarrow> bytes option \<Rightarrow> bool" where
  "granter_authorised lib api env st msgs tx cred \<longleftrightarrow> (\<exists>k. key_signed api tx cred k
     \<and> may_sign lib (env_block env) (PUBKEY st) (map_of (GRANTS st)) msgs k)"

lemma after_tx_COk [simp]: "base_after_tx = COk [(''method'', ''after_tx'')]"
  by (simp add: base_after_tx_def)

interpretation base: account_contract "base_sudo api" "base_authorised api" for api
  by unfold_locales (auto simp: base_sudo_def base_authorised_def cres_iffs base_before_tx_COk)

interpretation updatable: account_contract "updatable_sudo api" "base_authorised api" for api
  unfolding updatable_sudo_base by unfold_locales

interpretation eth: account_contract "eth_sudo api" "eth_authorised api" for api
  by unfold_locales (auto simp: eth_sudo_def eth_authorised_def cres_iffs eth_before_tx_COk)

interpretation totp: account_contract "totp_sudo sd api" "totp_authorised sd api" for sd api
  by unfold_locales (auto simp: totp_sudo_def totp_authorised_def cres_iffs totp_before_tx_COk)

interpretation granter: account_contract "granter_sudo lib api" "granter_authorised lib api" for lib api
  by unfold_locales
     (auto simp: granter_sudo_def granter_authorised_def cres_iffs intro: granter_before_tx_COk)

subsection \<open>End to end\<close>

lemma norm_slice_Some: "norm_slice c = Some b \<Longrightarrow> c = Some b"
  by (cases c) (auto split: if_splits)

text \<open>From the ante handler down to the contract: when the account that signs a transaction
  runs the contract \<open>base\<close> or \<open>updatable\<close> and the handler lets the transaction pass outside
  simulation, then the signature field of the transaction holds a signature that verifies,
  under the key in the contract's storage, over the hash of the bytes that the sign mode
  handler makes of this transaction for this chain, account number and sequence.\<close>

lemma base_account_needs_signature:
  assumes "hosts contract env sudo (ck k)" and "sudo = base_sudo api \<or> sudo = updatable_sudo api"
    and "ctx_ops_ok co"
    and "IsAbstractAccountTx aa s tx = Ok (Some (acc, sig))"
    and "BeforeTx_AnteHandle sdk co k aa nxt tx False s = (Ok (), t)"
    and "GetAddress sdk acc = Some addr" and "contract (world s) addr = Some st"
  shows "\<exists>pk mode signBytes cred. PUBKEY st = Some pk
    \<and> sig_Sequence sig = Sequence acc \<and> sig_Data sig = SingleSignatureData mode (Some cred)
    \<and> GetSignBytes aa mode \<lparr>sd_Address = AccAddress_String sdk (Some addr),
        sd_ChainID = chain_id s, sd_AccountNumber = AccountNumber acc,
        sd_Sequence = Sequence acc, sd_PubKey = Some (NilPK \<lparr>AddressBytes = Some addr\<rparr>)\<rparr> tx
        = Ok (Some signBytes)
    \<and> secp256k1_verify api (sha256 api signBytes) cred pk = COk True"
proof -
  have host: "hosts contract env (base_sudo api) (ck k)" using assms(1,2) by (auto simp: updatable_sudo_base)
  show ?thesis
    using base.gate [OF host assms(3-7)] norm_slice_Some by (fastforce simp: base_authorised_def)
qed

text \<open>And the other direction: a call with enough gas for the message \<open>m\<close>, which the contract
  answers with a value, returns no error.\<close>

definition hosts_answers ::
  "('w \<Rightarrow> bytes \<Rightarrow> 'st option) \<Rightarrow> (bytes \<Rightarrow> Env)
   \<Rightarrow> (Env \<Rightarrow> 'st \<Rightarrow> ContractSudoMsg \<Rightarrow> ('e, Response \<times> 'st) cres) \<Rightarrow> u64 \<Rightarrow> AccountSudoMsg \<Rightarrow> 'w ContractOpsKeeper \<Rightarrow> bool" where
  "hosts_answers contract env sudo g m c \<longleftrightarrow> (\<forall>addr st m' r st' s.
     contract (world s) addr = Some st \<and> contract_sudo m = Some m' \<and> sudo (env addr) st m' = COk (r, st')
       \<and> meter s = NewGasMeter g
     \<longrightarrow> (\<exists>d u. ck_Sudo c (Some addr) (string_bytes (render (AccountSudoMsg_json m))) s = (Ok d, u)))"

lemma hosts_answers_sudo:
  assumes "hosts_answers contract env sudo g m c" and "ctx_ops_ok co" and "contract (world s) addr = Some st"
    and "contract_sudo m = Some m'" and "sudo (env addr) st m' = COk (r, st')"
  shows "\<exists>t. sudoWithGasLimit co c (Some addr) (string_bytes (render (AccountSudoMsg_json m))) g s = (Ok (), t)"
proof -
  let ?c = "(ctx_Cache co s)\<lparr>meter := NewGasMeter g\<rparr>"
  have "world ?c = world s" using assms(2) by (simp add: ctx_ops_ok_def)
  then have "contract (world ?c) addr = Some st" "meter ?c = NewGasMeter g" using assms(3) by simp_all
  then obtain d u where "ck_Sudo c (Some addr) (string_bytes (render (AccountSudoMsg_json m))) ?c = (Ok d, u)"
    using assms(1,4,5) unfolding hosts_answers_def by metis
  then show ?thesis by (simp add: sudo_Ok)
qed

text \<open>Messages whose bytes are not nil are messages to the contract.\<close>

lemma contract_anys:
  assumes "list_all (\<lambda>a. Value a \<noteq> None) anys"
  shows "\<exists>msgs. those (map contract_any anys) = Some msgs"
  using assms
proof (induction anys)
  case (Cons a as)
  then obtain v msgs where "Value a = Some v" "those (map contract_any as) = Some msgs" by auto
  then have "contract_any a = Some \<lparr>type_url = TypeURL a, any_value = v\<rparr>" by (simp add: contract_any_def)
  then show ?case using \<open>those (map contract_any as) = Some msgs\<close> by simp
qed simp

text \<open>The message before a transaction.\<close>

definition before_sudo :: "Any list \<Rightarrow> bytes \<Rightarrow> slice \<Rightarrow> bool \<Rightarrow> AccountSudoMsg" where
  "before_sudo anys signBytes cred sim =
     \<lparr>sudo_BeforeTx = Some \<lparr>Msgs = anys, TxBytes = Some signBytes, CredBytes = cred, Simulate = sim\<rparr>,
      sudo_AfterTx = None\<rparr>"

text \<open>Whatever the contract: the handler passes a transaction on exactly when its sequence
  number is the account's and the contract accepts.\<close>

lemma passes_iff_accepts:
  assumes "hosts contract env sudo (ck k)"
    and "hosts_answers contract env sudo (MaxGasBefore p) (before_sudo anys signBytes cred sim) (ck k)"
    and "ctx_ops_ok co"
    and "IsAbstractAccountTx aa s tx = Ok (Some (acc, sig))" and "GetAddress sdk acc = Some addr"
    and "contract (world s) addr = Some st" and "st_params (abs_state sdk k s) = Some p"
    and "list_all2 (\<lambda>m a. NewAnyFromProtoMsg m = Ok a) (GetMsgs tx) anys"
    and "those (map contract_any anys) = Some msgs"
    and "sig_Data sig = SingleSignatureData mode cred"
    and "GetSignBytes aa mode \<lparr>sd_Address = AccAddress_String sdk (Some addr),
        sd_ChainID = chain_id s, sd_AccountNumber = AccountNumber acc,
        sd_Sequence = Sequence acc, sd_PubKey = Some (NilPK \<lparr>AddressBytes = Some addr\<rparr>)\<rparr> tx
        = Ok (Some signBytes)"
    and "\<And>u. \<exists>v. nxt tx sim u = (Ok (), v)"
  shows "(\<exists>t. BeforeTx_AnteHandle sdk co k aa nxt tx sim s = (Ok (), t))
    \<longleftrightarrow> sig_Sequence sig = Sequence acc
      \<and> (\<exists>r st'. sudo (env addr) st (SudoBeforeTx msgs signBytes (norm_slice cred) sim) = COk (r, st'))"
    (is "?passes \<longleftrightarrow> ?seq \<and> ?accepts")
proof
  assume ?passes
  then obtain t where t: "BeforeTx_AnteHandle sdk co k aa nxt tx sim s = (Ok (), t)" by blast
  obtain anys' msgs' mode' cred' signBytes' r st' where ?seq
    and anys: "list_all2 (\<lambda>m a. NewAnyFromProtoMsg m = Ok a) (GetMsgs tx) anys'"
    and msgs: "those (map contract_any anys') = Some msgs'"
    and sig: "SingleSignatureData mode cred = SingleSignatureData mode' cred'"
    and bytes: "GetSignBytes aa mode' \<lparr>sd_Address = AccAddress_String sdk (Some addr),
        sd_ChainID = chain_id s, sd_AccountNumber = AccountNumber acc,
        sd_Sequence = Sequence acc, sd_PubKey = Some (NilPK \<lparr>AddressBytes = Some addr\<rparr>)\<rparr> tx
        = Ok (Some signBytes')"
    and sudo: "sudo (env addr) st (SudoBeforeTx msgs' signBytes' (norm_slice cred') sim) = COk (r, st')"
    using BeforeTx_hosted [OF assms(1,3,4) t assms(5,6)] unfolding assms(10) by blast
  have "anys' = anys"
    using anys assms(8) by (auto simp: list_all2_conv_all_nth intro!: nth_equalityI)
  then show "?seq \<and> ?accepts" using \<open>?seq\<close> msgs assms(9,11) sig bytes sudo by auto
next
  assume r: "?seq \<and> ?accepts"
  then obtain r st' where sudo: "sudo (env addr) st (SudoBeforeTx msgs signBytes (norm_slice cred) sim) = COk (r, st')"
    by blast
  have m: "contract_sudo (before_sudo anys signBytes cred sim) = Some (SudoBeforeTx msgs signBytes (norm_slice cred) sim)"
    by (simp add: before_sudo_def contract_sudo_def contract_before_def assms(9))
  show ?passes
  proof (rule before_tx_passes)
    show "sig_Sequence sig = Sequence acc" using r by blast
    show "\<exists>v. sudoWithGasLimit co (ck k) (Some addr) (before_tx_msg anys (Some signBytes) cred sim)
        (MaxGasBefore p) u = (Ok (), v)" if "same_outside s u" for u
    proof -
      have "contract (world u) addr = Some st" using assms(6) that by (simp add: same_outside_def)
      from hosts_answers_sudo [OF assms(2,3) this m sudo] show ?thesis
        unfolding before_tx_msg_def before_sudo_def .
    qed
  qed (rule assms)+
qed

text \<open>The message after a transaction.\<close>

definition after_sudo :: "bool \<Rightarrow> AccountSudoMsg" where
  "after_sudo sim = \<lparr>sudo_BeforeTx = None, sudo_AfterTx = Some \<lparr>after_Simulate = sim\<rparr>\<rparr>"

text \<open>C8: With a wasm module that runs the contract and with enough gas, this is all there is
  to it: a transaction of an account with the contract \<open>base\<close> passes exactly when its sequence
  number is the account's and it is simulated or its signature field holds a non-empty
  signature that verifies under the stored key over the hash of the transaction's sign
  bytes.\<close>

theorem base_account_passes_iff_signed:
  assumes "hosts contract env (base_sudo api) (ck k)"
    and "hosts_answers contract env (base_sudo api) (MaxGasBefore p) (before_sudo anys signBytes cred sim) (ck k)"
    and "ctx_ops_ok co"
    and "IsAbstractAccountTx aa s tx = Ok (Some (acc, sig))" and "GetAddress sdk acc = Some addr"
    and "contract (world s) addr = Some st" and "PUBKEY st = Some pk"
    and "st_params (abs_state sdk k s) = Some p"
    and "list_all2 (\<lambda>m a. NewAnyFromProtoMsg m = Ok a) (GetMsgs tx) anys" and "list_all (\<lambda>a. Value a \<noteq> None) anys"
    and "sig_Data sig = SingleSignatureData mode cred"
    and "GetSignBytes aa mode \<lparr>sd_Address = AccAddress_String sdk (Some addr),
        sd_ChainID = chain_id s, sd_AccountNumber = AccountNumber acc,
        sd_Sequence = Sequence acc, sd_PubKey = Some (NilPK \<lparr>AddressBytes = Some addr\<rparr>)\<rparr> tx
        = Ok (Some signBytes)"
    and "\<And>u. \<exists>v. nxt tx sim u = (Ok (), v)"
  shows "(\<exists>t. BeforeTx_AnteHandle sdk co k aa nxt tx sim s = (Ok (), t))
    \<longleftrightarrow> sig_Sequence sig = Sequence acc
      \<and> (sim \<or> (\<exists>b. cred = Some b \<and> b \<noteq> [] \<and> secp256k1_verify api (sha256 api signBytes) b pk = COk True))"
proof -
  obtain msgs where msgs: "those (map contract_any anys) = Some msgs" using contract_anys [OF assms(10)] by blast
  show ?thesis
    unfolding passes_iff_accepts [where nxt = nxt and contract = contract and env = env,
      OF assms(1-6,8,9) msgs assms(11-13)]
    using assms(7) by (cases cred) (auto simp: base_sudo_def bindC_COk base_before_tx_COk)
qed

text \<open>The other contracts in the same way.\<close>

lemma eth_account_needs_wallet:
  assumes "hosts contract env (eth_sudo api) (ck k)" and "ctx_ops_ok co"
    and "IsAbstractAccountTx aa s tx = Ok (Some (acc, sig))"
    and "BeforeTx_AnteHandle sdk co k aa nxt tx False s = (Ok (), t)"
    and "GetAddress sdk acc = Some addr" and "contract (world s) addr = Some st"
  shows "\<exists>msgs signBytes cred. eth_authorised api (env addr) st msgs signBytes cred"
  using eth.gate [OF assms] by blast

lemma totp_account_needs_password:
  assumes "hosts contract env (totp_sudo sd api) (ck k)" and "ctx_ops_ok co"
    and "IsAbstractAccountTx aa s tx = Ok (Some (acc, sig))"
    and "BeforeTx_AnteHandle sdk co k aa nxt tx False s = (Ok (), t)"
    and "GetAddress sdk acc = Some addr" and "contract (world s) addr = Some st"
  shows "\<exists>msgs signBytes cred. totp_authorised sd api (env addr) st msgs signBytes cred"
  using totp.gate [OF assms] by blast

lemma granter_account_needs_grant:
  assumes "hosts contract env (granter_sudo lib api) (ck k)" and "ctx_ops_ok co"
    and "IsAbstractAccountTx aa s tx = Ok (Some (acc, sig))"
    and "BeforeTx_AnteHandle sdk co k aa nxt tx False s = (Ok (), t)"
    and "GetAddress sdk acc = Some addr" and "contract (world s) addr = Some st"
  shows "\<exists>anys msgs signBytes cred. list_all2 (\<lambda>m a. NewAnyFromProtoMsg m = Ok a) (GetMsgs tx) anys
    \<and> those (map contract_any anys) = Some msgs
    \<and> granter_authorised lib api (env addr) st msgs signBytes cred"
  using granter.gate [OF assms] by blast

subsection \<open>A sample\<close>

definition sample_envs :: "bytes \<Rightarrow> Env" where
  "sample_envs a = sample_env 0"

text \<open>A wasm module that answers some messages and changes no storage runs a contract that
  accepts these messages.\<close>

definition answering :: "AccountSudoMsg list \<Rightarrow> sample_world ContractOpsKeeper" where
  "answering js = sample_ck\<lparr>ck_Sudo := (\<lambda>a m s.
     if m \<in> (\<lambda>j. string_bytes (render (AccountSudoMsg_json j))) ` set js then (Ok None, s)
     else (Err (External ''unauthorized''), s))\<rparr>"

lemma answering_hosts:
  assumes "\<And>j. j \<in> set js \<Longrightarrow> \<exists>m. contract_sudo j = Some m
      \<and> (\<forall>w a st. contract w a = Some st \<longrightarrow> (\<exists>r. sudo (env a) st m = COk (r, st)))"
  shows "hosts contract env sudo (answering js)"
  unfolding hosts_def
proof (intro allI impI, elim conjE)
  fix addr st j d and s u :: "sample_world ctx"
  assume st: "contract (world s) addr = Some st"
    and run: "ck_Sudo (answering js) (Some addr) (string_bytes (render j)) s = (Ok d, u)"
  obtain m where "m \<in> set js" and j: "j = AccountSudoMsg_json m" and u: "u = s"
    using run by (auto simp: answering_def render_inject split: if_splits)
  then show "\<exists>m r st'. de_AccountSudoMsg j = Some m \<and> sudo (env addr) st m = COk (r, st')
      \<and> contract (world u) addr = Some st'"
    using assms [of m] st unfolding j u de_AccountSudoMsg_json by blast
qed

lemma answering_answers: "m \<in> set js \<Longrightarrow> hosts_answers contract env sudo g m (answering js)"
  by (auto simp: hosts_answers_def answering_def)

text \<open>The contract \<open>base\<close> at one address, in a module that knows one transaction.\<close>

definition host_store :: "sample_world \<Rightarrow> bytes \<Rightarrow> base_store option" where
  "host_store w a = (if a = string_bytes ''acc'' then Some \<lparr>contract_info = None, PUBKEY = Some [9]\<rparr> else None)"

definition host_anys :: "Any list" where
  "host_anys = [\<lparr>TypeURL = ''/cosmos.bank.v1beta1.MsgSend'', Value = Some [8, 1]\<rparr>]"

definition host_sudo_msg :: AccountSudoMsg where
  "host_sudo_msg = before_sudo host_anys [1, 2, 3] (Some [9]) False"

definition host_ck :: "sample_world ContractOpsKeeper" where
  "host_ck = answering [host_sudo_msg, after_sudo False]"

definition host_keeper :: "sample_world Keeper" where
  "host_keeper = sample_keeper\<lparr>ck := host_ck\<rparr>"

lemma host_cdc: "cdc host_keeper = cdc sample_keeper" "ck host_keeper = host_ck"
  by (simp_all add: host_keeper_def)

lemma host_messages:
  "contract_sudo host_sudo_msg = Some (SudoBeforeTx
      [\<lparr>type_url = ''/cosmos.bank.v1beta1.MsgSend'', any_value = [8, 1]\<rparr>] [1, 2, 3] (Some [9]) False)"
  "contract_sudo (after_sudo sim) = Some (SudoAfterTx sim)"
  by (simp_all add: contract_sudo_def contract_before_def contract_any_def host_sudo_msg_def
      before_sudo_def after_sudo_def host_anys_def)

lemma host_ck_hosts: "hosts host_store sample_envs (base_sudo open_api) host_ck"
  unfolding host_ck_def
  by (rule answering_hosts)
     (auto simp: host_messages host_store_def base_sudo_def base_before_tx_def open_api_def load_def split: if_splits)

theorem base_account_passes_iff_signed_witness:
  "(\<exists>t. BeforeTx_AnteHandle sample_sdk sample_co host_keeper sample_aa (\<lambda>tx sim. retM ())
      (sample_tx 4) False sample_aa_ctx = (Ok (), t))
   \<and> \<not> (\<exists>t. BeforeTx_AnteHandle sample_sdk sample_co host_keeper sample_aa (\<lambda>tx sim. retM ())
      (sample_tx 5) False sample_aa_ctx = (Ok (), t))"
proof -
  have st: "host_store (world sample_aa_ctx) (string_bytes ''acc'') = Some \<lparr>contract_info = None, PUBKEY = Some [9]\<rparr>"
    by (simp add: host_store_def)
  have p: "st_params (abs_state sample_sdk host_keeper sample_aa_ctx) = Some DefaultParams"
    by (simp add: abs_state_def store_Get_def sample_aa_ctx_def sample_ctx_def host_cdc)
       (simp add: sample_keeper_def sample_params)
  have answers: "hosts_answers host_store sample_envs (base_sudo open_api) (MaxGasBefore DefaultParams)
      (before_sudo host_anys [1, 2, 3] (Some [9]) False) (ck host_keeper)"
    unfolding host_cdc host_ck_def by (rule answering_answers) (simp add: host_sudo_msg_def)
  have iff: "(\<exists>t. BeforeTx_AnteHandle sample_sdk sample_co host_keeper sample_aa (\<lambda>tx sim. retM ())
      (sample_tx n) False sample_aa_ctx = (Ok (), t)) \<longleftrightarrow> n = 4" for n
    using base_account_passes_iff_signed [where contract = host_store and s = sample_aa_ctx
          and pk = "[9]" and tx = "sample_tx n" and mode = 1 and nxt = "\<lambda>tx sim. retM ()",
        OF host_ck_hosts [folded host_cdc] answers sample_co_ok(1) sample_is_aa
        sample_address [unfolded sample_addr_def] st] p
    by (simp add: sample_tx_def sample_sig_def sample_acc_def sample_aa_def NewAnyFromProtoMsg_def host_anys_def
        retM_def open_api_def)
  show ?thesis unfolding iff by simp
qed

end
