(* ===== verification/ContractApp.thy ===== *)
theory ContractApp
  imports ContractHost AppSpec
begin

text \<open>
  The application, the module and the contracts together: what a transaction needs that the
  ante handler of a started application lets through, when the account that signs it runs one
  of the contracts of the repository; and that the call after the transaction never stops it.
\<close>

subsection \<open>Through the decorators in front\<close>

text \<open>
  What the decorators in front of the module's own must leave alone: what the module's
  decorator reads, and the storage of the contract of the account that signs.  Fees, memos
  and gas they may handle as they like.
\<close>

definition hosted_view ::
  "Sdk \<Rightarrow> ('w \<Rightarrow> bytes \<Rightarrow> 'st option) \<Rightarrow> bytes \<Rightarrow> 'w Keeper \<Rightarrow> 'w AuthAnte \<Rightarrow> Tx \<Rightarrow> 'w ctx
     \<Rightarrow> ((AbstractAccount \<times> SignatureV2) option res \<times> Params option \<times> string) \<times> 'st option" where
  "hosted_view sdk contract addr k aa tx s = (gate_view sdk k aa tx s, contract (world s) addr)"

definition front_keeps_contract ::
  "Sdk \<Rightarrow> 'w CtxOps \<Rightarrow> ('w, 'b) AnteLib \<Rightarrow> ('w, 'b) AnteHandlerOptions \<Rightarrow> 'w AccountKeeper
     \<Rightarrow> SignModeHandler \<Rightarrow> ('w \<Rightarrow> bytes \<Rightarrow> 'st option) \<Rightarrow> bytes \<Rightarrow> Tx \<Rightarrow> bool" where
  "front_keeps_contract sdk co lib options a m contract addr tx \<longleftrightarrow>
     (\<forall>b w key. \<forall>d \<in> set (take 12 (ante_decorators sdk co lib options a b w m key)).
        hands_on (hosted_view sdk contract addr (AbstractAccountKeeper options) (auth_ante lib a m) tx) d)"

text \<open>The decorator of the module, in the application, runs on a context that differs from the
  one the handler was given in nothing that matters.\<close>

lemma app_handler_reaches:
  assumes "NewSimApp sdk co alib lib txt names logger db tr latest opts wo bo [] = (Ok app, calls)"
    and "h \<in> set (ante_handlers calls)" and "chains_ok alib"
    and "\<And>w key. front_keeps_contract sdk co alib (app_ante_options alib app (app_txConfig app) w key)
      (app_AccountKeeper app) (tc_SignModeHandler (app_txConfig app)) contract addr tx"
    and "h tx sim s = (Ok (), t)"
  obtains s0 where "chain_id s0 = chain_id s" and "contract (world s0) addr = contract (world s) addr"
    and "IsAbstractAccountTx (auth_ante alib (app_AccountKeeper app) (tc_SignModeHandler (app_txConfig app))) s0 tx
      = IsAbstractAccountTx (auth_ante alib (app_AccountKeeper app) (tc_SignModeHandler (app_txConfig app))) s tx"
    and "BeforeTx_AnteHandle sdk co (app_AbstractAccountKeeper app)
      (auth_ante alib (app_AccountKeeper app) (tc_SignModeHandler (app_txConfig app)))
      (NewIncrementSequenceDecorator alib (app_AccountKeeper app) (\<lambda>tx sim. retM ())) tx sim s0 = (Ok (), t)"
proof -
  let ?m = "tc_SignModeHandler (app_txConfig app)" and ?a = "app_AccountKeeper app"
  let ?k = "app_AbstractAccountKeeper app"
  let ?view = "hosted_view sdk contract addr ?k (auth_ante alib ?a ?m) tx"
  obtain w key where h: "NewAnteHandler sdk co alib (app_ante_options alib app (app_txConfig app) w key) = Ok h"
    using installed_ante_handler [OF assms(1,2)] .
  let ?o = "app_ante_options alib app (app_txConfig app) w key"
  have k: "ho_AccountKeeper ?o = Some ?a" "ho_SignModeHandler ?o = Some ?m" "AbstractAccountKeeper ?o = ?k"
    by (simp_all add: app_ante_options_def)
  have front: "hands_on ?view d" if "d \<in> set (take 12 (ante_decorators sdk co alib ?o ?a b w' ?m key'))" for d b w' key'
    using assms(4) [of w key] that unfolding front_keeps_contract_def k(3) by blast
  obtain s0 where "?view s0 = ?view s"
    and "BeforeTx_AnteHandle sdk co ?k (auth_ante alib ?a ?m)
      (NewIncrementSequenceDecorator alib ?a (\<lambda>tx sim. retM ())) tx sim s0 = (Ok (), t)"
    using ante_handler_reaches_view [OF assms(3) h k(1,2) front assms(5), unfolded k(3)] .
  then show thesis by (intro that) (simp_all add: hosted_view_def gate_view_def)
qed

lemma contract_msgs_urls:
  assumes "list_all2 (\<lambda>m a. NewAnyFromProtoMsg m = Ok a) sdk_msgs anys"
    and "those (map contract_any anys) = Some msgs"
  shows "map type_url msgs = map (\<lambda>m. ''/'' @ msg_name m) sdk_msgs"
  using assms
proof (induction sdk_msgs arbitrary: anys msgs)
  case (Cons m ms)
  then obtain a as where anys: "anys = a # as" and a: "NewAnyFromProtoMsg m = Ok a"
    and as: "list_all2 (\<lambda>m a. NewAnyFromProtoMsg m = Ok a) ms as"
    by (auto simp: list_all2_Cons1)
  obtain c cs where msgs: "msgs = c # cs" and c: "contract_any a = Some c"
    and cs: "those (map contract_any as) = Some cs"
    using Cons.prems(2) by (auto simp: anys split: option.splits)
  have "type_url c = ''/'' @ msg_name m"
    using a c by (auto simp: contract_any_def NewAnyFromProtoMsg_def bindR_Ok_iff)
  then show ?case using Cons.IH [OF as cs] by (simp add: msgs)
qed simp

subsection \<open>The gate of the application\<close>

text \<open>The ante handler that a started application installed lets a transaction of a hosted
  account pass only when the contract accepts it, in the storage the contract has when the
  handler is called; the sequence increment runs on the storage the contract left.\<close>

lemma app_handler_hosted:
  assumes "NewSimApp sdk co alib lib txt names logger db tr latest opts wo bo [] = (Ok app, calls)"
    and "h \<in> set (ante_handlers calls)" and "chains_ok alib"
    and "\<And>w key. front_keeps_contract sdk co alib (app_ante_options alib app (app_txConfig app) w key)
      (app_AccountKeeper app) (tc_SignModeHandler (app_txConfig app)) contract addr tx"
    and "hosts contract env sudo (ck (app_AbstractAccountKeeper app))" and "ctx_ops_ok co"
    and "IsAbstractAccountTx (auth_ante alib (app_AccountKeeper app)
      (tc_SignModeHandler (app_txConfig app))) s tx = Ok (Some (acc, sig))"
    and "GetAddress sdk acc = Some addr" and "contract (world s) addr = Some st"
    and "h tx sim s = (Ok (), t)"
  shows "\<exists>anys msgs mode signBytes cred r st' s2. sig_Sequence sig = Sequence acc
    \<and> list_all2 (\<lambda>m a. NewAnyFromProtoMsg m = Ok a) (GetMsgs tx) anys
    \<and> those (map contract_any anys) = Some msgs
    \<and> sig_Data sig = SingleSignatureData mode cred
    \<and> smh_GetSignBytes (tc_SignModeHandler (app_txConfig app)) mode
        \<lparr>sd_Address = AccAddress_String sdk (Some addr),
         sd_ChainID = chain_id s, sd_AccountNumber = AccountNumber acc,
         sd_Sequence = Sequence acc, sd_PubKey = Some (NilPK \<lparr>AddressBytes = Some addr\<rparr>)\<rparr> tx
        = Ok (Some signBytes)
    \<and> sudo (env addr) st (SudoBeforeTx msgs signBytes (norm_slice cred) sim) = COk (r, st')
    \<and> contract (world s2) addr = Some st'
    \<and> NewIncrementSequenceDecorator alib (app_AccountKeeper app) (\<lambda>tx sim. retM ()) tx sim s2 = (Ok (), t)"
proof -
  let ?aa = "auth_ante alib (app_AccountKeeper app) (tc_SignModeHandler (app_txConfig app))"
  obtain s0 where c: "chain_id s0 = chain_id s" and st: "contract (world s0) addr = contract (world s) addr"
    and aa: "IsAbstractAccountTx ?aa s0 tx = IsAbstractAccountTx ?aa s tx"
    and run: "BeforeTx_AnteHandle sdk co (app_AbstractAccountKeeper app) ?aa
      (NewIncrementSequenceDecorator alib (app_AccountKeeper app) (\<lambda>tx sim. retM ())) tx sim s0 = (Ok (), t)"
    using app_handler_reaches [OF assms(1-4,10)] .
  have g: "GetSignBytes ?aa = smh_GetSignBytes (tc_SignModeHandler (app_txConfig app))"
    by (simp add: auth_ante_def)
  show ?thesis
    using BeforeTx_hosted [OF assms(5,6) aa [unfolded assms(7)] run assms(8) st [unfolded assms(9)]]
    unfolding g c .
qed

context account_contract
begin

text \<open>For an account contract, then, only when the transaction is authorised.\<close>

lemma app_gate:
  assumes "NewSimApp sdk co alib lib txt names logger db tr latest opts wo bo [] = (Ok app, calls)"
    and "h \<in> set (ante_handlers calls)" and "chains_ok alib"
    and "\<And>w key. front_keeps_contract sdk co alib (app_ante_options alib app (app_txConfig app) w key)
      (app_AccountKeeper app) (tc_SignModeHandler (app_txConfig app)) contract addr tx"
    and "hosts contract env sudo (ck (app_AbstractAccountKeeper app))" and "ctx_ops_ok co"
    and "IsAbstractAccountTx (auth_ante alib (app_AccountKeeper app)
      (tc_SignModeHandler (app_txConfig app))) s tx = Ok (Some (acc, sig))"
    and "GetAddress sdk acc = Some addr" and "contract (world s) addr = Some st"
    and "h tx False s = (Ok (), t)"
  shows "\<exists>anys msgs mode signBytes cred. sig_Sequence sig = Sequence acc
    \<and> list_all2 (\<lambda>m a. NewAnyFromProtoMsg m = Ok a) (GetMsgs tx) anys
    \<and> those (map contract_any anys) = Some msgs
    \<and> sig_Data sig = SingleSignatureData mode cred
    \<and> smh_GetSignBytes (tc_SignModeHandler (app_txConfig app)) mode
        \<lparr>sd_Address = AccAddress_String sdk (Some addr),
         sd_ChainID = chain_id s, sd_AccountNumber = AccountNumber acc,
         sd_Sequence = Sequence acc, sd_PubKey = Some (NilPK \<lparr>AddressBytes = Some addr\<rparr>)\<rparr> tx
        = Ok (Some signBytes)
    \<and> authorised (env addr) st msgs signBytes (norm_slice cred)"
  using app_handler_hosted [OF assms] before_authorised by blast

text \<open>And the call after a transaction of such an account, with enough gas, stops nothing.\<close>

lemma after_passes:
  assumes "hosts contract env sudo (ck k)" and "ctx_ops_ok co"
    and "hosts_answers contract env sudo (MaxGasAfter p) (after_sudo sim) (ck k)"
    and "st_params (abs_state sdk k s) = Some p"
    and "st_signer (abs_state sdk k s) = Some addr" and "contract (world s) addr = Some st"
  shows "\<exists>t. contract (world t) addr = Some st \<and> AfterTx_PostHandle co k nxt tx sim success s = nxt tx sim success t"
proof -
  obtain s1 where s1: "DeleteSignerAddress s = (Ok (), s1)"
    and abs: "abs_state sdk k s1 = (abs_state sdk k s)\<lparr>st_signer := None\<rparr>" and out: "same_outside s s1"
    using DeleteSignerAddress_run by blast
  have p: "GetParams k s1 = (Ok p, s1)" using assms(4) abs by (simp add: GetParams_Ok_iff [of _ _ _ _ sdk])
  have st: "contract (world s1) addr = Some st" using assms(6) out by (simp add: same_outside_def)
  obtain r where "sudo (env addr) st (SudoAfterTx sim) = COk (r, st)" using after_keeps by blast
  then obtain t where t: "sudoWithGasLimit co (ck k) (Some addr) (after_tx_msg sim) (MaxGasAfter p) s1 = (Ok (), t)"
    using hosts_answers_sudo [OF assms(3,2) st host_messages(2)]
    unfolding after_tx_msg_def after_sudo_def by blast
  show ?thesis
    using after_call [OF assms(1,2) st t] t s1 p
    by (auto simp: AfterTx_run [where sdk = sdk] assms(5) monad_simps bindM_OkI)
qed

end

subsection \<open>The accounts of the repository\<close>

text \<open>C5: From the started application down to the key: when the account that signs a
  transaction runs the contract \<open>base\<close> or \<open>updatable\<close> and an ante handler that \<open>NewSimApp\<close>
  installed lets the transaction pass outside simulation, then the signature field of the
  transaction holds a signature that verifies, under the key in the storage of the contract,
  over the hash of the bytes that the sign mode handler of the application makes of this
  transaction for this chain, account number and sequence.\<close>

theorem app_base_account_needs_signature:
  assumes "NewSimApp sdk co alib lib txt names logger db tr latest opts wo bo [] = (Ok app, calls)"
    and "h \<in> set (ante_handlers calls)" and "chains_ok alib"
    and "\<And>w key. front_keeps_contract sdk co alib (app_ante_options alib app (app_txConfig app) w key)
      (app_AccountKeeper app) (tc_SignModeHandler (app_txConfig app)) contract addr tx"
    and "hosts contract env sudo (ck (app_AbstractAccountKeeper app))"
    and "sudo = base_sudo api \<or> sudo = updatable_sudo api" and "ctx_ops_ok co"
    and "IsAbstractAccountTx (auth_ante alib (app_AccountKeeper app)
      (tc_SignModeHandler (app_txConfig app))) s tx = Ok (Some (acc, sig))"
    and "GetAddress sdk acc = Some addr" and "contract (world s) addr = Some st"
    and "h tx False s = (Ok (), t)"
  shows "\<exists>pk mode signBytes cred. PUBKEY st = Some pk
    \<and> sig_Sequence sig = Sequence acc \<and> sig_Data sig = SingleSignatureData mode (Some cred)
    \<and> smh_GetSignBytes (tc_SignModeHandler (app_txConfig app)) mode
        \<lparr>sd_Address = AccAddress_String sdk (Some addr),
         sd_ChainID = chain_id s, sd_AccountNumber = AccountNumber acc,
         sd_Sequence = Sequence acc, sd_PubKey = Some (NilPK \<lparr>AddressBytes = Some addr\<rparr>)\<rparr> tx
        = Ok (Some signBytes)
    \<and> secp256k1_verify api (sha256 api signBytes) cred pk = COk True"
proof -
  have host: "hosts contract env (base_sudo api) (ck (app_AbstractAccountKeeper app))"
    using assms(5,6) by (auto simp: updatable_sudo_base)
  show ?thesis
    using base.app_gate [OF assms(1-4) host assms(7-11)] norm_slice_Some by (fastforce simp: base_authorised_def)
qed

text \<open>C6: And for an account with grants, whatever has happened in its life: when an ante
  handler of the started application lets a transaction of the account pass outside
  simulation, the transaction carries a valid signature over the sign bytes of the
  application, either of the key the account was created with, or of a key to which the
  account itself granted the type of every message the application will run, by a call it
  has not superseded or revoked since, with no expiration that has passed in this block.\<close>

theorem app_granter_account_needs_grant:
  assumes "NewSimApp sdk co alib lib txt names logger db tr latest opts wo bo [] = (Ok app, calls)"
    and "h \<in> set (ante_handlers calls)" and "chains_ok alib"
    and "\<And>w key. front_keeps_contract sdk co alib (app_ante_options alib app (app_txConfig app) w key)
      (app_AccountKeeper app) (tc_SignModeHandler (app_txConfig app)) contract addr tx"
    and "hosts contract env (granter_sudo glib api) (ck (app_AbstractAccountKeeper app))" and "ctx_ops_ok co"
    and "granter_instantiate st0 env0 info \<lparr>bi_pubkey = pk\<rparr> = COk (r0, st1)" and "GRANTS st0 = []"
    and "runs (granter_step glib api) st1 ls st"
    and "IsAbstractAccountTx (auth_ante alib (app_AccountKeeper app)
      (tc_SignModeHandler (app_txConfig app))) s tx = Ok (Some (acc, sig))"
    and "GetAddress sdk acc = Some addr" and "contract (world s) addr = Some st"
    and "h tx False s = (Ok (), t)"
  shows "\<exists>k mode signBytes cred. sig_Data sig = SingleSignatureData mode cred
    \<and> smh_GetSignBytes (tc_SignModeHandler (app_txConfig app)) mode
        \<lparr>sd_Address = AccAddress_String sdk (Some addr),
         sd_ChainID = chain_id s, sd_AccountNumber = AccountNumber acc,
         sd_Sequence = Sequence acc, sd_PubKey = Some (NilPK \<lparr>AddressBytes = Some addr\<rparr>)\<rparr> tx
        = Ok (Some signBytes)
    \<and> key_signed api signBytes (norm_slice cred) k
    \<and> list_all account_call ls
    \<and> (k = pk \<or> (\<forall>m \<in> set (GetMsgs tx). \<exists>g. granted (rev ls) (''/'' @ msg_name m, k) = Some g
        \<and> unexpired glib (env_block (env addr)) g))"
proof -
  note life = granter_run_state [OF assms(9) granter_start(1) [OF assms(7,8)]]
  then have st: "PUBKEY st = Some pk" "map_of (GRANTS st) = granted (rev ls)" by (simp_all add: granter_state_def)
  obtain anys msgs mode signBytes cred where
    msgs: "list_all2 (\<lambda>m a. NewAnyFromProtoMsg m = Ok a) (GetMsgs tx) anys" "those (map contract_any anys) = Some msgs"
    and out: "sig_Data sig = SingleSignatureData mode cred"
      "smh_GetSignBytes (tc_SignModeHandler (app_txConfig app)) mode
        \<lparr>sd_Address = AccAddress_String sdk (Some addr),
         sd_ChainID = chain_id s, sd_AccountNumber = AccountNumber acc,
         sd_Sequence = Sequence acc, sd_PubKey = Some (NilPK \<lparr>AddressBytes = Some addr\<rparr>)\<rparr> tx
        = Ok (Some signBytes)"
    and auth: "granter_authorised glib api (env addr) st msgs signBytes (norm_slice cred)"
    using granter.app_gate [OF assms(1-6,10-13)] by blast
  obtain k where k: "key_signed api signBytes (norm_slice cred) k"
    and may: "may_sign glib (env_block (env addr)) (Some pk) (granted (rev ls)) msgs k"
    using auth by (auto simp: granter_authorised_def st)
  have "(\<forall>u \<in> set (map type_url msgs). P u) \<longleftrightarrow> (\<forall>m \<in> set (GetMsgs tx). P (''/'' @ msg_name m))" for P
    unfolding contract_msgs_urls [OF msgs] by simp
  from this [of "\<lambda>u. \<exists>g. granted (rev ls) (u, k) = Some g \<and> unexpired glib (env_block (env addr)) g"] may
  have "k = pk \<or> (\<forall>m \<in> set (GetMsgs tx). \<exists>g. granted (rev ls) (''/'' @ msg_name m, k) = Some g
        \<and> unexpired glib (env_block (env addr)) g)"
    by (auto simp: may_sign_def)
  with out k life show ?thesis by blast
qed

text \<open>C7: An account with one-time passwords makes at most one transaction in a block: once
  an ante handler of the started application has let a transaction of the account pass,
  which takes two valid signatures, one over the transaction and one over the time window
  of the block, no transaction of the account passes in the same block any more, simulated
  ones included.\<close>

theorem app_totp_account_once_per_block:
  assumes "NewSimApp sdk co alib lib txt names logger db tr latest opts wo bo [] = (Ok app, calls)"
    and "h \<in> set (ante_handlers calls)" and "chains_ok alib"
    and "\<And>w key tx. front_keeps_contract sdk co alib (app_ante_options alib app (app_txConfig app) w key)
      (app_AccountKeeper app) (tc_SignModeHandler (app_txConfig app)) contract addr tx"
    and "hosts contract env (totp_sudo sd api) (ck (app_AbstractAccountKeeper app))" and "ctx_ops_ok co"
    and "\<And>tx sim v w. NewIncrementSequenceDecorator alib (app_AccountKeeper app) (\<lambda>tx sim. retM ()) tx sim v = (Ok (), w)
      \<Longrightarrow> contract (world w) addr = contract (world v) addr"
    and "IsAbstractAccountTx (auth_ante alib (app_AccountKeeper app)
      (tc_SignModeHandler (app_txConfig app))) s tx = Ok (Some (acc, sig))"
    and "GetAddress sdk acc = Some addr" and "contract (world s) addr = Some st"
    and "h tx False s = (Ok (), t)"
    and "contract (world u) addr = contract (world t) addr"
    and "IsAbstractAccountTx (auth_ante alib (app_AccountKeeper app)
      (tc_SignModeHandler (app_txConfig app))) u tx' = Ok (Some (acc', sig'))"
    and "GetAddress sdk acc' = Some addr"
  shows "(\<exists>cfg mode signBytes cred. CONFIG st = Some cfg \<and> sig_Data sig = SingleSignatureData mode cred
      \<and> smh_GetSignBytes (tc_SignModeHandler (app_txConfig app)) mode
        \<lparr>sd_Address = AccAddress_String sdk (Some addr),
         sd_ChainID = chain_id s, sd_AccountNumber = AccountNumber acc,
         sd_Sequence = Sequence acc, sd_PubKey = Some (NilPK \<lparr>AddressBytes = Some addr\<rparr>)\<rparr> tx
        = Ok (Some signBytes)
      \<and> both_signed sd api cfg (env addr) signBytes (norm_slice cred))
    \<and> (\<nexists>t'. h tx' sim u = (Ok (), t'))"
proof -
  obtain msgs mode signBytes cred r st' s2 where out: "sig_Data sig = SingleSignatureData mode cred"
      "smh_GetSignBytes (tc_SignModeHandler (app_txConfig app)) mode
        \<lparr>sd_Address = AccAddress_String sdk (Some addr),
         sd_ChainID = chain_id s, sd_AccountNumber = AccountNumber acc,
         sd_Sequence = Sequence acc, sd_PubKey = Some (NilPK \<lparr>AddressBytes = Some addr\<rparr>)\<rparr> tx
        = Ok (Some signBytes)"
    and sudo: "totp_sudo sd api (env addr) st (SudoBeforeTx msgs signBytes (norm_slice cred) False) = COk (r, st')"
    and st': "contract (world s2) addr = Some st'"
    and inc: "NewIncrementSequenceDecorator alib (app_AccountKeeper app) (\<lambda>tx sim. retM ()) tx False s2 = (Ok (), t)"
    using app_handler_hosted [OF assms(1-6,8-11)] by blast
  obtain cfg where cfg: "CONFIG st = Some cfg" "both_signed sd api cfg (env addr) signBytes (norm_slice cred)"
    and next_store: "st' = st\<lparr>PREV_COUNT := Some (otp_window cfg (env addr))\<rparr>"
    using sudo by (auto simp: totp_sudo_def totp_before_tx_COk)
  have u: "contract (world u) addr = Some st'" using assms(7) [OF inc] assms(12) st' by simp
  have "h tx' sim u \<noteq> (Ok (), t')" for t'
  proof
    assume "h tx' sim u = (Ok (), t')"
    from app_handler_hosted [OF assms(1-6,13,14) u this]
    show False by (auto simp: totp_sudo_def totp_before_tx_COk next_store cfg(1))
  qed
  then show ?thesis using out cfg by blast
qed

text \<open>What it is that the call after a transaction never stops an account: when the contract
  is given enough gas, the call changes nothing in its storage, and the rest of the
  transaction goes on.\<close>

definition after_never_stops ::
  "Sdk \<Rightarrow> 'w CtxOps \<Rightarrow> 'w Keeper \<Rightarrow> (bytes \<Rightarrow> Env) \<Rightarrow> ('w \<Rightarrow> bytes \<Rightarrow> 'st option)
   \<Rightarrow> (Env \<Rightarrow> 'st \<Rightarrow> ContractSudoMsg \<Rightarrow> ('e, Response \<times> 'st) cres) \<Rightarrow> bool" where
  "after_never_stops sdk co k env contract sudo \<longleftrightarrow> (\<forall>s p addr st nxt tx sim success.
     hosts_answers contract env sudo (MaxGasAfter p) (after_sudo sim) (ck k)
     \<and> st_params (abs_state sdk k s) = Some p \<and> st_signer (abs_state sdk k s) = Some addr
     \<and> contract (world s) addr = Some st
     \<longrightarrow> (\<exists>t. contract (world t) addr = Some st
           \<and> AfterTx_PostHandle co k nxt tx sim success s = nxt tx sim success t))"

text \<open>C9: The call after a transaction never stops an account of the repository.  Whichever of
  the five contracts the account runs, if the module gives its \<open>after_tx\<close> enough gas, then
  for every state, transaction, outcome and next handler the post handler goes on as if the
  call had not been made, on a state where the storage of the contract is as it was.\<close>

theorem account_contracts_never_stop_after:
  assumes "ctx_ops_ok co"
  shows "(hosts c1 env (base_sudo api) (ck k) \<longrightarrow> after_never_stops sdk co k env c1 (base_sudo api))
    \<and> (hosts c1 env (updatable_sudo api) (ck k) \<longrightarrow> after_never_stops sdk co k env c1 (updatable_sudo api))
    \<and> (hosts c2 env (eth_sudo api) (ck k) \<longrightarrow> after_never_stops sdk co k env c2 (eth_sudo api))
    \<and> (hosts c3 env (totp_sudo doc api) (ck k) \<longrightarrow> after_never_stops sdk co k env c3 (totp_sudo doc api))
    \<and> (hosts c4 env (granter_sudo glib api) (ck k) \<longrightarrow> after_never_stops sdk co k env c4 (granter_sudo glib api))"
  unfolding after_never_stops_def
  by (intro conjI impI allI; elim conjE;
      rule base.after_passes [OF _ assms] updatable.after_passes [OF _ assms] eth.after_passes [OF _ assms]
        totp.after_passes [OF _ assms] granter.after_passes [OF _ assms]; assumption)

subsection \<open>Sample applications\<close>

text \<open>The sample application over a wasm module of choice.\<close>

definition hosting_lib :: "sample_world ContractOpsKeeper \<Rightarrow> (sample_world, unit, unit, unit, unit, unit, unit) AppLib" where
  "hosting_lib c = sample_app_lib\<lparr>NewGovPermissionKeeper := (\<lambda>v. c)\<rparr>"

definition hosting_keeper :: "sample_world ContractOpsKeeper \<Rightarrow> sample_world Keeper" where
  "hosting_keeper c = sample_keeper\<lparr>ck := c, authority := Authority\<rparr>"

definition hosting_app :: "sample_world ContractOpsKeeper \<Rightarrow> (sample_world, unit, unit, unit, unit, unit) SimApp" where
  "hosting_app c = sample_app\<lparr>app_AbstractAccountKeeper := hosting_keeper c,
     app_ModuleManager := simapp_ModuleManager sample_names sample_app_codec (hosting_keeper c) sample_ak () () ()\<rparr>"

definition hosting_start where
  "hosting_start c = NewSimApp sample_sdk sample_co sample_ante_lib (hosting_lib c) (\<lambda>e. []) sample_names
     ''log'' ''db'' None False sample_opts [] [] []"

lemma hosting_built:
  "built_app sample_sdk (hosting_lib c) sample_names dir w caps [] = Ok (hosting_app c)"
  by (simp add: built_app_def Let_def MakeEncodingConfig_def MakeTestEncodingConfig_def NewKeeper_def
      sample_app_codec_def sample_keeper_def sample_app_def sample_app_lib_def sample_names_def hosting_lib_def
      hosting_app_def hosting_keeper_def)

lemma hosting_fields:
  "tc_SignModeHandler (app_txConfig (hosting_app c)) = sample_modes" "app_AccountKeeper (hosting_app c) = sample_ak"
  "app_AbstractAccountKeeper (hosting_app c) = hosting_keeper c" "ck (hosting_keeper c) = c"
  "AbstractAccountKeeper (app_ante_options alib (hosting_app c) tc w key) = hosting_keeper c"
  by (simp_all add: hosting_app_def hosting_keeper_def sample_app_def sample_tx_config_def app_ante_options_def)

text \<open>Its ante handler: the decorators in front set a gas meter, then comes the module's.\<close>

definition hosting_handler :: "sample_world ContractOpsKeeper \<Rightarrow> sample_world AnteHandler" where
  "hosting_handler c = (\<lambda>tx sim s. BeforeTx_AnteHandle sample_sdk sample_co (hosting_keeper c) sample_aa
     (\<lambda>tx sim. retM ()) tx sim (s\<lparr>meter := NewGasMeter 1000\<rparr>))"

lemma hosting_new_handler:
  "NewAnteHandler sample_sdk sample_co sample_ante_lib
    (app_ante_options sample_ante_lib (hosting_app c) (app_txConfig (hosting_app c)) w (Some key)) = Ok (hosting_handler c)"
  by (simp add: app_ante_options_def hosting_app_def sample_app_def sample_tx_config_def NewAnteHandler_def
      ante_decorators_def BeforeTxDecorator_AnteHandle_def NewBeforeTxDecorator_def sample_auth_ante hosting_handler_def)
     (simp add: sample_ante_lib_def pass_all_def)

lemma hosting_front:
  "front_keeps_contract sample_sdk sample_co sample_ante_lib
    (app_ante_options sample_ante_lib (hosting_app c) (app_txConfig (hosting_app c)) w key)
    (app_AccountKeeper (hosting_app c)) (tc_SignModeHandler (app_txConfig (hosting_app c))) contract addr tx"
proof -
  have front: "hands_on (hosted_view sample_sdk contract addr (hosting_keeper c) sample_aa tx)
      (\<lambda>nxt tx sim s. nxt tx sim (s\<lparr>meter := g\<rparr>))" for g
    unfolding hands_on_def
    by (intro allI impI exI conjI)
       (auto simp: hosted_view_def gate_view_def abs_state_def store_Get_def sample_meter)
  show ?thesis
    unfolding front_keeps_contract_def hosting_fields sample_auth_ante
    by (auto simp: ante_decorators_def sample_ante_lib_def hands_on_pass_all front)
qed

lemma hosting_start_Ok:
  "\<exists>calls. hosting_start c = (Ok (hosting_app c), calls) \<and> ante_handlers calls = [hosting_handler c]"
proof -
  have key: "app_keys (hosting_app c) (wasm_StoreKey sample_names) = Some ''wasm''"
    by (simp add: hosting_app_def sample_app_def sample_app_lib_def sample_names_def)
  have "wasmParams (\<lambda>e. []) sample_opts = Ok (filepath_Join [''/home/a'', ''wasm''],
      \<lparr>SimulationGasLimit = None\<rparr>, ''iterator,staking,stargate,cosmwasm_1_1,cosmwasm_1_2'')"
    by (simp add: wasmParams_def sample_opts_def)
  moreover have "ec_TxConfig (MakeEncodingConfig (hosting_lib c)) r = app_txConfig (hosting_app c)" for r
    by (simp add: MakeEncodingConfig_def MakeTestEncodingConfig_def sample_app_def
        sample_app_lib_def hosting_lib_def hosting_app_def)
  moreover have "register_snapshotter (hosting_lib c) txt v calls = (Ok (), calls @ [RegisterSnapshotter v])"
    for "txt" v calls
    by (simp add: register_snapshotter_def monad_simps hosting_lib_def sample_app_lib_def)
  ultimately have "\<exists>calls. hosting_start c = (Ok (hosting_app c), calls)"
    by (simp add: hosting_start_def NewSimApp_def Let_def bind_base bindM_simps hosting_built key hosting_new_handler
        setAnteHandler_run setPostHandler_run bindM_OkI retM_def)
  then obtain calls where run: "hosting_start c = (Ok (hosting_app c), calls)" by blast
  have "ante_handlers calls = [hosting_handler c]"
    using run [unfolded hosting_start_def]
    by (rule NewSimApp_Ok) (simp add: key hosting_new_handler setup_handlers)
  with run show ?thesis by blast
qed

text \<open>A transaction passes when the contract that the module runs accepts it.\<close>

lemma sample_any_meter:
  "IsAbstractAccountTx sample_aa (sample_aa_ctx\<lparr>meter := g\<rparr>) (sample_tx n) = Ok (Some (sample_acc, sample_sig n))"
  by (simp only: sample_meter sample_is_aa)

lemma hosting_params:
  "st_params (abs_state sample_sdk (hosting_keeper c) (sample_aa_ctx\<lparr>meter := g\<rparr>)) = Some DefaultParams"
  by (simp add: abs_state_def store_Get_def sample_aa_ctx_def sample_ctx_def hosting_keeper_def)
     (simp add: sample_keeper_def sample_params)

lemma hosting_passes:
  assumes "hosts contract env sudo c" and "hosts_answers contract env sudo (MaxGasBefore DefaultParams) host_sudo_msg c"
    and "contract (world sample_aa_ctx) (string_bytes ''acc'') = Some st"
    and "sudo (env (string_bytes ''acc'')) st (SudoBeforeTx
      [\<lparr>type_url = ''/cosmos.bank.v1beta1.MsgSend'', any_value = [8, 1]\<rparr>] [1, 2, 3] (Some [9]) False) = COk (r, st')"
  shows "\<exists>t. hosting_handler c (sample_tx 4) False sample_aa_ctx = (Ok (), t)"
  unfolding hosting_handler_def
proof (rule passes_iff_accepts [THEN iffD2])
  show "hosts contract env sudo (ck (hosting_keeper c))" using assms(1) by (simp add: hosting_fields)
  show "hosts_answers contract env sudo (MaxGasBefore DefaultParams) (before_sudo host_anys [1, 2, 3] (Some [9]) False)
      (ck (hosting_keeper c))" using assms(2) by (simp add: hosting_fields host_sudo_msg_def)
  show "ctx_ops_ok sample_co" by (rule sample_co_ok(1))
  show "IsAbstractAccountTx sample_aa (sample_aa_ctx\<lparr>meter := NewGasMeter 1000\<rparr>) (sample_tx 4)
      = Ok (Some (sample_acc, sample_sig 4))" by (rule sample_any_meter)
  show "GetAddress sample_sdk sample_acc = Some (string_bytes ''acc'')" by (simp add: sample_address sample_addr_def)
  show "contract (world (sample_aa_ctx\<lparr>meter := NewGasMeter 1000\<rparr>)) (string_bytes ''acc'') = Some st"
    using assms(3) by simp
  show "st_params (abs_state sample_sdk (hosting_keeper c) (sample_aa_ctx\<lparr>meter := NewGasMeter 1000\<rparr>)) = Some DefaultParams"
    by (rule hosting_params)
  show "list_all2 (\<lambda>m a. NewAnyFromProtoMsg m = Ok a) (GetMsgs (sample_tx 4)) host_anys"
    by (simp add: sample_tx_def NewAnyFromProtoMsg_def host_anys_def)
  show "those (map contract_any host_anys) = Some [\<lparr>type_url = ''/cosmos.bank.v1beta1.MsgSend'', any_value = [8, 1]\<rparr>]"
    by (simp add: host_anys_def contract_any_def)
  show "sig_Data (sample_sig 4) = SingleSignatureData 1 (Some [9])" by (simp add: sample_sig_def)
  show "sig_Sequence (sample_sig 4) = Sequence sample_acc
      \<and> (\<exists>r st'. sudo (env (string_bytes ''acc'')) st (SudoBeforeTx
        [\<lparr>type_url = ''/cosmos.bank.v1beta1.MsgSend'', any_value = [8, 1]\<rparr>] [1, 2, 3] (norm_slice (Some [9])) False) = COk (r, st'))"
    using assms(4) by (simp add: sample_sig_def sample_acc_def)
qed (simp_all add: sample_aa_def retM_def)

lemma hosting_is_aa:
  "IsAbstractAccountTx (auth_ante sample_ante_lib (app_AccountKeeper (hosting_app c))
      (tc_SignModeHandler (app_txConfig (hosting_app c)))) sample_aa_ctx (sample_tx n) = Ok (Some (sample_acc, sample_sig n))"
  "smh_GetSignBytes (tc_SignModeHandler (app_txConfig (hosting_app c))) mode sd tx = Ok (Some [1, 2, 3])"
  by (simp_all add: hosting_fields sample_auth_ante sample_is_aa) (simp add: sample_modes_def sample_aa_def)

theorem app_base_account_needs_signature_witness:
  "\<exists>calls h t. hosting_start host_ck = (Ok (hosting_app host_ck), calls) \<and> ante_handlers calls = [h]
    \<and> h (sample_tx 4) False sample_aa_ctx = (Ok (), t)
    \<and> secp256k1_verify open_api (sha256 open_api [1, 2, 3]) [9] [9] = COk True"
proof -
  let ?c = host_ck
  obtain calls where run: "hosting_start ?c = (Ok (hosting_app ?c), calls)" and h: "ante_handlers calls = [hosting_handler ?c]"
    using hosting_start_Ok by blast
  have st: "host_store (world sample_aa_ctx) (string_bytes ''acc'') = Some \<lparr>contract_info = None, PUBKEY = Some [9]\<rparr>"
    by (simp add: host_store_def)
  have ans: "hosts_answers host_store sample_envs (base_sudo open_api) (MaxGasBefore DefaultParams) host_sudo_msg ?c"
    unfolding host_ck_def by (rule answering_answers) simp
  have "base_sudo open_api e \<lparr>contract_info = None, PUBKEY = Some [9]\<rparr> (SudoBeforeTx m tx (Some [9]) False)
      = COk ([(''method'', ''before_tx'')], \<lparr>contract_info = None, PUBKEY = Some [9]\<rparr>)" for e m tx
    by (simp add: base_sudo_def base_before_tx_def open_api_def load_def)
  from hosting_passes [OF host_ck_hosts ans st this]
  obtain t where t: "hosting_handler ?c (sample_tx 4) False sample_aa_ctx = (Ok (), t)" by blast
  have mem: "hosting_handler ?c \<in> set (ante_handlers calls)" by (simp add: h)
  have host: "hosts host_store sample_envs (base_sudo open_api) (ck (app_AbstractAccountKeeper (hosting_app ?c)))"
    unfolding hosting_fields by (rule host_ck_hosts)
  from app_base_account_needs_signature [OF run [unfolded hosting_start_def] mem sample_chains_ok hosting_front
      host disjI1 [OF refl] sample_co_ok(1) hosting_is_aa(1) sample_address [unfolded sample_addr_def] st t]
  have "secp256k1_verify open_api (sha256 open_api [1, 2, 3]) [9] [9] = COk True"
    by (auto simp: hosting_is_aa(2) sample_sig_def)
  with run h t show ?thesis by blast
qed

theorem account_contracts_never_stop_after_witness:
  "\<exists>s t. st_signer (abs_state sample_sdk host_keeper s) = Some (string_bytes ''acc'')
    \<and> AfterTx_PostHandle sample_co host_keeper (\<lambda>tx sim success. retM ()) (sample_tx 4) False True s = (Ok (), t)
    \<and> host_store (world t) (string_bytes ''acc'') = Some \<lparr>contract_info = None, PUBKEY = Some [9]\<rparr>"
proof -
  let ?a = "string_bytes ''acc''" and ?st = "\<lparr>contract_info = None, PUBKEY = Some [9 :: byte]\<rparr>"
  obtain s where abs: "abs_state sample_sdk host_keeper s
      = (abs_state sample_sdk host_keeper sample_aa_ctx)\<lparr>st_signer := Some ?a\<rparr>"
    using SetSignerAddress_Some [of ?a sample_aa_ctx sample_sdk host_keeper] by blast
  have "st_params (abs_state sample_sdk host_keeper sample_aa_ctx) = Some DefaultParams"
    by (simp add: abs_state_def store_Get_def sample_aa_ctx_def sample_ctx_def host_cdc)
       (simp add: sample_keeper_def sample_params)
  then have p: "st_params (abs_state sample_sdk host_keeper s) = Some DefaultParams"
    and signer: "st_signer (abs_state sample_sdk host_keeper s) = Some ?a" using abs by simp_all
  have st: "host_store (world s) ?a = Some ?st" by (simp add: host_store_def)
  have answers: "hosts_answers host_store sample_envs (base_sudo open_api) (MaxGasAfter DefaultParams)
      (after_sudo False) (ck host_keeper)"
    unfolding host_cdc host_ck_def by (rule answering_answers) simp
  have "after_never_stops sample_sdk sample_co host_keeper sample_envs host_store (base_sudo open_api)"
    using account_contracts_never_stop_after [OF sample_co_ok(1), of host_store sample_envs open_api host_keeper sample_sdk]
      host_ck_hosts [folded host_cdc] by blast
  then obtain t where "host_store (world t) ?a = Some ?st"
    and "AfterTx_PostHandle sample_co host_keeper (\<lambda>tx sim success. retM ()) (sample_tx 4) False True s = retM () t"
    using answers p signer st unfolding after_never_stops_def by blast
  with signer show ?thesis by (auto simp: retM_def)
qed

text \<open>An account with grants: its key is \<open>[1]\<close>, and it has granted sends to the key \<open>[2]\<close>.\<close>

definition send_url :: string where
  "send_url = ''/cosmos.bank.v1beta1.MsgSend''"

definition send_grant :: "u64 granter_call list" where
  "send_grant = [GrExecute (sample_env 0) \<lparr>info_sender = ''aa''\<rparr> (MsgGrant send_url [2] (Some 5))]"

definition grant_store :: "sample_world \<Rightarrow> bytes \<Rightarrow> u64 granter_store option" where
  "grant_store w a = (if a = string_bytes ''acc'' then Some (sample_granter [((send_url, [2]), \<lparr>expiry = Some 5\<rparr>)]) else None)"

lemma send_grant_run:
  "runs (granter_step sample_lib granter_api) (sample_granter []) send_grant
     (sample_granter [((send_url, [2]), \<lparr>expiry = Some 5\<rparr>)])"
proof -
  have "granter_step sample_lib granter_api (sample_granter [])
      (GrExecute (sample_env 0) \<lparr>info_sender = ''aa''\<rparr> (MsgGrant send_url [2] (Some 5)))
      (sample_granter [((send_url, [2]), \<lparr>expiry = Some 5\<rparr>)])"
    by (simp add: granter_execute_def granter_grant_def assert_self_def sample_env_def sample_granter_def sample_lib_def
        word_le_nat_alt)
  then show ?thesis
    using runs.Snoc [of "granter_step sample_lib granter_api" "sample_granter []" "[]" "sample_granter []"]
    by (simp add: send_grant_def runs.Nil)
qed

lemma granter_accepts_send:
  "\<exists>r. granter_sudo sample_lib granter_api (sample_envs a) (sample_granter [((send_url, [2]), \<lparr>expiry = Some 5\<rparr>)])
    (SudoBeforeTx [\<lparr>type_url = send_url, any_value = [8, 1]\<rparr>] [1, 2, 3] (Some [9]) False)
    = COk (r, sample_granter [((send_url, [2]), \<lparr>expiry = Some 5\<rparr>)])"
proof -
  have "de_GranterCredential (JObject [(''pubkey'', json_bytes (Some [2])), (''signature'', json_bytes (Some [2]))])
      = Some \<lparr>gc_pubkey = [2], gc_signature = Some [2]\<rparr>"
    using de_Binary_bytes [of "Some [2]"]
    by (simp add: de_GranterCredential_def de_field_def de_optional_def json_bytes_def)
  then show ?thesis
    by (simp add: granter_sudo_def granter_before_tx_def sample_granter_def granter_api_def open_api_def load_def
        from_binary_def sample_lib_def sample_envs_def sample_env_def word_le_nat_alt)
qed

lemma grant_hosts: "hosts grant_store sample_envs (granter_sudo sample_lib granter_api) (answering [host_sudo_msg])"
  by (rule answering_hosts)
     (use granter_accepts_send in \<open>auto simp: host_messages grant_store_def send_url_def split: if_splits\<close>)

theorem app_granter_account_needs_grant_witness:
  "\<exists>calls h t k. hosting_start (answering [host_sudo_msg]) = (Ok (hosting_app (answering [host_sudo_msg])), calls)
    \<and> ante_handlers calls = [h] \<and> h (sample_tx 4) False sample_aa_ctx = (Ok (), t)
    \<and> key_signed granter_api [1, 2, 3] (Some [9]) k
    \<and> (k = [1] \<or> granted (rev send_grant) (send_url, k) = Some \<lparr>expiry = Some 5\<rparr>)"
proof -
  let ?c = "answering [host_sudo_msg]" and ?st = "sample_granter [((send_url, [2]), \<lparr>expiry = Some 5\<rparr>)]"
  obtain calls where run: "hosting_start ?c = (Ok (hosting_app ?c), calls)" and h: "ante_handlers calls = [hosting_handler ?c]"
    using hosting_start_Ok by blast
  have st: "grant_store (world sample_aa_ctx) (string_bytes ''acc'') = Some ?st" by (simp add: grant_store_def)
  have answers: "hosts_answers grant_store sample_envs (granter_sudo sample_lib granter_api) (MaxGasBefore DefaultParams)
      host_sudo_msg ?c" by (rule answering_answers) simp
  obtain t where t: "hosting_handler ?c (sample_tx 4) False sample_aa_ctx = (Ok (), t)"
    using granter_accepts_send hosting_passes [OF grant_hosts answers st] unfolding send_url_def by blast
  have mem: "hosting_handler ?c \<in> set (ante_handlers calls)" by (simp add: h)
  have host: "hosts grant_store sample_envs (granter_sudo sample_lib granter_api)
      (ck (app_AbstractAccountKeeper (hosting_app ?c)))"
    unfolding hosting_fields by (rule grant_hosts)
  have no_grants: "GRANTS \<lparr>contract_info = None, PUBKEY = None, GRANTS = []\<rparr> = []" by simp
  from app_granter_account_needs_grant [OF run [unfolded hosting_start_def] mem sample_chains_ok hosting_front
      host sample_co_ok(1) sample_granter_instantiate no_grants send_grant_run hosting_is_aa(1)
      sample_address [unfolded sample_addr_def] st t, unfolded hosting_is_aa(2)]
  obtain k mode cred and signBytes :: bytes where sig: "sig_Data (sample_sig 4) = SingleSignatureData mode cred"
    and bytes: "(Ok (Some [1, 2, 3]) :: slice res) = Ok (Some signBytes)"
    and key: "key_signed granter_api signBytes (norm_slice cred) k"
    and may: "k = [1] \<or> (\<forall>m \<in> set (GetMsgs (sample_tx 4)). \<exists>g.
      granted (rev send_grant) (''/'' @ msg_name m, k) = Some g \<and> unexpired sample_lib (env_block (sample_envs (string_bytes ''acc''))) g)"
    by blast
  have "key_signed granter_api [1, 2, 3] (Some [9]) k" using sig bytes key by (auto simp: sample_sig_def)
  moreover have "k = [1] \<or> (\<exists>g. granted (rev send_grant) (send_url, k) = Some g)"
    using may by (auto simp: sample_tx_def send_url_def)
  moreover have "g = \<lparr>expiry = Some 5\<rparr>" if "granted (rev send_grant) (u, k) = Some g" for u g
    using that by (simp add: send_grant_def split: if_splits)
  ultimately show ?thesis using run h t by blast
qed

text \<open>An account with one-time passwords, in a block of window \<open>2\<close>: the module marks in the
  world that the account has made its transaction.\<close>

definition totp_api :: Api where
  "totp_api = open_api\<lparr>parse_json := (\<lambda>b. Some (JObject
     [(''signature'', json_bytes (Some [1])), (''otp'', json_bytes (Some [2]))]))\<rparr>"

definition totp_envs :: "bytes \<Rightarrow> Env" where
  "totp_envs a = sample_env 70000000000"

definition totp_with :: "u64 \<Rightarrow> totp_store" where
  "totp_with n = \<lparr>contract_info = None, CONFIG = Some sample_cfg, PREV_COUNT = Some n\<rparr>"

definition password_store :: "sample_world \<Rightarrow> bytes \<Rightarrow> totp_store option" where
  "password_store w a = (if a = string_bytes ''acc'' then Some (totp_with (if w None = None then 1 else 2)) else None)"

definition password_ck :: "sample_world ContractOpsKeeper" where
  "password_ck = sample_ck\<lparr>ck_Sudo := (\<lambda>a m s.
     if m = string_bytes (render (AccountSudoMsg_json host_sudo_msg)) \<and> world s None = None
     then (Ok None, s\<lparr>world := (world s)(None := Some (AbstractAcc sample_acc))\<rparr>)
     else (Err (External ''unauthorized''), s))\<rparr>"

lemma password_window: "otp_window sample_cfg (totp_envs a) = 2"
  by (simp add: otp_window_def totp_envs_def sample_cfg_def sample_env_def seconds_def)

lemma totp_accepts_once:
  "\<exists>r. totp_sudo (\<lambda>d. []) totp_api (totp_envs a) (totp_with 1) (SudoBeforeTx msgs tx (Some [9]) False)
    = COk (r, totp_with 2)"
proof -
  have "de_TotpCredential (JObject [(''signature'', json_bytes (Some [1])), (''otp'', json_bytes (Some [2]))])
      = Some \<lparr>cred_signature = [1], cred_otp = [2]\<rparr>"
    using de_Binary_bytes [of "Some [1]"] de_Binary_bytes [of "Some [2]"]
    by (simp add: de_TotpCredential_def de_field_def json_bytes_def)
  then have "both_signed (\<lambda>d. []) totp_api sample_cfg (totp_envs a) tx (Some [9])"
    by (simp add: both_signed_def totp_api_def open_api_def sample_cfg_def)
  then show ?thesis
    by (simp add: totp_sudo_def totp_before_tx_COk totp_with_def password_window) (simp add: sample_cfg_def)
qed

lemma password_hosts: "hosts password_store totp_envs (totp_sudo (\<lambda>d. []) totp_api) password_ck"
  unfolding hosts_def
proof (intro allI impI, elim conjE)
  fix addr st j d and s u :: "sample_world ctx"
  assume st: "password_store (world s) addr = Some st"
    and run: "ck_Sudo password_ck (Some addr) (string_bytes (render j)) s = (Ok d, u)"
  have j: "j = AccountSudoMsg_json host_sudo_msg" and w: "world s None = None"
    and u: "u = s\<lparr>world := (world s)(None := Some (AbstractAcc sample_acc))\<rparr>"
    using run by (auto simp: password_ck_def render_inject split: if_splits)
  have "st = totp_with 1" "password_store (world u) addr = Some (totp_with 2)"
    using st w by (auto simp: password_store_def u split: if_splits)
  moreover obtain r where "totp_sudo (\<lambda>d. []) totp_api (totp_envs addr) (totp_with 1) (SudoBeforeTx
      [\<lparr>type_url = ''/cosmos.bank.v1beta1.MsgSend'', any_value = [8, 1]\<rparr>] [1, 2, 3] (Some [9]) False)
      = COk (r, totp_with 2)"
    using totp_accepts_once by blast
  ultimately show "\<exists>m r st'. de_AccountSudoMsg j = Some m
      \<and> totp_sudo (\<lambda>d. []) totp_api (totp_envs addr) st m = COk (r, st') \<and> password_store (world u) addr = Some st'"
    unfolding j de_AccountSudoMsg_json host_messages by blast
qed

lemma password_answers:
  "hosts_answers password_store totp_envs (totp_sudo (\<lambda>d. []) totp_api) g host_sudo_msg password_ck"
  unfolding hosts_answers_def
proof (intro allI impI, elim conjE)
  fix addr st m' r st' and s :: "sample_world ctx"
  assume st: "password_store (world s) addr = Some st" and m: "contract_sudo host_sudo_msg = Some m'"
    and run: "totp_sudo (\<lambda>d. []) totp_api (totp_envs addr) st m' = COk (r, st')"
  have "world s None = None"
    using st run m
    by (auto simp: host_messages password_store_def totp_sudo_def totp_before_tx_COk totp_with_def password_window
        split: if_splits)
  then show "\<exists>d u. ck_Sudo password_ck (Some addr) (string_bytes (render (AccountSudoMsg_json host_sudo_msg))) s = (Ok d, u)"
    by (simp add: password_ck_def)
qed

theorem app_totp_account_once_per_block_witness:
  "\<exists>calls h t u. hosting_start password_ck = (Ok (hosting_app password_ck), calls) \<and> ante_handlers calls = [h]
    \<and> h (sample_tx 4) False sample_aa_ctx = (Ok (), t)
    \<and> password_store (world u) (string_bytes ''acc'') = password_store (world t) (string_bytes ''acc'')
    \<and> (\<nexists>t'. h (sample_tx 4) False u = (Ok (), t'))"
proof -
  let ?c = password_ck and ?a = "string_bytes ''acc''"
  let ?u = "sample_aa_ctx\<lparr>world := (world sample_aa_ctx)(None := Some (AbstractAcc sample_acc))\<rparr>"
  obtain calls where run: "hosting_start ?c = (Ok (hosting_app ?c), calls)" and h: "ante_handlers calls = [hosting_handler ?c]"
    using hosting_start_Ok by blast
  have st: "password_store (world sample_aa_ctx) ?a = Some (totp_with 1)"
    by (simp add: password_store_def sample_aa_ctx_def sample_addr_def)
  obtain r where r: "totp_sudo (\<lambda>d. []) totp_api (totp_envs ?a) (totp_with 1) (SudoBeforeTx
      [\<lparr>type_url = ''/cosmos.bank.v1beta1.MsgSend'', any_value = [8, 1]\<rparr>] [1, 2, 3] (Some [9]) False)
      = COk (r, totp_with 2)"
    using totp_accepts_once by blast
  obtain t where t: "hosting_handler ?c (sample_tx 4) False sample_aa_ctx = (Ok (), t)"
    using hosting_passes [OF password_hosts password_answers st r] by blast
  have mem: "hosting_handler ?c \<in> set (ante_handlers calls)" by (simp add: h)
  have host: "hosts password_store totp_envs (totp_sudo (\<lambda>d. []) totp_api) (ck (app_AbstractAccountKeeper (hosting_app ?c)))"
    unfolding hosting_fields by (rule password_hosts)
  note addr = sample_address [unfolded sample_addr_def]
  have inc: "t2 = t1" if "NewIncrementSequenceDecorator sample_ante_lib (app_AccountKeeper (hosting_app ?c))
      (\<lambda>tx sim. retM ()) tx sim t1 = (Ok (), t2)" for tx sim and t1 t2 :: "sample_world ctx"
    using that by (simp add: sample_ante_lib_def pass_all_def retM_def)
  obtain st' t1 where "password_store (world t1) ?a = Some st'" and "NewIncrementSequenceDecorator sample_ante_lib
      (app_AccountKeeper (hosting_app ?c)) (\<lambda>tx sim. retM ()) (sample_tx 4) False t1 = (Ok (), t)"
    and "PREV_COUNT st' = Some 2"
    using app_handler_hosted [OF run [unfolded hosting_start_def] mem sample_chains_ok hosting_front host
        sample_co_ok(1) hosting_is_aa(1) addr st t]
    by (fastforce simp: totp_sudo_def totp_before_tx_COk totp_with_def password_window)
  then have u: "password_store (world ?u) ?a = password_store (world t) ?a"
    using inc by (fastforce simp: password_store_def totp_with_def split: if_splits)
  have aa: "IsAbstractAccountTx (auth_ante sample_ante_lib (app_AccountKeeper (hosting_app ?c))
      (tc_SignModeHandler (app_txConfig (hosting_app ?c)))) ?u (sample_tx 4) = Ok (Some (sample_acc, sample_sig 4))"
    unfolding hosting_fields sample_auth_ante
    by (simp add: IsAbstractAccountTx_def sample_tx_def sample_aa_def sample_aa_ctx_def sample_addr_def)
  have "\<nexists>t'. hosting_handler ?c (sample_tx 4) False ?u = (Ok (), t')"
    using app_totp_account_once_per_block [OF run [unfolded hosting_start_def] mem sample_chains_ok hosting_front host
        sample_co_ok(1) _ hosting_is_aa(1) addr st t u aa addr] inc by blast
  with run h t u show ?thesis by blast
qed

end
