(* ===== verification/ContractProto.thy ===== *)
theory ContractProto
  imports Services CodecSpec
begin

text \<open>
  The protobuf messages that contracts send to the module: \<open>absacc/src/proto.rs\<close>.  A
  declaration is kept as the list of its fields with their attributes; \<open>encode_to_vec\<close> is what
  the protobuf encoding makes of such a list: fields in the order of their tags, defaults left
  out, a repeated message once per element.
\<close>

subsection \<open>Messages and their fields\<close>

datatype prost_field =
    PString nat string
  | PUint64 nat u64
  | PBytes nat bytes
  | PMessages nat "bytes list"

fun prost_wire :: "prost_field \<Rightarrow> wire_field list" where
  "prost_wire (PString tag s) = (if s = [] then [] else [WBytes tag (string_bytes s)])"
| "prost_wire (PUint64 tag n) = (if n = 0 then [] else [WVarint tag n])"
| "prost_wire (PBytes tag b) = (if b = [] then [] else [WBytes tag b])"
| "prost_wire (PMessages tag ms) = map (WBytes tag) ms"

definition encode_to_vec :: "prost_field list \<Rightarrow> bytes" where
  "encode_to_vec fs = concat (map encode_field (concat (map prost_wire fs)))"

record 'c RsMsgRegisterAccount =
  rs_sender :: string
  rs_code_id :: u64
  rs_msg :: bytes
  rs_funds :: "'c list"
  rs_salt :: bytes

record RsMsgRegisterAccountResponse =
  rs_address :: string
  rs_data :: bytes

text \<open>The attributes \<open>#[prost(...)]\<close>; \<open>enc\<close> is the encoding of a coin.\<close>

definition register_fields :: "('c \<Rightarrow> bytes) \<Rightarrow> 'c RsMsgRegisterAccount \<Rightarrow> prost_field list" where
  "register_fields enc m =
     [PString 1 (rs_sender m), PUint64 2 (rs_code_id m), PBytes 3 (rs_msg m),
      PMessages 4 (map enc (rs_funds m)), PBytes 5 (rs_salt m)]"

definition response_fields :: "RsMsgRegisterAccountResponse \<Rightarrow> prost_field list" where
  "response_fields m = [PString 1 (rs_address m), PBytes 2 (rs_data m)]"

definition register_TYPE_URL :: string where
  "register_TYPE_URL = ''/abstractaccount.v1.MsgRegisterAccount''"

definition response_TYPE_URL :: string where
  "response_TYPE_URL = ''/abstractaccount.v1.MsgRegisterAccountResponse''"

datatype CosmosMsg = Stargate string bytes

definition CosmosMsg_from_register :: "('c \<Rightarrow> bytes) \<Rightarrow> 'c RsMsgRegisterAccount \<Rightarrow> CosmosMsg" where
  "CosmosMsg_from_register enc m = Stargate register_TYPE_URL (encode_to_vec (register_fields enc m))"

subsection \<open>What the module receives\<close>

definition go_register :: "'c RsMsgRegisterAccount \<Rightarrow> 'c MsgRegisterAccount" where
  "go_register m = \<lparr>Sender = rs_sender m, CodeID = rs_code_id m, Msg = norm_slice (Some (rs_msg m)),
     Funds = rs_funds m, Salt = norm_slice (Some (rs_salt m))\<rparr>"

definition go_response :: "RsMsgRegisterAccountResponse \<Rightarrow> MsgRegisterAccountResponse" where
  "go_response m = \<lparr>resp_Address = rs_address m, resp_Data = norm_slice (Some (rs_data m))\<rparr>"

lemma encode_register: "encode_to_vec (register_fields enc m) = MsgRegisterAccount_enc enc (go_register m)"
  by (simp add: encode_to_vec_def register_fields_def MsgRegisterAccount_enc_def go_register_def enc_bytes_def
      enc_varint_def enc_messages_def enc_message_def varint_small comp_def)

lemma encode_response: "encode_to_vec (response_fields m) = MsgRegisterAccountResponse_enc (go_response m)"
  by (simp add: encode_to_vec_def response_fields_def MsgRegisterAccountResponse_enc_def go_response_def
      enc_bytes_def varint_small)

text \<open>C21: A contract that registers an account is understood: the message it hands to the chain
  names the type the module registers, and the module's decoder reads from its bytes exactly
  the fields the contract set, the funds in their order, with empty byte fields as nil.\<close>

theorem contract_registration_received:
  assumes "coin_codec_ok cc enc" and "length (encode_to_vec (register_fields enc m)) < 2 ^ 63"
  shows "\<exists>bz. CosmosMsg_from_register enc m = Stargate (''/'' @ message_name (M_RegisterAccount x)) bz
    \<and> MsgRegisterAccount_Unmarshal cc empty_MsgRegisterAccount bz = Inr
       \<lparr>Sender = rs_sender m, CodeID = rs_code_id m, Msg = (if rs_msg m = [] then None else Some (rs_msg m)),
        Funds = rs_funds m, Salt = (if rs_salt m = [] then None else Some (rs_salt m))\<rparr>"
proof -
  note c = register_codec [OF assms(1)]
  have "MsgRegisterAccount_Unmarshal cc empty_MsgRegisterAccount (MsgRegisterAccount_enc enc (go_register m))
      = Inr (MsgRegisterAccount_norm (go_register m))"
    using message_codec.roundtrip [OF c _ assms(2) [unfolded encode_register]]
    by (simp add: MsgRegisterAccount_Unmarshal_def)
  moreover have "MsgRegisterAccount_norm (go_register m)
      = \<lparr>Sender = rs_sender m, CodeID = rs_code_id m, Msg = (if rs_msg m = [] then None else Some (rs_msg m)),
        Funds = rs_funds m, Salt = (if rs_salt m = [] then None else Some (rs_salt m))\<rparr>"
    by (simp add: MsgRegisterAccount_norm_def go_register_def)
  ultimately show ?thesis
    by (simp add: CosmosMsg_from_register_def register_TYPE_URL_def encode_register)
qed

theorem contract_registration_received_witness:
  "\<exists>bz. CosmosMsg_from_register AbstractAccount_enc \<lparr>rs_sender = ''s'', rs_code_id = 1, rs_msg = [5],
       rs_funds = [empty_AbstractAccount], rs_salt = []\<rparr> = Stargate ''/abstractaccount.v1.MsgRegisterAccount'' bz
    \<and> MsgRegisterAccount_Unmarshal sample_coin_codec empty_MsgRegisterAccount bz
      = Inr \<lparr>Sender = ''s'', CodeID = 1, Msg = Some [5], Funds = [empty_AbstractAccount], Salt = None\<rparr>"
  using contract_registration_received [OF sample_coin_codec_ok, of "\<lparr>rs_sender = ''s'', rs_code_id = 1,
      rs_msg = [5], rs_funds = [empty_AbstractAccount], rs_salt = []\<rparr>"]
  by (auto simp: encode_register go_register_def MsgRegisterAccount_enc_def enc_bytes_def enc_varint_def
      enc_messages_def enc_message_def AbstractAccount_enc_def empty_AbstractAccount_def varint_small)

text \<open>The answer of the module is, byte for byte, the encoding of the contracts' declaration.\<close>

lemma module_response_for_contracts:
  assumes "length (encode_to_vec (response_fields m)) < 2 ^ 63"
  shows "MsgRegisterAccountResponse_Marshal (go_response m) = Inr (encode_to_vec (response_fields m))"
  using register_response.marshal assms
  by (simp add: MsgRegisterAccountResponse_Marshal_def encode_response)

end
