(* ===== verification/Mock.thy ===== *)
theory Mock
  imports AppSpec
begin

text \<open>
  The support for tests: \<open>simapp/testing/mock.go\<close>, which starts an application on a genesis
  state that is made from balances.  Coins, the genesis states of the SDK's modules, the
  encoding of the genesis file and randomly generated keys are fields of \<open>MockLib\<close>.
\<close>

subsection \<open>Constants and options\<close>

definition DefaultBondDenom :: string where
  "DefaultBondDenom = ''utoken''"

text \<open>Durations are in nanoseconds.\<close>

record ConsensusParams =
  Block_MaxBytes :: int
  Block_MaxGas :: int
  Evidence_MaxAgeNumBlocks :: int
  Evidence_MaxAgeDuration :: int
  Evidence_MaxBytes :: int
  Validator_PubKeyTypes :: "string list"

record 'c Balance =
  bal_Address :: string
  bal_Coins :: 'c

record ('c, 'a) MockLib =
  NewCoins :: 'c
  Coins_Add :: "'c \<Rightarrow> 'c \<Rightarrow> 'c"
  NewBaseAccountWithAddress :: "slice \<Rightarrow> 'a"
  auth_genesis :: "'a list \<Rightarrow> bytes res"
  bank_genesis :: "'c Balance list \<Rightarrow> 'c \<Rightarrow> bytes res"
  poa_genesis :: "validator_update list \<Rightarrow> bytes res"
  json_Marshal_Genesis :: "raw_genesis \<Rightarrow> bytes res"
  ed25519_key :: bytes
  secp256k1_key :: bytes
  secp256k1_address :: slice
  read_no_options :: "WasmConfig res"
  ABCIPubKeyTypeEd25519 :: string

definition DefaultConsensusParams :: "('c, 'a) MockLib \<Rightarrow> ConsensusParams" where
  "DefaultConsensusParams ml =
     \<lparr>Block_MaxBytes = 200000, Block_MaxGas = 10000000, Evidence_MaxAgeNumBlocks = 302400,
      Evidence_MaxAgeDuration = 504 * 3600 * 1000000000, Evidence_MaxBytes = 10000,
      Validator_PubKeyTypes = [ABCIPubKeyTypeEd25519 ml]\<rparr>"

text \<open>Options that answer nil to every name: the home directory is empty, and the wasm module
  reads its configuration from no options at all.\<close>

definition EmptyAppOptions :: "('c, 'a) MockLib \<Rightarrow> AppOptions" where
  "EmptyAppOptions ml = \<lparr>FlagHome = '''', opt_WasmConfig = read_no_options ml\<rparr>"

definition MakeRandomAddress :: "('c, 'a) MockLib \<Rightarrow> slice" where
  "MakeRandomAddress ml = secp256k1_address ml"

definition MakeRandomPubKey :: "('c, 'a) MockLib \<Rightarrow> bytes" where
  "MakeRandomPubKey ml = secp256k1_key ml"

definition MakeRandomConsensusPubKey :: "('c, 'a) MockLib \<Rightarrow> bytes" where
  "MakeRandomConsensusPubKey ml = ed25519_key ml"

subsection \<open>The genesis state\<close>

fun genesis_accounts :: "Sdk \<Rightarrow> ('c, 'a) MockLib \<Rightarrow> 'a list \<Rightarrow> 'c Balance list \<Rightarrow> 'a list res" where
  "genesis_accounts sdk ml genAccts [] = Ok genAccts"
| "genesis_accounts sdk ml genAccts (balance # balances) =
     (case AccAddressFromBech32 sdk (bal_Address balance) of
        (addr, Some err) \<Rightarrow> Panic (PanicError err)
      | (addr, None) \<Rightarrow> genesis_accounts sdk ml (genAccts @ [NewBaseAccountWithAddress ml addr]) balances)"

definition total_supply :: "('c, 'a) MockLib \<Rightarrow> 'c Balance list \<Rightarrow> 'c" where
  "total_supply ml balances = foldl (\<lambda>supply balance. Coins_Add ml supply (bal_Coins balance)) (NewCoins ml) balances"

definition MakeMockGenesisState ::
  "Sdk \<Rightarrow> ('w, 'b, 'n, 'v, 'r, 'm, 'o) AppLib \<Rightarrow> ('c, 'a) MockLib \<Rightarrow> Names \<Rightarrow> JSONCodec \<Rightarrow> 'c Balance list
   \<Rightarrow> raw_genesis res" where
  "MakeMockGenesisState sdk lib ml names c balances =
     bindR (simapp_DefaultGenesisState lib c) (\<lambda>gs.
     bindR (genesis_accounts sdk ml [] balances) (\<lambda>genAccts.
     let supply = total_supply ml balances in
     bindR (auth_genesis ml genAccts) (\<lambda>auth.
     let gs = gs(auth_ModuleName names \<mapsto> auth) in
     bindR (bank_genesis ml balances supply) (\<lambda>bank.
     let gs = gs(bank_ModuleName names \<mapsto> bank) in
     bindR (poa_genesis ml [(MakeRandomConsensusPubKey ml, 1)]) (\<lambda>poa.
     Ok (gs(poa_ModuleName names \<mapsto> poa)))))))"

subsection \<open>The application\<close>

record InitChainRequest =
  req_Validators :: "validator_update list"
  req_ConsensusParams :: ConsensusParams
  req_AppStateBytes :: bytes

text \<open>The application, and the request with which \<open>InitChain\<close> is called on it.\<close>

definition MakeMockApp ::
  "Sdk \<Rightarrow> 'w CtxOps \<Rightarrow> ('w, 'b) AnteLib \<Rightarrow> ('w, 'b, 'n, 'v, 'r, 'm, 'o) AppLib \<Rightarrow> (error \<Rightarrow> string)
   \<Rightarrow> Names \<Rightarrow> ('c, 'a) MockLib \<Rightarrow> 'c Balance list
   \<Rightarrow> ('w, 'b, 'n, 'v, 'r, ('w, 'b, 'n, 'v, 'r, 'm) SimApp \<times> InitChainRequest) app_act" where
  "MakeMockApp sdk co alib lib txt names ml balances =
     (let encCfg = MakeEncodingConfig lib in
      bindM (NewSimApp sdk co alib lib txt names ''NopLogger'' ''MemDB'' None True (EmptyAppOptions ml) [] [])
        (\<lambda>app.
      bindM (liftM (MakeMockGenesisState sdk lib ml names (JSON (ec_Codec encCfg (InterfaceRegistry encCfg)))
        balances)) (\<lambda>gs.
      bindM (mustM (liftM (json_Marshal_Genesis ml gs))) (\<lambda>gsBytes.
      retM (app, \<lparr>req_Validators = [], req_ConsensusParams = DefaultConsensusParams ml,
        req_AppStateBytes = gsBytes\<rparr>)))))"

definition MakeSimpleMockApp ::
  "Sdk \<Rightarrow> 'w CtxOps \<Rightarrow> ('w, 'b) AnteLib \<Rightarrow> ('w, 'b, 'n, 'v, 'r, 'm, 'o) AppLib \<Rightarrow> (error \<Rightarrow> string)
   \<Rightarrow> Names \<Rightarrow> ('c, 'a) MockLib
   \<Rightarrow> ('w, 'b, 'n, 'v, 'r, ('w, 'b, 'n, 'v, 'r, 'm) SimApp \<times> InitChainRequest) app_act" where
  "MakeSimpleMockApp sdk co alib lib txt names ml = MakeMockApp sdk co alib lib txt names ml []"

subsection \<open>What it starts\<close>

text \<open>The module manager's default genesis has the entry that the module gives for itself, and
  what the JSON library writes it reads back.\<close>

definition basics_genesis_ok :: "('w, 'b, 'n, 'v, 'r, 'm, 'o) AppLib \<Rightarrow> bool" where
  "basics_genesis_ok lib \<longleftrightarrow> (\<forall>c gs. basics_DefaultGenesis lib ModuleBasics c = Ok gs
     \<longrightarrow> (\<exists>bz. DefaultGenesis AppModuleBasic c = Ok bz \<and> gs ModuleName = Some bz))"

definition genesis_file_ok ::
  "('w, 'b, 'n, 'v, 'r, 'm, 'o) AppLib \<Rightarrow> ('c, 'a) MockLib \<Rightarrow> bool" where
  "genesis_file_ok lib ml \<longleftrightarrow>
     (\<forall>gs bz. json_Marshal_Genesis ml gs = Ok bz \<longrightarrow> json_Unmarshal_Genesis lib bz = Ok gs)"

lemma mock_genesis_entry:
  assumes "MakeMockGenesisState sdk lib ml names c balances = Ok gs" and "names_ok names"
    and "basics_genesis_ok lib"
  shows "\<exists>bz. DefaultGenesis AppModuleBasic c = Ok bz \<and> gs ModuleName = Some bz"
proof -
  obtain gs0 a b p where g0: "basics_DefaultGenesis lib ModuleBasics c = Ok gs0"
    and gs: "gs = gs0(auth_ModuleName names \<mapsto> a, bank_ModuleName names \<mapsto> b, poa_ModuleName names \<mapsto> p)"
    using assms(1) by (auto simp: MakeMockGenesisState_def simapp_DefaultGenesisState_def bindR_Ok_iff Let_def)
  have "gs ModuleName = gs0 ModuleName"
    using assms(2) by (auto simp: gs names_ok_def genesisModuleOrder_def)
  then show ?thesis using assms(3) g0 unfolding basics_genesis_ok_def by auto
qed

lemma mustM_Ok: "mustM m s = (Ok x, t) \<longleftrightarrow> m s = (Ok x, t)"
  by (auto simp: mustM_def split: prod.splits res.splits)

text \<open>A mock application is a chain with the module's default genesis: when \<open>InitChain\<close>
  accepts the request, the module has its default parameters and hands out the account id 1,
  whatever the balances are.\<close>

theorem mock_app_starts_with_defaults:
  assumes "MakeMockApp sdk co alib lib txt names ml balances [] = (Ok (app, req), calls)"
    and "ic \<in> set (init_chainers calls)" and "manager_ok sdk txt names lib" and "names_ok names"
    and "json_codec_ok (JSON (app_cdc app))" and "codec_ok (BinaryCodec (app_cdc app))"
    and "big_endian_ok sdk" and "basics_genesis_ok lib" and "genesis_file_ok lib ml"
    and "ic (req_AppStateBytes req) s = (Ok ups, t)"
  shows "GetParams (app_AbstractAccountKeeper app) t = (Ok DefaultParams, t)
    \<and> GetNextAccountID sdk t = (Ok 1, t)"
proof -
  let ?enc = "MakeEncodingConfig lib"
  let ?c = "JSON (ec_Codec ?enc (InterfaceRegistry ?enc))"
  obtain gs where app: "NewSimApp sdk co alib lib txt names ''NopLogger'' ''MemDB'' None True (EmptyAppOptions ml)
      [] [] [] = (Ok app, calls)"
    and gs: "MakeMockGenesisState sdk lib ml names ?c balances = Ok gs"
    and bz: "json_Marshal_Genesis ml gs = Ok (req_AppStateBytes req)"
    using assms(1)
    by (auto simp: MakeMockApp_def Let_def bindM_Ok_iff liftM_Ok_iff mustM_Ok retM_def)
  have c: "?c = JSON (app_cdc app)"
    using app by (rule NewSimApp_Ok) (simp add: built_app_fields)
  obtain data where d: "DefaultGenesis AppModuleBasic ?c = Ok data" and entry: "gs ModuleName = Some data"
    using mock_genesis_entry [OF gs assms(4,8)] by blast
  have p: "gs_Params DefaultGenesisState = Some DefaultParams" "NextAccountId DefaultGenesisState = 1"
    by (simp_all add: DefaultGenesisState_def NewGenesisState_def)
  obtain data' where "MustMarshalJSON (JSON (app_cdc app)) DefaultGenesisState = Ok data'"
    and "UnmarshalJSON (JSON (app_cdc app)) data' = Ok DefaultGenesisState"
    using json_codec_roundtrip [OF assms(5) p(1) small_DefaultParams] .
  then have read: "UnmarshalJSON (JSON (app_cdc app)) data = Ok DefaultGenesisState"
    using d unfolding c by (simp add: DefaultGenesis_def)
  then have small: "json_small (JSON (app_cdc app)) data"
    using small_DefaultParams by (simp add: json_small_def p)
  have unmarshal: "json_Unmarshal_Genesis lib (req_AppStateBytes req) = Ok gs"
    using assms(9) bz unfolding genesis_file_ok_def by blast
  from init_chainer_state [OF app assms(2-7) small unmarshal entry assms(10)] read p show ?thesis by auto
qed

text \<open>The supply in the genesis state is the sum of the balances, when adding coins is
  associative with the empty coins as unit.\<close>

lemma total_supply_append:
  assumes "\<And>x y z. Coins_Add ml (Coins_Add ml x y) z = Coins_Add ml x (Coins_Add ml y z)"
    and "\<And>x. Coins_Add ml (NewCoins ml) x = x" and "\<And>x. Coins_Add ml x (NewCoins ml) = x"
  shows "total_supply ml (xs @ ys) = Coins_Add ml (total_supply ml xs) (total_supply ml ys)"
proof -
  have shift: "foldl (\<lambda>s b. Coins_Add ml s (bal_Coins b)) u bs
      = Coins_Add ml u (foldl (\<lambda>s b. Coins_Add ml s (bal_Coins b)) (NewCoins ml) bs)" for u bs
  proof (induction bs arbitrary: u)
    case Nil
    then show ?case by (simp add: assms(3))
  next
    case (Cons b bs)
    show ?case using Cons.IH [of "Coins_Add ml u (bal_Coins b)"] Cons.IH [of "bal_Coins b"]
      by (simp only: foldl_Cons assms)
  qed
  show ?thesis unfolding total_supply_def foldl_append by (rule shift)
qed

end
