(* ===== verification/Spec2Isabelle.thy ===== *)
theory Spec2Isabelle
  imports CodecSpec AccountSpec KeeperSpec MsgServerSpec AnteSpec TxSpec ModuleSpec SimAppSpec
    LifecycleSpec AppSpec SimdSpec ChainSpec ReplaySpec WasmbindingSpec AppRun AppRoutes
    ContractHost ContractApp ContractProto Mock
begin

text \<open>
  A model of the abstract-account repository: a module for Cosmos SDK chains in which an
  account is a smart contract, the example application that runs it, and the account
  contracts that come with it.

  The program.  A user sends \<open>MsgRegisterAccount\<close>: the message server takes the next account
  id, has the wasm keeper instantiate a contract under the label \<open>abstractaccount/<id>\<close>, and
  overwrites the base account the chain made for the contract with an \<open>AbstractAccount\<close>,
  which has no public key.  For a transaction signed by such an account the \<open>BeforeTx\<close>
  decorator, which stands in the place of signature verification, calls the contract
  (\<open>sudo\<close>, under a gas limit) with the messages, the sign bytes and the credential, and
  refuses the transaction unless the contract accepts; it leaves the signer's address in the
  store, and the \<open>AfterTx\<close> decorator finds it there after the messages ran, deletes it and
  calls the contract again.  The parameters (which codes may be used, the two gas limits) are
  set by genesis and by \<open>MsgUpdateParams\<close> of one authority.  The contracts, in Rust, answer
  the \<open>sudo\<close> message: with one secp256k1 key, with a key the account can change, with an
  Ethereum wallet, with a key and one-time passwords, or with keys that hold grants.

  How the parts correspond.  Paths are under \<open>src/x/abstractaccount/\<close> unless they start with
  \<open>simapp\<close>.
    \<^item> \<open>Prelude\<close>: byte slices (nil apart from empty), strings, decimal numbers, sequencing.
    \<^item> \<open>Varint\<close>, \<open>Wire\<close>: the helpers every generated \<open>types/*.pb.go\<close> has its own copy of: varints,
      tags, lengths, \<open>skip\<close>, the three \<open>Marshal\<close> wrappers (the buffer a caller hands to
      \<open>MarshalTo\<close> is a slice with a length and a capacity), the field loop; and the locales
      \<open>message_writer\<close>, \<open>message_decoder\<close>, \<open>message_codec\<close> with the laws of a message type.
    \<^item> \<open>ParamsPB\<close>, \<open>AccountPB\<close>, \<open>GenesisPB\<close>, \<open>EventsPB\<close>, \<open>QueryPB\<close>, \<open>TxPB\<close>, \<open>RegisterPB\<close>: the generated
      codecs, one record, \<open>Size\<close>, \<open>MarshalToSizedBuffer\<close>, \<open>Marshal\<close>, \<open>MarshalTo\<close> and \<open>Unmarshal\<close> per
      message, each an interpretation of \<open>message_codec\<close>.
    \<^item> \<open>Errors\<close>, \<open>Params\<close>: \<open>types/errors.go\<close>, \<open>types/params.go\<close>.  A Go call is \<open>Ok\<close>, \<open>Err\<close> or \<open>Panic\<close>.
    \<^item> \<open>Context\<close>: the SDK context as a state, the KVStore (locale \<open>kv_store\<close>), gas meters, events.
    \<^item> \<open>Account\<close>: \<open>types/account.go\<close> (locale \<open>auth_account\<close>).  \<open>Keeper\<close>: \<open>keeper/keeper.go\<close>,
      \<open>types/keys.go\<close>, with \<open>abs_state\<close>, the abstract state of the store.  \<open>Genesis\<close>:
      \<open>types/genesis.go\<close>, \<open>keeper/genesis.go\<close>.  \<open>MsgServer\<close>: \<open>keeper/msg_server.go\<close>,
      \<open>keeper/query_server.go\<close>.  \<open>Wasmbinding\<close>: \<open>types/wasmbinding.go\<close> and the JSON it becomes.
    \<^item> \<open>Ante\<close>: \<open>ante.go\<close>.  \<open>SimAppAnte\<close>: the decorator values of \<open>ante.go\<close>, \<open>simapp/ante.go\<close>.
    \<^item> \<open>Tx\<close>: \<open>types/tx.go\<close>.  \<open>Services\<close>: the service glue of \<open>types/tx.pb.go\<close> and
      \<open>types/query.pb.go\<close>, \<open>types/codec.go\<close>.  \<open>Module\<close>: \<open>module.go\<close>.  \<open>Gateway\<close>:
      \<open>types/query.pb.gw.go\<close>.
    \<^item> \<open>Cobra\<close>, \<open>Cli\<close>: command trees, \<open>client/cli/tx.go\<close> and \<open>query.go\<close>.
    \<^item> \<open>App\<close>, \<open>SimApp\<close>: \<open>simapp/app.go\<close>, \<open>simapp/encoding.go\<close>, \<open>simapp/genesis.go\<close>.  \<open>Simd\<close>:
      \<open>simapp/simd/main.go\<close>.  \<open>Mock\<close>: \<open>simapp/testing/mock.go\<close>.
    \<^item> \<open>Lifecycle\<close>: a chain that runs the handlers and, in between, the messages of the
      transaction, each where it is routed to, as an inductive step relation.  \<open>Dispatch\<close>: traces
      of the messages of the module that take effect, wherever they come from; contracts can
      send them too (\<open>cosmwasm/packages/absacc/src/proto.rs\<close>).
    \<^item> \<open>Contract\<close>: \<open>cosmwasm/packages/absacc/src/lib.rs\<close>, how a Rust call ends, what a contract is
      given.  \<open>ContractProto\<close>: \<open>absacc/src/proto.rs\<close>.  \<open>ContractBase\<close>, \<open>ContractEth\<close>, \<open>ContractTotp\<close>,
      \<open>ContractGranter\<close>: the crates \<open>base\<close> and \<open>updatable\<close>, \<open>eth\<close>, \<open>asym-totp\<close>, \<open>granter\<close> under
      \<open>cosmwasm/contracts\<close>: storage as a record, every entry point, and the life of an account
      as runs of accepted calls.  \<open>ContractHost\<close>: the locale \<open>account_contract\<close>, which all five
      contracts are interpretations of, and the module and a contract together.
      \<open>ContractApp\<close>: the started application, the module and a contract together.
    \<^item> \<open>Simulation\<close>: runs of labelled steps, and the locale \<open>simulation\<close>; \<open>ChainSpec\<close> states the
      abstract machine of parameters, ids and signer that the chain refines, step by step, with
      the traces of \<open>Dispatch\<close> as labels.
    \<^item> \<open>Sample\<close> and the theories \<open>...Spec\<close>: the instances the witnesses run on, and the properties.

  What the lemmas show.
    \<^item> Codecs: what is written is read back, \<open>Size\<close> is the length written, decoding the
      concatenation of two encodings merges them, unknown fields are skipped, and decoding
      always ends.
    \<^item> Keeper, genesis, servers: every operation refines an update of the abstract state; only
      valid parameters are ever stored; registering installs the account under a fresh id.
    \<^item> Handlers: the contract gates its account's transactions, its gas is limited and its
      failed writes are undone, and the two decorators pair up, except after a transaction
      whose messages failed.
    \<^item> Composition: the chain of decorators the application builds, the application
      \<open>NewSimApp\<close> returns, its genesis, and runs of the chain have these properties too.
    \<^item> Chain: runs of the handlers are runs of an abstract machine (\<open>ChainSpec\<close>), so only the
      authority sets parameters and ids are given out without gaps, also where contracts send
      the messages; an accepted transaction is not accepted again (\<open>ReplaySpec\<close>); a started chain exports a genesis that
      starts it again (\<open>AppRun\<close>); each message type reaches its handler (\<open>AppRoutes\<close>).
    \<^item> Contracts: the JSON text of a sudo message determines the message (\<open>WasmbindingSpec\<close>) and
      the contracts read from it what was sent; what each contract takes for authorisation, and
      that the ante handler passes a transaction only with it; keys change by the account only,
      a one-time password is used once, grants are those the account gave, pages show all that
      were not replaced or revoked.
    \<^item> End to end (\<open>ContractApp\<close>): from \<open>NewSimApp\<close> through the chain of decorators and the module
      into the contract, what the handlers of the application ask of a transaction of each
      kind of account; the locale \<open>account_contract\<close> has the lemmas, its interpretations the
      contracts.
    \<^item> Interfaces: messages the client sends pass the checks the chain makes, the gateway
      answers with the stored parameters, the commands are in the command tree.

  Bounds and fuel.  \<open>uint64\<close> is \<open>64 word\<close>, and Go's \<open>int\<close> is \<open>int\<close> with the overflow checks of the
  generated code written out.  A field loop and \<open>skip\<close> are functions with a termination proof,
  as each turn consumes a byte; \<open>decoders_terminate\<close> restates this with a bound: one iteration
  more than there are bytes has returned.  A client that reads pages of grants runs on fuel,
  and one more than the number of grants is enough.
  Round trips hold for messages of less than \<open>2 ^ 63\<close> bytes,
  the range of Go's \<open>int\<close>; \<open>small_params\<close> is that bound for parameters.

  Code that is not in the repository is a parameter, a field of a record, and what is relied
  on is a named hypothesis: \<open>Sdk\<close> (addresses, big-endian integers, typed events), \<open>Codec\<close>,
  \<open>AccountKeeper\<close>, \<open>ContractOpsKeeper\<close> (a contract may do anything), \<open>AuthAnte\<close>, \<open>CtxOps\<close>,
  \<open>AnteLib\<close> with \<open>chains_ok\<close>, \<open>JSONCodec\<close> with \<open>json_codec_ok\<close>, \<open>RegistryOps\<close>, \<open>Runtime\<close>,
  \<open>ClientLib\<close>, \<open>AppLib\<close> with \<open>manager_ok\<close>, \<open>ApiLib\<close>, \<open>SimdLib\<close> with \<open>simd_lib_ok\<close>,
  the message router with \<open>routers_ok\<close>, a gRPC server with \<open>grpc_connection\<close>, the decorators
  around the module's with \<open>front_hands_on\<close>, \<open>front_keeps\<close>, \<open>front_keeps_contract\<close>, \<open>reads_world\<close>,
  \<open>increments\<close> and \<open>sdk_decorators_ok\<close>.  The surroundings of a run: \<open>surroundings P\<close>, nothing around
  the module breaks the predicate \<open>P\<close> of its store; and for \<open>ChainSpec\<close> \<open>contracts_dispatch\<close> and
  \<open>routed\<close>, contracts and the other modules reach the module's store, whose key the SDK gives
  to its keeper alone, only through messages of the module.  For the contracts: \<open>Api\<close> (hashes, signatures, hexadecimal, JSON text),
  \<open>GrantLib\<close> with \<open>key_order\<close>, and \<open>hosts\<close>, which says that the wasm module runs the contract
  at the address it is asked to call, with \<open>hosts_answers\<close> for a call that has enough gas.  A
  storage item of a contract is an optional field, a map the list of its entries in the
  order of their keys; the calls a contract does not answer with a value leave no trace in
  its storage.  The order in which
  a chain calls the handlers, in \<open>Lifecycle\<close>, is the one BaseApp documents; the function that
  resolves a message to its handler there is an argument, and \<open>AppRoutes\<close> shows what the
  application's registrations make of it.

  Not modelled.  The reflection part of the generated files (descriptors, \<open>XXX_\<close> methods,
  \<open>String\<close>, type registration in \<open>init\<close>), which the program only hands to the protobuf
  library; log output, except where it precedes an exit; the sealing of the SDK's global
  configuration in \<open>simapp/simd/main.go\<close>; the import of build tools in \<open>tools/tools.go\<close>; the
  contract binary embedded by \<open>testdata/data.go\<close>; of the contracts the JSON encoding
  of query answers, the schema derivations and the unit tests.
\<close>

end
